(* ===== verification/Mesh_Prelude.thy ===== *)
theory Mesh_Prelude
  imports Main "HOL-Library.Word" "HOL-Library.Sublist"
begin

text \<open>
  Shared vocabulary of the development: the types the components have in common
  (node identifiers, byte strings, instants of time, Go's error values), the generic
  facts on options, lists and words their proofs share, and the two contracts that
  several components provide: a \<^emph>\<open>codec\<close> (an encoder with its parser) and a
  \<^emph>\<open>rate limiter\<close> (an operation that grants at most one request per period and key).

  A Go \<^verbatim>\<open>string\<close> and a Go \<^verbatim>\<open>[]byte\<close> are both byte sequences, so both are HOL's
  \<^typ>\<open>string\<close>: a HOL \<^typ>\<open>char\<close> is an 8-bit value and \<open>length\<close> counts bytes, as
  Go's \<^verbatim>\<open>len\<close> does.  An instant is a number of nanoseconds since the Unix epoch, a
  duration a number of nanoseconds (Go's \<^verbatim>\<open>time.Duration\<close>).
\<close>

unbundle bit_operations_syntax

section \<open>Types\<close>

type_synonym NodeID = "32 word"
type_synonym bytes = string
type_synonym gotime = int
type_synonym duration = int

text \<open>
  Go's \<^verbatim>\<open>error\<close> values.  \<open>NumSyntax\<close> and \<open>NumRange\<close> are the two errors of
  \<^verbatim>\<open>strconv\<close>; \<open>Errorf\<close> is an error the repository builds itself, with its text;
  \<open>Joined\<close> is the result of \<^verbatim>\<open>errors.Join\<close>; \<open>External\<close> is an error handed over by
  code outside the repository.
\<close>

datatype go_error =
    NumSyntax
  | NumRange
  | Errorf string
  | Joined "go_error list"
  | External string

section \<open>Proof collections\<close>

named_theorems go_lib \<open>equations of the Go library functions the sources call\<close>
named_theorems wire_defs \<open>field projections of the packets and packet descriptions\<close>

section \<open>Time\<close>

definition Second :: duration where "Second = 1000000000"
definition Minute :: duration where "Minute = 60 * Second"
definition Hour :: duration where "Hour = 60 * Minute"

lemmas duration_defs = Second_def Minute_def Hour_def

text \<open>\<^verbatim>\<open>Time.Unix\<close>: whole seconds, rounded down; then the conversion to \<^verbatim>\<open>uint32\<close> wraps.\<close>

definition unix_seconds :: "gotime \<Rightarrow> int" where
  "unix_seconds t = t div Second"

definition unix32 :: "gotime \<Rightarrow> 32 word" where
  "unix32 t = word_of_int (unix_seconds t)"

lemma duration_pos [simp]: "0 < Second" "0 < Minute" "0 < Hour"
  by (simp_all add: duration_defs)

section \<open>Generic facts\<close>

lemma length_pad_left [simp]:
  "length (replicate (k - length xs) c @ xs) = max k (length xs)"
  by simp

lemma filter_take_subset: "set (take n (filter P xs)) \<subseteq> {x \<in> set xs. P x}"
  using set_take_subset [of n "filter P xs"] by auto

lemma word_of_nat_unat_32 [simp]: "word_of_nat (unat w) = (w :: 32 word)"
  by simp

lemma unat_lt_2p32 [simp]: "unat (w :: 32 word) < 4294967296"
  using unsigned_less [of w, where 'a = nat] by simp

section \<open>Contract: an encoder and its parser\<close>

text \<open>
  Identifiers travel between the mesh and Matrix as strings.  Every pair of a printing
  and a parsing function promises the same law, on the values in \<open>valid\<close>; what the
  clients need from it (distinct values never share a string) is proved here once.
\<close>

locale codec =
  fixes enc :: "'a \<Rightarrow> string"
    and dec :: "string \<Rightarrow> 'a \<times> go_error option"
    and valid :: "'a \<Rightarrow> bool"
  assumes dec_enc: "valid x \<Longrightarrow> dec (enc x) = (x, None)"
begin

lemma enc_inj: "\<lbrakk>valid x; valid y; enc x = enc y\<rbrakk> \<Longrightarrow> x = y"
  by (metis dec_enc prod.inject)

lemma enc_eq_iff: "\<lbrakk>valid x; valid y\<rbrakk> \<Longrightarrow> enc x = enc y \<longleftrightarrow> x = y"
  using enc_inj by blast

lemma enc_parses: "valid x \<Longrightarrow> snd (dec (enc x)) = None"
  by (simp add: dec_enc)

end

section \<open>Contract: a rate limiter\<close>

text \<open>
  A limiter keeps, per key, the instant of the last request it granted.  \<open>ask s k t\<close> is a
  request for key \<open>k\<close> at time \<open>t\<close>: its answer and the new state.  The law says what the
  answer depends on and what is recorded; from it follows that over any sequence of requests
  with a clock that never goes back, two grants of one key lie at least a period apart.
\<close>

text \<open>The grants of a run, in order: the pairs of key and instant that were let through.\<close>

primrec grants ::
  "('s \<Rightarrow> 'k \<Rightarrow> gotime \<Rightarrow> bool \<times> 's) \<Rightarrow> 's \<Rightarrow> ('k \<times> gotime) list \<Rightarrow> ('k \<times> gotime) list"
where
  "grants ask s [] = []"
| "grants ask s (r # rs) =
     (let (ok, s') = ask s (fst r) (snd r)
      in if ok then r # grants ask s' rs else grants ask s' rs)"

lemma grants_subset: "set (grants ask s rs) \<subseteq> set rs"
  by (induction rs arbitrary: s) (auto simp: Let_def split: prod.splits if_splits)

locale rate_limiter =
  fixes ask :: "'s \<Rightarrow> 'k \<Rightarrow> gotime \<Rightarrow> bool \<times> 's"
    and last_grant :: "'s \<Rightarrow> 'k \<Rightarrow> gotime option"
    and period :: "'s \<Rightarrow> duration"
  assumes ask_answer: "fst (ask s k t) \<longleftrightarrow>
      (case last_grant s k of None \<Rightarrow> True | Some t0 \<Rightarrow> period s \<le> t - t0)"
    and ask_records: "last_grant (snd (ask s k t)) =
      (if fst (ask s k t) then (last_grant s)(k \<mapsto> t) else last_grant s)"
    and ask_period: "period (snd (ask s k t)) = period s"
begin

lemma grants_after_last:
  assumes "sorted (map snd rs)" and "last_grant s k = Some t0" and "(k, t) \<in> set (grants ask s rs)"
    and "\<forall>r \<in> set rs. t0 \<le> snd r"
  shows "period s \<le> t - t0"
  using assms
proof (induction rs arbitrary: s t0)
  case Nil
  then show ?case by simp
next
  case (Cons r rs)
  obtain ok s' where ask: "ask s (fst r) (snd r) = (ok, s')" by fastforce
  have p: "period s' = period s"
    using ask_period [of s "fst r" "snd r"] ask by simp
  have rec: "last_grant s' = (if ok then (last_grant s)(fst r \<mapsto> snd r) else last_grant s)"
    using ask_records [of s "fst r" "snd r"] ask by simp
  have ans: "ok \<Longrightarrow> fst r = k \<Longrightarrow> period s \<le> snd r - t0"
    using ask_answer [of s "fst r" "snd r"] ask Cons.prems(2) by auto
  have later: "sorted (map snd rs)" "\<forall>q \<in> set rs. snd r \<le> snd q" "\<forall>q \<in> set rs. t0 \<le> snd q"
    using Cons.prems(1,4) by auto
  show ?case
  proof (cases "ok \<and> fst r = k")
    case True
    have "t0 \<le> snd r" using Cons.prems(4) by simp
    moreover have "(k, t) = r \<or> (k, t) \<in> set (grants ask s' rs)"
      using Cons.prems(3) True ask by auto
    then have "snd r \<le> t"
      using later(2) grants_subset [of ask s' rs] by force
    ultimately show ?thesis using ans True by linarith
  next
    case False
    then have "last_grant s' k = Some t0" and "(k, t) \<in> set (grants ask s' rs)"
      using Cons.prems(2,3) rec ask by (auto split: if_splits)
    then show ?thesis using Cons.IH [of s' t0] later p by auto
  qed
qed

lemma grants_spaced:
  assumes "sorted (map snd rs)" and "grants ask s rs = xs @ (k, t1) # ys" and "(k, t2) \<in> set ys"
  shows "period s \<le> t2 - t1"
  using assms
proof (induction rs arbitrary: s xs)
  case Nil
  then show ?case by simp
next
  case (Cons r rs)
  obtain ok s' where ask: "ask s (fst r) (snd r) = (ok, s')" by fastforce
  have p: "period s' = period s"
    using ask_period [of s "fst r" "snd r"] ask by simp
  show ?case
  proof (cases "ok \<and> xs = []")
    case True
    then have r: "r = (k, t1)" and ys: "ys = grants ask s' rs"
      using Cons.prems(2) ask by auto
    have "last_grant s' k = Some t1"
      using ask_records [of s "fst r" "snd r"] ask r True by simp
    then show ?thesis
      using grants_after_last [of rs s' k t1 t2] Cons.prems(1,3) r ys p by auto
  next
    case False
    then obtain xs' where "grants ask s' rs = xs' @ (k, t1) # ys"
      using Cons.prems(2) ask by (cases xs) (auto split: if_splits)
    then show ?thesis using Cons.IH [of s' xs'] Cons.prems(1,3) p by simp
  qed
qed

text \<open>What is granted for one key does not depend on the requests for other keys.\<close>

lemma grants_for_key:
  assumes "last_grant s k = last_grant s' k" "period s = period s'"
  shows "filter (\<lambda>r. fst r = k) (grants ask s rs) = grants ask s' (filter (\<lambda>r. fst r = k) rs)"
  using assms
proof (induction rs arbitrary: s s')
  case (Cons r rs)
  obtain ok s1 where ask: "ask s (fst r) (snd r) = (ok, s1)" by fastforce
  have s1: "last_grant s1 = (if ok then (last_grant s)(fst r \<mapsto> snd r) else last_grant s)" "period s1 = period s"
    using ask_records [of s "fst r" "snd r"] ask_period [of s "fst r" "snd r"] ask by simp_all
  show ?case
  proof (cases "fst r = k")
    case True
    obtain ok' s2 where ask': "ask s' k (snd r) = (ok', s2)" by fastforce
    have "ok' = ok" using ask_answer [of s k "snd r"] ask_answer [of s' k "snd r"] Cons.prems ask ask' True
      by (cases "last_grant s' k") simp_all
    moreover have "last_grant s2 = (if ok' then (last_grant s')(k \<mapsto> snd r) else last_grant s')" "period s2 = period s'"
      using ask_records [of s' k "snd r"] ask_period [of s' k "snd r"] ask' by simp_all
    ultimately show ?thesis using Cons.IH [of s1 s2] Cons.prems s1 ask ask' True by simp
  next
    case False
    then show ?thesis using Cons.IH [of s1 s'] Cons.prems s1 ask by (cases r) simp
  qed
qed simp

end

end
