(* ===== verification/Go_Strings.thy ===== *)
theory Go_Strings
  imports Mesh_Prelude
begin

text \<open>
  The parts of Go's \<^verbatim>\<open>strings\<close>, \<^verbatim>\<open>strconv\<close> and \<^verbatim>\<open>fmt\<close> packages that the identifier
  code calls: prefix and suffix tests, \<^verbatim>\<open>Cut\<close>, \<^verbatim>\<open>CutPrefix\<close>, \<^verbatim>\<open>Split\<close>,
  \<^verbatim>\<open>ParseUint\<close> and the verbs \<open>%d\<close> and \<open>%08x\<close>; with the facts that relate printing to
  parsing and joining to splitting.
\<close>

section \<open>strings\<close>

definition HasPrefix :: "string \<Rightarrow> string \<Rightarrow> bool" where
  "HasPrefix s p \<longleftrightarrow> take (length p) s = p"

definition HasSuffix :: "string \<Rightarrow> string \<Rightarrow> bool" where
  "HasSuffix s p \<longleftrightarrow> length p \<le> length s \<and> drop (length s - length p) s = p"

text \<open>\<^verbatim>\<open>after, found := strings.CutPrefix(s, prefix)\<close>\<close>

definition CutPrefix :: "string \<Rightarrow> string \<Rightarrow> string \<times> bool" where
  "CutPrefix s p = (if HasPrefix s p then (drop (length p) s, True) else (s, False))"

text \<open>
  \<^verbatim>\<open>before, after, found := strings.Cut(s, sep)\<close>: cut around the first occurrence of
  \<open>sep\<close>; \<open>None\<close> when there is none (Go then returns \<open>s, "", false\<close>).
\<close>

fun Cut :: "string \<Rightarrow> string \<Rightarrow> (string \<times> string) option" where
  "Cut [] sep = (if sep = [] then Some ([], []) else None)"
| "Cut (c # s) sep =
     (if HasPrefix (c # s) sep then Some ([], drop (length sep) (c # s))
      else map_option (\<lambda>(a, b). (c # a, b)) (Cut s sep))"

lemma HasPrefix_append [simp]: "HasPrefix (p @ s) p"
  by (simp add: HasPrefix_def)

lemma HasPrefix_iff: "HasPrefix s p \<longleftrightarrow> (\<exists>r. s = p @ r)"
  by (metis HasPrefix_append HasPrefix_def append_take_drop_id)

lemma HasPrefix_single: "HasPrefix s [c] \<longleftrightarrow> s \<noteq> [] \<and> hd s = c"
  by (cases s) (auto simp: HasPrefix_def)

lemma Cut_Some: "Cut s sep = Some (a, b) \<Longrightarrow> s = a @ sep @ b"
proof (induction s arbitrary: a)
  case Nil
  then show ?case by (simp split: if_splits)
next
  case (Cons c s)
  show ?case
  proof (cases "HasPrefix (c # s) sep")
    case True
    then obtain r where "c # s = sep @ r" by (auto simp: HasPrefix_iff)
    moreover from True Cons.prems have "a = []" "b = drop (length sep) (c # s)" by simp_all
    ultimately show ?thesis by simp
  next
    case False
    with Cons.prems obtain a' where "Cut s sep = Some (a', b)" and "a = c # a'" by auto
    with Cons.IH [of a'] show ?thesis by simp
  qed
qed

lemma Cut_shorter: "sep \<noteq> [] \<Longrightarrow> Cut s sep = Some (a, b) \<Longrightarrow> length b < length s"
  using Cut_Some [of s sep a b] by simp

text \<open>
  \<^verbatim>\<open>strings.Split(s, sep)\<close> for a non-empty separator, the only use in the sources: the
  pieces between the non-overlapping occurrences of \<open>sep\<close>, found from the left.
\<close>

function Split :: "string \<Rightarrow> string \<Rightarrow> string list" where
  "Split s sep =
     (case (if sep = [] then None else Cut s sep) of
        None \<Rightarrow> [s]
      | Some (a, b) \<Rightarrow> a # Split b sep)"
  by pat_completeness auto
termination
  by (relation "measure (\<lambda>(s, sep). length s)") (auto dest: Cut_shorter split: if_splits)

declare Split.simps [simp del]

text \<open>A separator found nowhere before the end of \<open>a\<close> is found exactly after \<open>a\<close>.\<close>

lemma Cut_append:
  assumes "sep \<noteq> []"
    and "\<And>i. i < length a \<Longrightarrow> \<not> HasPrefix (drop i (a @ sep @ b)) sep"
  shows "Cut (a @ sep @ b) sep = Some (a, b)"
  using assms
proof (induction a)
  case Nil
  then show ?case by (cases sep) (simp_all add: HasPrefix_def)
next
  case (Cons c a)
  have "\<not> HasPrefix (c # a @ sep @ b) sep"
    using Cons.prems(2) [of 0] by simp
  moreover have "Cut (a @ sep @ b) sep = Some (a, b)"
    using Cons.IH Cons.prems(1) Cons.prems(2) [of "Suc i" for i] by simp
  ultimately show ?case by simp
qed

lemma Cut_None_single: "c \<notin> set s \<Longrightarrow> Cut s [c] = None"
  by (induction s) (auto simp: HasPrefix_single)

lemma Cut_single: "c \<notin> set a \<Longrightarrow> Cut (a @ c # b) [c] = Some (a, b)"
  by (induction a) (auto simp: HasPrefix_single)

lemma Split_single_two:
  "c \<notin> set a \<Longrightarrow> c \<notin> set b \<Longrightarrow> Split (a @ c # b) [c] = [a, b]"
  by (simp add: Split.simps [of "a @ c # b"] Split.simps [of b] Cut_single Cut_None_single)

text \<open>Splitting loses nothing: the pieces joined by the separator are the string again.\<close>

fun Join :: "string list \<Rightarrow> string \<Rightarrow> string" where
  "Join [] sep = []"
| "Join [a] sep = a"
| "Join (a # b # xs) sep = a @ sep @ Join (b # xs) sep"

lemma Split_not_Nil [simp]: "Split s sep \<noteq> []"
  by (subst Split.simps) (auto split: option.splits)

lemma Join_Split: "Join (Split s sep) sep = s"
proof (induction s sep rule: Split.induct)
  case (1 s sep)
  show ?case
  proof (cases "if sep = [] then None else Cut s sep")
    case None
    then show ?thesis by (simp add: Split.simps [of s])
  next
    case (Some ab)
    then obtain a b where ab: "Cut s sep = Some (a, b)" "sep \<noteq> []"
      by (cases ab) (auto split: if_splits)
    then have IH: "Join (Split b sep) sep = b" using "1.IH" [of "(a, b)" a b] by simp
    obtain x xs where "Split b sep = x # xs" by (cases "Split b sep") auto
    with IH ab have "Join (Split s sep) sep = a @ sep @ b" by (simp add: Split.simps [of s])
    with Cut_Some [OF ab(1)] show ?thesis by simp
  qed
qed

section \<open>Digits\<close>

definition digit_char :: "nat \<Rightarrow> char" where
  "digit_char d = (if d < 10 then char_of (48 + d) else char_of (87 + d))"

fun digits :: "nat \<Rightarrow> nat \<Rightarrow> nat list" where
  "digits b n = (if b < 2 \<or> n < b then [n] else digits b (n div b) @ [n mod b])"

declare digits.simps [simp del]

lemma digits_small: "2 \<le> b \<Longrightarrow> d \<in> set (digits b n) \<Longrightarrow> d < b"
proof (induction b n rule: digits.induct)
  case (1 b n)
  show ?case
  proof (cases "n < b")
    case True
    with "1.prems" show ?thesis by (simp add: digits.simps [of b n])
  next
    case False
    with "1.prems" have "d \<in> set (digits b (n div b)) \<or> d = n mod b"
      by (auto simp: digits.simps [of b n])
    with "1" False show ?thesis by (auto simp: not_less)
  qed
qed

lemma digits_not_Nil [simp]: "digits b n \<noteq> []"
  by (subst digits.simps) simp

text \<open>\<open>foldl\<close> over the digits reads the number back.\<close>

lemma foldl_digits: "foldl (\<lambda>n d. n * b + d) 0 (digits b n) = n"
proof (induction b n rule: digits.induct)
  case (1 b n)
  show ?case
  proof (cases "b < 2 \<or> n < b")
    case True
    then show ?thesis by (simp add: digits.simps [of b n])
  next
    case False
    with "1" have "foldl (\<lambda>n d. n * b + d) 0 (digits b (n div b)) = n div b" by simp
    with False show ?thesis by (simp add: digits.simps [of b n])
  qed
qed

lemma length_digits:
  assumes "2 \<le> b" shows "n < b ^ k \<Longrightarrow> 0 < k \<Longrightarrow> length (digits b n) \<le> k"
proof (induction k arbitrary: n)
  case 0
  then show ?case by simp
next
  case (Suc k)
  show ?case
  proof (cases "n < b")
    case True
    then show ?thesis by (simp add: digits.simps [of b n])
  next
    case False
    with Suc.prems assms have "0 < k" by (cases k) auto
    moreover from Suc.prems have "n div b < b ^ k"
      by (simp add: less_mult_imp_div_less mult.commute)
    ultimately have "length (digits b (n div b)) \<le> k" by (rule Suc.IH [rotated])
    with False assms show ?thesis by (simp add: digits.simps [of b n])
  qed
qed

section \<open>fmt\<close>

text \<open>\<^verbatim>\<open>fmt.Sprintf("%d", n)\<close> and \<^verbatim>\<open>fmt.Sprintf("%08x", n)\<close> on \<^verbatim>\<open>uint32\<close> values.\<close>

definition Sprintf_d :: "32 word \<Rightarrow> string" where
  "Sprintf_d w = map digit_char (digits 10 (unat w))"

definition Sprintf_08x :: "32 word \<Rightarrow> string" where
  "Sprintf_08x w =
     (let ds = map digit_char (digits 16 (unat w)) in replicate (8 - length ds) (CHR ''0'') @ ds)"

text \<open>\<^verbatim>\<open>%d\<close> on an \<^verbatim>\<open>int\<close>, and \<^verbatim>\<open>strconv.Itoa\<close>.\<close>

definition Itoa :: "int \<Rightarrow> string" where
  "Itoa n = (if n < 0 then ''-'' else []) @ map digit_char (digits 10 (nat \<bar>n\<bar>))"

section \<open>strconv\<close>

text \<open>
  The digit loop of \<^verbatim>\<open>strconv.ParseUint\<close> with a base from 2 to 36 and a bit size: a
  character that is not a digit of the base is a syntax error, a value past the largest one
  of the bit size is a range error that returns this largest value.  Go's \<^verbatim>\<open>lower(c)\<close> is
  \<open>c | 0x20\<close>, which sends exactly the ASCII letters to \<open>'a'..'z'\<close>.
\<close>

definition digit_val :: "char \<Rightarrow> nat option" where
  "digit_val c =
     (let n = of_char c :: nat in
      if 48 \<le> n \<and> n \<le> 57 then Some (n - 48)
      else if 97 \<le> n \<and> n \<le> 122 then Some (n - 87)
      else if 65 \<le> n \<and> n \<le> 90 then Some (n - 55)
      else None)"

fun ParseUint_loop :: "nat \<Rightarrow> nat \<Rightarrow> nat \<Rightarrow> string \<Rightarrow> nat \<times> go_error option" where
  "ParseUint_loop base maxVal n [] = (n, None)"
| "ParseUint_loop base maxVal n (c # s) =
     (case digit_val c of
        None \<Rightarrow> (0, Some NumSyntax)
      | Some d \<Rightarrow>
          if base \<le> d then (0, Some NumSyntax)
          else if maxVal < n * base + d then (maxVal, Some NumRange)
          else ParseUint_loop base maxVal (n * base + d) s)"

definition ParseUint :: "string \<Rightarrow> nat \<Rightarrow> nat \<Rightarrow> nat \<times> go_error option" where
  "ParseUint s base bits =
     (if s = [] then (0, Some NumSyntax) else ParseUint_loop base (2 ^ bits - 1) 0 s)"

lemma digit_char_0: "digit_char 0 = CHR ''0''"
  by code_simp

lemma digit_val_char: "d < 36 \<Longrightarrow> digit_val (digit_char d) = Some d"
  by (auto simp: digit_val_def digit_char_def Let_def)

lemma foldl_mono: "(n::nat) \<le> foldl (\<lambda>n d. n * b + d) n ds" if "0 < b"
proof (induction ds arbitrary: n)
  case Nil
  then show ?case by simp
next
  case (Cons d ds)
  have "n \<le> n * b + d" using that by (cases b) auto
  also have "\<dots> \<le> foldl (\<lambda>n d. n * b + d) (n * b + d) ds" by (rule Cons.IH)
  finally show ?case by simp
qed

lemma ParseUint_loop_digits:
  assumes "2 \<le> b" "b \<le> 36"
  shows "\<lbrakk>\<forall>d \<in> set ds. d < b; foldl (\<lambda>n d. n * b + d) n ds \<le> m\<rbrakk>
    \<Longrightarrow> ParseUint_loop b m n (map digit_char ds) = (foldl (\<lambda>n d. n * b + d) n ds, None)"
proof (induction ds arbitrary: n)
  case Nil
  then show ?case by simp
next
  case (Cons d ds)
  have "n * b + d \<le> foldl (\<lambda>n d. n * b + d) (n * b + d) ds"
    using assms by (intro foldl_mono) simp
  with Cons.prems have "n * b + d \<le> m" by simp
  moreover have "d < b" "d < 36" using Cons.prems assms by auto
  ultimately show ?case using Cons by (auto simp: digit_val_char)
qed

lemma foldl_zeros: "foldl (\<lambda>n d. n * b + d) (0::nat) (replicate k 0 @ ds)
    = foldl (\<lambda>n d. n * b + d) 0 ds"
  by (induction k) simp_all

text \<open>What was printed is read back, leading zeros included.\<close>

lemma ParseUint_digits:
  assumes "2 \<le> b" "b \<le> 36" "n < 2 ^ bits"
  shows "ParseUint (replicate k (CHR ''0'') @ map digit_char (digits b n)) b bits = (n, None)"
proof -
  let ?ds = "replicate k 0 @ digits b n"
  have str: "replicate k (CHR ''0'') @ map digit_char (digits b n) = map digit_char ?ds"
    by (simp add: digit_char_0)
  have "\<forall>d \<in> set ?ds. d < b" using digits_small [OF assms(1)] assms by auto
  moreover have "foldl (\<lambda>n d. n * b + d) 0 ?ds = n"
    by (simp only: foldl_zeros foldl_digits)
  moreover have "n \<le> 2 ^ bits - 1" using assms(3) by simp
  ultimately have "ParseUint_loop b (2 ^ bits - 1) 0 (map digit_char ?ds) = (n, None)"
    using ParseUint_loop_digits [OF assms(1,2), of ?ds 0 "2 ^ bits - 1"] by simp
  then show ?thesis by (simp only: ParseUint_def str) simp
qed

lemma ParseUint_Sprintf_d: "ParseUint (Sprintf_d w) 10 32 = (unat w, None)"
  using ParseUint_digits [of 10 "unat w" 32 0] by (simp add: Sprintf_d_def)

lemma ParseUint_Sprintf_08x: "ParseUint (Sprintf_08x w) 16 32 = (unat w, None)"
  using ParseUint_digits [of 16 "unat w" 32] by (simp add: Sprintf_08x_def Let_def)

lemma length_Sprintf_08x [simp]: "length (Sprintf_08x w) = 8"
proof -
  have "length (digits 16 (unat w)) \<le> 8"
    by (rule length_digits) simp_all
  then show ?thesis by (simp add: Sprintf_08x_def Let_def)
qed

text \<open>The value that is returned always fits the bit size, on every error path too.\<close>

lemma ParseUint_loop_bound: "n \<le> m \<Longrightarrow> fst (ParseUint_loop b m n s) \<le> m"
  by (induction s arbitrary: n) (auto split: option.splits)

lemma ParseUint_bound: "fst (ParseUint s b bits) < 2 ^ bits"
proof -
  have "0 < (2::nat) ^ bits" by simp
  moreover have "fst (ParseUint_loop b (2 ^ bits - 1) 0 s) \<le> 2 ^ bits - 1"
    by (rule ParseUint_loop_bound) simp
  ultimately show ?thesis by (auto simp only: ParseUint_def fst_conv split: if_splits)
qed

text \<open>Printed numbers consist of digits and lower-case letters only.\<close>

definition alnum :: "char set" where
  "alnum = set ''0123456789abcdefghijklmnopqrstuvwxyz''"

lemma separators_not_alnum: "CHR ''|'' \<notin> alnum" "CHR ''^'' \<notin> alnum" "CHR ''!'' \<notin> alnum"
  by (simp_all add: alnum_def)

lemma digit_char_alnum: "d < 36 \<Longrightarrow> digit_char d \<in> alnum"
proof -
  have all: "list_all (\<lambda>d. digit_char d \<in> alnum) [0..<36]"
    unfolding alnum_def by code_simp
  assume "d < 36"
  then show ?thesis using all by (auto simp: list_all_iff)
qed

lemma digits_alnum:
  assumes "2 \<le> b" "b \<le> 36" shows "set (map digit_char (digits b n)) \<subseteq> alnum"
proof
  fix c assume "c \<in> set (map digit_char (digits b n))"
  then obtain d where "d \<in> set (digits b n)" and c: "c = digit_char d" by auto
  with digits_small [OF assms(1)] assms(2) have "d < 36" by force
  with c show "c \<in> alnum" by (simp add: digit_char_alnum)
qed

lemma Sprintf_d_alnum: "set (Sprintf_d w) \<subseteq> alnum"
  unfolding Sprintf_d_def by (rule digits_alnum) simp_all

lemma Sprintf_08x_alnum: "set (Sprintf_08x w) \<subseteq> alnum"
proof -
  have "CHR ''0'' \<in> alnum" by (simp add: alnum_def)
  then show ?thesis
    using digits_alnum [of 16 "unat w"] by (auto simp: Sprintf_08x_def Let_def)
qed

end
