(* ===== verification/Go_Encoding.thy ===== *)
theory Go_Encoding
  imports Go_Strings
begin

text \<open>
  Go's \<^verbatim>\<open>hash/crc32\<close>, \<^verbatim>\<open>encoding/binary\<close> and \<^verbatim>\<open>encoding/base64\<close>, as far as the
  sources use them: the IEEE checksum that turns a Matrix user into a node number, the
  big-endian byte order of a MAC address and the standard base64 alphabet of channel keys.
\<close>

section \<open>hash/crc32\<close>

text \<open>The reflected IEEE polynomial, one bit at a time (Go's table entries are eight such steps).\<close>

definition crc32_bit :: "32 word \<Rightarrow> 32 word" where
  "crc32_bit c = (if c AND 1 = 1 then drop_bit 1 c XOR 0xEDB88320 else drop_bit 1 c)"

definition crc32_byte :: "32 word \<Rightarrow> char \<Rightarrow> 32 word" where
  "crc32_byte c b = (crc32_bit ^^ 8) (c XOR of_char b)"

definition ChecksumIEEE :: "bytes \<Rightarrow> 32 word" where
  "ChecksumIEEE bs = NOT (foldl crc32_byte (NOT 0) bs)"

text \<open>The published check value of CRC-32.\<close>

lemma funpow_8: "(f ^^ 8) x = f (f (f (f (f (f (f (f x)))))))"
  by (simp add: eval_nat_numeral)

lemmas crc32_eval = ChecksumIEEE_def crc32_byte_def crc32_bit_def funpow_8

lemma ChecksumIEEE_check: "ChecksumIEEE ''123456789'' = 0xCBF43926"
  by (simp add: crc32_eval)

section \<open>encoding/binary\<close>

definition PutUint32_BigEndian :: "32 word \<Rightarrow> 8 word list" where
  "PutUint32_BigEndian w =
     [ucast (drop_bit 24 w), ucast (drop_bit 16 w), ucast (drop_bit 8 w), ucast w]"

definition Uint32_BigEndian :: "8 word list \<Rightarrow> 32 word" where
  "Uint32_BigEndian bs = foldl (\<lambda>w b. push_bit 8 w OR ucast b) 0 bs"

lemma Uint32_PutUint32_BigEndian: "Uint32_BigEndian (PutUint32_BigEndian w) = w"
proof (rule bit_word_eqI)
  fix n assume "n < LENGTH(32)"
  then consider "n < 8" | "8 \<le> n" "n < 16" | "16 \<le> n" "n < 24" | "24 \<le> n" "n < 32"
    by fastforce
  then show "bit (Uint32_BigEndian (PutUint32_BigEndian w)) n = bit w n"
    by cases (auto simp: Uint32_BigEndian_def PutUint32_BigEndian_def bit_simps)
qed

section \<open>encoding/base64\<close>

text \<open>The standard alphabet: \<open>A-Z\<close>, \<open>a-z\<close>, \<open>0-9\<close>, \<open>+\<close> and \<open>/\<close>.\<close>

definition b64_char :: "nat \<Rightarrow> char" where
  "b64_char d =
     (if d < 26 then char_of (65 + d)
      else if d < 52 then char_of (71 + d)
      else if d < 62 then char_of (d - 4)
      else if d = 62 then CHR ''+''
      else CHR ''/'')"

definition b64_val :: "char \<Rightarrow> nat option" where
  "b64_val c =
     (let n = of_char c :: nat in
      if 65 \<le> n \<and> n \<le> 90 then Some (n - 65)
      else if 97 \<le> n \<and> n \<le> 122 then Some (n - 71)
      else if 48 \<le> n \<and> n \<le> 57 then Some (n + 4)
      else if n = 43 then Some 62
      else if n = 47 then Some 63
      else None)"

definition byte_val :: "char \<Rightarrow> nat" where
  "byte_val c = of_char c"

text \<open>\<^verbatim>\<open>base64.StdEncoding.EncodeToString\<close>, with padding.\<close>

fun base64_EncodeToString :: "bytes \<Rightarrow> string" where
  "base64_EncodeToString [] = []"
| "base64_EncodeToString [a] =
     [b64_char (byte_val a div 4), b64_char (byte_val a mod 4 * 16), CHR ''='', CHR ''='']"
| "base64_EncodeToString [a, b] =
     [b64_char (byte_val a div 4), b64_char (byte_val a mod 4 * 16 + byte_val b div 16),
      b64_char (byte_val b mod 16 * 4), CHR ''='']"
| "base64_EncodeToString (a # b # c # s) =
     [b64_char (byte_val a div 4), b64_char (byte_val a mod 4 * 16 + byte_val b div 16),
      b64_char (byte_val b mod 16 * 4 + byte_val c div 64), b64_char (byte_val c mod 64)]
     @ base64_EncodeToString s"

text \<open>
  A decoder for the encoder's output.  The sources decode keys with code outside the
  repository; this one shows that what they rely on can be met.
\<close>

fun base64_decode :: "string \<Rightarrow> bytes option" where
  "base64_decode [] = Some []"
| "base64_decode (p # q # r # t # s) =
     (case (b64_val p, b64_val q) of
        (Some x, Some y) \<Rightarrow>
          (if r = CHR ''='' then (if t = CHR ''='' \<and> s = [] then Some [char_of (x * 4 + y div 16)] else None)
           else case b64_val r of
             None \<Rightarrow> None
           | Some z \<Rightarrow>
               (if t = CHR ''='' then
                  (if s = [] then Some [char_of (x * 4 + y div 16), char_of (y mod 16 * 16 + z div 4)] else None)
                else case (b64_val t, base64_decode s) of
                  (Some u, Some bs) \<Rightarrow>
                    Some (char_of (x * 4 + y div 16) # char_of (y mod 16 * 16 + z div 4)
                          # char_of (z mod 4 * 64 + u) # bs)
                | _ \<Rightarrow> None))
      | _ \<Rightarrow> None)"
| "base64_decode _ = None"

lemma b64_val_char: "d < 64 \<Longrightarrow> b64_val (b64_char d) = Some d"
  by (auto simp: b64_val_def b64_char_def Let_def)

lemma b64_val_specials: "b64_val (CHR ''='') = None" "b64_val (CHR ''|'') = None"
  by (simp_all add: b64_val_def)

lemma b64_char_specials: "d < 64 \<Longrightarrow> b64_char d \<noteq> CHR ''=''" "d < 64 \<Longrightarrow> CHR ''|'' \<noteq> b64_char d"
  using b64_val_char [of d] b64_val_specials by auto

lemma byte_val_lt [simp]: "byte_val c < 256"
  by (simp add: byte_val_def)

lemma char_of_byte_val [simp]: "char_of (byte_val c) = c"
  by (simp add: byte_val_def)

lemma nibble [simp]: "byte_val c div 16 < 16" "byte_val c div 64 < 4" "byte_val c div 4 < 64"
  using byte_val_lt [of c] by (simp_all add: div_less_iff_less_mult)

lemma sextets [simp]:
  "byte_val a mod 4 * 16 + byte_val b div 16 < 64"
  "byte_val b mod 16 * 4 + byte_val c div 64 < 64"
  "byte_val a mod 4 * 16 < 64" "byte_val b mod 16 * 4 < 64"
proof -
  have "byte_val a mod 4 < 4" "byte_val b mod 16 < 16" by simp_all
  with nibble [of b] nibble [of c] show "byte_val a mod 4 * 16 + byte_val b div 16 < 64"
    "byte_val b mod 16 * 4 + byte_val c div 64 < 64"
    "byte_val a mod 4 * 16 < 64" "byte_val b mod 16 * 4 < 64"
    by linarith+
qed

lemma split_16: "(k::nat) < 16 \<Longrightarrow> (m * 16 + k) div 16 = m" "k < 16 \<Longrightarrow> (m * 16 + k) mod 16 = k"
  by simp_all

lemma split_4: "(k::nat) < 4 \<Longrightarrow> (m * 4 + k) div 4 = m" "k < 4 \<Longrightarrow> (m * 4 + k) mod 4 = k"
  by simp_all

lemmas base64_arith = b64_val_char b64_char_specials split_16 split_4

lemma base64_decode_EncodeToString: "base64_decode (base64_EncodeToString bs) = Some bs"
proof (induction bs rule: base64_EncodeToString.induct)
  case (4 a b c s)
  then show ?case by (simp add: base64_arith)
qed (simp_all add: base64_arith)

lemma base64_EncodeToString_inject:
  "base64_EncodeToString a = base64_EncodeToString b \<longleftrightarrow> a = b"
  by (metis base64_decode_EncodeToString option.inject)

lemma base64_EncodeToString_eq_Nil [simp]: "base64_EncodeToString a = [] \<longleftrightarrow> a = []"
  by (cases a rule: base64_EncodeToString.cases) simp_all

text \<open>The alphabet has no vertical bar, the character the portal identifiers are built with.\<close>

lemma base64_no_bar: "CHR ''|'' \<notin> set (base64_EncodeToString bs)"
  by (induction bs rule: base64_EncodeToString.induct) (simp_all add: base64_arith)

end
