(* ===== verification/Mesh_Ids.thy ===== *)
theory Mesh_Ids
  imports Go_Encoding
begin

text \<open>
  Node numbers and the identifiers built from them: \<^verbatim>\<open>pkg/meshid/node.go\<close> and
  \<^verbatim>\<open>pkg/meshid/ids.go\<close>.  A node is a \<^verbatim>\<open>uint32\<close>; towards Matrix it becomes a user, login,
  message or portal identifier, all of them strings.  The printing functions and their parsers
  are shown to be codecs, and the two kinds of portal identifiers to be disjoint.
\<close>

section \<open>node.go\<close>

definition NodeID_String :: "NodeID \<Rightarrow> string" where
  "NodeID_String n = ''!'' @ Sprintf_08x n"

definition ToMacAddress :: "NodeID \<Rightarrow> 8 word list" where
  "ToMacAddress n =
     (let a = PutUint32_BigEndian n in [0xA, 0, a ! 0, a ! 1, a ! 2, a ! 3])"

definition GetNodeColor :: "NodeID \<Rightarrow> 8 word \<times> 8 word \<times> 8 word" where
  "GetNodeColor n =
     (ucast (drop_bit 16 (n AND 0xFF0000)), ucast (drop_bit 8 (n AND 0x00FF00)),
      ucast (n AND 0x0000FF))"

text \<open>\<^verbatim>\<open>longName, shortName := n.GetDefaultNodeNames()\<close>\<close>

definition GetDefaultNodeNames :: "NodeID \<Rightarrow> string \<times> string" where
  "GetDefaultNodeNames n =
     (let name = NodeID_String n;
          shortName = drop (length name - 4) name
      in (''Meshtastic '' @ shortName, shortName))"

section \<open>ids.go\<close>

definition separatorMessageID :: string where "separatorMessageID = ''|''"
definition separatorPortalID :: string where "separatorPortalID = ''|||''"
definition separatorDMPortalID :: string where "separatorDMPortalID = ''^''"

lemmas separator_defs = separatorMessageID_def separatorPortalID_def separatorDMPortalID_def

definition BROADCAST_ID :: NodeID where "BROADCAST_ID = 0xffffffff"
definition BROADCAST_ID_NO_LORA :: NodeID where "BROADCAST_ID_NO_LORA = 1"
definition MAX_HOPS :: "32 word" where "MAX_HOPS = 7"

definition ParseNodeID :: "string \<Rightarrow> NodeID \<times> go_error option" where
  "ParseNodeID nodeID =
     (let v = fst (CutPrefix nodeID ''!'') in
      case ParseUint v 16 32 of
        (packet64, Some err) \<Rightarrow> (0, Some err)
      | (packet64, None) \<Rightarrow> (word_of_nat packet64, None))"

definition MXIDToNodeID :: "string \<Rightarrow> NodeID" where
  "MXIDToNodeID mxid = ChecksumIEEE mxid"

definition MakeUserID :: "NodeID \<Rightarrow> string" where
  "MakeUserID nodeID = Sprintf_08x nodeID"

definition MakeUserLoginID :: "NodeID \<Rightarrow> string" where
  "MakeUserLoginID nodeID = Sprintf_08x nodeID"

definition MakePortalID :: "string \<Rightarrow> string option \<Rightarrow> string" where
  "MakePortalID channelId channelKey =
     (case channelKey of
        None \<Rightarrow> channelId @ separatorPortalID
      | Some key \<Rightarrow> channelId @ separatorPortalID @ key)"

definition MakeDMPortalID :: "NodeID \<Rightarrow> NodeID \<Rightarrow> string" where
  "MakeDMPortalID remote synth =
     NodeID_String remote @ separatorDMPortalID @ NodeID_String synth"

definition MakeMessageID :: "string \<Rightarrow> 32 word \<Rightarrow> string" where
  "MakeMessageID senderOrChannel packetId = Sprintf_d packetId @ ''|'' @ senderOrChannel"

definition ParseUserID :: "string \<Rightarrow> NodeID \<times> go_error option" where
  "ParseUserID userID =
     (let (packet64, err) = ParseUint userID 16 32 in (word_of_nat packet64, err))"

definition ParseMessageID :: "string \<Rightarrow> (string \<times> 32 word) \<times> go_error option" where
  "ParseMessageID messageID =
     (case Cut messageID separatorMessageID of
        None \<Rightarrow> (([], 0),
          Some (Errorf ''invalid message ID: expected two pipe-separated parts''))
      | Some (packetRaw, senderOrChannelID) \<Rightarrow>
          (let (packet64, err) = ParseUint packetRaw 10 32
           in ((senderOrChannelID, word_of_nat packet64), err)))"

text \<open>
  The first test compares a length with itself less three and so never succeeds; it is kept as
  the source has it, with Go's \<^verbatim>\<open>int\<close> subtraction.
\<close>

definition ParsePortalID :: "string \<Rightarrow> (string \<times> string) \<times> go_error option" where
  "ParsePortalID strPortal =
     (let lenPortal = int (length strPortal);
          parts = Split strPortal separatorPortalID
      in if length parts = 1 \<and> lenPortal = lenPortal - int (length separatorPortalID)
            \<and> HasSuffix strPortal separatorPortalID
         then ((parts ! 0, []), None)
         else if length parts \<noteq> 2
         then (([], []), Some (Errorf ''invalid portal ID: expected two pipe-separated parts''))
         else ((parts ! 0, parts ! 1), None))"

definition ParseDMPortalID :: "string \<Rightarrow> (NodeID \<times> NodeID) \<times> go_error option" where
  "ParseDMPortalID portalID =
     (let parts = Split portalID separatorDMPortalID in
      if length parts \<noteq> 2
      then ((0, 0), Some (Errorf ''invalid DM portal ID: expected two caret-separated parts''))
      else case ParseNodeID (parts ! 0) of
        (remote, Some err) \<Rightarrow> ((remote, 0), Some err)
      | (remote, None) \<Rightarrow> (let (synth, err) = ParseNodeID (parts ! 1) in ((remote, synth), err)))"

section \<open>Printing and parsing\<close>

lemma ParseNodeID_String [simp]: "ParseNodeID (NodeID_String n) = (n, None)"
  by (simp add: ParseNodeID_def NodeID_String_def CutPrefix_def HasPrefix_def
      ParseUint_Sprintf_08x)

lemma ParseUserID_MakeUserID [simp]: "ParseUserID (MakeUserID n) = (n, None)"
  by (simp add: ParseUserID_def MakeUserID_def ParseUint_Sprintf_08x)

lemma bar_notin_Sprintf_d: "CHR ''|'' \<notin> set (Sprintf_d w)"
  using Sprintf_d_alnum separators_not_alnum by blast

lemma ParseMessageID_MakeMessageID [simp]:
  "ParseMessageID (MakeMessageID s p) = ((s, p), None)"
  by (simp add: ParseMessageID_def MakeMessageID_def separatorMessageID_def
      Cut_single bar_notin_Sprintf_d ParseUint_Sprintf_d)

lemma separators_notin_NodeID_String:
  "CHR ''|'' \<notin> set (NodeID_String n)" "CHR ''^'' \<notin> set (NodeID_String n)"
  using Sprintf_08x_alnum [of n] separators_not_alnum by (auto simp: NodeID_String_def)

lemma ParseDMPortalID_MakeDMPortalID [simp]:
  "ParseDMPortalID (MakeDMPortalID r s) = ((r, s), None)"
  by (simp add: ParseDMPortalID_def MakeDMPortalID_def separatorDMPortalID_def
      Split_single_two separators_notin_NodeID_String)

interpretation node_string: codec NodeID_String ParseNodeID "\<lambda>_. True"
  by unfold_locales simp

interpretation user_id: codec MakeUserID ParseUserID "\<lambda>_. True"
  by unfold_locales simp

interpretation message_id:
  codec "\<lambda>(s, p). MakeMessageID s p" ParseMessageID "\<lambda>_. True"
  by unfold_locales auto

interpretation dm_portal:
  codec "\<lambda>(r, s). MakeDMPortalID r s" ParseDMPortalID "\<lambda>_. True"
  by unfold_locales auto

text \<open>
  A channel portal identifier is read back when the separator cannot be found too early (the
  name neither contains it nor ends in a bar) and not a second time (the key does not contain
  it).  Keys are base64, so the second condition always holds for them.
\<close>

definition portal_name_ok :: "string \<Rightarrow> bool" where
  "portal_name_ok name \<longleftrightarrow>
     Cut name separatorPortalID = None \<and> (name = [] \<or> last name \<noteq> CHR ''|'')"

definition portal_parts_ok :: "string \<times> string \<Rightarrow> bool" where
  "portal_parts_ok nk \<longleftrightarrow> portal_name_ok (fst nk) \<and> Cut (snd nk) separatorPortalID = None"

lemma Cut_finds: "HasPrefix (drop i s) sep \<Longrightarrow> i \<le> length s \<Longrightarrow> Cut s sep \<noteq> None"
proof (induction s arbitrary: i)
  case Nil
  then show ?case by (cases sep) (auto simp: HasPrefix_def)
next
  case (Cons c s)
  show ?case
  proof (cases i)
    case 0
    with Cons.prems show ?thesis by simp
  next
    case (Suc j)
    with Cons have "Cut s sep \<noteq> None" by simp
    then show ?thesis by auto
  qed
qed

lemma portal_separator_not_early:
  assumes ok: "portal_name_ok name" and i: "i < length name"
  shows "\<not> HasPrefix (drop i (name @ separatorPortalID @ key)) separatorPortalID"
proof
  assume "HasPrefix (drop i (name @ separatorPortalID @ key)) separatorPortalID"
  then have bars: "take 3 (drop i (name @ ''|||'' @ key)) = ''|||''"
    by (simp add: HasPrefix_def separatorPortalID_def numeral_3_eq_3)
  show False
  proof (cases "i + 3 \<le> length name")
    case True
    with bars have "HasPrefix (drop i name) separatorPortalID"
      by (simp add: HasPrefix_def separatorPortalID_def numeral_3_eq_3)
    with i Cut_finds [of i name separatorPortalID] ok show False
      by (simp add: portal_name_ok_def)
  next
    case False
    let ?k = "length name - 1 - i"
    have k: "?k < 3" "?k < length (drop i name)" using False i by auto
    have "last name = drop i name ! ?k"
      using i last_conv_nth [of name] by force
    also have "\<dots> = take 3 (drop i (name @ ''|||'' @ key)) ! ?k"
      using k i by (simp add: nth_append)
    also have "\<dots> = CHR ''|''"
      using k(1) bars by (auto simp: less_Suc_eq numeral_3_eq_3)
    finally show False using ok i by (auto simp: portal_name_ok_def)
  qed
qed

lemma ParsePortalID_append:
  assumes "portal_parts_ok (name, key)"
  shows "ParsePortalID (name @ separatorPortalID @ key) = ((name, key), None)"
proof -
  have "Cut (name @ separatorPortalID @ key) separatorPortalID = Some (name, key)"
    using assms portal_separator_not_early [of name _ key]
    by (intro Cut_append) (auto simp: portal_parts_ok_def separatorPortalID_def)
  moreover have "Cut key separatorPortalID = None"
    using assms by (simp add: portal_parts_ok_def)
  moreover have "separatorPortalID \<noteq> []" by (simp add: separatorPortalID_def)
  ultimately have "Split (name @ separatorPortalID @ key) separatorPortalID = [name, key]"
    by (simp add: Split.simps [of "name @ separatorPortalID @ key"] Split.simps [of key])
  then show ?thesis by (simp add: ParsePortalID_def)
qed

interpretation channel_portal:
  codec "\<lambda>(n, k). MakePortalID n (Some k)" ParsePortalID portal_parts_ok
  by unfold_locales (auto simp: MakePortalID_def ParsePortalID_append)

lemma MakePortalID_None: "MakePortalID n None = MakePortalID n (Some [])"
  by (simp add: MakePortalID_def)

section \<open>The two kinds of portal identifiers\<close>

text \<open>Only digits (after an optional exclamation mark) parse as a node number.\<close>

lemma ParseUint_loop_None:
  "ParseUint_loop b m n s = (v, None) \<Longrightarrow> c \<in> set s \<Longrightarrow> digit_val c \<noteq> None"
  by (induction s arbitrary: n) (auto split: option.splits if_splits)

lemma ParseNodeID_None_chars:
  assumes "ParseNodeID s = (n, None)" shows "CHR ''|'' \<notin> set s"
proof -
  let ?v = "fst (CutPrefix s ''!'')"
  obtain v where "ParseUint ?v 16 32 = (v, None)"
    using assms by (auto simp: ParseNodeID_def Let_def split: prod.splits option.splits)
  then obtain m where "ParseUint_loop 16 m 0 ?v = (v, None)"
    by (auto simp: ParseUint_def split: if_splits)
  moreover have "digit_val (CHR ''|'') = None" by (simp add: digit_val_def)
  ultimately have "CHR ''|'' \<notin> set ?v" using ParseUint_loop_None by fastforce
  moreover have "set s \<subseteq> insert (CHR ''!'') (set ?v)"
    by (cases s) (auto simp: CutPrefix_def HasPrefix_def)
  ultimately show ?thesis by auto
qed

lemma ParseDMPortalID_None_chars:
  assumes "ParseDMPortalID s = (rs, None)" shows "CHR ''|'' \<notin> set s"
proof -
  obtain p q where parts: "Split s separatorDMPortalID = [p, q]"
    using assms by (auto simp: ParseDMPortalID_def Let_def length_Suc_conv numeral_2_eq_2
        split: if_splits)
  have "CHR ''|'' \<notin> set p" "CHR ''|'' \<notin> set q"
    using assms parts
    by (auto simp: ParseDMPortalID_def split: prod.splits option.splits
        dest: ParseNodeID_None_chars)
  then show ?thesis
    using parts Join_Split [of s separatorDMPortalID] by (auto simp: separatorDMPortalID_def)
qed

lemma channel_not_dm: "snd (ParseDMPortalID (MakePortalID n k)) \<noteq> None"
proof
  assume "snd (ParseDMPortalID (MakePortalID n k)) = None"
  then have "ParseDMPortalID (MakePortalID n k) = (fst (ParseDMPortalID (MakePortalID n k)), None)"
    by (metis prod.collapse)
  then have "CHR ''|'' \<notin> set (MakePortalID n k)" by (rule ParseDMPortalID_None_chars)
  then show False by (auto simp: MakePortalID_def separatorPortalID_def split: option.splits)
qed

lemma Cut_None_notin: "CHR ''|'' \<notin> set s \<Longrightarrow> Cut s separatorPortalID = None"
  using Cut_Some [of s separatorPortalID]
  by (cases "Cut s separatorPortalID") (auto simp: separatorPortalID_def)

lemma dm_not_channel: "snd (ParsePortalID (MakeDMPortalID r s)) \<noteq> None"
proof -
  have "CHR ''|'' \<notin> set (MakeDMPortalID r s)"
    using separators_notin_NodeID_String by (auto simp: MakeDMPortalID_def separatorDMPortalID_def)
  then have "Split (MakeDMPortalID r s) separatorPortalID = [MakeDMPortalID r s]"
    by (subst Split.simps) (simp add: Cut_None_notin)
  then show ?thesis by (simp add: ParsePortalID_def separatorPortalID_def)
qed

section \<open>Default names\<close>

lemma length_NodeID_String [simp]: "length (NodeID_String n) = 9"
  by (simp add: NodeID_String_def)

lemma default_names_length:
  "length (snd (GetDefaultNodeNames n)) = 4" "length (fst (GetDefaultNodeNames n)) = 15"
  by (simp_all add: GetDefaultNodeNames_def Let_def)

section \<open>Properties\<close>

text \<open>
  C32: a node number survives both of its text forms, the one shown to users
  (\<^verbatim>\<open>!%08x\<close>) and the one used for ghosts, and different nodes have different texts.
\<close>

theorem node_ids_roundtrip:
  "ParseNodeID (NodeID_String n) = (n, None) \<and> ParseUserID (MakeUserID n) = (n, None) \<and>
   (NodeID_String n = NodeID_String m) = (n = m) \<and> (MakeUserID n = MakeUserID m) = (n = m)"
  using node_string.enc_eq_iff [of n m] user_id.enc_eq_iff [of n m] by simp

text \<open>
  C33: a message identifier gives back the channel or sender it was made from, whatever
  characters the name has, and the packet number; so two messages share one only if both agree.
\<close>

theorem message_ids_roundtrip:
  "ParseMessageID (MakeMessageID s p) = ((s, p), None) \<and>
   (MakeMessageID s p = MakeMessageID s' p') = (s = s' \<and> p = p')"
  using message_id.enc_eq_iff [of "(s, p)" "(s', p')"] by auto

text \<open>
  The two kinds of portal identifiers cannot be confused.  One made for a direct chat reads
  back as its two nodes and is refused as a channel; one made for a channel is refused as a
  direct chat.
\<close>

lemma portal_kinds_apart:
  "ParseDMPortalID (MakeDMPortalID r s) = ((r, s), None) \<and>
   snd (ParsePortalID (MakeDMPortalID r s)) \<noteq> None \<and> snd (ParseDMPortalID (MakePortalID n k)) \<noteq> None"
  using dm_portal.dec_enc [of "(r, s)"] dm_not_channel channel_not_dm by simp

text \<open>
  A channel portal identifier reads back as the channel's name and key, and distinct
  channels get distinct identifiers, for names that neither contain the separator nor end in
  its character and keys that do not contain it.
\<close>

lemma channel_portal_roundtrip:
  assumes "portal_parts_ok (n, k)" "portal_parts_ok (n', k')"
  shows "ParsePortalID (MakePortalID n (Some k)) = ((n, k), None) \<and>
         (MakePortalID n (Some k) = MakePortalID n' (Some k')) = (n = n' \<and> k = k')"
  using channel_portal.dec_enc [OF assms(1)] channel_portal.enc_eq_iff [OF assms] by simp

end
