(* ===== verification/Channel_Def.thy ===== *)
theory Channel_Def
  imports Mesh_Ids
begin

text \<open>
  Channel definitions, \<^verbatim>\<open>pkg/meshid/channel_def.go\<close>: a name with its key in two forms, the
  bytes used for encryption and the shortest base64 text that stands for them.  The radio
  library (\<^verbatim>\<open>github.com/meshnet-gophers/meshtastic-go/radio\<close>) is outside the repository: its
  key parser, default key, channel hash and ciphers are the fields of a record that every
  definition using them takes as an argument.
\<close>

section \<open>The radio library as a parameter\<close>

record radio =
  ParseKey :: "string \<Rightarrow> go_error + bytes"
  DefaultKey :: bytes
  ChannelHash :: "string \<Rightarrow> bytes \<Rightarrow> 32 word \<times> go_error option"
  radio_XOR :: "bytes \<Rightarrow> bytes \<Rightarrow> 32 word \<Rightarrow> 32 word \<Rightarrow> go_error + bytes"
  EncryptCurve25519 ::
    "bytes \<Rightarrow> bytes \<Rightarrow> bytes \<Rightarrow> 32 word \<Rightarrow> 32 word \<Rightarrow> go_error + bytes"

text \<open>
  What the channel code relies on: \<^verbatim>\<open>ParseKey\<close> reads standard base64, and the default key is
  a key of more than one byte that ends in 1 (the public Meshtastic key, written \<open>AQ==\<close> in
  its short form, is \<^verbatim>\<open>1PG7OiApB1nwvP+rz05pAQ==\<close>).
\<close>

definition radio_keys_ok :: "'z radio_scheme \<Rightarrow> bool" where
  "radio_keys_ok r \<longleftrightarrow>
     (\<forall>k. k \<noteq> [] \<longrightarrow> ParseKey r (base64_EncodeToString k) = Inr k) \<and>
     1 < length (DefaultKey r) \<and> byte_val (last (DefaultKey r)) = 1"

section \<open>channel\_def.go\<close>

record ChannelDef =
  cd_name :: string
  cd_key :: "string option"
  cd_keyBytes :: bytes

text \<open>
  The last byte is bumped in \<^verbatim>\<open>uint8\<close> arithmetic.  Go's \<^verbatim>\<open>nil\<close> slice and an empty slice
  are told apart nowhere in the sources, so both are the empty list.
\<close>

definition expandShortPSK :: "'z radio_scheme \<Rightarrow> bytes \<Rightarrow> bytes" where
  "expandShortPSK r input =
     (if length input \<noteq> 1 then []
      else
        let pskIndex = byte_val (input ! 0) in
        if pskIndex = 0 then []
        else
          let psk = DefaultKey r; i = length psk - 1
          in psk[i := char_of ((byte_val (psk ! i) + (pskIndex - 1)) mod 256)])"

definition tryCompactKey :: "'z radio_scheme \<Rightarrow> bytes \<Rightarrow> string option" where
  "tryCompactKey r keyBytes =
     (let kbLen = length keyBytes; dkLen = length (DefaultKey r) in
      if kbLen = 0 then None
      else
        let encoded =
          (if kbLen = dkLen \<and> take (kbLen - 1) keyBytes = take (dkLen - 1) (DefaultKey r)
           then drop (kbLen - 1) keyBytes else keyBytes)
        in Some (base64_EncodeToString encoded))"

definition NewChannelDef ::
  "'z radio_scheme \<Rightarrow> string \<Rightarrow> string option \<Rightarrow> go_error + ChannelDef" where
  "NewChannelDef r name publicKey =
     (case (case publicKey of
              None \<Rightarrow> Inr []
            | Some k \<Rightarrow>
                (if k = [] then Inr []
                 else case ParseKey r k of
                   Inl err \<Rightarrow> Inl err
                 | Inr keyBytes \<Rightarrow>
                     Inr (if length keyBytes = 1 then expandShortPSK r keyBytes else keyBytes))) of
        Inl err \<Rightarrow> Inl err
      | Inr keyBytes \<Rightarrow>
          Inr \<lparr>cd_name = name, cd_key = tryCompactKey r keyBytes, cd_keyBytes = keyBytes\<rparr>)"

definition GetName :: "ChannelDef \<Rightarrow> string" where
  "GetName c = cd_name c"

definition GetKeyString :: "ChannelDef \<Rightarrow> string" where
  "GetKeyString c = (case cd_key c of None \<Rightarrow> [] | Some k \<Rightarrow> k)"

definition GetKeyBytes :: "ChannelDef \<Rightarrow> bytes" where
  "GetKeyBytes c = cd_keyBytes c"

definition ChannelDefFromPortalID :: "'z radio_scheme \<Rightarrow> string \<Rightarrow> go_error + ChannelDef" where
  "ChannelDefFromPortalID r portalID =
     (case ParsePortalID portalID of
        (_, Some err) \<Rightarrow> Inl err
      | ((name, key), None) \<Rightarrow> NewChannelDef r name (Some key))"

lemmas channel_getters = GetName_def GetKeyString_def GetKeyBytes_def

section \<open>Key forms\<close>

lemma list_update_last:
  "xs \<noteq> [] \<Longrightarrow> xs[length xs - 1 := x] = butlast xs @ [x]"
  by (induction xs) (auto split: nat.splits)

lemma expandShortPSK_index:
  assumes "radio_keys_ok r" "0 < byte_val c"
  shows "expandShortPSK r [c] = butlast (DefaultKey r) @ [c]"
proof -
  let ?i = "length (DefaultKey r) - 1"
  have ne: "DefaultKey r \<noteq> []" using assms(1) by (auto simp: radio_keys_ok_def)
  have "byte_val (DefaultKey r ! ?i) = 1"
    using assms(1) ne by (simp add: radio_keys_ok_def last_conv_nth)
  then have "(byte_val (DefaultKey r ! ?i) + (byte_val c - 1)) mod 256 = byte_val c"
    using assms(2) byte_val_lt [of c] by simp
  then have "expandShortPSK r [c] = (DefaultKey r)[?i := char_of (byte_val c)]"
    using assms(2) by (simp only: expandShortPSK_def Let_def) simp
  then show ?thesis by (simp add: list_update_last [OF ne, simplified])
qed

lemma expandShortPSK_zero: "byte_val c = 0 \<Longrightarrow> expandShortPSK r [c] = []"
  by (simp add: expandShortPSK_def)

lemma expandShortPSK_length:
  "length (expandShortPSK r k) = 0 \<or> length (expandShortPSK r k) = length (DefaultKey r)"
  by (simp add: expandShortPSK_def Let_def)

text \<open>The keys whose short form is a single byte, and the two shapes of the key text.\<close>

definition defaultLike :: "'z radio_scheme \<Rightarrow> bytes \<Rightarrow> bool" where
  "defaultLike r k \<longleftrightarrow>
     length k = length (DefaultKey r) \<and> butlast k = butlast (DefaultKey r)"

lemma tryCompactKey_cases:
  assumes "k \<noteq> []"
  shows "tryCompactKey r k =
    Some (base64_EncodeToString (if defaultLike r k then [last k] else k))"
proof -
  have "drop (length k - 1) k = [last k]"
    using assms by (cases k rule: rev_cases) auto
  then show ?thesis
    using assms by (auto simp: tryCompactKey_def Let_def defaultLike_def butlast_conv_take)
qed

lemma tryCompactKey_Nil [simp]: "tryCompactKey r [] = None"
  by (simp add: tryCompactKey_def)

text \<open>Every definition has the key text of its bytes, and never a one-byte key.\<close>

definition channel_wf :: "'z radio_scheme \<Rightarrow> ChannelDef \<Rightarrow> bool" where
  "channel_wf r c \<longleftrightarrow>
     cd_key c = tryCompactKey r (cd_keyBytes c) \<and> length (cd_keyBytes c) \<noteq> 1"

lemma NewChannelDef_wf:
  assumes "radio_keys_ok r" "NewChannelDef r n k = Inr c"
  shows "channel_wf r c" "GetName c = n"
proof -
  have "length (expandShortPSK r b) \<noteq> 1" for b
    using expandShortPSK_length [of r b] assms(1) by (auto simp: radio_keys_ok_def)
  then show "channel_wf r c" "GetName c = n"
    using assms(2)
    by (auto simp: NewChannelDef_def channel_wf_def GetName_def
        split: option.splits if_splits sum.splits)
qed

lemma NewChannelDef_parsed:
  assumes "s \<noteq> []" "ParseKey r s = Inr e"
    and "(if length e = 1 then expandShortPSK r e else e) = k"
  shows "NewChannelDef r n (Some s) = Inr \<lparr>cd_name = n, cd_key = tryCompactKey r k, cd_keyBytes = k\<rparr>"
  using assms by (simp add: NewChannelDef_def)

lemma NewChannelDef_keyString:
  assumes ok: "radio_keys_ok r" and wf: "channel_wf r c"
    and nz: "defaultLike r (cd_keyBytes c) \<Longrightarrow> 0 < byte_val (last (cd_keyBytes c))"
  shows "NewChannelDef r (GetName c) (Some (GetKeyString c)) = Inr c"
proof (cases "cd_keyBytes c = []")
  case True
  with wf show ?thesis
    by (simp add: NewChannelDef_def channel_getters channel_wf_def)
next
  case False
  let ?k = "cd_keyBytes c"
  let ?e = "if defaultLike r ?k then [last ?k] else ?k"
  have str: "cd_key c = Some (base64_EncodeToString ?e)"
    using wf False by (simp add: channel_wf_def tryCompactKey_cases)
  have parse: "ParseKey r (base64_EncodeToString ?e) = Inr ?e"
    using ok False by (simp add: radio_keys_ok_def)
  have expand: "(if length ?e = 1 then expandShortPSK r ?e else ?e) = ?k"
  proof (cases "defaultLike r ?k")
    case True
    with ok nz have "expandShortPSK r [last ?k] = butlast ?k @ [last ?k]"
      by (simp add: expandShortPSK_index defaultLike_def)
    with True False show ?thesis by simp
  next
    case False
    with wf show ?thesis by (simp add: channel_wf_def)
  qed
  have "NewChannelDef r (GetName c) (Some (base64_EncodeToString ?e))
      = Inr \<lparr>cd_name = GetName c, cd_key = tryCompactKey r ?k, cd_keyBytes = ?k\<rparr>"
    using NewChannelDef_parsed [OF _ parse expand] False by simp
  also have "\<dots> = Inr c" using wf by (simp add: channel_wf_def GetName_def)
  finally show ?thesis using str by (simp only: GetKeyString_def option.case)
qed

lemma cut_base64: "Cut (base64_EncodeToString k) separatorPortalID = None"
  by (rule Cut_None_notin) (rule base64_no_bar)

lemma GetKeyString_no_separator:
  assumes "channel_wf r c" shows "Cut (GetKeyString c) separatorPortalID = None"
proof (cases "cd_keyBytes c = []")
  case True
  with assms show ?thesis by (simp add: channel_wf_def GetKeyString_def separatorPortalID_def)
next
  case False
  then obtain e where "cd_key c = Some (base64_EncodeToString e)"
    using assms tryCompactKey_cases [of "cd_keyBytes c" r] by (auto simp: channel_wf_def)
  then show ?thesis by (simp add: GetKeyString_def cut_base64)
qed

section \<open>A radio library that meets the contract\<close>

text \<open>The public default key and the base64 decoder of \<^theory_text>\<open>Go_Encoding\<close>; the ciphers are the identity.\<close>

definition sample_radio :: radio where
  "sample_radio =
     \<lparr>ParseKey = (\<lambda>s. case base64_decode s of None \<Rightarrow> Inl (External ''illegal base64 data'') | Some b \<Rightarrow> Inr b),
      DefaultKey = map char_of [0xd4, 0xf1, 0xbb, 0x3a, 0x20, 0x29, 0x07, 0x59,
                                0xf0, 0xbc, 0xff, 0xab, 0xcf, 0x4e, 0x69, 0x01 :: nat],
      ChannelHash = (\<lambda>n k. (word_of_nat (length n + length k), None)),
      radio_XOR = (\<lambda>d k i f. Inr d),
      EncryptCurve25519 = (\<lambda>d p q i f. Inr d)\<rparr>"

lemma sample_radio_ok: "radio_keys_ok sample_radio"
  by (simp add: radio_keys_ok_def sample_radio_def base64_decode_EncodeToString byte_val_def)

section \<open>Properties\<close>

text \<open>
  C31: a channel survives its portal.  The identifier made from a channel's name and key text
  gives back the same channel, bytes and text, unless the name clashes with the separator or
  the key is the default key with its last byte zero.
\<close>

theorem channel_survives_portal:
  assumes "radio_keys_ok r" "NewChannelDef r n k = Inr c" "portal_name_ok n"
    and "defaultLike r (GetKeyBytes c) \<longrightarrow> 0 < byte_val (last (GetKeyBytes c))"
  shows "ChannelDefFromPortalID r (MakePortalID n (Some (GetKeyString c))) = Inr c"
proof -
  have wf: "channel_wf r c" and n: "GetName c = n" using NewChannelDef_wf [OF assms(1,2)] .
  have "portal_parts_ok (n, GetKeyString c)"
    using assms(3) GetKeyString_no_separator [OF wf] by (simp add: portal_parts_ok_def)
  then have "ParsePortalID (MakePortalID n (Some (GetKeyString c))) = ((n, GetKeyString c), None)"
    using channel_portal.dec_enc [of "(n, GetKeyString c)"] by simp
  moreover have "NewChannelDef r n (Some (GetKeyString c)) = Inr c"
    using NewChannelDef_keyString [OF assms(1) wf] assms(4) n by (simp add: GetKeyBytes_def)
  ultimately show ?thesis by (simp add: ChannelDefFromPortalID_def)
qed

theorem channel_survives_portal_witness:
  "ChannelDefFromPortalID sample_radio (MakePortalID ''Home'' (Some [])) =
     Inr \<lparr>cd_name = ''Home'', cd_key = None, cd_keyBytes = []\<rparr>"
proof -
  have new: "NewChannelDef sample_radio ''Home'' None = Inr \<lparr>cd_name = ''Home'', cd_key = None, cd_keyBytes = []\<rparr>"
    by (simp add: NewChannelDef_def)
  show ?thesis
    using channel_survives_portal [OF sample_radio_ok new]
    by (simp add: portal_name_ok_def separatorPortalID_def HasPrefix_def defaultLike_def
        sample_radio_def channel_getters)
qed

text \<open>
  The exception is real.  A full-length key that differs from the default key only in a
  last byte of zero is shortened to that byte, and its text reads back as no key at all: the
  channel restored from it encrypts with an empty key.
\<close>

lemma zero_tail_key_lost:
  assumes "radio_keys_ok r" "NewChannelDef r n k = Inr c" "defaultLike r (GetKeyBytes c)"
    and "GetKeyBytes c \<noteq> []" "byte_val (last (GetKeyBytes c)) = 0"
  shows "NewChannelDef r n (Some (GetKeyString c)) = Inr \<lparr>cd_name = n, cd_key = None, cd_keyBytes = []\<rparr>"
proof -
  let ?e = "[last (GetKeyBytes c)]"
  have key: "GetKeyString c = base64_EncodeToString ?e"
    using NewChannelDef_wf(1) [OF assms(1,2)] assms(3,4)
    by (simp add: channel_wf_def channel_getters tryCompactKey_cases)
  have "ParseKey r (base64_EncodeToString ?e) = Inr ?e"
    using assms(1) unfolding radio_keys_ok_def by blast
  moreover have "expandShortPSK r ?e = []" using assms(5) by (rule expandShortPSK_zero)
  moreover have "base64_EncodeToString ?e \<noteq> []" by simp
  ultimately show ?thesis
    unfolding key using NewChannelDef_parsed [of "base64_EncodeToString ?e" r ?e "[]" n] by simp
qed

end
