(* ===== verification/Go_Float.thy ===== *)
theory Go_Float
  imports Mesh_Prelude Complex_Main
begin

text \<open>
  Go's floating-point numbers, exactly: a finite value is the rational it denotes, and every
  operation rounds the exact result to the nearest representable value, ties to even (IEEE 754).
  Positive and negative zero are one value: the modelled code only compares, converts and
  multiplies, and none of these tell them apart.
\<close>

section \<open>Values\<close>

datatype gofloat = Fin rat | PosInf | NegInf | NaN

section \<open>Rounding\<close>

definition pow2 :: "int \<Rightarrow> rat" where
  "pow2 e = (if 0 \<le> e then 2 ^ nat e else 1 / 2 ^ nat (- e))"

fun bitlen :: "nat \<Rightarrow> nat" where
  "bitlen n = (if n = 0 then 0 else Suc (bitlen (n div 2)))"

declare bitlen.simps [simp del]

text \<open>The exponent of a positive rational: \<open>2 ^ e \<le> x < 2 ^ (e + 1)\<close>.\<close>

definition exponent :: "rat \<Rightarrow> int" where
  "exponent x =
     (let (n, d) = quotient_of x;
          k = int (bitlen (nat n)) - int (bitlen (nat d))
      in if pow2 k \<le> x then k else k - 1)"

definition round_half_even :: "rat \<Rightarrow> int" where
  "round_half_even x =
     (let f = \<lfloor>x\<rfloor>; r = x - of_int f
      in if r < 1 / 2 then f else if 1 / 2 < r then f + 1 else if even f then f else f + 1)"

text \<open>\<open>p\<close> bits of precision, exponents from \<open>emin\<close> to \<open>emax\<close>.\<close>

definition float_round :: "int \<Rightarrow> int \<Rightarrow> int \<Rightarrow> rat \<Rightarrow> gofloat" where
  "float_round p emin emax x =
     (if x = 0 then Fin 0
      else
        let e = max (exponent \<bar>x\<bar>) emin;
            q = pow2 (e - (p - 1));
            v = of_int (round_half_even (\<bar>x\<bar> / q)) * q
        in if pow2 (emax + 1) \<le> v then (if 0 < x then PosInf else NegInf)
           else Fin (if 0 < x then v else - v))"

definition float32_round :: "rat \<Rightarrow> gofloat" where
  "float32_round = float_round 24 (-126) 127"

definition float64_round :: "rat \<Rightarrow> gofloat" where
  "float64_round = float_round 53 (-1022) 1023"

section \<open>Operations\<close>

text \<open>\<^verbatim>\<open>float32(n)\<close> of an integer, and products; \<open>rnd\<close> is the rounding of the format.\<close>

definition float32_of_int :: "int \<Rightarrow> gofloat" where
  "float32_of_int n = float32_round (of_int n)"

definition float_neg :: "gofloat \<Rightarrow> gofloat" where
  "float_neg x = (case x of Fin r \<Rightarrow> Fin (- r) | PosInf \<Rightarrow> NegInf | NegInf \<Rightarrow> PosInf | NaN \<Rightarrow> NaN)"

definition float_mul_inf :: "rat \<Rightarrow> gofloat" where
  "float_mul_inf r = (if r = 0 then NaN else if 0 < r then PosInf else NegInf)"

fun float_mul :: "(rat \<Rightarrow> gofloat) \<Rightarrow> gofloat \<Rightarrow> gofloat \<Rightarrow> gofloat" where
  "float_mul rnd (Fin a) (Fin b) = rnd (a * b)"
| "float_mul rnd NaN _ = NaN"
| "float_mul rnd _ NaN = NaN"
| "float_mul rnd PosInf (Fin b) = float_mul_inf b"
| "float_mul rnd NegInf (Fin b) = float_neg (float_mul_inf b)"
| "float_mul rnd (Fin a) PosInf = float_mul_inf a"
| "float_mul rnd (Fin a) NegInf = float_neg (float_mul_inf a)"
| "float_mul rnd PosInf PosInf = PosInf"
| "float_mul rnd NegInf NegInf = PosInf"
| "float_mul rnd PosInf NegInf = NegInf"
| "float_mul rnd NegInf PosInf = NegInf"

definition float32_mul :: "gofloat \<Rightarrow> gofloat \<Rightarrow> gofloat" where
  "float32_mul = float_mul float32_round"

definition float64_mul :: "gofloat \<Rightarrow> gofloat \<Rightarrow> gofloat" where
  "float64_mul = float_mul float64_round"

text \<open>Comparison with a constant: \<^verbatim>\<open>x >= c\<close> and \<^verbatim>\<open>x == c\<close>; a NaN compares false.\<close>

definition float_ge :: "gofloat \<Rightarrow> rat \<Rightarrow> bool" where
  "float_ge x c = (case x of Fin r \<Rightarrow> c \<le> r | PosInf \<Rightarrow> True | NegInf \<Rightarrow> False | NaN \<Rightarrow> False)"

definition float_eq :: "gofloat \<Rightarrow> rat \<Rightarrow> bool" where
  "float_eq x c = (x = Fin c)"

text \<open>
  \<^verbatim>\<open>int32(x)\<close> truncates towards zero.  Where the truncated value does not fit, the language
  leaves the result to the implementation: \<open>oor\<close> is that choice.
\<close>

definition rat_trunc :: "rat \<Rightarrow> int" where
  "rat_trunc r = (if 0 \<le> r then \<lfloor>r\<rfloor> else - \<lfloor>- r\<rfloor>)"

definition int32_of_float :: "(gofloat \<Rightarrow> 32 word) \<Rightarrow> gofloat \<Rightarrow> 32 word" where
  "int32_of_float oor x =
     (case x of
        Fin r \<Rightarrow>
          (let n = rat_trunc r
           in if - (2 ^ 31) \<le> n \<and> n < 2 ^ 31 then word_of_int n else oor x)
      | _ \<Rightarrow> oor x)"

definition uint32_of_float :: "(gofloat \<Rightarrow> 32 word) \<Rightarrow> gofloat \<Rightarrow> 32 word" where
  "uint32_of_float oor x =
     (case x of
        Fin r \<Rightarrow>
          (let n = rat_trunc r in if 0 \<le> n \<and> n < 2 ^ 32 then word_of_int n else oor x)
      | _ \<Rightarrow> oor x)"

text \<open>
  \<^verbatim>\<open>Duration.Seconds()\<close>: whole seconds plus the nanoseconds divided by \<open>1e9\<close>, in \<^verbatim>\<open>float64\<close>.
\<close>

definition Duration_Seconds :: "duration \<Rightarrow> gofloat" where
  "Duration_Seconds d =
     (let sec = d div Second; nsec = d mod Second in
      case float64_round (of_int nsec / of_int Second) of
        Fin r \<Rightarrow> float64_round (of_int sec + r)
      | x \<Rightarrow> x)"

section \<open>Small integers are exact\<close>

lemma bitlen_bounds: "0 < n \<Longrightarrow> 2 ^ (bitlen n - 1) \<le> n \<and> n < 2 ^ bitlen n \<and> 0 < bitlen n"
proof (induction n rule: bitlen.induct)
  case (1 n)
  show ?case
  proof (cases "n div 2 = 0")
    case True
    then have "n = 1" using "1.prems" by auto
    then show ?thesis by (simp add: bitlen.simps)
  next
    case False
    have b: "bitlen n = Suc (bitlen (n div 2))" using "1.prems" by (subst bitlen.simps) simp
    have IH: "2 ^ (bitlen (n div 2) - 1) \<le> n div 2" "n div 2 < 2 ^ bitlen (n div 2)"
      "0 < bitlen (n div 2)"
      using "1.IH" "1.prems" False by auto
    obtain k where k: "bitlen (n div 2) = Suc k" using IH(3) by (cases "bitlen (n div 2)") auto
    have "2 ^ Suc k \<le> n" using IH(1) k by simp
    moreover have "n < 2 ^ Suc (Suc k)" using IH(2) k by simp
    ultimately show ?thesis using b k by simp
  qed
qed

lemma pow2_of_nat: "pow2 (int k) = 2 ^ k"
  by (simp add: pow2_def)

lemma pow2_neg: "pow2 (- int k) = 1 / 2 ^ k"
  by (simp add: pow2_def)

lemma exponent_of_nat:
  assumes "0 < n" shows "exponent (of_nat n) = int (bitlen n) - 1"
proof -
  have q: "quotient_of (of_nat n) = (int n, 1)"
    by (simp add: of_nat_rat quotient_of_Fract)
  have one: "bitlen 1 = 1" by (simp add: bitlen.simps)
  let ?k = "bitlen n"
  obtain k where k: "?k = Suc k" using bitlen_bounds [OF assms] by (cases ?k) auto
  have "n < 2 ^ Suc k" and low: "2 ^ k \<le> n" using bitlen_bounds [OF assms] k by auto
  have "(2::rat) ^ k \<le> of_nat n" using low by (metis of_nat_le_iff of_nat_numeral of_nat_power)
  then have "pow2 (int k) \<le> (of_nat n :: rat)" by (simp add: pow2_of_nat)
  then show ?thesis using q one k by (simp add: exponent_def)
qed

lemma round_half_even_of_nat: "round_half_even (of_nat n) = int n"
  by (simp add: round_half_even_def)

lemma float32_exact_nat:
  assumes "n < 2 ^ 24" shows "float32_round (of_nat n) = Fin (of_nat n)"
proof (cases "n = 0")
  case True
  then show ?thesis by (simp add: float32_round_def float_round_def)
next
  case False
  then obtain k where k: "bitlen n = Suc k" and low: "2 ^ k \<le> n"
    using bitlen_bounds [of n] by (cases "bitlen n") auto
  have "(2::nat) ^ k < 2 ^ 24" using low assms by (rule order.strict_trans1)
  then have "k < 24" by (rule power_less_imp_less_exp [rotated]) simp
  then have "k \<le> 23" by simp
  then obtain j where j: "23 = k + j" using le_Suc_ex by blast
  have e: "exponent (of_nat n) = int k" using exponent_of_nat [of n] False k by simp
  have "int k - 23 = - int j" using j by linarith
  then have q: "pow2 (int k - 23) = 1 / 2 ^ j" by (simp add: pow2_neg)
  have "of_nat n / (1 / 2 ^ j) = (of_nat (n * 2 ^ j) :: rat)" by simp
  then have r: "round_half_even (of_nat n / (1 / 2 ^ j)) = int (n * 2 ^ j)"
    by (simp only: round_half_even_of_nat)
  have v: "of_int (int (n * 2 ^ j)) * (1 / 2 ^ j) = (of_nat n :: rat)" by simp
  have "(of_nat n :: rat) < of_nat (2 ^ 24)" using assms by (simp only: of_nat_less_iff)
  moreover have "of_nat (2 ^ 24) \<le> pow2 128" by (simp add: pow2_def)
  ultimately have "\<not> pow2 128 \<le> (of_nat n :: rat)" by simp
  with False e q r v show ?thesis
    by (simp add: float32_round_def float_round_def Let_def max_def)
qed

lemma float32_of_int_exact:
  "0 \<le> n \<Longrightarrow> n < 2 ^ 24 \<Longrightarrow> float32_of_int n = Fin (of_int n)"
  using float32_exact_nat [of "nat n"] by (simp add: float32_of_int_def nat_less_iff)

section \<open>Where rounding stays finite\<close>

lemma pow2_powi: "pow2 e = 2 powi e"
  by (simp add: pow2_def power_int_def divide_simps)

lemma bitlen_powi:
  assumes "0 < n"
  shows "2 powi (int (bitlen n) - 1) \<le> (of_nat n :: rat)" "(of_nat n :: rat) < 2 powi int (bitlen n)"
proof -
  obtain k where k: "bitlen n = Suc k" using bitlen_bounds [OF assms] by (cases "bitlen n") auto
  have "2 ^ k \<le> n" "n < 2 ^ Suc k" using bitlen_bounds [OF assms] k by auto
  then have "of_nat (2 ^ k) \<le> (of_nat n :: rat)" "(of_nat n :: rat) < of_nat (2 ^ Suc k)"
    by (simp_all only: of_nat_le_iff of_nat_less_iff)
  then show "2 powi (int (bitlen n) - 1) \<le> (of_nat n :: rat)" "(of_nat n :: rat) < 2 powi int (bitlen n)"
    unfolding power_int_of_nat k by simp_all
qed

lemma exponent_bounds:
  assumes "0 < x"
  shows "pow2 (exponent x) \<le> x" "x < pow2 (exponent x + 1)"
proof -
  obtain n d where q: "quotient_of x = (n, d)" by fastforce
  define N D where "N = nat n" and "D = nat d"
  have "0 < d" "x = of_int n / of_int d" using quotient_of_denom_pos [OF q] quotient_of_div [OF q] by auto
  moreover from this assms have "0 < n" by (simp add: zero_less_divide_iff)
  ultimately have x: "x = of_nat N / of_nat D" and pos: "0 < N" "0 < D" by (simp_all add: N_def D_def)
  define a b where "a = int (bitlen N)" and "b = int (bitlen D)"
  note N = bitlen_powi [OF pos(1), folded a_def] and D = bitlen_powi [OF pos(2), folded b_def]
  have "2 powi (a - b - 1) = (2 powi (a - 1) / 2 powi b :: rat)"
    by (simp add: algebra_simps flip: power_int_diff)
  also have "\<dots> \<le> x" unfolding x using N(1) D(2) pos by (intro frac_le) simp_all
  finally have low: "pow2 (a - b - 1) \<le> x" by (simp add: pow2_powi)
  have "x < 2 powi a / 2 powi (b - 1)" unfolding x using N(2) D(1) by (intro frac_less) simp_all
  also have "\<dots> = 2 powi (a - b + 1)" by (simp add: algebra_simps flip: power_int_diff)
  finally have high: "x < pow2 (a - b + 1)" by (simp add: pow2_powi)
  have "exponent x = (if pow2 (a - b) \<le> x then a - b else a - b - 1)"
    by (simp add: exponent_def q Let_def N_def D_def a_def b_def)
  with low high show "pow2 (exponent x) \<le> x" "x < pow2 (exponent x + 1)" by (auto split: if_splits)
qed

lemma pow2_mono: "i \<le> j \<Longrightarrow> pow2 i \<le> pow2 j"
  by (simp add: pow2_powi power_int_increasing)

lemma exponent_less:
  assumes "0 < x" "x < pow2 k"
  shows "exponent x < k"
proof (rule ccontr)
  assume "\<not> exponent x < k"
  then have "pow2 k \<le> pow2 (exponent x)" by (intro pow2_mono) simp
  with exponent_bounds(1) [OF assms(1)] assms(2) show False by simp
qed

lemma exponent_ge:
  assumes "0 < x" "pow2 k \<le> x"
  shows "k \<le> exponent x"
proof (rule ccontr)
  assume "\<not> k \<le> exponent x"
  then have "pow2 (exponent x + 1) \<le> pow2 k" by (intro pow2_mono) simp
  with exponent_bounds(2) [OF assms(1)] assms(2) show False by simp
qed

lemma round_half_even_le: "of_int (round_half_even x) \<le> x + 1"
proof -
  have "round_half_even x \<le> \<lfloor>x\<rfloor> + 1" by (simp add: round_half_even_def Let_def)
  then show ?thesis by linarith
qed

text \<open>Nothing below \<open>2 ^ 25\<close> overflows.\<close>

lemma float32_round_finite:
  assumes "\<bar>x\<bar> < 2 ^ 25"
  shows "\<exists>s. float32_round x = Fin s"
proof (cases "x = 0")
  case False
  define q where "q = pow2 (max (exponent \<bar>x\<bar>) (- 126) - 23)"
  have "exponent \<bar>x\<bar> < 25" using False assms by (intro exponent_less) (simp_all add: pow2_def)
  then have "q \<le> pow2 1" unfolding q_def by (intro pow2_mono) simp
  moreover have "0 < q" by (simp add: q_def pow2_powi)
  ultimately have "of_int (round_half_even (\<bar>x\<bar> / q)) * q \<le> \<bar>x\<bar> + 2"
    using mult_right_mono [OF round_half_even_le [of "\<bar>x\<bar> / q"], of q] by (simp add: pow2_def algebra_simps)
  moreover have "(2 :: rat) ^ 25 + 2 < pow2 128" by (simp add: pow2_def)
  ultimately have "\<not> pow2 128 \<le> of_int (round_half_even (\<bar>x\<bar> / q)) * q" using assms by linarith
  then show ?thesis using False by (simp add: float32_round_def float_round_def Let_def q_def)
qed (simp add: float32_round_def float_round_def)

text \<open>From \<open>2 ^ 24\<close> on, a \<^verbatim>\<open>float32\<close> is a whole number.\<close>

lemma float32_whole:
  assumes "float32_round r = Fin r" "2 ^ 24 \<le> \<bar>r\<bar>"
  shows "\<exists>n :: int. r = of_int n"
proof -
  let ?e = "max (exponent \<bar>r\<bar>) (- 126)"
  have "24 \<le> exponent \<bar>r\<bar>" using assms(2) by (intro exponent_ge) (auto simp: pow2_def)
  then obtain j where j: "?e - 23 = int j" using zero_le_imp_eq_int [of "?e - 23"] by auto
  have "\<bar>r\<bar> = of_int (round_half_even (\<bar>r\<bar> / pow2 (?e - 23))) * pow2 (?e - 23)"
    using assms by (auto simp: float32_round_def float_round_def Let_def split: if_splits)
  then have "\<bar>r\<bar> = of_int (round_half_even (\<bar>r\<bar> / pow2 (?e - 23)) * 2 ^ j)"
    unfolding j pow2_of_nat by simp
  then obtain n where "\<bar>r\<bar> = of_int n" by (rule that)
  then have "r = of_int n \<or> r = of_int (- n)" by auto
  then show ?thesis by blast
qed

end
