(* ===== verification/Go_Unicode.thy ===== *)
theory Go_Unicode
  imports Mesh_Prelude
begin

text \<open>
  UTF-8 as Go's \<^verbatim>\<open>unicode/utf8\<close> has it: \<^verbatim>\<open>string(r)\<close> of a rune, and the decoding that
  \<^verbatim>\<open>for _, r := range s\<close> performs, which yields \<open>U+FFFD\<close> and advances by one byte where the
  bytes are not a valid encoding.  Then \<^verbatim>\<open>pkg/connector/utils.go\<close>, which truncates a string
  to a number of runes.
\<close>

type_synonym rune = int

definition RuneError :: rune where "RuneError = 0xFFFD"

definition byte_of :: "int \<Rightarrow> char" where
  "byte_of n = char_of (nat n)"

definition EncodeRune_valid :: "rune \<Rightarrow> string" where
  "EncodeRune_valid r =
     (if r < 0x80 then [byte_of r]
      else if r < 0x800 then [byte_of (0xC0 + r div 64), byte_of (0x80 + r mod 64)]
      else if r < 0x10000 then
        [byte_of (0xE0 + r div 4096), byte_of (0x80 + r div 64 mod 64), byte_of (0x80 + r mod 64)]
      else
        [byte_of (0xF0 + r div 262144), byte_of (0x80 + r div 4096 mod 64),
         byte_of (0x80 + r div 64 mod 64), byte_of (0x80 + r mod 64)])"

definition valid_rune :: "rune \<Rightarrow> bool" where
  "valid_rune r \<longleftrightarrow> 0 \<le> r \<and> r \<le> 0x10FFFF \<and> \<not> (0xD800 \<le> r \<and> r \<le> 0xDFFF)"

text \<open>\<^verbatim>\<open>string(rune)\<close>: an invalid code point is encoded as \<open>U+FFFD\<close>.\<close>

definition EncodeRune :: "rune \<Rightarrow> string" where
  "EncodeRune r = EncodeRune_valid (if valid_rune r then r else RuneError)"

definition bval :: "char \<Rightarrow> int" where
  "bval c = of_char c"

definition cont :: "char \<Rightarrow> bool" where
  "cont c \<longleftrightarrow> 0x80 \<le> bval c \<and> bval c \<le> 0xBF"

text \<open>
  \<^verbatim>\<open>utf8.DecodeRuneInString\<close> on a non-empty string: the rune and its width in bytes.  The
  ranges of the second byte exclude overlong forms, surrogates and values past \<open>U+10FFFF\<close>.
\<close>

definition second_ok :: "int \<Rightarrow> char \<Rightarrow> bool" where
  "second_ok b0 c \<longleftrightarrow>
     (if b0 = 0xE0 then 0xA0 \<le> bval c \<and> bval c \<le> 0xBF
      else if b0 = 0xED then 0x80 \<le> bval c \<and> bval c \<le> 0x9F
      else if b0 = 0xF0 then 0x90 \<le> bval c \<and> bval c \<le> 0xBF
      else if b0 = 0xF4 then 0x80 \<le> bval c \<and> bval c \<le> 0x8F
      else cont c)"

fun DecodeRune :: "string \<Rightarrow> rune \<times> nat" where
  "DecodeRune [] = (RuneError, 0)"
| "DecodeRune (c0 # s) =
     (let b0 = bval c0 in
      if b0 < 0x80 then (b0, 1)
      else if 0xC2 \<le> b0 \<and> b0 \<le> 0xDF then
        (case s of c1 # _ \<Rightarrow>
           if cont c1 then ((b0 - 0xC0) * 64 + (bval c1 - 0x80), 2) else (RuneError, 1)
         | _ \<Rightarrow> (RuneError, 1))
      else if 0xE0 \<le> b0 \<and> b0 \<le> 0xEF then
        (case s of c1 # c2 # _ \<Rightarrow>
           if second_ok b0 c1 \<and> cont c2
           then ((b0 - 0xE0) * 4096 + (bval c1 - 0x80) * 64 + (bval c2 - 0x80), 3)
           else (RuneError, 1)
         | _ \<Rightarrow> (RuneError, 1))
      else if 0xF0 \<le> b0 \<and> b0 \<le> 0xF4 then
        (case s of c1 # c2 # c3 # _ \<Rightarrow>
           if second_ok b0 c1 \<and> cont c2 \<and> cont c3
           then ((b0 - 0xF0) * 262144 + (bval c1 - 0x80) * 4096 + (bval c2 - 0x80) * 64
                 + (bval c3 - 0x80), 4)
           else (RuneError, 1)
         | _ \<Rightarrow> (RuneError, 1))
      else (RuneError, 1))"

lemma DecodeRune_width:
  "s \<noteq> [] \<Longrightarrow> 0 < snd (DecodeRune s)" "snd (DecodeRune s) \<le> length s"
  by (cases s; auto simp: Let_def split: list.splits)+

text \<open>The runes of a string, in the order a \<^verbatim>\<open>range\<close> loop visits them.\<close>

function runes :: "string \<Rightarrow> rune list" where
  "runes s =
     (if s = [] then [] else fst (DecodeRune s) # runes (drop (snd (DecodeRune s)) s))"
  by pat_completeness auto
termination
  by (relation "measure length") (auto simp: DecodeRune_width)

declare runes.simps [simp del]

text \<open>
  \<^verbatim>\<open>strings.TrimSpace\<close>: the bytes of the runes, without the white space at either end.  The
  white space of \<^verbatim>\<open>unicode.IsSpace\<close> is encoded by valid sequences, which decode the same from the
  left and from the right.
\<close>

function rune_bytes :: "string \<Rightarrow> string list" where
  "rune_bytes s =
     (if s = [] then [] else take (snd (DecodeRune s)) s # rune_bytes (drop (snd (DecodeRune s)) s))"
  by pat_completeness auto
termination
  by (relation "measure length") (auto simp: DecodeRune_width)

declare rune_bytes.simps [simp del]

lemma concat_rune_bytes: "concat (rune_bytes s) = s"
proof (induction s rule: rune_bytes.induct)
  case (1 s)
  then show ?case by (subst rune_bytes.simps) simp
qed

definition IsSpace :: "rune \<Rightarrow> bool" where
  "IsSpace r \<longleftrightarrow>
     r \<in> {0x09, 0x0A, 0x0B, 0x0C, 0x0D, 0x20, 0x85, 0xA0, 0x1680, 0x2028, 0x2029, 0x202F, 0x205F, 0x3000} \<or>
     0x2000 \<le> r \<and> r \<le> 0x200A"

definition TrimSpace :: "string \<Rightarrow> string" where
  "TrimSpace s =
     (let space = (\<lambda>bs. IsSpace (fst (DecodeRune bs)))
      in concat (rev (dropWhile space (rev (dropWhile space (rune_bytes s))))))"

section \<open>utils.go\<close>

text \<open>\<^verbatim>\<open>TruncateString\<close>: the loop appends each visited rune, re-encoded, and counts runes.\<close>

fun TruncateString_loop :: "rune list \<Rightarrow> int \<Rightarrow> int \<Rightarrow> string \<Rightarrow> string" where
  "TruncateString_loop [] len count truncated = truncated"
| "TruncateString_loop (c # cs) len count truncated =
     (let truncated = truncated @ EncodeRune c; count = count + 1
      in if count \<ge> len then truncated else TruncateString_loop cs len count truncated)"

definition TruncateString :: "string \<Rightarrow> int \<Rightarrow> string" where
  "TruncateString str len = (if len \<le> 0 then [] else TruncateString_loop (runes str) len 0 [])"

lemma TruncateString_loop_eq:
  "count < len \<Longrightarrow> TruncateString_loop rs len count acc
     = acc @ concat (map EncodeRune (take (nat (len - count)) rs))"
proof (induction rs arbitrary: count acc)
  case Nil
  then show ?case by simp
next
  case (Cons r rs)
  have n: "nat (len - count) = Suc (nat (len - (count + 1)))" using Cons.prems by simp
  show ?case
  proof (cases "count + 1 \<ge> len")
    case True
    with Cons.prems have "len = count + 1" by simp
    then show ?thesis by simp
  next
    case False
    then have "count + 1 < len" by simp
    from Cons.IH [OF this] False n show ?thesis by simp
  qed
qed

lemma TruncateString_eq:
  "TruncateString s len = concat (map EncodeRune (take (nat len) (runes s)))"
  by (cases "0 < len") (simp_all add: TruncateString_def TruncateString_loop_eq)

lemma length_EncodeRune: "1 \<le> length (EncodeRune r)" "length (EncodeRune r) \<le> 4"
  by (auto simp: EncodeRune_def EncodeRune_valid_def)

lemma EncodeRune_ascii: "0 \<le> r \<Longrightarrow> r < 128 \<Longrightarrow> length (EncodeRune r) = 1"
  by (simp add: EncodeRune_def EncodeRune_valid_def valid_rune_def)

lemma length_concat_bound:
  "(\<And>x. x \<in> set xs \<Longrightarrow> length (f x) \<le> k) \<Longrightarrow> length (concat (map f xs)) \<le> k * length xs"
  by (induction xs) (auto intro: add_mono)

lemma TruncateString_length: "length (TruncateString s len) \<le> 4 * nat len"
proof -
  have "length (TruncateString s len) \<le> 4 * length (take (nat len) (runes s))"
    unfolding TruncateString_eq by (rule length_concat_bound) (rule length_EncodeRune)
  then show ?thesis by simp
qed

end
