(* ===== verification/Mesh_Packets.thy ===== *)
theory Mesh_Packets
  imports Channel_Def Go_Float Go_Unicode
begin

text \<open>
  The data that travels: the protobuf messages of the Meshtastic protocol, with the fields the
  repository reads or writes; the packets handed over by a connector
  (\<^verbatim>\<open>pkg/mesh/connectors/connector.go\<close>); and the events the mesh client hands to the bridge
  (\<^verbatim>\<open>pkg/mesh/events.go\<close>).  The protobuf library and the packet ciphers are outside the
  repository; they extend the record of library functions of \<^theory_text>\<open>Channel_Def\<close>.
\<close>

section \<open>Protobuf messages\<close>

datatype PortNum =
    TEXT_MESSAGE_APP | POSITION_APP | NODEINFO_APP | ROUTING_APP | ADMIN_APP | WAYPOINT_APP
  | TELEMETRY_APP | TRACEROUTE_APP | NEIGHBORINFO_APP | MAP_REPORT_APP
  | STORE_FORWARD_APP | STORE_FORWARD_PLUSPLUS_APP | OTHER_APP nat

datatype Priority =
    PRIORITY_UNSET | PRIORITY_DEFAULT | PRIORITY_RELIABLE | PRIORITY_RESPONSE | PRIORITY_HIGH
  | PRIORITY_ACK

datatype Role =
    CLIENT | CLIENT_MUTE | ROUTER | ROUTER_CLIENT | REPEATER | TRACKER | SENSOR | TAK
  | CLIENT_HIDDEN | LOST_AND_FOUND | TAK_TRACKER | ROUTER_LATE | CLIENT_BASE | OTHER_ROLE nat

datatype HardwareModel = PRIVATE_HW | OTHER_HW nat

record Data =
  d_Portnum :: PortNum
  d_Payload :: bytes
  d_WantResponse :: bool
  d_RequestId :: "32 word"
  d_ReplyId :: "32 word"
  d_Emoji :: "32 word"
  d_Bitfield :: "32 word option"

datatype PayloadVariant = Decoded Data | Encrypted bytes

record MeshPacket =
  p_From :: "32 word"
  p_To :: "32 word"
  p_Channel :: "32 word"
  p_Id :: "32 word"
  p_HopLimit :: "32 word"
  p_HopStart :: "32 word"
  p_WantAck :: bool
  p_ViaMqtt :: bool
  p_PkiEncrypted :: bool
  p_Priority :: Priority
  p_RelayNode :: "32 word"
  p_RxTime :: "32 word"
  p_RxSnr :: gofloat
  p_Payload :: "PayloadVariant option"

record User =
  u_Id :: string
  u_LongName :: string
  u_ShortName :: string
  u_Macaddr :: "8 word list"
  u_HwModel :: HardwareModel
  u_IsLicensed :: bool
  u_Role :: Role
  u_PublicKey :: bytes
  u_IsUnmessagable :: "bool option"

record Position =
  pos_LatitudeI :: "32 word option"
  pos_LongitudeI :: "32 word option"
  pos_Altitude :: "32 word option"
  pos_Time :: "32 word"
  pos_Timestamp :: "32 word"
  pos_PrecisionBits :: "32 word"
  pos_GroundSpeed :: "32 word option"
  pos_GroundTrack :: "32 word option"

record MapReport =
  mr_LongName :: string
  mr_ShortName :: string
  mr_Role :: Role
  mr_HwModel :: HardwareModel
  mr_FirmwareVersion :: string
  mr_Region :: int
  mr_ModemPreset :: int
  mr_HasDefaultChannel :: bool
  mr_LatitudeI :: "32 word"
  mr_LongitudeI :: "32 word"
  mr_Altitude :: "32 word"
  mr_PositionPrecision :: "32 word"
  mr_NumOnlineLocalNodes :: "32 word"

record RouteDiscovery =
  Route :: "32 word list"
  SnrTowards :: "32 word list"
  RouteBack :: "32 word list"
  SnrBack :: "32 word list"

record HostMetrics =
  hm_UptimeSeconds :: "32 word"
  hm_Load1 :: "32 word"
  hm_Load5 :: "32 word"
  hm_Load15 :: "32 word"
  hm_FreememBytes :: "64 word"
  hm_Diskfree1Bytes :: "64 word"

record DeviceMetrics =
  dm_BatteryLevel :: "32 word option"
  dm_Voltage :: "gofloat option"
  dm_UptimeSeconds :: "32 word option"

datatype TelemetryVariant =
  DeviceMetricsVariant DeviceMetrics | HostMetricsVariant HostMetrics | OtherVariant nat

record Telemetry =
  t_Time :: "32 word"
  t_Variant :: "TelemetryVariant option"

record Neighbor =
  nb_NodeId :: "32 word"
  nb_Snr :: gofloat

record NeighborInfo =
  ni_NodeId :: "32 word"
  ni_LastSentById :: "32 word"
  ni_NodeBroadcastIntervalSecs :: "32 word"
  ni_Neighbors :: "Neighbor list"

record Waypoint =
  w_Id :: "32 word"
  w_LatitudeI :: "32 word option"
  w_LongitudeI :: "32 word option"
  w_Expire :: "32 word"
  w_LockedTo :: "32 word"
  w_Name :: string
  w_Description :: string
  w_Icon :: "32 word"

datatype RoutingError = ROUTING_NONE | ROUTING_GOT_NAK | ROUTING_OTHER nat

text \<open>The messages the client marshals before it sends them.\<close>

datatype ProtoMsg =
    MsgUser User | MsgTelemetry Telemetry | MsgNeighborInfo NeighborInfo | MsgPosition Position
  | MsgMapReport MapReport | MsgRouting RoutingError | MsgRouteDiscovery RouteDiscovery

text \<open>\<^verbatim>\<open>mesh/packet_types.go\<close>; no other file uses the type.\<close>

record MeshtasticPacket =
  mp_ChannelName :: string
  mp_ChannelKey :: "string option"
  mp_From :: NodeID
  mp_To :: NodeID
  mp_UsePKI :: bool
  mp_WantAck :: bool
  mp_WantResponse :: bool

section \<open>Libraries outside the repository\<close>

record lib = radio +
  TryDecode :: "MeshPacket \<Rightarrow> bytes \<Rightarrow> Data option \<times> go_error option"
  TryDecodePKI :: "MeshPacket \<Rightarrow> bytes \<Rightarrow> bytes \<Rightarrow> Data option \<times> go_error option"
  DATA_PAYLOAD_LEN :: int
  Marshal :: "ProtoMsg \<Rightarrow> go_error + bytes"
  MarshalData :: "Data \<Rightarrow> go_error + bytes"
  UnmarshalUser :: "bytes \<Rightarrow> User \<times> go_error option"
  UnmarshalPosition :: "bytes \<Rightarrow> Position \<times> go_error option"
  UnmarshalMapReport :: "bytes \<Rightarrow> MapReport \<times> go_error option"
  UnmarshalRouteDiscovery :: "bytes \<Rightarrow> RouteDiscovery \<times> go_error option"
  UnmarshalTelemetry :: "bytes \<Rightarrow> Telemetry \<times> go_error option"
  UnmarshalNeighborInfo :: "bytes \<Rightarrow> NeighborInfo \<times> go_error option"
  UnmarshalStoreAndForward :: "bytes \<Rightarrow> go_error option"
  UnmarshalRouting :: "bytes \<Rightarrow> RoutingError \<times> go_error option"
  UnmarshalWaypoint :: "bytes \<Rightarrow> Waypoint \<times> go_error option"
  RoleString :: "Role \<Rightarrow> string"
  float_oor :: "gofloat \<Rightarrow> 32 word"
  ufloat_oor :: "gofloat \<Rightarrow> 32 word"
  RegionUS :: int
  ModemPreset_value :: "string \<Rightarrow> int option"
  ToScreamingSnake :: "string \<Rightarrow> string"

section \<open>connectors/connector.go\<close>

datatype PacketSource = PacketSourceMQTT | PacketSourceUDP | PacketSourceRadio | PacketSourceUnset

datatype ListenerEvent = EventStarted | EventRestarted | EventConnectionLost

record NetworkMeshPacket =
  np_MeshPacket :: MeshPacket
  np_ChannelName :: string
  np_ChannelKey :: "string option"
  np_GatewayNode :: NodeID
  np_Source :: PacketSource

text \<open>\<^verbatim>\<open>packet.GetDecoded()\<close>: the decoded variant, or \<^verbatim>\<open>nil\<close>.\<close>

definition GetDecoded :: "MeshPacket \<Rightarrow> Data option" where
  "GetDecoded p = (case p_Payload p of Some (Decoded d) \<Rightarrow> Some d | _ \<Rightarrow> None)"

section \<open>events.go\<close>

text \<open>The position of a node or waypoint, \<^verbatim>\<open>meshid.GeoURI\<close>.\<close>

record GeoURI =
  Latitude :: gofloat
  Longitude :: gofloat
  Altitude :: "gofloat option"
  Uncertainty :: "gofloat option"
  CRS :: string
  Zoom :: "int option"
  Query :: string
  OtherParams :: "string \<rightharpoonup> string"
  QueryParams :: "string \<rightharpoonup> string"

record MeshEvent =
  ev_ChannelName :: string
  ev_ChannelKey :: "string option"
  ev_From :: NodeID
  ev_To :: NodeID
  ev_Via :: NodeID
  ev_Timestamp :: "32 word"
  ev_PacketId :: "32 word"
  ev_WantAck :: bool
  ev_WantResponse :: bool
  ev_IsNeighbor :: bool

record MeshTextEvent = MeshEvent +
  ev_Message :: string
  ev_IsDM :: bool
  ev_ReplyId :: "32 word"

record MeshLocationEvent = MeshEvent +
  ev_Location :: GeoURI
  ev_GroundSpeed :: "32 word option"
  ev_GroundTrack :: "32 word option"

record MeshWaypointEvent = MeshEvent +
  ev_WaypointID :: "32 word"
  ev_IsDelete :: bool
  ev_Name :: string
  ev_Description :: string
  ev_Latitude :: gofloat
  ev_Longitude :: gofloat
  ev_Icon :: string
  ev_LockedTo :: "NodeID option"
  ev_Expires :: "gotime option"

record MeshNodeInfoEvent = MeshEvent +
  ev_UserID :: string
  ev_ShortName :: string
  ev_LongName :: string
  ev_Role :: string
  ev_PublicKey :: bytes
  ev_IsLicensed :: bool
  ev_IsUnmessagable :: bool

record MeshMapReportEvent = MeshEvent +
  ev_mr_Location :: GeoURI
  ev_mr_ShortName :: string
  ev_mr_LongName :: string
  ev_mr_Role :: string
  ev_mr_IsUnmessagableRole :: bool
  ev_mr_FirmwareVersion :: string
  ev_mr_OnlineLocalNodes :: "32 word"

record MeshTracerouteEvent = MeshEvent +
  ev_Route :: "32 word list"
  ev_SnrTowards :: "32 word list"
  ev_RouteBack :: "32 word list"
  ev_SnrBack :: "32 word list"
  ev_RequestId :: "32 word"

text \<open>
  The values passed to the event handlers as \<^verbatim>\<open>any\<close>.  A handler's type switch tells a
  \<^verbatim>\<open>MeshEvent\<close> passed by value from a pointer to one, so both are constructors.
  \<open>MessageEvent\<close> and \<open>ReactionEvent\<close> share their fields (\<^verbatim>\<open>Message\<close> and \<^verbatim>\<open>Emoji\<close> are the
  text of the payload).
\<close>

datatype event =
    EnvelopeValue MeshEvent
  | EnvelopePtr MeshEvent
  | MessageEvent MeshTextEvent
  | ReactionEvent MeshTextEvent
  | LocationEvent MeshLocationEvent
  | WaypointEvent MeshWaypointEvent
  | NodeInfoEvent MeshNodeInfoEvent
  | MapReportEvent MeshMapReportEvent
  | TracerouteEvent MeshTracerouteEvent
  | ChannelJoined string "string option"

end
