(* ===== verification/Mesh_Connectors.thy ===== *)
theory Mesh_Connectors
  imports Mesh_Packets
begin

text \<open>
  The two transports of \<^verbatim>\<open>pkg/mesh/connectors\<close>: MQTT (\<^verbatim>\<open>mqtt_handler.go\<close>) and multicast UDP
  (\<^verbatim>\<open>udp_handler.go\<close>), and the interface \<^verbatim>\<open>MeshConnector\<close> the mesh client sees them through.
  The MQTT handler is a record changed by its operations and callbacks.  The UDP handler runs a
  listener thread beside its callers, so its life cycle is a step relation over the program
  counters of the listener and of a caller of \<^verbatim>\<open>Stop\<close>; which thread moves next, and what the
  network does, is left open.
\<close>

section \<open>The network as a parameter\<close>

text \<open>
  Marshalling, the MQTT client library and the socket calls: the values they return.  What the
  handlers do with these values is modelled below.
\<close>

record net_env =
  MarshalEnvelope :: "string \<Rightarrow> string \<Rightarrow> MeshPacket \<Rightarrow> go_error + bytes"
  UnmarshalEnvelope :: "bytes \<Rightarrow> go_error + (string \<times> string \<times> MeshPacket option)"
  MarshalPacket :: "MeshPacket \<Rightarrow> go_error + bytes"
  GetFullTopicForChannel :: "string \<Rightarrow> string"
  Publish :: "string \<Rightarrow> bytes \<Rightarrow> go_error option"
  MqttConnect :: "go_error option"
  DialUDP :: "go_error option"
  WriteUDP :: "bytes \<Rightarrow> go_error option"

section \<open>mqtt\_handler.go\<close>

definition pkiChannelName :: string where "pkiChannelName = ''PKI''"

text \<open>
  \<open>mq_connected\<close> is what \<^verbatim>\<open>mqttClient.IsConnected()\<close> answers; \<open>mq_handled\<close> and \<open>mq_handleMap\<close>
  record the calls of \<^verbatim>\<open>mqttClient.Handle\<close> and \<^verbatim>\<open>HandleMap\<close>.  \<open>mq_subscribed\<close> are the channels the
  broker delivers over the present connection: what \<^verbatim>\<open>Handle\<close> subscribes to while connected.  A lost
  connection takes them along.  Whether the library subscribes again on a new connection is not in
  the source, which never repeats a call of \<^verbatim>\<open>Handle\<close>: the parameter \<open>session\<close> gives the channels
  the library subscribes to on its own when it connects, out of those it was ever given.
\<close>

record mqttMessageHandler =
  mq_nodeID :: NodeID
  mq_previouslyConnected :: bool
  mq_pendingChannels :: "string list"
  mq_connected :: bool
  mq_handled :: "string list"
  mq_subscribed :: "string list"
  mq_handleMap :: nat

definition NewMQTTMessageHandler :: "NodeID \<Rightarrow> mqttMessageHandler" where
  "NewMQTTMessageHandler nodeID =
     \<lparr>mq_nodeID = nodeID, mq_previouslyConnected = False,
      mq_pendingChannels = [pkiChannelName], mq_connected = False, mq_handled = [], mq_subscribed = [],
      mq_handleMap = 0\<rparr>"

definition mqtt_Start :: "net_env \<Rightarrow> mqttMessageHandler \<Rightarrow> go_error option" where
  "mqtt_Start N h = (if \<not> mq_connected h then MqttConnect N else None)"

definition mqtt_IsConnected :: "mqttMessageHandler \<Rightarrow> bool" where
  "mqtt_IsConnected h = mq_connected h"

text \<open>\<^verbatim>\<open>SendPacket\<close>: the message handed to \<^verbatim>\<open>Publish\<close>, if any, and the error returned.\<close>

definition mqtt_SendPacket ::
  "net_env \<Rightarrow> mqttMessageHandler \<Rightarrow> string \<Rightarrow> MeshPacket \<Rightarrow> (string \<times> bytes) option \<times> go_error option"
where
  "mqtt_SendPacket N h channel packet =
     (case MarshalEnvelope N channel (NodeID_String (mq_nodeID h)) packet of
        Inl err \<Rightarrow> (None, Some err)
      | Inr rawEnv \<Rightarrow>
          let channel' = (if p_PkiEncrypted packet then pkiChannelName else channel);
              topic = GetFullTopicForChannel N channel' @ ''/'' @ NodeID_String (mq_nodeID h)
          in (Some (topic, rawEnv), Publish N topic rawEnv))"

definition mqtt_AddChannel :: "mqttMessageHandler \<Rightarrow> string \<Rightarrow> mqttMessageHandler" where
  "mqtt_AddChannel h channelName =
     (if mq_connected h
      then h\<lparr>mq_handled := mq_handled h @ [channelName], mq_subscribed := mq_subscribed h @ [channelName]\<rparr>
      else h\<lparr>mq_pendingChannels := mq_pendingChannels h @ [channelName]\<rparr>)"

text \<open>\<^verbatim>\<open>handleMQTTMessage\<close>: the packet passed on to the packet handler, if any.\<close>

definition handleMQTTMessage :: "net_env \<Rightarrow> bytes \<Rightarrow> NetworkMeshPacket option" where
  "handleMQTTMessage N payload =
     (case UnmarshalEnvelope N payload of
        Inl err \<Rightarrow> None
      | Inr (channelId, gatewayId, None) \<Rightarrow> None
      | Inr (channelId, gatewayId, Some packet) \<Rightarrow>
          Some \<lparr>np_MeshPacket = packet, np_ChannelName = channelId, np_ChannelKey = None,
                np_GatewayNode = fst (ParseNodeID gatewayId), np_Source = PacketSourceMQTT\<rparr>)"

text \<open>
  The callbacks of the MQTT client.  When \<^verbatim>\<open>onMqttConnected\<close> runs, the client is connected; it
  returns the handler and the state event it emits.
\<close>

definition onMqttConnected ::
  "(string list \<Rightarrow> string list) \<Rightarrow> mqttMessageHandler \<Rightarrow> mqttMessageHandler \<times> ListenerEvent" where
  "onMqttConnected session c =
     (let isReconnect = mq_previouslyConnected c;
          c = c\<lparr>mq_connected := True, mq_previouslyConnected := True,
                mq_handled := mq_handled c @ mq_pendingChannels c,
                mq_subscribed := mq_subscribed c @ session (mq_handled c) @ mq_pendingChannels c,
                mq_pendingChannels := []\<rparr>
      in if isReconnect then (c, EventRestarted)
         else (c\<lparr>mq_handleMap := mq_handleMap c + 1\<rparr>, EventStarted))"

definition onMqttConnectionLost :: "mqttMessageHandler \<Rightarrow> mqttMessageHandler \<times> ListenerEvent" where
  "onMqttConnectionLost c = (c\<lparr>mq_connected := False, mq_subscribed := []\<rparr>, EventConnectionLost)"

definition mqtt_Stop :: "mqttMessageHandler \<Rightarrow> mqttMessageHandler" where
  "mqtt_Stop h = h\<lparr>mq_connected := False, mq_subscribed := []\<rparr>"

lemmas mqtt_defs = NewMQTTMessageHandler_def mqtt_AddChannel_def onMqttConnected_def
  onMqttConnectionLost_def mqtt_Stop_def Let_def

section \<open>udp\_handler.go\<close>

definition maxReconnectDelay :: duration where "maxReconnectDelay = 30 * Second"

definition minDuration :: "duration \<Rightarrow> duration \<Rightarrow> duration" where
  "minDuration a b = (if a < b then a else b)"

definition udp_SendMulticast ::
  "net_env \<Rightarrow> MeshPacket \<Rightarrow> bytes option \<times> go_error option" where
  "udp_SendMulticast N msg =
     (case MarshalPacket N msg of
        Inl err \<Rightarrow> (None, Some err)
      | Inr data \<Rightarrow>
          (case DialUDP N of
             Some err \<Rightarrow> (None, Some err)
           | None \<Rightarrow> (Some data, WriteUDP N data)))"

text \<open>
  Program counters.  The listener goroutine: not started, at the loop test, before
  \<^verbatim>\<open>setupSocket\<close>, at the \<^verbatim>\<open>select\<close> of \<^verbatim>\<open>listenLoop\<close>, blocked in \<^verbatim>\<open>ReadFromUDP\<close>, asleep before
  a retry, finished.  The caller of \<^verbatim>\<open>Stop\<close>: outside, between the stores and the close of the
  channel, waiting for the listener, returned.
\<close>

datatype listener_pc = L_None | L_Top | L_Setup | L_Select | L_Read | L_Sleep | L_Done

datatype stopper_pc = S_Out | S_Stored | S_Wait | S_Returned

record udpMessageHandler =
  ud_running :: bool
  ud_listening :: bool
  ud_stopChanClosed :: bool
  ud_conn :: bool
  ud_isRestart :: bool
  ud_delay :: duration
  ud_listener :: listener_pc
  ud_stopper :: stopper_pc
  ud_events :: "ListenerEvent list"
  ud_delivered :: nat

definition NewUDPMessageHandler :: udpMessageHandler where
  "NewUDPMessageHandler =
     \<lparr>ud_running = False, ud_listening = False, ud_stopChanClosed = False, ud_conn = False,
      ud_isRestart = False, ud_delay = Second, ud_listener = L_None, ud_stopper = S_Out,
      ud_events = [], ud_delivered = 0\<rparr>"

definition udp_IsConnected :: "udpMessageHandler \<Rightarrow> bool" where
  "udp_IsConnected h = ud_listening h"

definition udp_AddChannel :: "udpMessageHandler \<Rightarrow> string \<Rightarrow> udpMessageHandler" where
  "udp_AddChannel h channelName = h"

definition udp_Start :: "udpMessageHandler \<Rightarrow> udpMessageHandler" where
  "udp_Start h =
     (if ud_running h then h
      else h\<lparr>ud_running := True, ud_stopChanClosed := False, ud_delay := Second,
             ud_listener := L_Top\<rparr>)"

definition udp_emit :: "ListenerEvent \<Rightarrow> udpMessageHandler \<Rightarrow> udpMessageHandler" where
  "udp_emit e h = h\<lparr>ud_events := ud_events h @ [e]\<rparr>"

text \<open>The back-off after a failed set-up or a read error: sleep, and double the delay.\<close>

definition udp_backoff :: "udpMessageHandler \<Rightarrow> udpMessageHandler" where
  "udp_backoff h =
     (udp_emit EventConnectionLost (h\<lparr>ud_listening := False\<rparr>))
       \<lparr>ud_listener := L_Sleep, ud_delay := minDuration (ud_delay h * 2) maxReconnectDelay\<rparr>"

text \<open>
  \<^verbatim>\<open>setupSocket\<close>, whose result is that of \<^verbatim>\<open>ListenMulticastUDP\<close> (an error of \<^verbatim>\<open>SetReadBuffer\<close> is
  only logged), and \<^verbatim>\<open>closeConn\<close>; what happens after a successful set-up.
\<close>

definition udp_setupSocket :: "go_error option \<Rightarrow> udpMessageHandler \<Rightarrow> go_error option \<times> udpMessageHandler" where
  "udp_setupSocket listen h = (case listen of Some err \<Rightarrow> (Some err, h) | None \<Rightarrow> (None, h\<lparr>ud_conn := True\<rparr>))"

definition udp_closeConn :: "udpMessageHandler \<Rightarrow> udpMessageHandler" where
  "udp_closeConn h = h\<lparr>ud_conn := False\<rparr>"

declare udp_setupSocket_def [simp] udp_closeConn_def [simp]

definition udp_setup_ok :: "udpMessageHandler \<Rightarrow> udpMessageHandler" where
  "udp_setup_ok h =
     (udp_emit (if ud_isRestart h then EventRestarted else EventStarted)
        ((snd (udp_setupSocket None h))\<lparr>ud_listening := True\<rparr>))
       \<lparr>ud_isRestart := True, ud_listener := L_Select\<rparr>"

text \<open>
  Steps the program takes on its own, and steps the network (or the passing of time) takes:
  the outcome of \<^verbatim>\<open>setupSocket\<close>, a datagram, a read error, the end of a sleep.
\<close>

inductive udp_program :: "udpMessageHandler \<Rightarrow> udpMessageHandler \<Rightarrow> bool" where
  top_run: "ud_listener h = L_Top \<Longrightarrow> ud_running h \<Longrightarrow> udp_program h (h\<lparr>ud_listener := L_Setup\<rparr>)"
| top_exit: "ud_listener h = L_Top \<Longrightarrow> \<not> ud_running h \<Longrightarrow>
    udp_program h (h\<lparr>ud_listening := False, ud_listener := L_Done\<rparr>)"
| select_stop: "ud_listener h = L_Select \<Longrightarrow> ud_stopChanClosed h \<Longrightarrow>
    udp_program h (h\<lparr>ud_listening := False, ud_listener := L_Done\<rparr>)"
| select_read: "ud_listener h = L_Select \<Longrightarrow> \<not> ud_stopChanClosed h \<Longrightarrow>
    udp_program h (h\<lparr>ud_listener := L_Read\<rparr>)"
| stop_store: "ud_stopper h = S_Out \<Longrightarrow> ud_running h \<Longrightarrow>
    udp_program h (h\<lparr>ud_running := False, ud_listening := False, ud_stopper := S_Stored\<rparr>)"
| stop_close: "ud_stopper h = S_Stored \<Longrightarrow>
    udp_program h (h\<lparr>ud_stopChanClosed := True, ud_stopper := S_Wait\<rparr>)"
| stop_return: "ud_stopper h = S_Wait \<Longrightarrow> ud_listener h = L_Done \<Longrightarrow>
    udp_program h ((udp_closeConn h)\<lparr>ud_stopper := S_Returned\<rparr>)"

inductive udp_network :: "udpMessageHandler \<Rightarrow> udpMessageHandler \<Rightarrow> bool" where
  setup_ok: "ud_listener h = L_Setup \<Longrightarrow> udp_network h (udp_setup_ok h)"
| setup_fail: "ud_listener h = L_Setup \<Longrightarrow> udp_network h (udp_backoff (snd (udp_setupSocket (Some err) h)))"
| datagram: "ud_listener h = L_Read \<Longrightarrow>
    udp_network h (h\<lparr>ud_delivered := ud_delivered h + 1, ud_listener := L_Select\<rparr>)"
| bad_datagram: "ud_listener h = L_Read \<Longrightarrow> udp_network h (h\<lparr>ud_listener := L_Select\<rparr>)"
| read_error: "ud_listener h = L_Read \<Longrightarrow> udp_network h (udp_backoff (udp_closeConn h))"
| wake: "ud_listener h = L_Sleep \<Longrightarrow> udp_network h (h\<lparr>ud_listener := L_Top\<rparr>)"

text \<open>
  Life cycles of one handler that is started once and stopped once, which is how
  \<^verbatim>\<open>mesh_client.go\<close> uses it.
\<close>

inductive udp_reachable :: "udpMessageHandler \<Rightarrow> bool" where
  started: "udp_reachable (udp_Start NewUDPMessageHandler)"
| program: "udp_reachable h \<Longrightarrow> udp_program h h' \<Longrightarrow> udp_reachable h'"
| network: "udp_reachable h \<Longrightarrow> udp_network h h' \<Longrightarrow> udp_reachable h'"

inductive_cases udp_programE: "udp_program h h'"
inductive_cases udp_networkE: "udp_network h h'"

lemmas udp_step_defs = udp_backoff_def udp_setup_ok_def udp_emit_def udp_Start_def
  NewUDPMessageHandler_def minDuration_def maxReconnectDelay_def

section \<open>The interface\<close>

text \<open>
  \<^verbatim>\<open>MeshConnector\<close> as the mesh client relies on it: a channel that was added is remembered, and is
  kept when others are added or the connection is lost; and, where the transport \<open>restores\<close> what it
  was told before, it is listened to from the next (re)connection on.
\<close>

locale mesh_connector =
  fixes addChannel :: "'h \<Rightarrow> string \<Rightarrow> 'h"
    and connected :: "'h \<Rightarrow> 'h"
    and lost :: "'h \<Rightarrow> 'h"
    and knows :: "'h \<Rightarrow> string \<Rightarrow> bool"
    and listens :: "'h \<Rightarrow> string \<Rightarrow> bool"
    and restores :: bool
  assumes add_knows: "knows (addChannel h c) c"
    and add_keeps: "knows h c \<Longrightarrow> knows (addChannel h d) c"
    and connected_keeps: "knows h c \<Longrightarrow> knows (connected h) c"
    and lost_keeps: "knows h c \<Longrightarrow> knows (lost h) c"
    and connected_listens: "restores \<Longrightarrow> knows h c \<Longrightarrow> listens (connected h) c"

datatype connector_op = OpAddChannel string | OpConnected | OpLost

fun connector_step ::
  "('h \<Rightarrow> string \<Rightarrow> 'h) \<Rightarrow> ('h \<Rightarrow> 'h) \<Rightarrow> ('h \<Rightarrow> 'h) \<Rightarrow> connector_op \<Rightarrow> 'h \<Rightarrow> 'h" where
  "connector_step add conn lost (OpAddChannel c) h = add h c"
| "connector_step add conn lost OpConnected h = conn h"
| "connector_step add conn lost OpLost h = lost h"

context mesh_connector
begin

lemma step_keeps: "knows h c \<Longrightarrow> knows (connector_step addChannel connected lost op h) c"
  by (cases op) (simp_all add: add_keeps connected_keeps lost_keeps)

lemma run_keeps: "knows h c \<Longrightarrow> knows (fold (connector_step addChannel connected lost) ops h) c"
  by (induction ops arbitrary: h) (simp_all add: step_keeps)

lemma run_knows:
  "OpAddChannel c \<in> set ops \<Longrightarrow> knows (fold (connector_step addChannel connected lost) ops h) c"
  by (induction ops arbitrary: h) (auto simp: run_keeps add_knows)

lemma listens_after_reconnect:
  assumes "OpAddChannel c \<in> set ops \<or> knows h c" "restores"
  shows "listens (connected (fold (connector_step addChannel connected lost) ops h)) c"
  using assms by (auto intro: connected_listens run_keeps run_knows)

end

definition mqtt_knows :: "mqttMessageHandler \<Rightarrow> string \<Rightarrow> bool" where
  "mqtt_knows h c \<longleftrightarrow> c \<in> set (mq_pendingChannels h) \<or> c \<in> set (mq_handled h)"

text \<open>The library subscribes again to every channel it was given.\<close>

definition restores_session :: "(string list \<Rightarrow> string list) \<Rightarrow> bool" where
  "restores_session session \<longleftrightarrow> (\<forall>names. set names \<subseteq> set (session names))"

interpretation mqtt: mesh_connector
  mqtt_AddChannel "\<lambda>h. fst (onMqttConnected session h)" "\<lambda>h. fst (onMqttConnectionLost h)"
  mqtt_knows "\<lambda>h c. c \<in> set (mq_subscribed h)" "restores_session session" for session
  by unfold_locales (auto simp: mqtt_knows_def mqtt_defs restores_session_def)

interpretation udp: mesh_connector udp_AddChannel udp_setup_ok udp_backoff "\<lambda>_ _. True" "\<lambda>h _. ud_listening h" True
  by unfold_locales (auto simp: udp_step_defs)

text \<open>
  The connectors of a client, dispatched as the Go interface does.  \<open>udp_Stop\<close> is the effect of a
  call of \<^verbatim>\<open>Stop\<close> that returns; the life cycle above says when it does.
\<close>

datatype connector = MqttConn mqttMessageHandler | UdpConn udpMessageHandler

definition udp_Stop :: "udpMessageHandler \<Rightarrow> udpMessageHandler" where
  "udp_Stop h =
     (if \<not> ud_running h then h
      else h\<lparr>ud_running := False, ud_listening := False, ud_stopChanClosed := True,
             ud_conn := False, ud_listener := L_Done, ud_stopper := S_Returned\<rparr>)"

fun conn_IsConnected :: "connector \<Rightarrow> bool" where
  "conn_IsConnected (MqttConn h) = mqtt_IsConnected h"
| "conn_IsConnected (UdpConn h) = udp_IsConnected h"

fun conn_AddChannel :: "connector \<Rightarrow> string \<Rightarrow> connector" where
  "conn_AddChannel (MqttConn h) channelName = MqttConn (mqtt_AddChannel h channelName)"
| "conn_AddChannel (UdpConn h) channelName = UdpConn (udp_AddChannel h channelName)"

fun conn_Start :: "net_env \<Rightarrow> connector \<Rightarrow> connector \<times> go_error option" where
  "conn_Start N (MqttConn h) = (MqttConn h, mqtt_Start N h)"
| "conn_Start N (UdpConn h) = (UdpConn (udp_Start h), None)"

fun conn_Stop :: "connector \<Rightarrow> connector" where
  "conn_Stop (MqttConn h) = MqttConn (mqtt_Stop h)"
| "conn_Stop (UdpConn h) = UdpConn (udp_Stop h)"

fun conn_SendPacket :: "net_env \<Rightarrow> string \<Rightarrow> MeshPacket \<Rightarrow> connector \<Rightarrow> go_error option" where
  "conn_SendPacket N channel packet (MqttConn h) = snd (mqtt_SendPacket N h channel packet)"
| "conn_SendPacket N channel packet (UdpConn h) = snd (udp_SendMulticast N packet)"

section \<open>Facts on the UDP life cycle\<close>

definition udp_inv :: "udpMessageHandler \<Rightarrow> bool" where
  "udp_inv h \<longleftrightarrow>
     ud_listener h \<noteq> L_None \<and>
     (ud_listener h = L_Select \<or> ud_listener h = L_Read \<longrightarrow> ud_conn h) \<and>
     (ud_listener h = L_Done \<longrightarrow> \<not> ud_listening h \<and> \<not> ud_running h) \<and>
     (ud_running h \<longleftrightarrow> ud_stopper h = S_Out) \<and>
     (ud_stopChanClosed h \<longleftrightarrow> ud_stopper h = S_Wait \<or> ud_stopper h = S_Returned) \<and>
     (ud_stopper h = S_Returned \<longrightarrow> ud_listener h = L_Done \<and> \<not> ud_conn h) \<and>
     Second \<le> ud_delay h \<and> ud_delay h \<le> maxReconnectDelay"

lemma udp_inv_init: "udp_inv (udp_Start NewUDPMessageHandler)"
  by (simp add: udp_inv_def udp_step_defs duration_defs)

lemma udp_program_inv: "udp_program h h' \<Longrightarrow> udp_inv h \<Longrightarrow> udp_inv h'"
  by (induction rule: udp_program.induct) (auto simp: udp_inv_def)

lemma udp_network_inv: "udp_network h h' \<Longrightarrow> udp_inv h \<Longrightarrow> udp_inv h'"
  by (induction rule: udp_network.induct)
     (auto simp: udp_inv_def udp_step_defs duration_defs)

lemma udp_reachable_inv: "udp_reachable h \<Longrightarrow> udp_inv h"
  by (induction rule: udp_reachable.induct)
     (auto intro: udp_inv_init udp_program_inv udp_network_inv)

section \<open>Properties\<close>

text \<open>
  C29: once \<^verbatim>\<open>Stop\<close> of the UDP connector has returned, the listener has ended, the socket is
  closed, the connector reports that it is not connected, and nothing moves any more.
\<close>

theorem udp_clean_stop:
  assumes "udp_reachable h" "ud_stopper h = S_Returned"
  shows "ud_listener h = L_Done \<and> \<not> ud_conn h \<and> \<not> udp_IsConnected h \<and> \<not> ud_running h \<and>
         (\<nexists>h'. udp_program h h' \<or> udp_network h h')"
  using udp_reachable_inv [OF assms(1)] assms(2)
  by (auto simp: udp_inv_def udp_IsConnected_def elim!: udp_programE udp_networkE)

text \<open>A run to the end: started, stopped before the first set-up.\<close>

lemma udp_reachable_stopped:
  "\<exists>h. udp_reachable h \<and> ud_stopper h = S_Returned"
proof -
  let ?h = "udp_Start NewUDPMessageHandler"
  have r0: "udp_reachable ?h" by (rule udp_reachable.started)
  note p = udp_reachable.program
  have r1: "udp_reachable (?h\<lparr>ud_running := False, ud_listening := False, ud_stopper := S_Stored\<rparr>)" (is "udp_reachable ?a")
    by (rule p [OF r0 udp_program.stop_store]) (simp_all add: udp_step_defs)
  have r2: "udp_reachable (?a\<lparr>ud_stopChanClosed := True, ud_stopper := S_Wait\<rparr>)" (is "udp_reachable ?b")
    by (rule p [OF r1 udp_program.stop_close]) simp
  have r3: "udp_reachable (?b\<lparr>ud_listening := False, ud_listener := L_Done\<rparr>)" (is "udp_reachable ?d")
    by (rule p [OF r2 udp_program.top_exit]) (simp_all add: udp_step_defs)
  have r4: "udp_reachable ((udp_closeConn ?d)\<lparr>ud_stopper := S_Returned\<rparr>)" (is "udp_reachable ?e")
    by (rule p [OF r3 udp_program.stop_return]) simp_all
  have "ud_stopper ?e = S_Returned" by simp
  with r4 show ?thesis by blast
qed

theorem udp_clean_stop_witness:
  "\<exists>h :: udpMessageHandler. ud_stopper h = S_Returned \<and> ud_listener h = L_Done \<and> \<not> ud_conn h"
  using udp_reachable_stopped udp_clean_stop by blast

text \<open>A run to a listener that reads while \<^verbatim>\<open>Stop\<close> waits.\<close>

lemma udp_reachable_blocked:
  "\<exists>h. udp_reachable h \<and> ud_stopper h = S_Wait \<and> ud_listener h = L_Read \<and> ud_conn h"
proof -
  let ?h = "udp_Start NewUDPMessageHandler"
  note p = udp_reachable.program and n = udp_reachable.network
  have r1: "udp_reachable (?h\<lparr>ud_listener := L_Setup\<rparr>)" (is "udp_reachable ?a")
    by (rule p [OF udp_reachable.started udp_program.top_run]) (simp_all add: udp_step_defs)
  have r2: "udp_reachable (udp_setup_ok ?a)" (is "udp_reachable ?b")
    by (rule n [OF r1 udp_network.setup_ok]) simp
  have r3: "udp_reachable (?b\<lparr>ud_listener := L_Read\<rparr>)" (is "udp_reachable ?d")
    by (rule p [OF r2 udp_program.select_read]) (simp_all add: udp_step_defs)
  have r4: "udp_reachable (?d\<lparr>ud_running := False, ud_listening := False, ud_stopper := S_Stored\<rparr>)"
    (is "udp_reachable ?e")
    by (rule p [OF r3 udp_program.stop_store]) (simp_all add: udp_step_defs)
  have r5: "udp_reachable (?e\<lparr>ud_stopChanClosed := True, ud_stopper := S_Wait\<rparr>)" (is "udp_reachable ?f")
    by (rule p [OF r4 udp_program.stop_close]) simp
  show ?thesis using r5 by (intro exI [of _ ?f]) (simp add: udp_step_defs)
qed

definition udp_any :: "udpMessageHandler \<Rightarrow> udpMessageHandler \<Rightarrow> bool" where
  "udp_any h h' \<longleftrightarrow> udp_program h h' \<or> udp_network h h'"

fun udp_rank :: "udpMessageHandler \<Rightarrow> nat" where
  "udp_rank h = (if ud_stopper h = S_Returned then 0
     else case ud_listener h of L_None \<Rightarrow> 0 | L_Done \<Rightarrow> 1 | L_Select \<Rightarrow> 2 | L_Top \<Rightarrow> 2 | L_Sleep \<Rightarrow> 3
          | L_Read \<Rightarrow> 4 | L_Setup \<Rightarrow> 4)"

definition udp_stopping :: "udpMessageHandler \<Rightarrow> bool" where
  "udp_stopping h \<longleftrightarrow> udp_inv h \<and> (ud_stopper h = S_Wait \<or> ud_stopper h = S_Returned)"

lemma udp_stopping_program:
  "udp_program h h' \<Longrightarrow> udp_stopping h \<Longrightarrow>
   (ud_stopper h' = S_Wait \<or> ud_stopper h' = S_Returned) \<and> udp_rank h' < udp_rank h"
  by (induction rule: udp_program.induct) (auto simp: udp_stopping_def udp_inv_def)

lemma udp_stopping_network:
  "udp_network h h' \<Longrightarrow> udp_stopping h \<Longrightarrow>
   (ud_stopper h' = S_Wait \<or> ud_stopper h' = S_Returned) \<and> udp_rank h' < udp_rank h"
  by (induction rule: udp_network.induct)
     (auto simp: udp_stopping_def udp_inv_def udp_backoff_def udp_setup_ok_def udp_emit_def)

lemma udp_stopping_step:
  assumes "udp_stopping h" "udp_any h h'"
  shows "udp_stopping h'" "udp_rank h' < udp_rank h"
  using assms udp_stopping_program udp_stopping_network udp_program_inv udp_network_inv
  unfolding udp_any_def udp_stopping_def by blast+

lemma udp_stopping_run:
  "(udp_any ^^ n) h h' \<Longrightarrow> udp_stopping h \<Longrightarrow> udp_stopping h' \<and> udp_rank h' + n \<le> udp_rank h"
proof (induction n arbitrary: h')
  case (Suc n)
  then obtain g where "(udp_any ^^ n) h g" "udp_any g h'" by auto
  with Suc.IH [of g] Suc.prems(2) udp_stopping_step [of g h'] show ?case by simp
qed simp

lemma udp_stopping_progress:
  assumes "udp_stopping h" "\<nexists>h'. udp_any h h'" shows "ud_stopper h = S_Returned"
proof (rule ccontr)
  assume "ud_stopper h \<noteq> S_Returned"
  with assms(1) have h: "ud_stopper h = S_Wait" "udp_inv h" by (auto simp: udp_stopping_def)
  then show False
    using assms(2) udp_program.intros [of h] udp_network.intros [of h]
    unfolding udp_inv_def udp_any_def by (cases "ud_listener h") auto
qed

text \<open>
  C28: while \<^verbatim>\<open>Stop\<close> waits, at most four more steps happen, and the run only ends with its
  return: \<^verbatim>\<open>Stop\<close> returns as soon as the network lets each blocking call of the listener
  return once.
\<close>

theorem udp_stop_terminates:
  assumes "udp_reachable h" "ud_stopper h = S_Wait" "(udp_any ^^ n) h h'"
  shows "n \<le> 4 \<and> ((\<nexists>h''. udp_any h' h'') \<longrightarrow> ud_stopper h' = S_Returned)"
proof -
  have s: "udp_stopping h" using assms udp_reachable_inv by (simp add: udp_stopping_def)
  have "udp_rank h \<le> 4" by (simp split: listener_pc.split)
  moreover have "udp_stopping h'" "udp_rank h' + n \<le> udp_rank h"
    using udp_stopping_run [OF assms(3) s] by simp_all
  ultimately show ?thesis using udp_stopping_progress by auto
qed

theorem udp_stop_terminates_witness:
  "\<exists>h h'. ud_stopper h = S_Wait \<and> (udp_any ^^ 1) h h' \<and> (1::nat) \<le> 4 \<and>
     ((\<nexists>h''. udp_any h' h'') \<longrightarrow> ud_stopper h' = S_Returned)"
proof -
  obtain h where h: "udp_reachable h" "ud_stopper h = S_Wait" "ud_listener h = L_Read"
    using udp_reachable_blocked by blast
  then obtain h' where "udp_any h h'" using udp_network.datagram unfolding udp_any_def by blast
  then have "(udp_any ^^ 1) h h'" by (simp add: relcompp_apply)
  then show ?thesis using udp_stop_terminates [OF h(1,2)] h(2) by blast
qed

text \<open>
  On its own \<^verbatim>\<open>Stop\<close> does not return: the socket is closed only after the listener ended, so
  there are runs in which \<^verbatim>\<open>Stop\<close> waits for a listener that is blocked in a read, and no step
  of the program can change that; only a datagram or a read error does.
\<close>

lemma udp_stop_blocks:
  "\<exists>h. udp_reachable h \<and> ud_stopper h = S_Wait \<and> ud_listener h = L_Read \<and> ud_conn h \<and>
       (\<nexists>h'. udp_program h h')"
proof -
  obtain h where h: "udp_reachable h" "ud_stopper h = S_Wait" "ud_listener h = L_Read" "ud_conn h"
    using udp_reachable_blocked by blast
  then have "\<nexists>h'. udp_program h h'" by (auto elim!: udp_programE)
  with h show ?thesis by blast
qed

text \<open>A life of the MQTT connector: its channels are added, and its client connects and loses the broker.\<close>

definition mqtt_run ::
  "(string list \<Rightarrow> string list) \<Rightarrow> connector_op list \<Rightarrow> mqttMessageHandler \<Rightarrow> mqttMessageHandler" where
  "mqtt_run session ops h =
     fold (connector_step mqtt_AddChannel (\<lambda>h. fst (onMqttConnected session h)) (\<lambda>h. fst (onMqttConnectionLost h))) ops h"

lemma mqtt_run_simps [simp]:
  "mqtt_run session [] h = h"
  "mqtt_run session (op # ops) h = mqtt_run session ops (connector_step mqtt_AddChannel
     (\<lambda>h. fst (onMqttConnected session h)) (\<lambda>h. fst (onMqttConnectionLost h)) op h)"
  by (simp_all add: mqtt_run_def)

lemma mqtt_pending_empty:
  assumes "mq_connected h \<longrightarrow> mq_pendingChannels h = []"
  shows "mq_connected (mqtt_run session ops h) \<longrightarrow> mq_pendingChannels (mqtt_run session ops h) = []"
  using assms
proof (induction ops arbitrary: h)
  case (Cons op ops)
  show ?case
    using Cons.prems by (simp only: mqtt_run_simps, intro Cons.IH) (cases op; simp add: mqtt_defs)
qed simp

lemma mqtt_handled_subscribed:
  assumes "OpLost \<notin> set ops \<and> set (mq_handled h) \<subseteq> set (mq_subscribed h) \<or>
      restores_session session \<and> (mq_connected h \<longrightarrow> set (mq_handled h) \<subseteq> set (mq_subscribed h))"
    and "mq_connected (mqtt_run session ops h)"
  shows "set (mq_handled (mqtt_run session ops h)) \<subseteq> set (mq_subscribed (mqtt_run session ops h))"
  using assms
proof (induction ops arbitrary: h)
  case (Cons op ops)
  show ?case
    using Cons.prems by (simp only: mqtt_run_simps, intro Cons.IH)
      (cases op; auto simp: mqtt_defs restores_session_def)+
qed auto

text \<open>
  C27: over any sequence of added channels, connections and losses, an MQTT connector that is
  connected has handed every channel added so far, before or after the connection, and the channel
  of packets encrypted for one node to the MQTT library.  It is subscribed to all of them as long
  as the connection was never lost, and after losses where the library subscribes again to what it
  was given (\<open>restores_session\<close>), which the source relies on.
\<close>

theorem mqtt_subscribed:
  assumes "h = mqtt_run session ops (NewMQTTMessageHandler nid)"
    and "mq_connected h" "OpAddChannel ch \<in> set ops \<or> ch = pkiChannelName"
  shows "ch \<in> set (mq_handled h) \<and>
    (OpLost \<notin> set ops \<or> restores_session session \<longrightarrow> ch \<in> set (mq_subscribed h))"
proof -
  let ?h0 = "NewMQTTMessageHandler nid"
  have "mqtt_knows ?h0 pkiChannelName" by (simp add: mqtt_knows_def mqtt_defs)
  then have "mqtt_knows h ch" using assms(1,3) mqtt.run_knows mqtt.run_keeps by (auto simp: mqtt_run_def)
  moreover have "mq_pendingChannels h = []"
    using mqtt_pending_empty [of ?h0 session ops] assms(1,2) by (simp add: mqtt_defs)
  ultimately have "ch \<in> set (mq_handled h)" by (simp add: mqtt_knows_def)
  then show ?thesis
    using mqtt_handled_subscribed [of ops ?h0 session] assms(1,2) by (auto simp: mqtt_defs)
qed

theorem mqtt_subscribed_witness:
  "''LongFast'' \<in> set (mq_subscribed (mqtt_run (\<lambda>names. names)
     [OpAddChannel ''LongFast'', OpConnected, OpLost, OpConnected] (NewMQTTMessageHandler 2)))"
proof -
  let ?ops = "[OpAddChannel ''LongFast'', OpConnected, OpLost, OpConnected]"
  have "mq_connected (mqtt_run (\<lambda>names. names) ?ops (NewMQTTMessageHandler 2))" by (simp add: mqtt_defs)
  moreover have "restores_session (\<lambda>names. names)" by (simp add: restores_session_def)
  ultimately show ?thesis using mqtt_subscribed [OF refl, of "\<lambda>names. names" ?ops 2 "''LongFast''"] by simp
qed

text \<open>
  Where the library restores nothing, the connector does not either: it forgot the names it handed
  over, so after a loss it is connected and subscribed to nothing.
\<close>

lemma mqtt_not_resubscribed:
  "mq_subscribed (mqtt_run (\<lambda>names. []) [OpAddChannel n, OpConnected, OpLost, OpConnected] (NewMQTTMessageHandler nid)) = []"
  by (simp add: mqtt_defs)

end
