(* ===== verification/Request_Throttle.thy ===== *)
theory Request_Throttle
  imports Mesh_Prelude
begin

text \<open>
  The response throttle of \<^verbatim>\<open>pkg/mesh/data_requests.go\<close>: the last time each managed node
  answered a telemetry or a neighbour request.  Both tests are rate limiters of
  \<^theory_text>\<open>Mesh_Prelude\<close>, independent of each other.  A call reads the clock twice while it holds
  the lock (once to compare, once to record); the model takes both readings as one instant.
\<close>

record requestThrottle =
  lastTelemetry :: "NodeID \<rightharpoonup> gotime"
  lastNeighbor :: "NodeID \<rightharpoonup> gotime"
  throttlePeriod :: duration

definition newRequestThrottle :: "duration \<Rightarrow> requestThrottle" where
  "newRequestThrottle period =
     \<lparr>lastTelemetry = Map.empty, lastNeighbor = Map.empty, throttlePeriod = period\<rparr>"

definition canRespondTelemetry ::
  "requestThrottle \<Rightarrow> NodeID \<Rightarrow> gotime \<Rightarrow> bool \<times> requestThrottle" where
  "canRespondTelemetry t nodeID now =
     (case lastTelemetry t nodeID of
        Some lastTime \<Rightarrow>
          if now - lastTime < throttlePeriod t then (False, t)
          else (True, t\<lparr>lastTelemetry := (lastTelemetry t)(nodeID \<mapsto> now)\<rparr>)
      | None \<Rightarrow> (True, t\<lparr>lastTelemetry := (lastTelemetry t)(nodeID \<mapsto> now)\<rparr>))"

definition canRespondNeighbor ::
  "requestThrottle \<Rightarrow> NodeID \<Rightarrow> gotime \<Rightarrow> bool \<times> requestThrottle" where
  "canRespondNeighbor t nodeID now =
     (case lastNeighbor t nodeID of
        Some lastTime \<Rightarrow>
          if now - lastTime < throttlePeriod t then (False, t)
          else (True, t\<lparr>lastNeighbor := (lastNeighbor t)(nodeID \<mapsto> now)\<rparr>)
      | None \<Rightarrow> (True, t\<lparr>lastNeighbor := (lastNeighbor t)(nodeID \<mapsto> now)\<rparr>))"

text \<open>The two limits do not touch each other's records.\<close>

lemma throttle_frames [simp]:
  "lastNeighbor (snd (canRespondTelemetry t n now)) = lastNeighbor t"
  "lastTelemetry (snd (canRespondNeighbor t n now)) = lastTelemetry t"
  "throttlePeriod (snd (canRespondTelemetry t n now)) = throttlePeriod t"
  "throttlePeriod (snd (canRespondNeighbor t n now)) = throttlePeriod t"
  by (auto simp: canRespondTelemetry_def canRespondNeighbor_def split: option.splits)

interpretation telemetry_limit: rate_limiter canRespondTelemetry lastTelemetry throttlePeriod
  by unfold_locales (auto simp: canRespondTelemetry_def split: option.splits)

interpretation neighbor_limit: rate_limiter canRespondNeighbor lastNeighbor throttlePeriod
  by unfold_locales (auto simp: canRespondNeighbor_def split: option.splits)

section \<open>Properties\<close>

text \<open>Requests of both kinds in one sequence: a request for a node asks the limit of its kind.\<close>

datatype request_kind = TelemetryRequest | NeighborRequest

fun canRespond :: "requestThrottle \<Rightarrow> request_kind \<times> NodeID \<Rightarrow> gotime \<Rightarrow> bool \<times> requestThrottle" where
  "canRespond t (TelemetryRequest, n) now = canRespondTelemetry t n now"
| "canRespond t (NeighborRequest, n) now = canRespondNeighbor t n now"

fun last_response :: "requestThrottle \<Rightarrow> request_kind \<times> NodeID \<Rightarrow> gotime option" where
  "last_response t (TelemetryRequest, n) = lastTelemetry t n"
| "last_response t (NeighborRequest, n) = lastNeighbor t n"

interpretation response_limit: rate_limiter canRespond last_response throttlePeriod
proof
  fix s and k :: "request_kind \<times> NodeID" and t
  obtain q n where k: "k = (q, n)" by fastforce
  show "fst (canRespond s k t) \<longleftrightarrow>
      (case last_response s k of None \<Rightarrow> True | Some t0 \<Rightarrow> throttlePeriod s \<le> t - t0)"
    by (cases q) (simp_all add: k telemetry_limit.ask_answer neighbor_limit.ask_answer)
  show "throttlePeriod (snd (canRespond s k t)) = throttlePeriod s" by (cases q) (simp_all add: k)
  show "last_response (snd (canRespond s k t)) =
      (if fst (canRespond s k t) then (last_response s)(k \<mapsto> t) else last_response s)"
  proof (rule ext)
    fix j :: "request_kind \<times> NodeID"
    obtain p m where j: "j = (p, m)" by fastforce
    show "last_response (snd (canRespond s k t)) j =
        (if fst (canRespond s k t) then (last_response s)(k \<mapsto> t) else last_response s) j"
      by (cases q; cases p) (simp_all add: k j telemetry_limit.ask_records neighbor_limit.ask_records)
  qed
qed

text \<open>
  C26: over any sequence of telemetry and neighbour requests, in any order and with a clock that
  never goes back, two responses of one kind granted for the same managed node are at least the
  throttle period apart.  The limits are independent: what is granted of one kind for one node
  is what would be granted if no request of the other kind or for another node had come in
  between.  And a request is granted exactly when no response of its kind was granted for its node
  within the period.
\<close>

theorem responses_spaced:
  assumes "sorted (map snd rs)"
    and "grants canRespond t rs = xs @ (k, t1) # ys" "(k, t2) \<in> set ys"
  shows "throttlePeriod t \<le> t2 - t1 \<and>
    filter (\<lambda>r. fst r = j) (grants canRespond t rs) = grants canRespond t (filter (\<lambda>r. fst r = j) rs) \<and>
    (last_response t j = None \<or> (\<exists>t0. last_response t j = Some t0 \<and> throttlePeriod t \<le> now - t0)
       \<longleftrightarrow> fst (canRespond t j now))"
  using response_limit.grants_spaced [OF assms] response_limit.grants_for_key [of t j t rs]
    response_limit.ask_answer [of t j now]
  by (auto split: option.splits)

theorem responses_spaced_witness:
  "throttlePeriod (newRequestThrottle 180) \<le> 400 - (0 :: gotime) \<and>
   filter (\<lambda>r. fst r = (NeighborRequest, 5))
     (grants canRespond (newRequestThrottle 180) [((TelemetryRequest, 5), 0), ((TelemetryRequest, 5), 100),
        ((NeighborRequest, 5), 150), ((TelemetryRequest, 5), 400)]) = [((NeighborRequest, 5), 150)]"
proof -
  let ?rs = "[((TelemetryRequest, 5), 0), ((TelemetryRequest, 5), 100), ((NeighborRequest, 5), 150),
      ((TelemetryRequest, 5), 400)] :: ((request_kind \<times> NodeID) \<times> gotime) list"
  have "sorted (map snd ?rs)" by simp
  moreover have "grants canRespond (newRequestThrottle 180) ?rs
      = [] @ ((TelemetryRequest, 5), 0) # [((NeighborRequest, 5), 150), ((TelemetryRequest, 5), 400)]"
    by (simp add: newRequestThrottle_def canRespondTelemetry_def canRespondNeighbor_def)
  moreover have "((TelemetryRequest, 5), 400) \<in> set [((NeighborRequest, 5 :: NodeID), 150 :: gotime), ((TelemetryRequest, 5), 400)]"
    by simp
  ultimately have "throttlePeriod (newRequestThrottle 180) \<le> 400 - 0 \<and>
      filter (\<lambda>r. fst r = (NeighborRequest, 5)) (grants canRespond (newRequestThrottle 180) ?rs) =
      grants canRespond (newRequestThrottle 180) (filter (\<lambda>r. fst r = (NeighborRequest, 5)) ?rs)"
    using responses_spaced by blast
  then show ?thesis by (simp add: newRequestThrottle_def canRespondNeighbor_def)
qed

end
