(* ===== verification/Mesh_Client.thy ===== *)
theory Mesh_Client
  imports Mesh_Connectors Request_Throttle
begin

text \<open>
  The mesh client of \<^verbatim>\<open>pkg/mesh/mesh_client.go\<close>: channels, packet numbers, connection state and
  the one function through which every packet leaves, \<^verbatim>\<open>sendBytes\<close>.

  The client's state is a record.  What leaves it is recorded in the state: \<open>outbox\<close> holds, per
  call of \<^verbatim>\<open>sendBytes\<close> that reaches the connectors, the channel name and the packet handed to
  all of them; \<open>events\<close> the values passed to \<^verbatim>\<open>notifyEvent\<close>; \<open>connectCalls\<close> the calls of the
  connect and disconnect handlers.  What comes from outside (the libraries, the callbacks the
  bridge installs, the clock, the random numbers) is the environment \<open>E\<close> and the stream \<open>rng\<close>.
  A method call on a nil channel panics and ends the process; \<open>crashed\<close> records it.
\<close>

section \<open>Environment and state\<close>

text \<open>
  The duplicate cache is \<^verbatim>\<open>github.com/jellydator/ttlcache\<close>, outside the repository: an abstract
  type \<open>'c\<close> with the two operations the client calls.
\<close>

record 'c env =
  e_lib :: lib
  e_net :: net_env
  e_now :: gotime
  e_managed :: "NodeID \<Rightarrow> bool"
  e_pubKeyRequest :: "(NodeID \<Rightarrow> string option) option"
  e_privKeyRequest :: "(NodeID \<Rightarrow> string option) option"
  e_neighborProvider :: "(NodeID \<Rightarrow> NodeID list) option"
  e_cacheHas :: "'c \<Rightarrow> gotime \<Rightarrow> 64 word \<Rightarrow> bool"
  e_cacheSet :: "'c \<Rightarrow> gotime \<Rightarrow> 64 word \<Rightarrow> 'c"
  e_VirtualMemory :: "go_error + 64 word"
  e_LoadAvg :: "go_error + (gofloat \<times> gofloat \<times> gofloat)"
  e_Uptime :: "go_error + 64 word"
  e_DiskUsage :: "go_error + 64 word"

datatype connect_call = CallConnect bool | CallDisconnect

text \<open>
  A channel is compared by pointer in \<^verbatim>\<open>AddChannelDef\<close>, so each entry carries the identity of
  its object; a connector is identified by its index in \<open>meshConnectors\<close>.
\<close>

record 'c client =
  nodeId :: NodeID
  startTime :: gotime
  channels :: "(nat \<times> ChannelDef) list"
  currentPacketId :: "32 word"
  primaryChannel :: "(nat \<times> ChannelDef) option"
  hopLimit :: "32 word"
  previouslyConnected :: bool
  packetCache :: 'c
  nodeInfoSendCache :: "NodeID \<rightharpoonup> gotime"
  throttle :: requestThrottle
  neighborBroadcastInterval :: "32 word option"
  meshConnectors :: "connector list"
  nextRef :: nat
  rng :: "nat \<Rightarrow> 32 word"
  rngPos :: nat
  outbox :: "(string \<times> MeshPacket) list"
  events :: "event list"
  connectCalls :: "connect_call list"
  crashed :: bool

definition BITFIELD_OkToMQTT :: "32 word" where "BITFIELD_OkToMQTT = 1"
definition BITFIELD_WantResponse :: "32 word" where "BITFIELD_WantResponse = 2"
definition DefaultHopLimit :: "32 word" where "DefaultHopLimit = 3"
definition BellCharacter :: string where "BellCharacter = [CHR 0x07]"

definition NewMeshtasticClient :: "NodeID \<Rightarrow> gotime \<Rightarrow> 'c \<Rightarrow> (nat \<Rightarrow> 32 word) \<Rightarrow> 'c client" where
  "NewMeshtasticClient nid now cache rnd =
     \<lparr>nodeId = nid, startTime = now, channels = [], currentPacketId = 0, primaryChannel = None,
      hopLimit = DefaultHopLimit, previouslyConnected = False, packetCache = cache,
      nodeInfoSendCache = Map.empty, throttle = newRequestThrottle (3 * Minute),
      neighborBroadcastInterval = None, meshConnectors = [], nextRef = 0,
      rng = rnd, rngPos = 0, outbox = [], events = [], connectCalls = [], crashed = False\<rparr>"

section \<open>Connectors\<close>

definition AddMQTTHandler :: "'c client \<Rightarrow> 'c client" where
  "AddMQTTHandler c =
     c\<lparr>meshConnectors := meshConnectors c @ [MqttConn (NewMQTTMessageHandler (nodeId c))]\<rparr>"

definition AddUDPHandler :: "'c client \<Rightarrow> 'c client" where
  "AddUDPHandler c =
     c\<lparr>meshConnectors := meshConnectors c @ [UdpConn NewUDPMessageHandler]\<rparr>"

text \<open>
  \<^verbatim>\<open>Connect\<close>: the errors of the connectors' \<^verbatim>\<open>Start\<close>, in order; an error is returned when all of
  them failed.  With no connector at all \<^verbatim>\<open>errors.Join()\<close> is \<^verbatim>\<open>nil\<close>.
\<close>

definition join_errors :: "go_error list \<Rightarrow> go_error option" where
  "join_errors errs = (if errs = [] then None else Some (Joined errs))"

definition client_Connect :: "'c env \<Rightarrow> 'c client \<Rightarrow> 'c client \<times> go_error option" where
  "client_Connect E c =
     (if primaryChannel c = None then (c, Some (Errorf ''primary channel not set''))
      else
        let started = map (conn_Start (e_net E)) (meshConnectors c);
            errs = List.map_filter snd started
        in (c\<lparr>meshConnectors := map fst started\<rparr>,
            if length errs = length (meshConnectors c) then join_errors errs else None))"

definition client_Disconnect :: "'c client \<Rightarrow> 'c client" where
  "client_Disconnect c = c\<lparr>meshConnectors := map conn_Stop (meshConnectors c)\<rparr>"

definition IsConnected :: "'c client \<Rightarrow> bool" where
  "IsConnected c = list_ex conn_IsConnected (meshConnectors c)"

text \<open>
  \<^verbatim>\<open>handleConnectorStateChange(mh, le)\<close> for the connector at index \<open>i\<close>; both handlers are
  installed by \<^verbatim>\<open>MeshtasticConnector.Start\<close>.
\<close>

definition connectedCount :: "'c client \<Rightarrow> nat \<Rightarrow> nat" where
  "connectedCount c i = 
     length (filter (\<lambda>j. j \<noteq> i \<and> conn_IsConnected (meshConnectors c ! j))
       [0..<length (meshConnectors c)])"

definition handleConnectorStateChange :: "'c client \<Rightarrow> nat \<Rightarrow> ListenerEvent \<Rightarrow> 'c client" where
  "handleConnectorStateChange c i le =
     (let c = (if \<not> previouslyConnected c
               then c\<lparr>previouslyConnected := True,
                      connectCalls := connectCalls c @ [CallConnect False]\<rparr>
               else c)
      in if 0 < connectedCount c i then c
         else case le of
           EventConnectionLost \<Rightarrow> c\<lparr>connectCalls := connectCalls c @ [CallDisconnect]\<rparr>
         | EventRestarted \<Rightarrow> c\<lparr>connectCalls := connectCalls c @ [CallConnect True]\<rparr>
         | EventStarted \<Rightarrow> c\<lparr>connectCalls := connectCalls c @ [CallConnect False]\<rparr>)"

section \<open>Channels\<close>

definition notifyEvent :: "event \<Rightarrow> 'c client \<Rightarrow> 'c client" where
  "notifyEvent evt c = c\<lparr>events := events c @ [evt]\<rparr>"

text \<open>
  The loop of \<^verbatim>\<open>AddChannelDef\<close> looks at the first channel of the same name only: the same
  object ends the call, another one means the connectors know the name already.
\<close>

definition AddChannelDef :: "nat \<times> ChannelDef \<Rightarrow> 'c client \<Rightarrow> 'c client" where
  "AddChannelDef rd c =
     (let d = snd rd;
          c = notifyEvent (ChannelJoined (GetName d) (Some (GetKeyString d))) c
      in case find (\<lambda>v. GetName (snd v) = GetName d) (channels c) of
           Some v \<Rightarrow> if fst v = fst rd then c else c\<lparr>channels := channels c @ [rd]\<rparr>
         | None \<Rightarrow> c\<lparr>meshConnectors := map (\<lambda>h. conn_AddChannel h (GetName d)) (meshConnectors c),
                      channels := channels c @ [rd]\<rparr>)"

definition AddChannel :: "lib \<Rightarrow> string \<Rightarrow> string \<Rightarrow> 'c client \<Rightarrow> 'c client \<times> go_error option" where
  "AddChannel L channelName key c =
     (case NewChannelDef L channelName (Some key) of
        Inl err \<Rightarrow> (c, Some err)
      | Inr d \<Rightarrow> (AddChannelDef (nextRef c, d) (c\<lparr>nextRef := Suc (nextRef c)\<rparr>), None))"

text \<open>
  \<^verbatim>\<open>SetPrimaryChannel\<close> drops the error of \<^verbatim>\<open>NewChannelDef\<close>; with a key that does not parse,
  \<^verbatim>\<open>AddChannelDef\<close> calls a method on a nil interface.
\<close>

definition SetPrimaryChannel :: "lib \<Rightarrow> string \<Rightarrow> string \<Rightarrow> 'c client \<Rightarrow> 'c client" where
  "SetPrimaryChannel L channelName key c =
     (case NewChannelDef L channelName (Some key) of
        Inl err \<Rightarrow> c\<lparr>crashed := True\<rparr>
      | Inr d \<Rightarrow>
          let rd = (nextRef c, d); c = AddChannelDef rd (c\<lparr>nextRef := Suc (nextRef c)\<rparr>)
          in c\<lparr>primaryChannel := Some rd\<rparr>)"

text \<open>\<^verbatim>\<open>c.primaryChannel\<close> as an argument of the sending functions; a nil channel is \<open>None\<close>.\<close>

definition primary :: "'c client \<Rightarrow> ChannelDef option" where
  "primary c = map_option snd (primaryChannel c)"

definition SetHopLimit :: "32 word \<Rightarrow> 'c client \<Rightarrow> 'c client \<times> go_error option" where
  "SetHopLimit hl c =
     (if hl \<ge> MAX_HOPS then (c, Some (Errorf ''hop_limit must be less than 7''))
      else (c\<lparr>hopLimit := hl\<rparr>, None))"

definition SetNeighborBroadcastInterval :: "32 word \<Rightarrow> 'c client \<Rightarrow> 'c client" where
  "SetNeighborBroadcastInterval interval c = c\<lparr>neighborBroadcastInterval := Some interval\<rparr>"

section \<open>Packet numbers and priorities\<close>

definition randUint32 :: "'c client \<Rightarrow> 32 word \<times> 'c client" where
  "randUint32 c = (rng c (rngPos c), c\<lparr>rngPos := Suc (rngPos c)\<rparr>)"

text \<open>\<^verbatim>\<open>math.MaxUint32 >> 22\<close> is an untyped constant, 1023.\<close>

definition generatePacketId :: "'c client \<Rightarrow> 32 word \<times> 'c client" where
  "generatePacketId c =
     (let (rollingPacketId, c) =
            (if currentPacketId c = 0 then randUint32 c else (currentPacketId c, c));
          rollingPacketId = rollingPacketId + 1;
          (r, c) = randUint32 c;
          pid = (rollingPacketId AND 1023) OR push_bit 10 r
      in (pid, c\<lparr>currentPacketId := pid\<rparr>))"

definition getLastByteOfNodeNum :: "32 word \<Rightarrow> 8 word" where
  "getLastByteOfNodeNum num =
     (let lastByte = ucast (num AND 0xFF) :: 8 word in if lastByte \<noteq> 0 then lastByte else 0xFF)"

definition getPriority :: "Data \<Rightarrow> bool \<Rightarrow> Priority" where
  "getPriority d wantAck =
     (if d_Portnum d = ROUTING_APP then PRIORITY_ACK
      else if d_Portnum d = TEXT_MESSAGE_APP \<or> d_Portnum d = ADMIN_APP then PRIORITY_HIGH
      else if d_RequestId d \<noteq> 0 then PRIORITY_RESPONSE
      else if d_WantResponse d then PRIORITY_RELIABLE
      else if wantAck then PRIORITY_RELIABLE else PRIORITY_DEFAULT)"

section \<open>Sending\<close>

text \<open>
  \<^verbatim>\<open>EncryptionType\<close> is an integer type; a value past the three constants takes the default
  branch of the switch.
\<close>

datatype EncryptionType = NoEncryption | PSKEncryption | PKIEncryption | OtherEncryption

record PacketInfo =
  pi_PortNum :: PortNum
  pi_Encrypted :: EncryptionType
  pi_From :: NodeID
  pi_To :: NodeID
  pi_RequestId :: "32 word"
  pi_ReplyId :: "32 word"
  pi_WantResponse :: bool
  pi_Emoji :: bool

text \<open>A Go composite literal leaves the fields it does not name at zero.\<close>

definition PacketInfo0 :: "PortNum \<Rightarrow> EncryptionType \<Rightarrow> NodeID \<Rightarrow> NodeID \<Rightarrow> PacketInfo" where
  "PacketInfo0 port enc src dst =
     \<lparr>pi_PortNum = port, pi_Encrypted = enc, pi_From = src, pi_To = dst,
      pi_RequestId = 0, pi_ReplyId = 0, pi_WantResponse = False, pi_Emoji = False\<rparr>"

definition requestKey ::
  "lib \<Rightarrow> NodeID \<Rightarrow> (NodeID \<Rightarrow> string option) option \<Rightarrow> go_error + bytes" where
  "requestKey L nodeID handler =
     (case handler of
        None \<Rightarrow> Inl (Errorf ''no handler for key request'')
      | Some h \<Rightarrow>
          (case h nodeID of
             None \<Rightarrow> Inl (Errorf ''no key provided for node'')
           | Some keyString \<Rightarrow>
               if keyString = [] then Inl (Errorf ''no key provided for node'')
               else ParseKey L keyString))"

text \<open>
  \<^verbatim>\<open>sendBytes\<close> in its four stages: the guards, the payload of the packet, its header, and the
  hand-over to the connectors.
\<close>

definition data_of :: "bytes \<Rightarrow> PacketInfo \<Rightarrow> Data" where
  "data_of rawInfo info =
     (let d = \<lparr>d_Portnum = pi_PortNum info, d_Payload = rawInfo, d_WantResponse = False,
               d_RequestId = pi_RequestId info, d_ReplyId = pi_ReplyId info,
               d_Emoji = (if pi_Emoji info then 1 else 0), d_Bitfield = Some BITFIELD_OkToMQTT\<rparr>
      in if pi_WantResponse info \<and> pi_To info \<noteq> BROADCAST_ID \<and>
            (pi_PortNum info = NODEINFO_APP \<or> pi_PortNum info = POSITION_APP \<or>
             pi_PortNum info = TRACEROUTE_APP)
         then d\<lparr>d_WantResponse := True,
                d_Bitfield := Some (BITFIELD_OkToMQTT OR BITFIELD_WantResponse)\<rparr>
         else d)"

definition wantAck_of :: "PacketInfo \<Rightarrow> bool" where
  "wantAck_of info \<longleftrightarrow> pi_PortNum info = TRACEROUTE_APP \<and> pi_WantResponse info"

definition packet_header ::
  "'c env \<Rightarrow> 'c client \<Rightarrow> ChannelDef \<Rightarrow> PacketInfo \<Rightarrow> Data \<Rightarrow> 32 word \<Rightarrow> MeshPacket" where
  "packet_header E c channel info data packetId =
     \<lparr>p_From = pi_From info, p_To = pi_To info,
      p_Channel = fst (ChannelHash (e_lib E) (GetName channel) (GetKeyBytes channel)),
      p_Id = packetId, p_HopLimit = hopLimit c,
      p_HopStart = (if pi_From info \<noteq> nodeId c then hopLimit c + 1 else hopLimit c),
      p_WantAck = wantAck_of info, p_ViaMqtt = False, p_PkiEncrypted = False,
      p_Priority = getPriority data (wantAck_of info),
      p_RelayNode = ucast (getLastByteOfNodeNum (nodeId c)),
      p_RxTime = unix32 (e_now E), p_RxSnr = Fin 0, p_Payload = None\<rparr>"

definition encrypt_packet ::
  "'c env \<Rightarrow> ChannelDef \<Rightarrow> PacketInfo \<Rightarrow> Data \<Rightarrow> bytes \<Rightarrow> MeshPacket
   \<Rightarrow> (32 word \<times> go_error) + MeshPacket" where
  "encrypt_packet E channel info data rawData pkt =
     (let L = e_lib E in
      case pi_Encrypted info of
        NoEncryption \<Rightarrow> Inr (pkt\<lparr>p_Channel := 0, p_Payload := Some (Decoded data)\<rparr>)
      | PSKEncryption \<Rightarrow>
          (case radio_XOR L rawData (GetKeyBytes channel) (p_Id pkt) (pi_From info) of
             Inl err \<Rightarrow> Inl (p_Id pkt, err)
           | Inr encodedBytes \<Rightarrow> Inr (pkt\<lparr>p_Payload := Some (Encrypted encodedBytes)\<rparr>))
      | PKIEncryption \<Rightarrow>
          (case requestKey L (pi_From info) (e_privKeyRequest E) of
             Inl err \<Rightarrow> Inl (p_Id pkt, err)
           | Inr priv \<Rightarrow>
               (case requestKey L (pi_To info) (e_pubKeyRequest E) of
                  Inl err \<Rightarrow> Inl (p_Id pkt, err)
                | Inr pub \<Rightarrow>
                    (case EncryptCurve25519 L rawData priv pub (p_Id pkt) (pi_From info) of
                       Inl err \<Rightarrow> Inl (p_Id pkt, err)
                     | Inr encodedBytes \<Rightarrow>
                         Inr (pkt\<lparr>p_PkiEncrypted := True, p_Channel := 0,
                                  p_Payload := Some (Encrypted encodedBytes)\<rparr>))))
      | OtherEncryption \<Rightarrow> Inl (0, Errorf ''unknown encryption method requested''))"

text \<open>
  The connectors send concurrently and the call waits for all of them; their errors are
  collected by index and the call fails only if every connector failed.
\<close>

definition deliver :: "'c env \<Rightarrow> string \<Rightarrow> MeshPacket \<Rightarrow> 'c client \<Rightarrow> go_error option \<times> 'c client" where
  "deliver E channelName pkt c =
     (let errs = List.map_filter (conn_SendPacket (e_net E) channelName pkt) (meshConnectors c);
          c = c\<lparr>outbox := outbox c @ [(channelName, pkt)]\<rparr>
      in (if length errs = length (meshConnectors c) then join_errors errs else None, c))"

definition sendBytes ::
  "'c env \<Rightarrow> ChannelDef option \<Rightarrow> bytes \<Rightarrow> PacketInfo \<Rightarrow> 'c client
   \<Rightarrow> (32 word \<times> go_error option) \<times> 'c client" where
  "sendBytes E channel rawInfo info c =
     (if \<not> e_managed E (pi_From info) then
        ((0, Some (Errorf (''from node is not managed by this bridge: '' @ NodeID_String (pi_From info)))), c)
      else if int (length rawInfo) > DATA_PAYLOAD_LEN (e_lib E) - 1 then
        ((0, Some (Errorf (''message is too large for meshtastic network: max('' @
            Itoa (DATA_PAYLOAD_LEN (e_lib E) - 1) @ '') sent('' @ Itoa (int (length rawInfo)) @ '')''))), c)
      else
        let data = data_of rawInfo info;
            (packetId, c) = generatePacketId c
        in case MarshalData (e_lib E) data of
             Inl err \<Rightarrow> ((0, Some err), c)
           | Inr rawData \<Rightarrow>
               (case channel of
                  None \<Rightarrow> ((0, None), c\<lparr>crashed := True\<rparr>)
                | Some channel \<Rightarrow>
                    (case encrypt_packet E channel info data rawData
                            (packet_header E c channel info data packetId) of
                       Inl (pid, err) \<Rightarrow> ((pid, Some err), c)
                     | Inr pkt \<Rightarrow>
                         (let (err, c) = deliver E (GetName channel) pkt c
                          in ((packetId, err), c)))))"

definition sendProtoMessage ::
  "'c env \<Rightarrow> ChannelDef option \<Rightarrow> ProtoMsg \<Rightarrow> PacketInfo \<Rightarrow> 'c client
   \<Rightarrow> (32 word \<times> go_error option) \<times> 'c client" where
  "sendProtoMessage E channel message info c =
     (case Marshal (e_lib E) message of
        Inl err \<Rightarrow> ((0, Some err), c)
      | Inr rawInfo \<Rightarrow> sendBytes E channel rawInfo info c)"

end
