(* ===== verification/Mesh_Samples.thy ===== *)
theory Mesh_Samples
  imports Mesh_Client
begin

text \<open>
  A concrete environment for the parameters of the model, used to run the client on examples.
  Payloads are marshalled to fixed bytes, the packet cipher is the identity, every connector
  accepts what it is given, and the duplicate cache keeps an entry for two hours.
\<close>

section \<open>The duplicate cache\<close>

text \<open>
  What the client relies on in \<^verbatim>\<open>ttlcache\<close>: an entry that is set is there until its time to
  live is over, and setting one key leaves the others alone.
\<close>

definition ttl_cache_ok ::
  "('c \<Rightarrow> gotime \<Rightarrow> 64 word \<Rightarrow> bool) \<Rightarrow> ('c \<Rightarrow> gotime \<Rightarrow> 64 word \<Rightarrow> 'c) \<Rightarrow> duration \<Rightarrow> bool" where
  "ttl_cache_ok has put ttl \<longleftrightarrow>
     (\<forall>c t k t'. t \<le> t' \<and> t' < t + ttl \<longrightarrow> has (put c t k) t' k) \<and>
     (\<forall>c t k t' k'. k' \<noteq> k \<longrightarrow> has (put c t k) t' k' = has c t' k')"

type_synonym sample_cache = "(64 word \<times> gotime) list"

definition sample_has :: "sample_cache \<Rightarrow> gotime \<Rightarrow> 64 word \<Rightarrow> bool" where
  "sample_has c t k = list_ex (\<lambda>(k', expires). k' = k \<and> t < expires) c"

definition sample_set :: "sample_cache \<Rightarrow> gotime \<Rightarrow> 64 word \<Rightarrow> sample_cache" where
  "sample_set c t k = (k, t + 2 * Hour) # c"

lemma sample_cache_ok: "ttl_cache_ok sample_has sample_set (2 * Hour)"
  by (simp add: ttl_cache_ok_def sample_has_def sample_set_def)

section \<open>Libraries and environment\<close>

definition sample_user :: User where
  "sample_user =
     \<lparr>u_Id = ''!00000002'', u_LongName = ''Base'', u_ShortName = ''B'', u_Macaddr = [],
      u_HwModel = PRIVATE_HW, u_IsLicensed = False, u_Role = CLIENT, u_PublicKey = [],
      u_IsUnmessagable = None\<rparr>"

definition sample_lib :: lib where
  "sample_lib = radio.extend sample_radio
     (lib.fields
       (\<lambda>p k. (Some \<lparr>d_Portnum = TEXT_MESSAGE_APP, d_Payload = ''hi'', d_WantResponse = False,
                d_RequestId = 0, d_ReplyId = 0, d_Emoji = 0, d_Bitfield = None\<rparr>, None))
       (\<lambda>p pub priv. (None, Some (External ''pki'')))
       233
       (\<lambda>m. Inr ''payload'')
       (\<lambda>d. Inr (d_Payload d))
       (\<lambda>b. (sample_user, None))
       (\<lambda>b. (\<lparr>pos_LatitudeI = None, pos_LongitudeI = None, pos_Altitude = None, pos_Time = 0,
              pos_Timestamp = 0, pos_PrecisionBits = 0, pos_GroundSpeed = None, pos_GroundTrack = None\<rparr>, None))
       (\<lambda>b. (\<lparr>mr_LongName = '''', mr_ShortName = '''', mr_Role = CLIENT, mr_HwModel = PRIVATE_HW,
              mr_FirmwareVersion = '''', mr_Region = 0, mr_ModemPreset = 0, mr_HasDefaultChannel = False,
              mr_LatitudeI = 0, mr_LongitudeI = 0, mr_Altitude = 0, mr_PositionPrecision = 0,
              mr_NumOnlineLocalNodes = 0\<rparr>, None))
       (\<lambda>b. (\<lparr>Route = [], SnrTowards = [], RouteBack = [], SnrBack = []\<rparr>, None))
       (\<lambda>b. (\<lparr>t_Time = 0, t_Variant = None\<rparr>, None))
       (\<lambda>b. (\<lparr>ni_NodeId = 0, ni_LastSentById = 0, ni_NodeBroadcastIntervalSecs = 0, ni_Neighbors = []\<rparr>, None))
       (\<lambda>b. None)
       (\<lambda>b. (ROUTING_NONE, None))
       (\<lambda>b. (\<lparr>w_Id = 7, w_LatitudeI = Some 10000000, w_LongitudeI = Some 20000000, w_Expire = 0,
              w_LockedTo = 0, w_Name = ''camp'', w_Description = '''', w_Icon = 0\<rparr>, None))
       (\<lambda>r. ''CLIENT'') (\<lambda>x. 0) (\<lambda>x. 0) 1 (\<lambda>s. None) (\<lambda>s. s))"

lemma sample_lib_keys_ok: "radio_keys_ok sample_lib"
  using sample_radio_ok by (simp add: radio_keys_ok_def sample_lib_def sample_radio_def radio.extend_def)

definition sample_net :: net_env where
  "sample_net =
     \<lparr>MarshalEnvelope = (\<lambda>ch gw p. Inr ''env''), UnmarshalEnvelope = (\<lambda>b. Inl (External ''bad'')),
      MarshalPacket = (\<lambda>p. Inr ''pkt''), GetFullTopicForChannel = (\<lambda>ch. ''msh/2/e/'' @ ch),
      Publish = (\<lambda>t b. None), MqttConnect = None, DialUDP = None, WriteUDP = (\<lambda>b. None)\<rparr>"

text \<open>The bridge manages the nodes 1 to 15; its own node is 2.\<close>

definition sample_env :: "sample_cache env" where
  "sample_env =
     \<lparr>e_lib = sample_lib, e_net = sample_net, e_now = 1000 * Second,
      e_managed = (\<lambda>n. 0 < n \<and> n < 16),
      e_pubKeyRequest = Some (\<lambda>n. Some ''AQ==''), e_privKeyRequest = Some (\<lambda>n. Some ''AQ==''),
      e_neighborProvider = Some (\<lambda>n. [20, 21]),
      e_cacheHas = sample_has, e_cacheSet = sample_set,
      e_VirtualMemory = Inr 1024, e_LoadAvg = Inr (Fin 1, Fin 1, Fin 1), e_Uptime = Inr 60,
      e_DiskUsage = Inr 4096\<rparr>"

definition sample_channel :: ChannelDef where
  "sample_channel = \<lparr>cd_name = ''LongFast'', cd_key = Some ''AQ=='', cd_keyBytes = DefaultKey sample_radio\<rparr>"

definition sample_client :: "sample_cache client" where
  "sample_client =
     (NewMeshtasticClient 2 0 [] (\<lambda>i. 5))
       \<lparr>currentPacketId := 41, channels := [(0, sample_channel)], nextRef := 1,
        primaryChannel := Some (0, sample_channel)\<rparr>"

definition sample_packet :: MeshPacket where
  "sample_packet =
     \<lparr>p_From = 100, p_To = 3, p_Channel = 24, p_Id = 77, p_HopLimit = 1, p_HopStart = 3,
      p_WantAck = False, p_ViaMqtt = False, p_PkiEncrypted = False, p_Priority = PRIORITY_DEFAULT,
      p_RelayNode = 0, p_RxTime = 5, p_RxSnr = Fin 2, p_Payload = Some (Encrypted ''secret'')\<rparr>"

definition sample_net_packet :: NetworkMeshPacket where
  "sample_net_packet =
     \<lparr>np_MeshPacket = sample_packet, np_ChannelName = ''LongFast'', np_ChannelKey = None,
      np_GatewayNode = 200, np_Source = PacketSourceMQTT\<rparr>"

lemmas sample_defs =
  sample_env_def sample_lib_def sample_net_def sample_client_def NewMeshtasticClient_def
  sample_channel_def sample_packet_def sample_net_packet_def sample_radio_def radio.extend_def
  lib.fields_def sample_has_def sample_set_def DefaultHopLimit_def duration_defs

end
