(* ===== verification/Mesh_Sending.thy ===== *)
theory Mesh_Sending
  imports Mesh_Samples
begin

text \<open>
  What the sending core of \<^theory_text>\<open>Mesh_Client\<close> guarantees: which fields a send touches, what a
  packet that leaves looks like, how packet numbers follow each other, and the invariants the
  client keeps between its operations.
\<close>

section \<open>Frames\<close>

lemma generatePacketId_frame:
  assumes "generatePacketId c = (pid, c')"
  shows "\<exists>n. c' = c\<lparr>currentPacketId := pid, rngPos := n\<rparr>"
  using assms
  by (auto simp: generatePacketId_def randUint32_def Let_def split: if_splits prod.splits
      intro!: exI [of _ "rngPos c'"])

lemma deliver_eq:
  "deliver E n pkt c = (err, c') \<Longrightarrow> c' = c\<lparr>outbox := outbox c @ [(n, pkt)]\<rparr>"
  by (auto simp: deliver_def Let_def)

text \<open>
  A call of \<^verbatim>\<open>sendBytes\<close> either leaves the outbox alone and returns an error, or appends one
  packet; nothing but the packet number, the random stream and the outbox changes.  Without a
  channel it crashes.
\<close>

definition sent_packet ::
  "'c env \<Rightarrow> 'c client \<Rightarrow> ChannelDef \<Rightarrow> bytes \<Rightarrow> PacketInfo \<Rightarrow> 32 word \<Rightarrow> MeshPacket \<Rightarrow> bool" where
  "sent_packet E c channel rawInfo info pid pkt \<longleftrightarrow>
     e_managed E (pi_From info) \<and>
     int (length rawInfo) \<le> DATA_PAYLOAD_LEN (e_lib E) - 1 \<and>
     (\<exists>rawData. MarshalData (e_lib E) (data_of rawInfo info) = Inr rawData \<and>
        encrypt_packet E channel info (data_of rawInfo info) rawData
          (packet_header E c channel info (data_of rawInfo info) pid) = Inr pkt)"

lemma packet_header_frame:
  assumes "generatePacketId c = (pid, c')"
  shows "packet_header E c' = packet_header E c"
proof -
  obtain n where c': "c' = c\<lparr>currentPacketId := pid, rngPos := n\<rparr>"
    using generatePacketId_frame [OF assms] by blast
  show ?thesis by (intro ext) (simp add: packet_header_def c')
qed

lemma sendBytes_cases:
  assumes "sendBytes E channel rawInfo info c = ((pid, err), c')"
  obtains (refused) e where "err = Some e" "c' = c" "pid = 0"
  | (failed) e n cur where "err = Some e" "c' = c\<lparr>currentPacketId := cur, rngPos := n\<rparr>"
  | (nil_channel) n cur where "channel = None"
      "c' = c\<lparr>currentPacketId := cur, rngPos := n, crashed := True\<rparr>"
  | (sent) ch pkt n where "channel = Some ch"
      "c' = c\<lparr>currentPacketId := pid, rngPos := n, outbox := outbox c @ [(GetName ch, pkt)]\<rparr>"
      "sent_packet E c ch rawInfo info pid pkt"
proof -
  obtain pid1 c1 where gen: "generatePacketId c = (pid1, c1)" by fastforce
  obtain n where c1: "c1 = c\<lparr>currentPacketId := pid1, rngPos := n\<rparr>"
    using generatePacketId_frame [OF gen] by blast
  let ?d = "data_of rawInfo info"
  let ?enc = "\<lambda>ch raw. encrypt_packet E ch info ?d raw (packet_header E c ch info ?d pid1)"
  have hdr: "packet_header E c1 = packet_header E c" by (rule packet_header_frame [OF gen])
  consider (guard) "\<not> e_managed E (pi_From info) \<or> int (length rawInfo) > DATA_PAYLOAD_LEN (e_lib E) - 1"
    | (marshal) e where "e_managed E (pi_From info)" "\<not> int (length rawInfo) > DATA_PAYLOAD_LEN (e_lib E) - 1"
        "MarshalData (e_lib E) ?d = Inl e"
    | (nil) raw where "e_managed E (pi_From info)" "\<not> int (length rawInfo) > DATA_PAYLOAD_LEN (e_lib E) - 1"
        "MarshalData (e_lib E) ?d = Inr raw" "channel = None"
    | (crypt) raw ch where "e_managed E (pi_From info)" "\<not> int (length rawInfo) > DATA_PAYLOAD_LEN (e_lib E) - 1"
        "MarshalData (e_lib E) ?d = Inr raw" "channel = Some ch"
    by (cases "MarshalData (e_lib E) ?d"; cases channel) auto
  then show thesis
  proof cases
    case guard
    then show ?thesis using assms refused by (auto simp: sendBytes_def split: if_splits)
  next
    case (marshal e)
    then have "err = Some e \<and> c' = c1" using assms gen by (simp add: sendBytes_def)
    then show ?thesis using c1 failed [of e n pid1] by simp
  next
    case (nil raw)
    then have "c' = c1\<lparr>crashed := True\<rparr>" using assms gen by (simp add: sendBytes_def)
    then show ?thesis using c1 nil_channel [of n pid1] nil by simp
  next
    case (crypt raw ch)
    show ?thesis
    proof (cases "?enc ch raw")
      case (Inl pe)
      then have "err = Some (snd pe) \<and> c' = c1"
        using assms crypt gen hdr by (cases pe) (simp add: sendBytes_def)
      then show ?thesis using c1 failed [of "snd pe" n pid1] by simp
    next
      case (Inr pkt)
      obtain e2 c2 where del: "deliver E (GetName ch) pkt c1 = (e2, c2)" by fastforce
      have "c2 = c1\<lparr>outbox := outbox c1 @ [(GetName ch, pkt)]\<rparr>"
        by (rule deliver_eq [OF del])
      moreover have "pid = pid1 \<and> c' = c2"
        using assms crypt gen hdr Inr del by (simp add: sendBytes_def)
      moreover have "sent_packet E c ch rawInfo info pid1 pkt"
        using crypt Inr by (auto simp: sent_packet_def)
      ultimately show ?thesis using sent [of ch pkt n] c1 crypt by simp
    qed
  qed
qed

lemma sendBytes_crashed: "crashed (snd (sendBytes E (Some ch) raw i c)) = crashed c"
  by (cases "sendBytes E (Some ch) raw i c" rule: prod.exhaust; cases "fst (sendBytes E (Some ch) raw i c)";
      auto elim!: sendBytes_cases)

lemma sendBytes_frame [simp]:
  "nodeId (snd (sendBytes E ch raw i c)) = nodeId c"
  "startTime (snd (sendBytes E ch raw i c)) = startTime c"
  "channels (snd (sendBytes E ch raw i c)) = channels c"
  "primaryChannel (snd (sendBytes E ch raw i c)) = primaryChannel c"
  "hopLimit (snd (sendBytes E ch raw i c)) = hopLimit c"
  "packetCache (snd (sendBytes E ch raw i c)) = packetCache c"
  "nodeInfoSendCache (snd (sendBytes E ch raw i c)) = nodeInfoSendCache c"
  "throttle (snd (sendBytes E ch raw i c)) = throttle c"
  "neighborBroadcastInterval (snd (sendBytes E ch raw i c)) = neighborBroadcastInterval c"
  "meshConnectors (snd (sendBytes E ch raw i c)) = meshConnectors c"
  "events (snd (sendBytes E ch raw i c)) = events c"
  "rng (snd (sendBytes E ch raw i c)) = rng c"
  "nextRef (snd (sendBytes E ch raw i c)) = nextRef c"
  "connectCalls (snd (sendBytes E ch raw i c)) = connectCalls c"
  "previouslyConnected (snd (sendBytes E ch raw i c)) = previouslyConnected c"
  by (cases "sendBytes E ch raw i c" rule: prod.exhaust; cases "fst (sendBytes E ch raw i c)";
      auto elim!: sendBytes_cases)+


section \<open>What a packet that leaves looks like\<close>

lemma encrypt_packet_header:
  assumes "encrypt_packet E channel info data raw hdr = Inr pkt"
  shows "p_From pkt = p_From hdr" "p_To pkt = p_To hdr" "p_Id pkt = p_Id hdr"
    "p_HopLimit pkt = p_HopLimit hdr" "p_HopStart pkt = p_HopStart hdr"
    "p_WantAck pkt = p_WantAck hdr" "p_Priority pkt = p_Priority hdr"
    "p_RelayNode pkt = p_RelayNode hdr" "p_ViaMqtt pkt = p_ViaMqtt hdr"
  using assms
  by (auto simp: encrypt_packet_def Let_def split: EncryptionType.splits sum.splits)

lemma encrypt_packet_payload:
  assumes "encrypt_packet E channel info data raw hdr = Inr pkt"
  shows "pi_Encrypted info = NoEncryption \<Longrightarrow> p_Payload pkt = Some (Decoded data) \<and> p_Channel pkt = 0"
    "pi_Encrypted info \<noteq> NoEncryption \<Longrightarrow> \<exists>b. p_Payload pkt = Some (Encrypted b)"
    "p_PkiEncrypted hdr \<or> pi_Encrypted info = PKIEncryption \<longleftrightarrow> p_PkiEncrypted pkt"
    "pi_Encrypted info = PKIEncryption \<Longrightarrow> p_Channel pkt = 0"
    "pi_Encrypted info = PSKEncryption \<Longrightarrow> p_Channel pkt = p_Channel hdr"
  using assms
  by (auto simp: encrypt_packet_def Let_def split: EncryptionType.splits sum.splits)

lemma data_of_Portnum [simp]: "d_Portnum (data_of raw info) = pi_PortNum info"
  by (simp add: data_of_def Let_def)

lemma getLastByteOfNodeNum_nonzero: "getLastByteOfNodeNum n \<noteq> 0"
  by (simp add: getLastByteOfNodeNum_def Let_def)

text \<open>
  The promise on every outgoing packet: the sender is a node of this bridge; the hop counters
  stay within the protocol's bound; only map reports leave in the clear, on channel 0; a packet
  encrypted for one node carries channel 0.
\<close>

definition packet_ok :: "(NodeID \<Rightarrow> bool) \<Rightarrow> MeshPacket \<Rightarrow> bool" where
  "packet_ok managed p \<longleftrightarrow>
     managed (p_From p) \<and>
     p_HopLimit p < MAX_HOPS \<and> p_HopLimit p \<le> p_HopStart p \<and> p_HopStart p \<le> MAX_HOPS \<and>
     (p_PkiEncrypted p \<longrightarrow> p_Channel p = 0) \<and>
     (case p_Payload p of
        None \<Rightarrow> False
      | Some (Decoded d) \<Rightarrow> d_Portnum d = MAP_REPORT_APP \<and> p_Channel p = 0
      | Some (Encrypted b) \<Rightarrow> True)"

definition client_inv :: "(NodeID \<Rightarrow> bool) \<Rightarrow> 'c client \<Rightarrow> bool" where
  "client_inv managed c \<longleftrightarrow>
     hopLimit c < MAX_HOPS \<and> (\<forall>np \<in> set (outbox c). packet_ok managed (snd np))"

lemma hop_arith:
  fixes h :: "32 word"
  assumes "h < MAX_HOPS" shows "h \<le> h + 1" "h + 1 \<le> MAX_HOPS"
proof -
  have h: "unat h < 7" using assms by (simp add: MAX_HOPS_def word_less_nat_alt)
  then have "unat (h + 1) = unat h + 1" by (simp add: unat_word_ariths)
  with h show "h \<le> h + 1" "h + 1 \<le> MAX_HOPS" by (simp_all add: MAX_HOPS_def word_le_nat_alt)
qed

lemma sent_packet_ok:
  assumes sent: "sent_packet E c channel raw info pid pkt" and hop: "hopLimit c < MAX_HOPS"
    and clear: "pi_Encrypted info = NoEncryption \<Longrightarrow> pi_PortNum info = MAP_REPORT_APP"
  shows "packet_ok (e_managed E) pkt"
proof -
  let ?hdr = "packet_header E c channel info (data_of raw info) pid"
  obtain rawData where enc: "encrypt_packet E channel info (data_of raw info) rawData ?hdr = Inr pkt"
    and man: "e_managed E (pi_From info)"
    using sent by (auto simp: sent_packet_def)
  note fields = encrypt_packet_header [OF enc] and pay = encrypt_packet_payload [OF enc]
  have hdr: "p_From ?hdr = pi_From info" "p_HopLimit ?hdr = hopLimit c" "\<not> p_PkiEncrypted ?hdr"
    "p_HopStart ?hdr = hopLimit c \<or> p_HopStart ?hdr = hopLimit c + 1"
    by (auto simp: packet_header_def)
  have hops: "p_HopLimit pkt < MAX_HOPS" "p_HopLimit pkt \<le> p_HopStart pkt" "p_HopStart pkt \<le> MAX_HOPS"
    using fields hdr hop hop_arith [OF hop] by auto
  have "case p_Payload pkt of None \<Rightarrow> False
      | Some (Decoded d) \<Rightarrow> d_Portnum d = MAP_REPORT_APP \<and> p_Channel pkt = 0
      | Some (Encrypted b) \<Rightarrow> True"
    using pay(1,2) clear by (cases "pi_Encrypted info = NoEncryption") auto
  moreover have "p_PkiEncrypted pkt \<longrightarrow> p_Channel pkt = 0" using pay(3,4) hdr(3) by blast
  ultimately show ?thesis using man fields hdr(1) hops by (simp add: packet_ok_def)
qed

lemma sendBytes_inv:
  assumes "client_inv M c" "\<And>n. e_managed E n \<Longrightarrow> M n"
    and "pi_Encrypted info = NoEncryption \<Longrightarrow> pi_PortNum info = MAP_REPORT_APP"
  shows "client_inv M (snd (sendBytes E channel raw info c))"
proof -
  obtain pid err c' where s: "sendBytes E channel raw info c = ((pid, err), c')"
    by (metis prod.exhaust)
  then show ?thesis
  proof (cases rule: sendBytes_cases)
    case (sent ch pkt n)
    then have "packet_ok (e_managed E) pkt"
      using assms by (auto simp: client_inv_def intro: sent_packet_ok)
    then have "packet_ok M pkt" using assms(2) by (simp add: packet_ok_def)
    with sent s assms(1) show ?thesis by (auto simp: client_inv_def)
  qed (use s assms(1) in \<open>auto simp: client_inv_def\<close>)
qed

lemma sendProtoMessage_cases:
  "sendProtoMessage E channel m info c = ((0, Some e), c) \<or>
   sendProtoMessage E channel m info c = sendBytes E channel raw info c"
  if "Marshal (e_lib E) m = Inl e \<or> Marshal (e_lib E) m = Inr raw"
  using that by (auto simp: sendProtoMessage_def)

lemma sendProtoMessage_frame [simp]:
  "nodeId (snd (sendProtoMessage E ch m i c)) = nodeId c"
  "startTime (snd (sendProtoMessage E ch m i c)) = startTime c"
  "channels (snd (sendProtoMessage E ch m i c)) = channels c"
  "primaryChannel (snd (sendProtoMessage E ch m i c)) = primaryChannel c"
  "hopLimit (snd (sendProtoMessage E ch m i c)) = hopLimit c"
  "packetCache (snd (sendProtoMessage E ch m i c)) = packetCache c"
  "nodeInfoSendCache (snd (sendProtoMessage E ch m i c)) = nodeInfoSendCache c"
  "throttle (snd (sendProtoMessage E ch m i c)) = throttle c"
  "neighborBroadcastInterval (snd (sendProtoMessage E ch m i c)) = neighborBroadcastInterval c"
  "meshConnectors (snd (sendProtoMessage E ch m i c)) = meshConnectors c"
  "events (snd (sendProtoMessage E ch m i c)) = events c"
  "connectCalls (snd (sendProtoMessage E ch m i c)) = connectCalls c"
  by (cases "Marshal (e_lib E) m"; simp add: sendProtoMessage_def)+

section \<open>Packet numbers\<close>

text \<open>The numbers of \<open>n\<close> calls in a row.\<close>

primrec packetIds :: "nat \<Rightarrow> 'c client \<Rightarrow> 32 word list" where
  "packetIds 0 c = []"
| "packetIds (Suc n) c = (let (pid, c') = generatePacketId c in pid # packetIds n c')"

lemma low_bits: "take_bit 10 ((x AND 1023) OR push_bit 10 r) = take_bit 10 (x :: 32 word)"
proof -
  have "(1023 :: 32 word) = mask 10" by (simp add: mask_eq_exp_minus_1)
  then show ?thesis
    by (simp add: bit_eq_iff bit_simps) (auto simp: bit_simps)
qed

text \<open>A counter that is zero, as that of a new client, starts at a random number.\<close>

definition counter_start :: "'c client \<Rightarrow> 32 word" where
  "counter_start c = (if currentPacketId c = 0 then rng c (rngPos c) else currentPacketId c)"

lemma generatePacketId_low:
  assumes "generatePacketId c = (pid, c')"
  shows "currentPacketId c' = pid" "take_bit 10 pid = take_bit 10 (counter_start c + 1)"
proof -
  show "currentPacketId c' = pid" using generatePacketId_frame [OF assms] by auto
  obtain r where "pid = ((counter_start c + 1) AND 1023) OR push_bit 10 r"
    using assms by (auto simp: generatePacketId_def randUint32_def counter_start_def Let_def split: if_splits)
  then show "take_bit 10 pid = take_bit 10 (counter_start c + 1)" by (simp only: low_bits)
qed

lemma unat_take_bit_10: "unat (take_bit 10 (w :: 32 word)) = unat w mod 1024"
  by (simp only: unsigned_take_bit_eq) (simp add: take_bit_eq_mod)

lemma generatePacketId_mod:
  assumes "generatePacketId c = (pid, c')"
  shows "unat pid mod 1024 = (unat (counter_start c) + 1) mod 1024"
proof -
  have "unat (counter_start c + 1) mod 1024 = (unat (counter_start c) + 1) mod 1024"
    by (simp add: unat_word_ariths mod_mod_cancel)
  then show ?thesis
    using generatePacketId_low(2) [OF assms] by (metis unat_take_bit_10)
qed

lemma packetIds_mod:
  assumes "i < n" "0 \<notin> set (butlast (packetIds n c))"
  shows "unat (packetIds n c ! i) mod 1024 = (unat (counter_start c) + 1 + i) mod 1024"
  using assms
proof (induction n arbitrary: c i)
  case 0
  then show ?case by simp
next
  case (Suc n)
  obtain pid c' where gen: "generatePacketId c = (pid, c')" by fastforce
  have first: "unat pid mod 1024 = (unat (counter_start c) + 1) mod 1024"
    by (rule generatePacketId_mod [OF gen])
  show ?case
  proof (cases i)
    case 0
    with gen first show ?thesis by simp
  next
    case (Suc j)
    then have "0 < n" "j < n" using Suc.prems(1) by simp_all
    then have "packetIds n c' \<noteq> []" by (cases n) (simp_all add: Let_def split: prod.splits)
    then have "pid \<noteq> 0" "0 \<notin> set (butlast (packetIds n c'))"
      using Suc.prems(2) gen by auto
    moreover have "counter_start c' = pid"
      using generatePacketId_low(1) [OF gen] \<open>pid \<noteq> 0\<close> by (simp add: counter_start_def)
    ultimately have "unat (packetIds n c' ! j) mod 1024 = (unat pid + 1 + j) mod 1024"
      using Suc.IH [of j c'] \<open>j < n\<close> by simp
    also have "\<dots> = (unat pid mod 1024 + (1 + j)) mod 1024"
      by (simp only: add.assoc mod_add_left_eq)
    also have "\<dots> = (unat (counter_start c) + 1 + i) mod 1024"
      by (simp only: first mod_add_left_eq) (simp add: Suc)
    finally show ?thesis using gen Suc by simp
  qed
qed

lemma length_packetIds [simp]: "length (packetIds n c) = n"
  by (induction n arbitrary: c) (simp_all add: Let_def split: prod.splits)

lemma mod_window_distinct:
  assumes "i < j" "j < 1024" shows "(b + i) mod 1024 \<noteq> (b + j) mod (1024::nat)"
proof
  assume "(b + i) mod 1024 = (b + j) mod 1024"
  then have "(b + j - (b + i)) mod 1024 = 0"
    using assms by (intro mod_eq_dvd_iff_nat [THEN iffD1, THEN dvd_imp_mod_0]) simp_all
  with assms show False by simp
qed

text \<open>
  C24: numbers of up to 1024 packets sent in a row, by a new client or at any later time, are
  pairwise different, whatever the random number generator returns, as long as none of them but
  the last is zero (a zero restarts the counter).  Duplicate suppression on other nodes relies on
  it.
\<close>

theorem packet_ids_distinct:
  assumes "n \<le> 1024" "0 \<notin> set (butlast (packetIds n c))"
  shows "distinct (packetIds n c)"
proof -
  have "packetIds n c ! i \<noteq> packetIds n c ! j" if "i < j" "j < n" for i j
  proof -
    have "(unat (counter_start c) + 1 + i) mod 1024 \<noteq> (unat (counter_start c) + 1 + j) mod 1024"
      using that assms(1) by (intro mod_window_distinct) simp_all
    moreover have "i < n" using that by simp
    ultimately show ?thesis
      using packetIds_mod [of i n c] packetIds_mod [of j n c] that(2) assms(2) by auto
  qed
  then show ?thesis by (auto simp: distinct_conv_nth neq_iff)
qed

theorem packet_ids_distinct_witness:
  "distinct (packetIds (Suc (Suc 0)) (NewMeshtasticClient 2 0 ([] :: sample_cache) (\<lambda>i. 5)))"
proof (rule packet_ids_distinct)
  show "0 \<notin> set (butlast (packetIds (Suc (Suc 0)) (NewMeshtasticClient 2 0 ([] :: sample_cache) (\<lambda>i. 5))))"
    by (simp add: generatePacketId_def randUint32_def NewMeshtasticClient_def)
qed simp

section \<open>Outcomes of a send\<close>

text \<open>
  C23: a send for a node the bridge does not manage, or of a payload longer than the network
  takes, is refused with an error and has no effect at all.
\<close>

theorem send_refused:
  assumes "\<not> e_managed E (pi_From info) \<or> DATA_PAYLOAD_LEN (e_lib E) \<le> int (length raw)"
  shows "\<exists>e. sendBytes E channel raw info c = ((0, Some e), c)"
  using assms by (auto simp: sendBytes_def)

theorem send_refused_witness:
  "\<exists>e. sendBytes sample_env (Some sample_channel) ''hi''
      (PacketInfo0 TEXT_MESSAGE_APP PSKEncryption 99 BROADCAST_ID) sample_client = ((0, Some e), sample_client)"
  by (rule send_refused) (simp add: sample_defs PacketInfo0_def)

lemma map_filter_all_iff:
  "length (List.map_filter f xs) = length xs \<longleftrightarrow> (\<forall>x \<in> set xs. f x \<noteq> None)"
proof (induction xs)
  case (Cons x xs)
  have "length (List.map_filter f xs) \<le> length xs" by (simp add: List.map_filter_def)
  then have "length (List.map_filter f xs) \<noteq> Suc (length xs)" by linarith
  with Cons show ?case by (cases "f x") simp_all
qed simp

lemma ucast8_nonzero: "(w :: 8 word) \<noteq> 0 \<Longrightarrow> ucast w \<noteq> (0 :: 32 word)"
  by transfer simp

lemma deliver_error:
  "fst (deliver E n pkt c) = None \<longleftrightarrow>
     meshConnectors c = [] \<or> (\<exists>h \<in> set (meshConnectors c). conn_SendPacket (e_net E) n pkt h = None)"
proof -
  let ?errs = "List.map_filter (conn_SendPacket (e_net E) n pkt) (meshConnectors c)"
  have "length ?errs = length (meshConnectors c) \<longleftrightarrow>
      (\<forall>h \<in> set (meshConnectors c). conn_SendPacket (e_net E) n pkt h \<noteq> None)"
    by (rule map_filter_all_iff)
  then show ?thesis
    by (auto simp: deliver_def Let_def join_errors_def)
qed

lemma getLastByteOfNodeNum_value:
  "(ucast (getLastByteOfNodeNum n) :: 32 word) = (if n AND 0xFF = 0 then 0xFF else n AND 0xFF)"
proof -
  have "(0xFF :: 32 word) = mask 8" by (simp add: mask_eq_exp_minus_1)
  then have low: "ucast (ucast (n AND 0xFF) :: 8 word) = n AND 0xFF"
    by (simp add: bit_eq_iff bit_simps) (auto simp: bit_simps)
  have "(ucast (n AND 0xFF) :: 8 word) = 0 \<longleftrightarrow> n AND 0xFF = 0"
    using low ucast8_nonzero [of "ucast (n AND 0xFF)"] by (metis unsigned_0)
  then show ?thesis using low by (simp add: getLastByteOfNodeNum_def Let_def)
qed

text \<open>
  C9: a channel-encrypted send that passes its guards, and whose payload marshals and encrypts,
  hands exactly one packet to the connectors.  Every field of its header is fixed: from and to the
  nodes asked for, under the packet number the send returns, with the channel's hash, the client's
  hop limit, a hop start one higher for another node than the client's own, an acknowledgement
  wanted for a traceroute request, the priority of its kind of message, the last byte of the
  client's node as relay (255 for zero), the present time, and the cipher text of the payload as it
  stands.  The send reports success exactly if there is no connector or one of them took the
  packet.
\<close>

theorem psk_send:
  assumes "e_managed E (pi_From info)" "int (length raw) < DATA_PAYLOAD_LEN (e_lib E)"
    and answer: "wr = (pi_WantResponse info \<and> pi_To info \<noteq> BROADCAST_ID \<and>
      pi_PortNum info \<in> {NODEINFO_APP, POSITION_APP, TRACEROUTE_APP})"
    and ack: "wa = (pi_WantResponse info \<and> pi_PortNum info = TRACEROUTE_APP)"
    and raw: "MarshalData (e_lib E)
      \<lparr>d_Portnum = pi_PortNum info, d_Payload = raw, d_WantResponse = wr, d_RequestId = pi_RequestId info,
       d_ReplyId = pi_ReplyId info, d_Emoji = (if pi_Emoji info then 1 else 0),
       d_Bitfield = Some (if wr then BITFIELD_OkToMQTT OR BITFIELD_WantResponse else BITFIELD_OkToMQTT)\<rparr> = Inr rawData"
    and "pi_Encrypted info = PSKEncryption" and gen: "generatePacketId c = (pid, c1)"
    and "radio_XOR (e_lib E) rawData (GetKeyBytes ch) pid (pi_From info) = Inr cipher"
    and pkt: "pkt =
      \<lparr>p_From = pi_From info, p_To = pi_To info,
       p_Channel = fst (ChannelHash (e_lib E) (GetName ch) (GetKeyBytes ch)), p_Id = pid, p_HopLimit = hopLimit c,
       p_HopStart = (if pi_From info = nodeId c then hopLimit c else hopLimit c + 1),
       p_WantAck = wa, p_ViaMqtt = False, p_PkiEncrypted = False,
       p_Priority = (if pi_PortNum info = ROUTING_APP then PRIORITY_ACK
         else if pi_PortNum info \<in> {TEXT_MESSAGE_APP, ADMIN_APP} then PRIORITY_HIGH
         else if pi_RequestId info \<noteq> 0 then PRIORITY_RESPONSE
         else if wr \<or> wa then PRIORITY_RELIABLE else PRIORITY_DEFAULT),
       p_RelayNode = (if nodeId c AND 0xFF = 0 then 0xFF else nodeId c AND 0xFF),
       p_RxTime = unix32 (e_now E), p_RxSnr = Fin 0, p_Payload = Some (Encrypted cipher)\<rparr>"
  shows "\<exists>err c'. sendBytes E (Some ch) raw info c = ((pid, err), c') \<and>
     outbox c' = outbox c @ [(GetName ch, pkt)] \<and>
     (err = None \<longleftrightarrow> meshConnectors c = [] \<or>
        (\<exists>h \<in> set (meshConnectors c). conn_SendPacket (e_net E) (GetName ch) pkt h = None))"
proof -
  let ?d = "data_of raw info"
  have d: "MarshalData (e_lib E) ?d = Inr rawData" using raw answer by (auto simp: data_of_def Let_def)
  obtain err c' where del: "deliver E (GetName ch) pkt c1 = (err, c')" by fastforce
  obtain n where c1: "c1 = c\<lparr>currentPacketId := pid, rngPos := n\<rparr>"
    using generatePacketId_frame [OF gen] by blast
  have hdr: "(packet_header E c1 ch info ?d pid)\<lparr>p_Payload := Some (Encrypted cipher)\<rparr> = pkt"
    by (auto simp: pkt packet_header_def c1 wantAck_of_def getPriority_def data_of_def Let_def answer ack
        getLastByteOfNodeNum_value)
  have enc: "encrypt_packet E ch info ?d rawData (packet_header E c1 ch info ?d pid) = Inr pkt"
    using assms(6,8) hdr by (simp add: encrypt_packet_def) (simp add: packet_header_def)
  have "sendBytes E (Some ch) raw info c = ((pid, err), c')"
    using assms(1,2) d gen enc del by (simp add: sendBytes_def)
  moreover have "outbox c' = outbox c @ [(GetName ch, pkt)]"
    using deliver_eq [OF del] by (simp add: c1)
  moreover have "err = None \<longleftrightarrow> meshConnectors c = [] \<or>
        (\<exists>h \<in> set (meshConnectors c). conn_SendPacket (e_net E) (GetName ch) pkt h = None)"
    using deliver_error [of E "GetName ch" pkt c1] del by (simp add: c1)
  ultimately show ?thesis by blast
qed

theorem psk_send_witness:
  "\<exists>pid pkt c'. sendBytes sample_env (Some sample_channel) ''hi''
      (PacketInfo0 TEXT_MESSAGE_APP PSKEncryption 3 BROADCAST_ID) sample_client = ((pid, None), c') \<and>
     outbox c' = [(''LongFast'', pkt)] \<and> p_From pkt = 3 \<and> p_Priority pkt = PRIORITY_HIGH \<and> p_RelayNode pkt = 2 \<and>
     p_HopStart pkt = p_HopLimit pkt + 1 \<and> p_Payload pkt = Some (Encrypted ''hi'')"
proof -
  let ?i = "PacketInfo0 TEXT_MESSAGE_APP PSKEncryption 3 BROADCAST_ID"
  obtain pid c1 where gen: "generatePacketId sample_client = (pid, c1)" by fastforce
  have env: "e_managed sample_env (pi_From ?i)" "int (length ''hi'') < DATA_PAYLOAD_LEN (e_lib sample_env)"
    "pi_Encrypted ?i = PSKEncryption" "radio_XOR (e_lib sample_env) ''hi'' (GetKeyBytes sample_channel) pid (pi_From ?i) = Inr ''hi''"
    "\<And>d. MarshalData (e_lib sample_env) d = Inr (d_Payload d)"
    by (simp_all add: sample_env_def sample_lib_def sample_radio_def lib.fields_def radio.extend_def PacketInfo0_def)
  have payload: "MarshalData (e_lib sample_env)
      \<lparr>d_Portnum = p, d_Payload = ''hi'', d_WantResponse = w, d_RequestId = q, d_ReplyId = r, d_Emoji = e, d_Bitfield = f\<rparr> =
      Inr ''hi''" for p w q r e f using env(5) by simp
  obtain err c' pkt where "sendBytes sample_env (Some sample_channel) ''hi'' ?i sample_client = ((pid, err), c')"
    "outbox c' = outbox sample_client @ [(GetName sample_channel, pkt)]"
    "err = None \<longleftrightarrow> meshConnectors sample_client = [] \<or>
      (\<exists>h \<in> set (meshConnectors sample_client). conn_SendPacket (e_net sample_env) (GetName sample_channel) pkt h = None)"
    and pkt: "p_From pkt = 3" "p_Priority pkt = PRIORITY_HIGH" "p_RelayNode pkt = 2" "p_HopStart pkt = p_HopLimit pkt + 1"
      "p_Payload pkt = Some (Encrypted ''hi'')"
    using psk_send [OF env(1,2) refl refl payload env(3) gen env(4) refl]
    by (auto simp: PacketInfo0_def sample_client_def NewMeshtasticClient_def)
  then have "err = None \<and> outbox c' = [(''LongFast'', pkt)]"
    by (simp add: sample_client_def NewMeshtasticClient_def sample_channel_def GetName_def)
  then show ?thesis using \<open>sendBytes _ _ _ _ _ = _\<close> pkt by blast
qed

section \<open>Connection state and channels\<close>

text \<open>
  What the client needs of its connectors: each knows the name of every channel.  A connector
  added later would not be told, which is why they are added before the first channel.
\<close>

definition conn_knows :: "connector \<Rightarrow> string \<Rightarrow> bool" where
  "conn_knows h n = (case h of MqttConn m \<Rightarrow> mqtt_knows m n | UdpConn u \<Rightarrow> True)"

definition channels_known :: "'c client \<Rightarrow> bool" where
  "channels_known c \<longleftrightarrow>
     (\<forall>v \<in> set (channels c). \<forall>h \<in> set (meshConnectors c). conn_knows h (GetName (snd v)))"

lemma conn_AddChannel_knows:
  "conn_knows (conn_AddChannel h n) n" "conn_knows h m \<Longrightarrow> conn_knows (conn_AddChannel h n) m"
  by (cases h; simp add: conn_knows_def mqtt.add_knows mqtt.add_keeps)+

text \<open>
  Adding a channel tells every connector about it: if all channels were known to all
  connectors before, they are afterwards, and the new channel is one of them.
\<close>

lemma add_channel_known:
  assumes "channels_known c"
  shows "channels_known (AddChannelDef rd c) \<and>
         (\<forall>h \<in> set (meshConnectors (AddChannelDef rd c)). conn_knows h (GetName (snd rd)))"
proof (cases "find (\<lambda>v. GetName (snd v) = GetName (snd rd)) (channels c)")
  case None
  then show ?thesis
    using assms conn_AddChannel_knows
    by (auto simp: AddChannelDef_def notifyEvent_def channels_known_def Let_def)
next
  case (Some v)
  then have "v \<in> set (channels c)" "GetName (snd v) = GetName (snd rd)"
    by (auto simp: find_Some_iff)
  with assms have "\<forall>h \<in> set (meshConnectors c). conn_knows h (GetName (snd rd))"
    by (auto simp: channels_known_def)
  then show ?thesis
    using assms Some by (auto simp: AddChannelDef_def notifyEvent_def channels_known_def Let_def)
qed

end
