(* ===== verification/Mesh_Outgoing.thy ===== *)
theory Mesh_Outgoing
  imports Mesh_Sending
begin

text \<open>
  The message builders and sending operations of \<^verbatim>\<open>pkg/mesh/outgoing_messages.go\<close>: text,
  reactions, node information, telemetry, neighbours, positions, map reports, acknowledgements
  and traceroutes.  Each ends in \<^verbatim>\<open>sendBytes\<close> or \<^verbatim>\<open>sendProtoMessage\<close> and returns what they
  return.
\<close>

type_synonym 'c send_result = "(32 word \<times> go_error option) \<times> 'c client"

definition error_of :: "'c send_result \<Rightarrow> go_error option \<times> 'c client" where
  "error_of r = (snd (fst r), snd r)"

section \<open>Text\<close>

definition SendMessage ::
  "'c env \<Rightarrow> NodeID \<Rightarrow> NodeID \<Rightarrow> ChannelDef option \<Rightarrow> string \<Rightarrow> 32 word \<Rightarrow> bool \<Rightarrow> 'c client
   \<Rightarrow> 'c send_result" where
  "SendMessage E src dst channel message replyID usePKI c =
     sendBytes E channel message
       ((PacketInfo0 TEXT_MESSAGE_APP (if usePKI then PKIEncryption else PSKEncryption) src dst)
          \<lparr>pi_ReplyId := replyID\<rparr>) c"

definition SendReaction ::
  "'c env \<Rightarrow> NodeID \<Rightarrow> NodeID \<Rightarrow> ChannelDef option \<Rightarrow> 32 word \<Rightarrow> string \<Rightarrow> bool \<Rightarrow> 'c client
   \<Rightarrow> 'c send_result" where
  "SendReaction E src dst channel targetPacketId emoji usePKI c =
     sendBytes E channel emoji
       ((PacketInfo0 TEXT_MESSAGE_APP (if usePKI then PKIEncryption else PSKEncryption) src dst)
          \<lparr>pi_Emoji := True, pi_ReplyId := targetPacketId\<rparr>) c"

section \<open>Node information\<close>

definition nodeInfo_user :: "'c client \<Rightarrow> NodeID \<Rightarrow> string \<Rightarrow> string \<Rightarrow> bytes \<Rightarrow> User" where
  "nodeInfo_user c src longName shortName publicKey =
     \<lparr>u_Id = NodeID_String src, u_LongName = longName, u_ShortName = shortName,
      u_Macaddr = ToMacAddress src, u_HwModel = PRIVATE_HW, u_IsLicensed = False,
      u_Role = (if src = nodeId c then CLIENT_BASE else CLIENT_MUTE),
      u_PublicKey = publicKey,
      u_IsUnmessagable = (if src = nodeId c then Some True else None)\<rparr>"

definition SendNodeInfo ::
  "'c env \<Rightarrow> NodeID \<Rightarrow> NodeID \<Rightarrow> string \<Rightarrow> string \<Rightarrow> bool \<Rightarrow> bytes \<Rightarrow> 'c client
   \<Rightarrow> go_error option \<times> 'c client" where
  "SendNodeInfo E src dst longName shortName wantResponse publicKey c =
     (let now = e_now E in
      if (case nodeInfoSendCache c src of Some v \<Rightarrow> v > now + 5 * Minute | None \<Rightarrow> False) then
        (Some (Errorf ''node info was sent too recently''), c)
      else if length longName > 39 then
        (Some (Errorf ''long name must be less than 40 bytes''), c)
      else if length shortName > 4 then
        (Some (Errorf ''short name must be less than 5 bytes''), c)
      else
        let ((_, err), c) =
              sendProtoMessage E (primary c) (MsgUser (nodeInfo_user c src longName shortName publicKey))
                ((PacketInfo0 NODEINFO_APP PSKEncryption src dst)\<lparr>pi_WantResponse := wantResponse\<rparr>) c
        in if err = None
           then (None, c\<lparr>nodeInfoSendCache := (nodeInfoSendCache c)(src \<mapsto> now)\<rparr>)
           else (err, c))"

section \<open>Telemetry\<close>

definition buildDeviceMetrics :: "'c env \<Rightarrow> 'c client \<Rightarrow> Telemetry" where
  "buildDeviceMetrics E c =
     (let upTime = e_now E - startTime c;
          uptimeSec = uint32_of_float (ufloat_oor (e_lib E)) (Duration_Seconds \<bar>upTime\<bar>)
      in \<lparr>t_Time = unix32 (e_now E),
          t_Variant = Some (DeviceMetricsVariant
            \<lparr>dm_BatteryLevel = Some 101, dm_Voltage = Some (Fin 5),
             dm_UptimeSeconds = Some uptimeSec\<rparr>)\<rparr>)"

definition load_percent :: "'c env \<Rightarrow> gofloat \<Rightarrow> 32 word" where
  "load_percent E l = uint32_of_float (ufloat_oor (e_lib E)) (float64_mul l (Fin 100))"

definition buildHostMetrics :: "'c env \<Rightarrow> go_error + Telemetry" where
  "buildHostMetrics E =
     (case e_VirtualMemory E of Inl err \<Rightarrow> Inl err | Inr available \<Rightarrow>
      case e_LoadAvg E of Inl err \<Rightarrow> Inl err | Inr (load1, load5, load15) \<Rightarrow>
      case e_Uptime E of Inl err \<Rightarrow> Inl err | Inr uptime \<Rightarrow>
      case e_DiskUsage E of Inl err \<Rightarrow> Inl err | Inr free \<Rightarrow>
        Inr \<lparr>t_Time = unix32 (e_now E),
             t_Variant = Some (HostMetricsVariant
               \<lparr>hm_UptimeSeconds = ucast uptime, hm_Load1 = load_percent E load1,
                hm_Load5 = load_percent E load5, hm_Load15 = load_percent E load15,
                hm_FreememBytes = available, hm_Diskfree1Bytes = free\<rparr>)\<rparr>)"

definition SendTelemetry :: "'c env \<Rightarrow> NodeID \<Rightarrow> NodeID \<Rightarrow> 'c client \<Rightarrow> go_error option \<times> 'c client" where
  "SendTelemetry E src dst c =
     error_of (sendProtoMessage E (primary c) (MsgTelemetry (buildDeviceMetrics E c))
       (PacketInfo0 TELEMETRY_APP PSKEncryption src dst) c)"

definition SendTelemetryResponse ::
  "'c env \<Rightarrow> NodeID \<Rightarrow> NodeID \<Rightarrow> ChannelDef option \<Rightarrow> EncryptionType \<Rightarrow> 32 word \<Rightarrow> 'c client
   \<Rightarrow> go_error option \<times> 'c client" where
  "SendTelemetryResponse E src dst channel encType requestId c =
     error_of (sendProtoMessage E channel (MsgTelemetry (buildDeviceMetrics E c))
       ((PacketInfo0 TELEMETRY_APP encType src dst)\<lparr>pi_RequestId := requestId\<rparr>) c)"

definition SendHostMetrics :: "'c env \<Rightarrow> NodeID \<Rightarrow> NodeID \<Rightarrow> 'c client \<Rightarrow> go_error option \<times> 'c client" where
  "SendHostMetrics E src dst c =
     (case buildHostMetrics E of
        Inl err \<Rightarrow> (Some err, c)
      | Inr telemetry \<Rightarrow>
          error_of (sendProtoMessage E (primary c) (MsgTelemetry telemetry)
            (PacketInfo0 TELEMETRY_APP PSKEncryption src dst) c))"

definition SendHostMetricsResponse ::
  "'c env \<Rightarrow> NodeID \<Rightarrow> NodeID \<Rightarrow> ChannelDef option \<Rightarrow> EncryptionType \<Rightarrow> 32 word \<Rightarrow> 'c client
   \<Rightarrow> go_error option \<times> 'c client" where
  "SendHostMetricsResponse E src dst channel encType requestId c =
     (case buildHostMetrics E of
        Inl err \<Rightarrow> (Some err, c)
      | Inr telemetry \<Rightarrow>
          error_of (sendProtoMessage E channel (MsgTelemetry telemetry)
            ((PacketInfo0 TELEMETRY_APP encType src dst)\<lparr>pi_RequestId := requestId\<rparr>) c))"

section \<open>Neighbours\<close>

definition maxNeighborLen :: nat where "maxNeighborLen = 10"

definition buildNeighborInfo :: "NodeID \<Rightarrow> NodeID list \<Rightarrow> 32 word \<Rightarrow> NeighborInfo" where
  "buildNeighborInfo src neighborIDs broadcastInterval =
     (let neighbors = map (\<lambda>i. \<lparr>nb_NodeId = i, nb_Snr = Fin 0\<rparr>)
                        (filter (\<lambda>i. i \<noteq> src \<and> i > 1) neighborIDs);
          neighbors = (if length neighbors > maxNeighborLen then take maxNeighborLen neighbors
                       else neighbors)
      in \<lparr>ni_NodeId = src, ni_LastSentById = src,
          ni_NodeBroadcastIntervalSecs = broadcastInterval, ni_Neighbors = neighbors\<rparr>)"

definition SendNeighborInfo ::
  "'c env \<Rightarrow> NodeID \<Rightarrow> NodeID list \<Rightarrow> 32 word \<Rightarrow> 'c client \<Rightarrow> go_error option \<times> 'c client" where
  "SendNeighborInfo E src neighborIDs broadcastInterval c =
     error_of (sendProtoMessage E (primary c)
       (MsgNeighborInfo (buildNeighborInfo src neighborIDs broadcastInterval))
       (PacketInfo0 NEIGHBORINFO_APP PSKEncryption src BROADCAST_ID_NO_LORA) c)"

definition SendNeighborInfoResponse ::
  "'c env \<Rightarrow> NodeID \<Rightarrow> NodeID \<Rightarrow> NodeID list \<Rightarrow> 32 word \<Rightarrow> ChannelDef option \<Rightarrow> EncryptionType
   \<Rightarrow> 32 word \<Rightarrow> 'c client \<Rightarrow> go_error option \<times> 'c client" where
  "SendNeighborInfoResponse E src dst neighborIDs broadcastInterval channel encType requestId c =
     error_of (sendProtoMessage E channel
       (MsgNeighborInfo (buildNeighborInfo src neighborIDs broadcastInterval))
       ((PacketInfo0 NEIGHBORINFO_APP encType src dst)\<lparr>pi_RequestId := requestId\<rparr>) c)"

section \<open>Positions\<close>

definition GetPrecisionBits :: "gofloat option \<Rightarrow> 32 word" where
  "GetPrecisionBits meters =
     (case meters of
        None \<Rightarrow> 0
      | Some m \<Rightarrow>
          if float_ge m 23300 then 10
          else if float_ge m 11700 then 11
          else if float_ge m 5800 then 12
          else if float_ge m 2900 then 13
          else if float_ge m 1500 then 14
          else if float_ge m 729 then 15
          else if float_ge m 364 then 16
          else if float_ge m 182 then 17
          else if float_ge m 91 then 18
          else if float_ge m 45 then 19
          else 20)"

text \<open>A key that is not in the map yields the zero value.\<close>

definition precisionMap :: "(32 word \<times> 32 word) list" where
  "precisionMap =
     [(2, 5976446), (3, 2988223), (4, 1494111), (5, 747055), (6, 373527), (7, 186763),
      (8, 93381), (9, 46690), (10, 23345), (11, 11672), (12, 5836), (13, 2918), (14, 1459),
      (15, 729), (16, 364), (17, 182), (18, 91), (19, 45), (20, 22), (21, 11), (22, 5), (23, 2),
      (24, 1), (32, 0)]"

definition GetPositionPrecisionInMeters :: "32 word \<Rightarrow> 32 word" where
  "GetPositionPrecisionInMeters positionPrecision =
     (case map_of precisionMap positionPrecision of None \<Rightarrow> 0 | Some m \<Rightarrow> m)"

text \<open>\<^verbatim>\<open>int32(x * 1e7)\<close> in \<^verbatim>\<open>float32\<close> arithmetic.\<close>

definition coordI :: "lib \<Rightarrow> gofloat \<Rightarrow> 32 word" where
  "coordI L x = int32_of_float (float_oor L) (float32_mul x (float32_round 10000000))"

definition SendPosition ::
  "'c env \<Rightarrow> NodeID \<Rightarrow> NodeID \<Rightarrow> GeoURI \<Rightarrow> gotime \<Rightarrow> 'c client \<Rightarrow> 'c send_result" where
  "SendPosition E src dst location timestamp c =
     sendProtoMessage E (primary c)
       (MsgPosition
          \<lparr>pos_LatitudeI = Some (coordI (e_lib E) (Latitude location)),
           pos_LongitudeI = Some (coordI (e_lib E) (Longitude location)),
           pos_Altitude = None, pos_Time = unix32 (e_now E), pos_Timestamp = unix32 timestamp,
           pos_PrecisionBits = GetPrecisionBits (Uncertainty location),
           pos_GroundSpeed = None, pos_GroundTrack = None\<rparr>)
       (PacketInfo0 POSITION_APP PSKEncryption src dst) c"

text \<open>
  \<^verbatim>\<open>SendMapReport\<close> looks the channel name up in the library's table of modem presets; a nil
  primary channel panics at \<^verbatim>\<open>GetName\<close>, before anything is sent.
\<close>

definition mapReport ::
  "'c env \<Rightarrow> 'c client \<Rightarrow> string \<Rightarrow> NodeID \<Rightarrow> string \<Rightarrow> string \<Rightarrow> GeoURI \<Rightarrow> 32 word \<Rightarrow> MapReport" where
  "mapReport E c chanName src longName shortName location numNodes =
     (let L = e_lib E; preset = ModemPreset_value L (ToScreamingSnake L chanName) in
      \<lparr>mr_LongName = longName, mr_ShortName = shortName,
       mr_Role = (if src = nodeId c then CLIENT_BASE else CLIENT_MUTE), mr_HwModel = PRIVATE_HW,
       mr_FirmwareVersion = [], mr_Region = RegionUS L,
       mr_ModemPreset = (case preset of Some p \<Rightarrow> p | None \<Rightarrow> 0),
       mr_HasDefaultChannel = (preset \<noteq> None),
       mr_LatitudeI = coordI L (Latitude location), mr_LongitudeI = coordI L (Longitude location),
       mr_Altitude = (case Altitude location of Some a \<Rightarrow> int32_of_float (float_oor L) a | None \<Rightarrow> 0),
       mr_PositionPrecision = GetPrecisionBits (Uncertainty location),
       mr_NumOnlineLocalNodes = numNodes\<rparr>)"

definition SendMapReport ::
  "'c env \<Rightarrow> NodeID \<Rightarrow> string \<Rightarrow> string \<Rightarrow> GeoURI \<Rightarrow> 32 word \<Rightarrow> 'c client \<Rightarrow> 'c send_result" where
  "SendMapReport E src longName shortName location numNodes c =
     (if float_eq (Latitude location) 0 \<or> float_eq (Longitude location) 0 then
        ((0, Some (Errorf ''a valid location is required'')), c)
      else case primary c of
        None \<Rightarrow> ((0, None), c\<lparr>crashed := True\<rparr>)
      | Some ch \<Rightarrow>
          sendProtoMessage E (Some ch)
            (MsgMapReport (mapReport E c (GetName ch) src longName shortName location numNodes))
            (PacketInfo0 MAP_REPORT_APP NoEncryption src BROADCAST_ID) c)"

section \<open>Routing\<close>

definition SendAck :: "'c env \<Rightarrow> NodeID \<Rightarrow> NodeID \<Rightarrow> 32 word \<Rightarrow> 'c client \<Rightarrow> 'c send_result" where
  "SendAck E src dst packetId c =
     sendProtoMessage E (primary c) (MsgRouting ROUTING_NONE)
       ((PacketInfo0 ROUTING_APP PSKEncryption src dst)\<lparr>pi_RequestId := packetId\<rparr>) c"

text \<open>The sender argument of \<^verbatim>\<open>SendNack\<close> is logged only: the packet is sent by the bridge's node.\<close>

definition SendNack :: "'c env \<Rightarrow> NodeID \<Rightarrow> NodeID \<Rightarrow> 32 word \<Rightarrow> 'c client \<Rightarrow> 'c send_result" where
  "SendNack E src dst packetId c =
     sendProtoMessage E (primary c) (MsgRouting ROUTING_GOT_NAK)
       ((PacketInfo0 ROUTING_APP PSKEncryption (nodeId c) dst)\<lparr>pi_RequestId := packetId\<rparr>) c"

definition SendTraceroute ::
  "'c env \<Rightarrow> NodeID \<Rightarrow> NodeID \<Rightarrow> ChannelDef option \<Rightarrow> 'c client \<Rightarrow> 'c send_result" where
  "SendTraceroute E src dst channel c =
     sendProtoMessage E channel
       (MsgRouteDiscovery
          (if src \<noteq> nodeId c
           then \<lparr>Route = [nodeId c], SnrTowards = [0], RouteBack = [], SnrBack = []\<rparr>
           else \<lparr>Route = [], SnrTowards = [], RouteBack = [], SnrBack = []\<rparr>))
       ((PacketInfo0 TRACEROUTE_APP PSKEncryption src dst)\<lparr>pi_WantResponse := True\<rparr>) c"

section \<open>Properties\<close>

text \<open>
  C34: a neighbour report has at most ten entries, never the node itself nor the numbers 0 and
  1, names only nodes it was given, in their order, and leaves one out only to stay within
  ten.
\<close>

theorem neighbor_info_bounds:
  assumes "ns = map nb_NodeId (ni_Neighbors (buildNeighborInfo src ids iv))"
  shows "length ns \<le> 10 \<and> src \<notin> set ns \<and> (\<forall>n \<in> set ns. 1 < n) \<and> subseq ns ids \<and>
         (length ns < 10 \<longrightarrow> (\<forall>i \<in> set ids. i \<noteq> src \<and> 1 < i \<longrightarrow> i \<in> set ns))"
proof -
  let ?f = "filter (\<lambda>i. i \<noteq> src \<and> 1 < i) ids"
  have ns: "ns = take 10 ?f"
    using assms by (simp add: buildNeighborInfo_def maxNeighborLen_def take_map comp_def Let_def)
  have "subseq (take 10 ?f) ids"
    by (rule subseq_order.trans [of _ ?f]) (simp_all add: take_is_prefix prefix_imp_subseq)
  moreover have "set (take 10 ?f) \<subseteq> set ?f" by (rule set_take_subset)
  moreover have "take 10 ?f = ?f" if "length (take 10 ?f) < 10" using that by simp
  moreover have "length (take 10 ?f) \<le> 10" by simp
  ultimately show ?thesis unfolding ns by (auto simp del: take_all_iff length_take)
qed

theorem neighbor_info_bounds_witness:
  "map nb_NodeId (ni_Neighbors (buildNeighborInfo 2 [2, 1, 30, 40] 60)) = [30, 40] \<and>
   length (map nb_NodeId (ni_Neighbors (buildNeighborInfo 2 [2, 1, 30, 40] 60))) \<le> 10"
  using neighbor_info_bounds [OF refl, of 2 "[2, 1, 30, 40]" 60]
  by (simp add: buildNeighborInfo_def maxNeighborLen_def)

text \<open>
  C37: the two precision tables agree for the precisions from 10 to 20 bits with two exceptions: a
  position received with 11 or 14 bits and sent on with the uncertainty reported for it is one
  bit more precise.
\<close>

theorem precision_roundtrip:
  assumes "b \<in> {10, 11, 12, 13, 14, 15, 16, 17, 18, 19, 20}"
  shows "GetPrecisionBits (Some (float32_of_int (uint (GetPositionPrecisionInMeters b)))) =
    (if b = 11 then 12 else if b = 14 then 15 else b)"
  using assms
  by (auto simp: GetPositionPrecisionInMeters_def precisionMap_def GetPrecisionBits_def
      float32_of_int_exact float_ge_def)

theorem precision_roundtrip_witness:
  "GetPrecisionBits (Some (float32_of_int (uint (GetPositionPrecisionInMeters 13)))) = 13"
  using precision_roundtrip [of 13] by simp

section \<open>The node information throttle\<close>

lemma sendProtoMessage_cache_update:
  "sendProtoMessage E ch m i (c\<lparr>nodeInfoSendCache := k\<rparr>) =
     (let (r, c') = sendProtoMessage E ch m i c in (r, c'\<lparr>nodeInfoSendCache := k\<rparr>))"
proof -
  have gen: "generatePacketId (c\<lparr>nodeInfoSendCache := k\<rparr>) =
      (let (p, c') = generatePacketId c in (p, c'\<lparr>nodeInfoSendCache := k\<rparr>))"
    by (simp add: generatePacketId_def randUint32_def Let_def)
  have hdr: "packet_header E (c\<lparr>nodeInfoSendCache := k\<rparr>) = packet_header E c" for c
    by (intro ext) (simp add: packet_header_def)
  have del: "deliver E n p (c\<lparr>nodeInfoSendCache := k\<rparr>) =
      (let (e, c') = deliver E n p c in (e, c'\<lparr>nodeInfoSendCache := k\<rparr>))" for n p c
    by (simp add: deliver_def Let_def)
  show ?thesis
    by (simp add: sendProtoMessage_def sendBytes_def gen hdr del Let_def
        split: sum.split option.split prod.split)
qed

text \<open>
  The five-minute throttle of node information never acts.  As long as the recorded times
  are not in the future, which holds for times the client itself recorded, a call returns the
  same result and hands over the same packets as if nothing had been recorded.
\<close>

lemma node_info_never_throttled:
  assumes "\<And>v. nodeInfoSendCache c src = Some v \<Longrightarrow> v \<le> e_now E"
  shows "fst (SendNodeInfo E src dst lname sname wr pk c) =
           fst (SendNodeInfo E src dst lname sname wr pk (c\<lparr>nodeInfoSendCache := Map.empty\<rparr>)) \<and>
         outbox (snd (SendNodeInfo E src dst lname sname wr pk c)) =
           outbox (snd (SendNodeInfo E src dst lname sname wr pk (c\<lparr>nodeInfoSendCache := Map.empty\<rparr>)))"
proof -
  have "\<not> (case nodeInfoSendCache c src of Some v \<Rightarrow> v > e_now E + 5 * Minute | None \<Rightarrow> False)"
  proof (cases "nodeInfoSendCache c src")
    case (Some v)
    with assms [of v] show ?thesis by (simp add: duration_defs)
  qed simp
  moreover have "primary (c\<lparr>nodeInfoSendCache := Map.empty\<rparr>) = primary c"
      "nodeInfo_user (c\<lparr>nodeInfoSendCache := Map.empty\<rparr>) = nodeInfo_user c"
    by (simp_all add: primary_def nodeInfo_user_def fun_eq_iff)
  ultimately show ?thesis
    by (auto simp: SendNodeInfo_def sendProtoMessage_cache_update Let_def split: prod.split)
qed

end
