(* ===== verification/Mesh_Traceroute.thy ===== *)
theory Mesh_Traceroute
  imports Mesh_Outgoing
begin

text \<open>
  Traceroutes on the mesh side, \<^verbatim>\<open>pkg/mesh/traceroute.go\<close>.  A route discovery carries, per
  direction, the nodes a packet went through and the signal-to-noise ratio at each of them and
  at the destination.  The message is changed through a pointer in the code; here every step
  returns the changed message.  The flag \<open>fwd\<close> is \<^verbatim>\<open>isForwardRoute\<close>.
\<close>

section \<open>Operations\<close>

text \<open>\<^verbatim>\<open>math.MinInt8\<close> as an \<^verbatim>\<open>int32\<close>, the mark of an unknown ratio.\<close>

definition SNR_unknown :: "32 word" where "SNR_unknown = - 128"

definition get_route :: "RouteDiscovery \<Rightarrow> bool \<Rightarrow> 32 word list \<times> 32 word list" where
  "get_route disco fwd =
     (if fwd then (Route disco, SnrTowards disco) else (RouteBack disco, SnrBack disco))"

definition set_route :: "bool \<Rightarrow> 32 word list \<times> 32 word list \<Rightarrow> RouteDiscovery \<Rightarrow> RouteDiscovery" where
  "set_route fwd rs disco =
     (if fwd then disco\<lparr>Route := fst rs, SnrTowards := snd rs\<rparr>
      else disco\<lparr>RouteBack := fst rs, SnrBack := snd rs\<rparr>)"

text \<open>Both loops of \<^verbatim>\<open>insertUnknownHops\<close> append one value until the list has \<open>n\<close> entries.\<close>

function append_until :: "nat \<Rightarrow> 'a \<Rightarrow> 'a list \<Rightarrow> 'a list" where
  "append_until n x xs = (if length xs < n then append_until n x (xs @ [x]) else xs)"
  by pat_completeness auto
termination by (relation "measure (\<lambda>(n, x, xs). n - length xs)") auto

declare append_until.simps [simp del]

definition insertUnknownHops :: "MeshPacket \<Rightarrow> RouteDiscovery \<Rightarrow> bool \<Rightarrow> RouteDiscovery" where
  "insertUnknownHops packet disco fwd =
     (if p_HopStart packet = 0 \<or> p_HopLimit packet > p_HopStart packet then disco
      else
        let (route, snrList) = get_route disco fwd;
            hopsTaken = unat (p_HopStart packet - p_HopLimit packet);
            route = append_until hopsTaken BROADCAST_ID route;
            snrList = append_until (length route) SNR_unknown snrList
        in set_route fwd (route, snrList) disco)"

definition addNodeToRouteIfMissing ::
  "RouteDiscovery \<Rightarrow> NodeID \<Rightarrow> 32 word \<Rightarrow> bool \<Rightarrow> RouteDiscovery" where
  "addNodeToRouteIfMissing disco nodeID snr fwd =
     (if fwd then
        (if nodeID \<notin> set (Route disco)
         then disco\<lparr>Route := Route disco @ [nodeID], SnrTowards := SnrTowards disco @ [snr]\<rparr>
         else disco)
      else
        (if nodeID \<notin> set (RouteBack disco)
         then disco\<lparr>RouteBack := RouteBack disco @ [nodeID], SnrBack := SnrBack disco @ [snr]\<rparr>
         else disco))"

definition addGatewayToRoute ::
  "lib \<Rightarrow> NetworkMeshPacket \<Rightarrow> RouteDiscovery \<Rightarrow> bool \<Rightarrow> RouteDiscovery" where
  "addGatewayToRoute L packet disco fwd =
     (if np_GatewayNode packet = 0 \<or> np_GatewayNode packet = p_From (np_MeshPacket packet) then disco
      else addNodeToRouteIfMissing disco (np_GatewayNode packet)
             (int32_of_float (float_oor L) (float32_mul (p_RxSnr (np_MeshPacket packet)) (Fin 4))) fwd)"

text \<open>The route of the answer to a request, and the route handed on for a response.\<close>

definition requestRoute :: "lib \<Rightarrow> 'c client \<Rightarrow> NetworkMeshPacket \<Rightarrow> RouteDiscovery \<Rightarrow> RouteDiscovery" where
  "requestRoute L c packet disco =
     (let toNode = p_To (np_MeshPacket packet);
          disco = insertUnknownHops (np_MeshPacket packet) disco True;
          disco = addGatewayToRoute L packet disco True;
          disco = (if toNode \<noteq> nodeId c
                   then addNodeToRouteIfMissing (addNodeToRouteIfMissing disco (nodeId c) 0 True)
                          (nodeId c) 0 False
                   else disco)
      in disco\<lparr>SnrTowards := SnrTowards disco @ [0]\<rparr>)"

definition channel_of_packet :: "lib \<Rightarrow> NetworkMeshPacket \<Rightarrow> ChannelDef option" where
  "channel_of_packet L packet =
     (case NewChannelDef L (np_ChannelName packet) (np_ChannelKey packet) of
        Inl _ \<Rightarrow> None
      | Inr d \<Rightarrow> Some d)"

definition handleTracerouteRequest ::
  "'c env \<Rightarrow> NetworkMeshPacket \<Rightarrow> RouteDiscovery \<Rightarrow> 'c client \<Rightarrow> 'c client" where
  "handleTracerouteRequest E packet disco c =
     (let toNode = p_To (np_MeshPacket packet); fromNode = p_From (np_MeshPacket packet) in
      if \<not> e_managed E toNode then c
      else
        let c = (if p_WantAck (np_MeshPacket packet)
                 then snd (SendAck E toNode fromNode (p_Id (np_MeshPacket packet)) c) else c);
            disco = requestRoute (e_lib E) c packet disco
        in snd (sendProtoMessage E (channel_of_packet (e_lib E) packet) (MsgRouteDiscovery disco)
             ((PacketInfo0 TRACEROUTE_APP PSKEncryption toNode fromNode)
                \<lparr>pi_RequestId := p_Id (np_MeshPacket packet)\<rparr>) c))"

definition handleTracerouteResponse ::
  "'c env \<Rightarrow> NetworkMeshPacket \<Rightarrow> RouteDiscovery \<Rightarrow> 'c client \<Rightarrow> RouteDiscovery" where
  "handleTracerouteResponse E packet disco c =
     (let toNode = p_To (np_MeshPacket packet) in
      if \<not> e_managed E toNode then disco
      else
        let disco = insertUnknownHops (np_MeshPacket packet) disco False;
            disco = addGatewayToRoute (e_lib E) packet disco False;
            disco = (if toNode \<noteq> nodeId c then addNodeToRouteIfMissing disco (nodeId c) 0 False
                     else disco)
        in disco\<lparr>SnrBack := SnrBack disco @ [0]\<rparr>)"

section \<open>Lemmas\<close>

lemma append_until_eq: "append_until n x xs = xs @ replicate (n - length xs) x"
proof (induction n x xs rule: append_until.induct)
  case (1 n x xs)
  then show ?case
    by (subst append_until.simps) (simp add: Suc_diff_Suc [symmetric] replicate_app_Cons_same)
qed

lemma get_set_route [simp]:
  "get_route (set_route fwd rs d) fwd = rs"
  "get_route (set_route fwd rs d) (\<not> fwd) = get_route d (\<not> fwd)"
  by (simp_all add: get_route_def set_route_def)

text \<open>
  A direction of a discovery is well formed when no ratio lacks a node; it is complete when
  every node has one.  The known hops are the entries that are not placeholders.
\<close>

definition known_hops :: "32 word list \<Rightarrow> 32 word list" where
  "known_hops route = filter (\<lambda>n. n \<noteq> BROADCAST_ID) route"

definition route_complete :: "RouteDiscovery \<Rightarrow> bool \<Rightarrow> bool" where
  "route_complete d fwd \<longleftrightarrow> length (snd (get_route d fwd)) = length (fst (get_route d fwd))"

definition extends_route :: "RouteDiscovery \<Rightarrow> RouteDiscovery \<Rightarrow> bool \<Rightarrow> bool" where
  "extends_route d d' fwd \<longleftrightarrow>
     prefix (fst (get_route d fwd)) (fst (get_route d' fwd)) \<and>
     prefix (snd (get_route d fwd)) (snd (get_route d' fwd)) \<and>
     (distinct (known_hops (fst (get_route d fwd))) \<longrightarrow>
      distinct (known_hops (fst (get_route d' fwd))))"

lemma extends_route_refl [simp, intro]: "extends_route d d fwd"
  by (simp add: extends_route_def)

lemma extends_route_trans [trans]:
  "extends_route d d' fwd \<Longrightarrow> extends_route d' d'' fwd \<Longrightarrow> extends_route d d'' fwd"
  unfolding extends_route_def using prefix_order.trans by blast

lemma insertUnknownHops_extends:
  "extends_route d (insertUnknownHops p d fwd) fwd"
  "get_route (insertUnknownHops p d fwd) (\<not> fwd) = get_route d (\<not> fwd)"
  by (auto simp: insertUnknownHops_def extends_route_def append_until_eq known_hops_def Let_def
      split: prod.splits)

lemma insertUnknownHops_complete:
  assumes "p_HopStart p \<noteq> 0" "p_HopLimit p \<le> p_HopStart p"
    and "length (snd (get_route d fwd)) \<le> length (fst (get_route d fwd))"
  shows "route_complete (insertUnknownHops p d fwd) fwd"
    and "unat (p_HopStart p) - unat (p_HopLimit p) \<le> length (fst (get_route (insertUnknownHops p d fwd) fwd))"
  using assms
  by (auto simp: insertUnknownHops_def route_complete_def append_until_eq Let_def unat_sub
      split: prod.splits)

lemma addNode_facts:
  "extends_route d (addNodeToRouteIfMissing d n snr fwd) fwd"
  "get_route (addNodeToRouteIfMissing d n snr fwd) (\<not> fwd) = get_route d (\<not> fwd)"
  "route_complete d fwd \<Longrightarrow> route_complete (addNodeToRouteIfMissing d n snr fwd) fwd"
  "n \<in> set (fst (get_route (addNodeToRouteIfMissing d n snr fwd) fwd))"
  by (auto simp: addNodeToRouteIfMissing_def extends_route_def get_route_def route_complete_def
      known_hops_def)

lemma addGateway_facts:
  "extends_route d (addGatewayToRoute L p d fwd) fwd"
  "get_route (addGatewayToRoute L p d fwd) (\<not> fwd) = get_route d (\<not> fwd)"
  "route_complete d fwd \<Longrightarrow> route_complete (addGatewayToRoute L p d fwd) fwd"
  "np_GatewayNode p \<noteq> 0 \<Longrightarrow> np_GatewayNode p \<noteq> p_From (np_MeshPacket p) \<Longrightarrow>
   np_GatewayNode p \<in> set (fst (get_route (addGatewayToRoute L p d fwd) fwd))"
  by (simp_all add: addGatewayToRoute_def addNode_facts)

section \<open>Properties\<close>

lemma route_fwd [simp]: "get_route d True = (Route d, SnrTowards d)"
  and route_back [simp]: "get_route d False = (RouteBack d, SnrBack d)"
  by (simp_all add: get_route_def)

lemma extends_routeD:
  assumes "extends_route d d' True"
  shows "prefix (Route d) (Route d')"
    "distinct (known_hops (Route d)) \<Longrightarrow> distinct (known_hops (Route d'))"
  using assms by (simp_all add: extends_route_def)

lemma extends_routeD_back:
  assumes "extends_route d d' False"
  shows "prefix (RouteBack d) (RouteBack d')"
    "distinct (known_hops (RouteBack d)) \<Longrightarrow> distinct (known_hops (RouteBack d'))"
  using assms by (simp_all add: extends_route_def)

lemma extends_routeD_ratios: "extends_route d d' True \<Longrightarrow> prefix (SnrTowards d) (SnrTowards d')"
  by (simp add: extends_route_def)

text \<open>What the answer to a request adds without knowing how many hops the packet took.\<close>

lemma request_route_adds:
  assumes "p_HopStart (np_MeshPacket p) = 0 \<or> p_HopLimit (np_MeshPacket p) > p_HopStart (np_MeshPacket p)"
  shows "set (Route (requestRoute L c p d)) \<subseteq> set (Route d) \<union> {np_GatewayNode p, nodeId c}"
  using assms by (auto simp: requestRoute_def insertUnknownHops_def addGatewayToRoute_def addNodeToRouteIfMissing_def Let_def)

text \<open>
  C14: the answer to a traceroute request keeps the route and the ratios it received as prefixes,
  names no node twice that was not named twice before (placeholders apart), names the gateway the
  packet came through, if it is known and not the sender, and, when the target is a node other
  than the bridge, has the bridge on the forward and on the return route.  If the packet tells how
  many hops it took (a start that is not zero and at least the limit), and came with no more
  ratios than hops, the route lists at least as many hops as the packet took and carries exactly
  one ratio per hop and one for the destination.  If it does not tell, no placeholder is added:
  what is new on the route is the gateway or the bridge.
\<close>

theorem request_route_ok:
  assumes "d' = requestRoute L c p d" "m = np_MeshPacket p"
  shows "prefix (Route d) (Route d') \<and> prefix (SnrTowards d) (SnrTowards d') \<and>
    (distinct (known_hops (Route d)) \<longrightarrow> distinct (known_hops (Route d'))) \<and>
    (np_GatewayNode p \<noteq> 0 \<and> np_GatewayNode p \<noteq> p_From m \<longrightarrow> np_GatewayNode p \<in> set (Route d')) \<and>
    (p_To m \<noteq> nodeId c \<longrightarrow> nodeId c \<in> set (Route d') \<and> nodeId c \<in> set (RouteBack d')) \<and>
    (p_HopStart m \<noteq> 0 \<and> p_HopLimit m \<le> p_HopStart m \<and> length (SnrTowards d) \<le> length (Route d) \<longrightarrow>
       length (SnrTowards d') = length (Route d') + 1 \<and>
       unat (p_HopStart m) - unat (p_HopLimit m) \<le> length (Route d')) \<and>
    (p_HopStart m = 0 \<or> p_HopLimit m > p_HopStart m \<longrightarrow>
       set (Route d') \<subseteq> set (Route d) \<union> {np_GatewayNode p, nodeId c})"
proof -
  let ?d1 = "insertUnknownHops m d True"
  let ?d2 = "addGatewayToRoute L p ?d1 True"
  let ?f = "addNodeToRouteIfMissing ?d2 (nodeId c) 0 True"
  let ?d3 = "if p_To m \<noteq> nodeId c then addNodeToRouteIfMissing ?f (nodeId c) 0 False else ?d2"
  have fin: "d' = ?d3\<lparr>SnrTowards := SnrTowards ?d3 @ [0]\<rparr>"
    by (simp add: assms requestRoute_def Let_def)
  have keep: "get_route (addNodeToRouteIfMissing ?f (nodeId c) 0 False) True = get_route ?f True"
    using addNode_facts(2) [of ?f "nodeId c" 0 False] by simp
  have e1: "extends_route d ?d1 True" by (rule insertUnknownHops_extends)
  have e2: "extends_route ?d1 ?d2 True" by (rule addGateway_facts)
  have e3: "extends_route ?d2 ?d3 True" using keep addNode_facts(1) [of ?d2 "nodeId c" 0 True]
    by (auto simp: extends_route_def)
  note ext = extends_route_trans [OF extends_route_trans [OF e1 e2] e3]
  have gateway: "np_GatewayNode p \<in> set (Route d')" if "np_GatewayNode p \<noteq> 0" "np_GatewayNode p \<noteq> p_From m"
  proof -
    have "np_GatewayNode p \<in> set (Route ?d2)" using addGateway_facts(4) [of p L ?d1 True] that assms(2) by simp
    moreover have "set (Route ?d2) \<subseteq> set (Route ?d3)" by (rule set_mono_prefix [OF extends_routeD(1) [OF e3]])
    ultimately show ?thesis unfolding fin by auto
  qed
  have bridge: "nodeId c \<in> set (Route d') \<and> nodeId c \<in> set (RouteBack d')" if "p_To m \<noteq> nodeId c"
    using that keep addNode_facts(4) [of "nodeId c" ?d2 0 True] addNode_facts(4) [of "nodeId c" ?f 0 False]
    by (simp add: fin)
  have told: "length (SnrTowards d') = length (Route d') + 1 \<and> unat (p_HopStart m) - unat (p_HopLimit m) \<le> length (Route d')"
    if "p_HopStart m \<noteq> 0" "p_HopLimit m \<le> p_HopStart m" "length (SnrTowards d) \<le> length (Route d)"
  proof -
    have c1: "route_complete ?d1 True" and hops: "unat (p_HopStart m) - unat (p_HopLimit m) \<le> length (Route ?d1)"
      using insertUnknownHops_complete [of m d True] that by simp_all
    have c2: "route_complete ?d2 True" using addGateway_facts(3) c1 by blast
    then have "route_complete ?d3 True" using keep addNode_facts(3) [of ?d2 True] by (auto simp: route_complete_def)
    moreover have "length (Route ?d1) \<le> length (Route ?d3)"
      by (rule prefix_length_le [OF extends_routeD(1) [OF extends_route_trans [OF e2 e3]]])
    ultimately show ?thesis using hops by (simp add: fin route_complete_def)
  qed
  have "prefix (SnrTowards d) (SnrTowards d')" using extends_routeD_ratios [OF ext] by (simp add: fin)
  moreover have "prefix (Route d) (Route d')" "distinct (known_hops (Route d)) \<longrightarrow> distinct (known_hops (Route d'))"
    using extends_routeD [OF ext] by (simp_all add: fin)
  ultimately show ?thesis
    using gateway bridge told request_route_adds [of p L c d] assms by simp
qed

theorem request_route_ok_witness:
  "\<exists>d'. d' = requestRoute sample_lib sample_client sample_net_packet
       \<lparr>Route = [50], SnrTowards = [], RouteBack = [], SnrBack = []\<rparr> \<and>
     prefix [50] (Route d') \<and> length (SnrTowards d') = length (Route d') + 1 \<and> 2 \<in> set (Route d')"
  using request_route_ok [OF refl refl, where L = sample_lib and c = sample_client and p = sample_net_packet
      and d = "\<lparr>Route = [50], SnrTowards = [], RouteBack = [], SnrBack = []\<rparr>"]
  by (simp add: sample_net_packet_def sample_packet_def sample_client_def NewMeshtasticClient_def)

end
