(* ===== verification/Mesh_Incoming.thy ===== *)
theory Mesh_Incoming
  imports Mesh_Traceroute
begin

text \<open>
  Incoming packets, \<^verbatim>\<open>pkg/mesh/incoming_messages.go\<close>, and the request handlers of
  \<^verbatim>\<open>pkg/mesh/data_requests.go\<close>: duplicate suppression, decryption, and the translation of
  a payload into an event for the bridge or into an answer on the mesh.
\<close>

section \<open>Requests for data\<close>

definition encType_of_packet :: "NetworkMeshPacket \<Rightarrow> EncryptionType" where
  "encType_of_packet packet =
     (if np_ChannelName packet = ''PKI'' then PKIEncryption else PSKEncryption)"

definition handleTelemetryRequest ::
  "'c env \<Rightarrow> NetworkMeshPacket \<Rightarrow> Telemetry \<Rightarrow> 'c client \<Rightarrow> 'c client" where
  "handleTelemetryRequest E packet telemetry c =
     (let toNode = p_To (np_MeshPacket packet); fromNode = p_From (np_MeshPacket packet) in
      if \<not> e_managed E toNode then c
      else
        let (ok, thr) = canRespondTelemetry (throttle c) toNode (e_now E);
            c = c\<lparr>throttle := thr\<rparr>
        in
        if \<not> ok then c
        else
          let encType = encType_of_packet packet;
              chanKey = channel_of_packet (e_lib E) packet;
              pid = p_Id (np_MeshPacket packet)
          in case t_Variant telemetry of
               Some (DeviceMetricsVariant _) \<Rightarrow>
                 snd (SendTelemetryResponse E toNode fromNode chanKey encType pid c)
             | Some (HostMetricsVariant _) \<Rightarrow>
                 snd (SendHostMetricsResponse E toNode fromNode chanKey encType pid c)
             | Some (OtherVariant _) \<Rightarrow> c
             | None \<Rightarrow> snd (SendTelemetryResponse E toNode fromNode chanKey encType pid c))"

definition dummyNeighborInfo :: "NeighborInfo \<Rightarrow> bool" where
  "dummyNeighborInfo n =
     (case ni_Neighbors n of [x] \<Rightarrow> nb_NodeId x = 0 \<and> float_eq (nb_Snr x) 0 | _ \<Rightarrow> False)"

definition handleNeighborInfoRequest ::
  "'c env \<Rightarrow> NetworkMeshPacket \<Rightarrow> NeighborInfo \<Rightarrow> 'c client \<Rightarrow> 'c client" where
  "handleNeighborInfoRequest E packet neighborInfo c =
     (let toNode = p_To (np_MeshPacket packet); fromNode = p_From (np_MeshPacket packet) in
      if \<not> e_managed E toNode then c
      else if dummyNeighborInfo neighborInfo then c
      else
        let (ok, thr) = canRespondNeighbor (throttle c) toNode (e_now E);
            c = c\<lparr>throttle := thr\<rparr>
        in
        if \<not> ok then c
        else
          let neighborIDs = (case e_neighborProvider E of None \<Rightarrow> [] | Some f \<Rightarrow> f toNode);
              broadcastInterval = (case neighborBroadcastInterval c of None \<Rightarrow> 0 | Some i \<Rightarrow> i)
          in snd (SendNeighborInfoResponse E toNode fromNode neighborIDs broadcastInterval
               (channel_of_packet (e_lib E) packet) (encType_of_packet packet)
               (p_Id (np_MeshPacket packet)) c))"

section \<open>Duplicates\<close>

definition cacheKey :: "NetworkMeshPacket \<Rightarrow> 64 word" where
  "cacheKey packet =
     push_bit 32 (ucast (p_From (np_MeshPacket packet))) OR ucast (p_Id (np_MeshPacket packet))"

definition isDuplicatePacket :: "'c env \<Rightarrow> 'c client \<Rightarrow> NetworkMeshPacket \<Rightarrow> bool" where
  "isDuplicatePacket E c packet =
     (if p_Id (np_MeshPacket packet) = 0 then False
      else e_cacheHas E (packetCache c) (e_now E) (cacheKey packet))"

definition cachePacket :: "'c env \<Rightarrow> NetworkMeshPacket \<Rightarrow> 'c client \<Rightarrow> 'c client" where
  "cachePacket E packet c = c\<lparr>packetCache := e_cacheSet E (packetCache c) (e_now E) (cacheKey packet)\<rparr>"

section \<open>Decryption\<close>

definition getChannelNameFromHash :: "lib \<Rightarrow> 'c client \<Rightarrow> 32 word \<Rightarrow> string" where
  "getChannelNameFromHash L c idHash =
     (case find (\<lambda>v. ChannelHash L (GetName (snd v)) (GetKeyBytes (snd v)) = (idHash, None)) (channels c) of
        Some v \<Rightarrow> GetName (snd v)
      | None \<Rightarrow> [])"

definition shouldUsePKIDecryption :: "'c env \<Rightarrow> NetworkMeshPacket \<Rightarrow> bool" where
  "shouldUsePKIDecryption E packet \<longleftrightarrow>
     p_Channel (np_MeshPacket packet) = 0 \<and> p_To (np_MeshPacket packet) > 0 \<and>
     p_To (np_MeshPacket packet) \<noteq> BROADCAST_ID \<and> e_managed E (p_To (np_MeshPacket packet))"

text \<open>
  The wrapped errors of \<^verbatim>\<open>tryDecryptPKI\<close> are only logged; the message is kept, the cause is
  not.  The packet is passed by reference and its channel name and key are set: the result
  holds the packet as it is afterwards.
\<close>

definition tryDecryptPKI ::
  "'c env \<Rightarrow> NetworkMeshPacket \<Rightarrow> (Data option \<times> go_error option) \<times> NetworkMeshPacket" where
  "tryDecryptPKI E packet =
     (let toNode = p_To (np_MeshPacket packet); fromNode = p_From (np_MeshPacket packet) in
      case requestKey (e_lib E) toNode (e_privKeyRequest E) of
        Inl err \<Rightarrow>
          ((None, Some (Errorf (''unable to retrieve private key for '' @ NodeID_String toNode))), packet)
      | Inr privKey \<Rightarrow>
          (case requestKey (e_lib E) fromNode (e_pubKeyRequest E) of
             Inl err \<Rightarrow>
               ((None, Some (Errorf (''unable to retrieve public key for '' @ NodeID_String fromNode))), packet)
           | Inr pubKey \<Rightarrow>
               (TryDecodePKI (e_lib E) (np_MeshPacket packet) pubKey privKey,
                packet\<lparr>np_ChannelName := ''PKI''\<rparr>)))"

text \<open>The loop over the channels; \<open>r\<close> is the outcome of the last attempt.\<close>

fun tryDecryptPSK_loop ::
  "lib \<Rightarrow> (nat \<times> ChannelDef) list \<Rightarrow> NetworkMeshPacket \<Rightarrow> Data option \<times> go_error option
   \<Rightarrow> (Data option \<times> go_error option) \<times> NetworkMeshPacket" where
  "tryDecryptPSK_loop L [] packet r = (r, packet)"
| "tryDecryptPSK_loop L (v # vs) packet r =
     (if GetName (snd v) = np_ChannelName packet \<and> GetKeyString (snd v) \<noteq> [] then
        let r = TryDecode L (np_MeshPacket packet) (GetKeyBytes (snd v)) in
        if snd r = None \<and> fst r \<noteq> None
        then (r, packet\<lparr>np_ChannelKey := Some (GetKeyString (snd v))\<rparr>)
        else tryDecryptPSK_loop L vs packet r
      else tryDecryptPSK_loop L vs packet r)"

definition tryDecryptPSK ::
  "lib \<Rightarrow> 'c client \<Rightarrow> NetworkMeshPacket \<Rightarrow> (Data option \<times> go_error option) \<times> NetworkMeshPacket" where
  "tryDecryptPSK L c packet =
     (let packet = packet\<lparr>np_ChannelName := getChannelNameFromHash L c (p_Channel (np_MeshPacket packet))\<rparr>
      in if np_ChannelName packet = [] then
           ((None, Some (Errorf (''unknown channel hash: '' @
               Sprintf_d (p_Channel (np_MeshPacket packet))))), packet)
         else tryDecryptPSK_loop L (channels c) packet (None, None))"

section \<open>Messages\<close>

definition isUnmessagableRole :: "Role \<Rightarrow> bool" where
  "isUnmessagableRole role \<longleftrightarrow>
     role = REPEATER \<or> role = ROUTER \<or> role = ROUTER_LATE \<or> role = SENSOR \<or> role = TRACKER \<or>
     role = TAK \<or> role = TAK_TRACKER"

definition isUnmessagable :: "User \<Rightarrow> bool" where
  "isUnmessagable user =
     (case u_IsUnmessagable user of Some b \<Rightarrow> b | None \<Rightarrow> isUnmessagableRole (u_Role user))"

definition envelope :: "'c env \<Rightarrow> NetworkMeshPacket \<Rightarrow> Data \<Rightarrow> MeshEvent" where
  "envelope E packet message =
     (let p = np_MeshPacket packet in
      \<lparr>ev_ChannelName = np_ChannelName packet, ev_ChannelKey = np_ChannelKey packet,
       ev_From = p_From p, ev_To = p_To p, ev_Via = np_GatewayNode packet,
       ev_Timestamp = (if p_RxTime p = 0 then unix32 (e_now E) else p_RxTime p),
       ev_PacketId = p_Id p, ev_WantAck = p_WantAck p, ev_WantResponse = d_WantResponse message,
       ev_IsNeighbor = (np_Source packet \<noteq> PacketSourceMQTT \<and> p_HopStart p = p_HopLimit p \<and>
                        \<not> p_ViaMqtt p)\<rparr>)"

text \<open>\<^verbatim>\<open>float32(x) * 1e-7\<close> of an \<^verbatim>\<open>int32\<close>.\<close>

definition degrees :: "32 word \<Rightarrow> gofloat" where
  "degrees x = float32_mul (float32_of_int (sint x)) (float32_round (1 / 10000000))"

definition geo_location :: "32 word \<Rightarrow> 32 word \<Rightarrow> gofloat option \<Rightarrow> 32 word \<Rightarrow> GeoURI" where
  "geo_location lat lon alt precision =
     \<lparr>Latitude = degrees lat, Longitude = degrees lon, Altitude = alt,
      Uncertainty = Some (float32_of_int (uint (GetPositionPrecisionInMeters precision))),
      CRS = [], Zoom = None, Query = [], OtherParams = Map.empty, QueryParams = Map.empty\<rparr>"

definition nodeInfo_event :: "lib \<Rightarrow> MeshEvent \<Rightarrow> User \<Rightarrow> event" where
  "nodeInfo_event L env user =
     NodeInfoEvent (MeshEvent.extend env
       (MeshNodeInfoEvent.fields (u_Id user) (u_ShortName user) (u_LongName user)
          (RoleString L (u_Role user)) (u_PublicKey user) (u_IsLicensed user) (isUnmessagable user)))"

definition position_event :: "MeshEvent \<Rightarrow> Position \<Rightarrow> event" where
  "position_event env pos =
     (case (pos_LatitudeI pos, pos_LongitudeI pos) of
        (Some lat, Some lon) \<Rightarrow>
          LocationEvent (MeshEvent.extend env
            (MeshLocationEvent.fields
               (geo_location lat lon
                  (map_option (\<lambda>a. float32_of_int (sint a)) (pos_Altitude pos)) (pos_PrecisionBits pos))
               (pos_GroundSpeed pos) (pos_GroundTrack pos)))
      | _ \<Rightarrow> EnvelopeValue env)"

definition mapReport_event :: "lib \<Rightarrow> MeshEvent \<Rightarrow> MapReport \<Rightarrow> event" where
  "mapReport_event L env r =
     MapReportEvent (MeshEvent.extend env
       (MeshMapReportEvent.fields
          (geo_location (mr_LatitudeI r) (mr_LongitudeI r)
             (if mr_Altitude r \<noteq> 0 then Some (float32_of_int (sint (mr_Altitude r))) else None)
             (mr_PositionPrecision r))
          (mr_ShortName r) (mr_LongName r) (RoleString L (mr_Role r))
          (isUnmessagableRole (mr_Role r)) (mr_FirmwareVersion r) (mr_NumOnlineLocalNodes r)))"

definition text_event :: "MeshEvent \<Rightarrow> Data \<Rightarrow> event" where
  "text_event env message =
     (let e = MeshEvent.extend env
                (MeshTextEvent.fields (d_Payload message) (ev_To env \<noteq> BROADCAST_ID) (d_ReplyId message))
      in if d_Emoji message \<noteq> 0 then ReactionEvent e else MessageEvent e)"

text \<open>
  The waypoint's own identifier is not copied: the event keeps the zero value.
  \<^verbatim>\<open>string(rune(w.Icon))\<close> reads the \<^verbatim>\<open>uint32\<close> as a signed code point.
\<close>

definition waypoint_event :: "'c env \<Rightarrow> MeshEvent \<Rightarrow> Waypoint \<Rightarrow> event" where
  "waypoint_event E env w =
     (case (w_LatitudeI w, w_LongitudeI w) of
        (Some lat, Some lon) \<Rightarrow>
          let expiration = uint (w_Expire w) * Second;
              lockedTo = (if w_LockedTo w \<noteq> 0 \<and> w_LockedTo w \<noteq> BROADCAST_ID \<and>
                             w_LockedTo w \<noteq> BROADCAST_ID_NO_LORA
                          then Some (w_LockedTo w) else None)
          in WaypointEvent (MeshEvent.extend env
               (MeshWaypointEvent.fields 0 (expiration < e_now E) (w_Name w) (w_Description w)
                  (degrees lat) (degrees lon) (EncodeRune (sint (w_Icon w))) lockedTo (Some expiration)))
      | _ \<Rightarrow> EnvelopeValue env)"

definition traceroute_event :: "MeshEvent \<Rightarrow> RouteDiscovery \<Rightarrow> 32 word \<Rightarrow> event" where
  "traceroute_event env r requestId =
     TracerouteEvent (MeshEvent.extend env
       (MeshTracerouteEvent.fields (Route r) (SnrTowards r) (RouteBack r) (SnrBack r) requestId))"

text \<open>
  The switch of \<^verbatim>\<open>processMessage\<close>: the event to pass on, the error of the unmarshalling where
  the code keeps it, and the client after the requests have been answered.
\<close>

definition dispatch ::
  "'c env \<Rightarrow> NetworkMeshPacket \<Rightarrow> Data \<Rightarrow> 'c client \<Rightarrow> (event \<times> go_error option) \<times> 'c client" where
  "dispatch E packet message c =
     (let L = e_lib E; env = envelope E packet message; payload = d_Payload message;
          request = (d_WantResponse message \<and> p_To (np_MeshPacket packet) \<noteq> BROADCAST_ID)
      in case d_Portnum message of
           TEXT_MESSAGE_APP \<Rightarrow> ((text_event env message, None), c)
         | NODEINFO_APP \<Rightarrow> ((nodeInfo_event L env (fst (UnmarshalUser L payload)), None), c)
         | POSITION_APP \<Rightarrow> ((position_event env (fst (UnmarshalPosition L payload)), None), c)
         | MAP_REPORT_APP \<Rightarrow> ((mapReport_event L env (fst (UnmarshalMapReport L payload)), None), c)
         | TRACEROUTE_APP \<Rightarrow>
             (let (r, err) = UnmarshalRouteDiscovery L payload in
              if d_RequestId message \<noteq> 0 then
                ((traceroute_event env (handleTracerouteResponse E packet r c) (d_RequestId message), err), c)
              else ((EnvelopeValue env, err), handleTracerouteRequest E packet r c))
         | TELEMETRY_APP \<Rightarrow>
             (let (t, err) = UnmarshalTelemetry L payload
              in ((EnvelopeValue env, err), if request then handleTelemetryRequest E packet t c else c))
         | NEIGHBORINFO_APP \<Rightarrow>
             (let (n, err) = UnmarshalNeighborInfo L payload
              in ((EnvelopeValue env, err), if request then handleNeighborInfoRequest E packet n c else c))
         | STORE_FORWARD_APP \<Rightarrow> ((EnvelopeValue env, UnmarshalStoreAndForward L payload), c)
         | STORE_FORWARD_PLUSPLUS_APP \<Rightarrow> ((EnvelopeValue env, UnmarshalStoreAndForward L payload), c)
         | ROUTING_APP \<Rightarrow> ((EnvelopeValue env, snd (UnmarshalRouting L payload)), c)
         | WAYPOINT_APP \<Rightarrow>
             (let (w, err) = UnmarshalWaypoint L payload in ((waypoint_event E env w, err), c))
         | _ \<Rightarrow> ((EnvelopeValue env, None), c))"

definition processMessage ::
  "'c env \<Rightarrow> NetworkMeshPacket \<Rightarrow> Data option \<Rightarrow> 'c client \<Rightarrow> go_error option \<times> 'c client" where
  "processMessage E packet message c =
     (case message of
        None \<Rightarrow> (Some (Errorf ''nil message''), c)
      | Some message \<Rightarrow>
          if p_From (np_MeshPacket packet) = 0 then (Some (Errorf ''sender has zero node ID''), c)
          else if e_managed E (p_From (np_MeshPacket packet)) then (None, c)
          else let ((evt, err), c) = dispatch E packet message c in (err, notifyEvent evt c))"

section \<open>Packets\<close>

definition decrypt ::
  "'c env \<Rightarrow> NetworkMeshPacket \<Rightarrow> 'c client \<Rightarrow> (Data option \<times> go_error option) \<times> NetworkMeshPacket" where
  "decrypt E packet c =
     (case GetDecoded (np_MeshPacket packet) of
        Some data \<Rightarrow> ((Some data, None), packet)
      | None \<Rightarrow>
          let ((data, err), packet) =
                (if shouldUsePKIDecryption E packet then tryDecryptPKI E packet
                 else ((None, None), packet))
          in case data of
               Some _ \<Rightarrow> ((data, None), packet)
             | None \<Rightarrow> tryDecryptPSK (e_lib E) c packet)"

definition handleMeshPacket :: "'c env \<Rightarrow> NetworkMeshPacket \<Rightarrow> 'c client \<Rightarrow> 'c client" where
  "handleMeshPacket E packet c =
     (if isDuplicatePacket E c packet then c
      else
        let c = cachePacket E packet c in
        if e_managed E (p_From (np_MeshPacket packet)) then c
        else
          let ((data, err), packet) = decrypt E packet c in
          if err \<noteq> None then c else snd (processMessage E packet data c))"

end
