(* ===== verification/Mesh_Protocol.thy ===== *)
theory Mesh_Protocol
  imports Mesh_Incoming
begin

text \<open>
  Properties of the mesh client as a whole: runs of its operations in any order, the invariant
  they keep, and duplicate suppression.  \<open>good\<close> is the invariant of a client after
  \<^verbatim>\<open>SetPrimaryChannel\<close>: what \<^theory_text>\<open>Mesh_Sending\<close> promises about the packets that left, a primary
  channel, well-formed channels, and no panic.
\<close>

section \<open>The invariant\<close>

definition ready :: "lib \<Rightarrow> 'c client \<Rightarrow> bool" where
  "ready L c \<longleftrightarrow>
     \<not> crashed c \<and> primaryChannel c \<noteq> None \<and> (\<forall>v \<in> set (channels c). channel_wf L (snd v))"

definition good :: "(NodeID \<Rightarrow> bool) \<Rightarrow> lib \<Rightarrow> 'c client \<Rightarrow> bool" where
  "good M L c \<longleftrightarrow> client_inv M c \<and> ready L c"

section \<open>Runs\<close>

text \<open>
  One step of the client in the environment \<open>E\<close>.  A message, a reaction and a traceroute take a
  channel that was built, though the methods would also take a nil one, and fail on it: that the
  bridge calls them with a channel only is shown where it calls them (\<^theory_text>\<open>Bridge_System\<close>).  A packet
  from a connector carries no key.  Connectors also change on their own:
  \<open>connectors\<close> replaces their states by any others.
\<close>

inductive client_step :: "'c env \<Rightarrow> 'c client \<Rightarrow> 'c client \<Rightarrow> bool" for E where
  receive: "np_ChannelKey p = None \<Longrightarrow> client_step E c (handleMeshPacket E p c)"
| message: "client_step E c (snd (SendMessage E src dst (Some ch) msg reply pki c))"
| reaction: "client_step E c (snd (SendReaction E src dst (Some ch) pid emoji pki c))"
| node_info: "client_step E c (snd (SendNodeInfo E src dst lname sname wr pk c))"
| telemetry: "client_step E c (snd (SendTelemetry E src dst c))"
| host_metrics: "client_step E c (snd (SendHostMetrics E src dst c))"
| neighbors: "client_step E c (snd (SendNeighborInfo E src ids iv c))"
| position: "client_step E c (snd (SendPosition E src dst loc ts c))"
| map_report: "client_step E c (snd (SendMapReport E src lname sname loc n c))"
| ack: "client_step E c (snd (SendAck E src dst pid c))"
| nack: "client_step E c (snd (SendNack E src dst pid c))"
| traceroute: "client_step E c (snd (SendTraceroute E src dst (Some ch) c))"
| add_channel: "client_step E c (fst (AddChannel (e_lib E) name key c))"
| add_channel_def: "channel_wf (e_lib E) (snd rd) \<Longrightarrow> client_step E c (AddChannelDef rd c)"
| set_primary: "NewChannelDef (e_lib E) name (Some key) = Inr d \<Longrightarrow>
    client_step E c (SetPrimaryChannel (e_lib E) name key c)"
| hop_limit: "client_step E c (fst (SetHopLimit h c))"
| interval: "client_step E c (SetNeighborBroadcastInterval i c)"
| mqtt_handler: "client_step E c (AddMQTTHandler c)"
| udp_handler: "client_step E c (AddUDPHandler c)"
| connect: "client_step E c (fst (client_Connect E c))"
| disconnect: "client_step E c (client_Disconnect c)"
| state_change: "client_step E c (handleConnectorStateChange c i le)"
| connectors: "client_step E c (c\<lparr>meshConnectors := hs\<rparr>)"

text \<open>Runs whose steps happen in environments that satisfy \<open>P\<close>.\<close>

inductive client_run :: "('c env \<Rightarrow> bool) \<Rightarrow> 'c client \<Rightarrow> 'c client \<Rightarrow> bool" for P where
  start: "client_run P c c"
| step: "client_run P c c' \<Longrightarrow> P E \<Longrightarrow> client_step E c' c'' \<Longrightarrow> client_run P c c''"

section \<open>What every operation keeps\<close>

lemma good_updates [simp]:
  "good M L (c\<lparr>throttle := t\<rparr>) = good M L c"
  "good M L (c\<lparr>packetCache := pc\<rparr>) = good M L c"
  "good M L (c\<lparr>events := ev\<rparr>) = good M L c"
  "good M L (c\<lparr>meshConnectors := hs\<rparr>) = good M L c"
  "good M L (c\<lparr>nextRef := n\<rparr>) = good M L c"
  "good M L (c\<lparr>nodeInfoSendCache := m\<rparr>) = good M L c"
  "good M L (c\<lparr>neighborBroadcastInterval := i\<rparr>) = good M L c"
  "good M L (c\<lparr>previouslyConnected := b\<rparr>) = good M L c"
  "good M L (c\<lparr>connectCalls := cc\<rparr>) = good M L c"
  by (simp_all add: good_def client_inv_def ready_def)

lemma good_primary: "good M L c \<Longrightarrow> primary c \<noteq> None"
  by (auto simp: good_def ready_def primary_def)

lemma snd_error_of [simp]: "snd (error_of r) = snd r"
  by (simp add: error_of_def)

lemma PacketInfo0_simps [simp]:
  "pi_Encrypted (PacketInfo0 port enc src dst) = enc"
  "pi_PortNum (PacketInfo0 port enc src dst) = port"
  "pi_From (PacketInfo0 port enc src dst) = src"
  "pi_To (PacketInfo0 port enc src dst) = dst"
  by (simp_all add: PacketInfo0_def)

text \<open>
  The channel of an answer is rebuilt from the name and key of the request; the key is the text
  form of a channel of the client, or absent, so it always parses.
\<close>

lemma NewChannelDef_total:
  assumes "radio_keys_ok r" "k = None \<or> k = Some [] \<or> (\<exists>c. channel_wf r c \<and> k = Some (GetKeyString c))"
  shows "\<exists>d. NewChannelDef r n k = Inr d"
proof -
  have "\<exists>b. GetKeyString c = [] \<or> ParseKey r (GetKeyString c) = Inr b" if "channel_wf r c" for c
    using that assms(1) tryCompactKey_cases [of "cd_keyBytes c" r]
    by (cases "cd_keyBytes c = []") (auto simp: channel_wf_def GetKeyString_def radio_keys_ok_def)
  then show ?thesis using assms(2) by (fastforce simp: NewChannelDef_def)
qed

definition key_ok :: "lib \<Rightarrow> NetworkMeshPacket \<Rightarrow> bool" where
  "key_ok L p \<longleftrightarrow>
     np_ChannelKey p = None \<or> (\<exists>c. channel_wf L c \<and> np_ChannelKey p = Some (GetKeyString c))"

lemma channel_of_packet_Some:
  assumes "radio_keys_ok L" "key_ok L p" shows "channel_of_packet L p \<noteq> None"
proof -
  obtain d where "NewChannelDef L (np_ChannelName p) (np_ChannelKey p) = Inr d"
    using NewChannelDef_total [of L "np_ChannelKey p" "np_ChannelName p"] assms
    unfolding key_ok_def by blast
  then show ?thesis by (simp add: channel_of_packet_def)
qed

lemma tryDecryptPSK_loop_key_ok:
  assumes "\<forall>v \<in> set vs. channel_wf L (snd v)" "key_ok L p"
  shows "key_ok L (snd (tryDecryptPSK_loop L vs p r))"
  using assms by (induction L vs p r rule: tryDecryptPSK_loop.induct) (auto simp: key_ok_def Let_def)

lemma encType_ok [simp]: "encType_of_packet p \<noteq> NoEncryption"
  by (simp add: encType_of_packet_def)

text \<open>
  The contract every operation is proved against: the bridge answers \<open>True\<close> in the environment
  \<open>E\<close> for nodes of \<open>M\<close> only.  \<open>M\<close> may be the very answers of \<open>E\<close>, or a bound that holds over
  a whole run in which the answers change.
\<close>

locale managed_within =
  fixes E :: "'c env" and M :: "NodeID \<Rightarrow> bool"
  assumes managed_le: "e_managed E n \<Longrightarrow> M n"
begin

lemma sendBytes_good:
  assumes "good M (e_lib E) c" "channel \<noteq> None"
    and "pi_Encrypted info = NoEncryption \<Longrightarrow> pi_PortNum info = MAP_REPORT_APP"
  shows "good M (e_lib E) (snd (sendBytes E channel raw info c))"
proof -
  obtain ch where "channel = Some ch" using assms(2) by blast
  then have "crashed (snd (sendBytes E channel raw info c)) = crashed c"
    by (simp add: sendBytes_crashed)
  moreover have "client_inv M (snd (sendBytes E channel raw info c))"
    using assms managed_le by (intro sendBytes_inv) (auto simp: good_def)
  ultimately show ?thesis using assms(1) by (simp add: good_def ready_def)
qed

lemma sendProtoMessage_good:
  assumes "good M (e_lib E) c" "channel \<noteq> None"
    and "pi_Encrypted info = NoEncryption \<Longrightarrow> pi_PortNum info = MAP_REPORT_APP"
  shows "good M (e_lib E) (snd (sendProtoMessage E channel m info c))"
  using sendBytes_good [OF assms] assms(1)
  by (cases "Marshal (e_lib E) m") (simp_all add: sendProtoMessage_def)

lemmas send_good = sendBytes_good sendProtoMessage_good

lemma send_ops_good:
  assumes "good M (e_lib E) c"
  shows "channel \<noteq> None \<Longrightarrow> good M (e_lib E) (snd (SendMessage E src dst channel msg reply pki c))"
    "channel \<noteq> None \<Longrightarrow> good M (e_lib E) (snd (SendReaction E src dst channel pid emoji pki c))"
    "good M (e_lib E) (snd (SendTelemetry E src dst c))"
    "good M (e_lib E) (snd (SendHostMetrics E src dst c))"
    "good M (e_lib E) (snd (SendNeighborInfo E src ids iv c))"
    "good M (e_lib E) (snd (SendPosition E src dst loc ts c))"
    "good M (e_lib E) (snd (SendAck E src dst pid c))"
    "good M (e_lib E) (snd (SendNack E src dst pid c))"
    "channel \<noteq> None \<Longrightarrow> good M (e_lib E) (snd (SendTraceroute E src dst channel c))"
  using assms good_primary [OF assms]
  by (auto simp: SendMessage_def SendReaction_def SendTelemetry_def SendHostMetrics_def
      SendNeighborInfo_def SendPosition_def SendAck_def SendNack_def SendTraceroute_def
      split: sum.splits intro!: send_good)

lemma response_ops_good:
  assumes "good M (e_lib E) c" "channel \<noteq> None" "enc \<noteq> NoEncryption"
  shows "good M (e_lib E) (snd (SendTelemetryResponse E src dst channel enc pid c))"
    "good M (e_lib E) (snd (SendHostMetricsResponse E src dst channel enc pid c))"
    "good M (e_lib E) (snd (SendNeighborInfoResponse E src dst ids iv channel enc pid c))"
  using assms
  by (auto simp: SendTelemetryResponse_def SendHostMetricsResponse_def SendNeighborInfoResponse_def
      split: sum.splits intro!: send_good)

lemma SendMapReport_good:
  assumes "good M (e_lib E) c" shows "good M (e_lib E) (snd (SendMapReport E src lname sname loc n c))"
  using assms good_primary [OF assms]
  by (auto simp: SendMapReport_def split: option.splits intro!: send_good)

lemma SendNodeInfo_good:
  assumes "good M (e_lib E) c" shows "good M (e_lib E) (snd (SendNodeInfo E src dst lname sname wr pk c))"
proof -
  let ?r = "sendProtoMessage E (primary c) (MsgUser (nodeInfo_user c src lname sname pk))
     ((PacketInfo0 NODEINFO_APP PSKEncryption src dst)\<lparr>pi_WantResponse := wr\<rparr>) c"
  have "good M (e_lib E) (snd ?r)" using assms good_primary [OF assms] by (auto intro!: send_good)
  then show ?thesis
    using assms by (auto simp: SendNodeInfo_def Let_def split: prod.splits)
qed

lemma AddChannelDef_good:
  assumes "good M (e_lib E) c" "channel_wf (e_lib E) (snd rd)"
  shows "good M (e_lib E) (AddChannelDef rd c)"
  using assms
  by (auto simp: AddChannelDef_def notifyEvent_def Let_def good_def ready_def client_inv_def
      split: option.splits)

lemma AddChannel_good:
  assumes "good M (e_lib E) c" "radio_keys_ok (e_lib E)"
  shows "good M (e_lib E) (fst (AddChannel (e_lib E) n k c))"
  using assms
  by (auto simp: AddChannel_def split: sum.splits dest: NewChannelDef_wf(1) intro!: AddChannelDef_good)

lemma SetPrimaryChannel_good:
  assumes "good M (e_lib E) c" "radio_keys_ok (e_lib E)" "NewChannelDef (e_lib E) n (Some k) = Inr d"
  shows "good M (e_lib E) (SetPrimaryChannel (e_lib E) n k c)"
proof -
  have "good M (e_lib E) (AddChannelDef (nextRef c, d) (c\<lparr>nextRef := Suc (nextRef c)\<rparr>))"
    using assms NewChannelDef_wf(1) [OF assms(2,3)] by (intro AddChannelDef_good) simp_all
  then show ?thesis
    using assms(3) by (simp add: SetPrimaryChannel_def Let_def good_def ready_def client_inv_def)
qed

lemma SetHopLimit_good: "good M (e_lib E) c \<Longrightarrow> good M (e_lib E) (fst (SetHopLimit h c))"
  by (auto simp: SetHopLimit_def good_def ready_def client_inv_def)

lemma decrypt_key_ok:
  assumes "good M (e_lib E) c" "np_ChannelKey p = None"
  shows "key_ok (e_lib E) (snd (decrypt E p c))"
proof -
  have wf: "\<forall>v \<in> set (channels c). channel_wf (e_lib E) (snd v)"
    using assms(1) by (simp add: good_def ready_def)
  have psk: "key_ok (e_lib E) (snd (tryDecryptPSK (e_lib E) c q))" if "np_ChannelKey q = None" for q
    using that wf by (auto simp: tryDecryptPSK_def Let_def key_ok_def [of _ q]
        intro!: tryDecryptPSK_loop_key_ok) (simp_all add: key_ok_def)
  have pki: "np_ChannelKey (snd (tryDecryptPKI E p)) = None"
    using assms(2) by (simp add: tryDecryptPKI_def Let_def split: sum.splits)
  show ?thesis
    using psk pki assms(2)
    by (auto simp: decrypt_def Let_def key_ok_def [of _ p] split: option.splits prod.splits)
      (auto simp: key_ok_def)
qed

lemma requests_good:
  assumes "good M (e_lib E) c" "radio_keys_ok (e_lib E)" "key_ok (e_lib E) p"
  shows "good M (e_lib E) (handleTelemetryRequest E p t c)" "good M (e_lib E) (handleNeighborInfoRequest E p n c)"
    "good M (e_lib E) (handleTracerouteRequest E p d c)"
  using assms channel_of_packet_Some [OF assms(2,3)]
  by (auto simp: handleTelemetryRequest_def handleNeighborInfoRequest_def handleTracerouteRequest_def
      Let_def split: prod.splits option.splits TelemetryVariant.splits
      intro!: response_ops_good send_good send_ops_good)

lemma dispatch_good:
  assumes "good M (e_lib E) c" "radio_keys_ok (e_lib E)" "key_ok (e_lib E) p"
  shows "good M (e_lib E) (snd (dispatch E p d c))"
  using assms requests_good [OF assms]
  by (auto simp: dispatch_def Let_def split: PortNum.splits prod.splits)

lemma processMessage_good:
  assumes "good M (e_lib E) c" "radio_keys_ok (e_lib E)" "key_ok (e_lib E) p"
  shows "good M (e_lib E) (snd (processMessage E p d c))"
  using assms dispatch_good [OF assms]
  by (auto simp: processMessage_def notifyEvent_def Let_def split: option.splits prod.splits)
    (metis snd_conv)

lemma handleMeshPacket_good:
  assumes "good M (e_lib E) c" "radio_keys_ok (e_lib E)" "np_ChannelKey p = None"
  shows "good M (e_lib E) (handleMeshPacket E p c)"
proof -
  have c: "good M (e_lib E) (cachePacket E p c)" using assms(1) by (simp add: cachePacket_def)
  show ?thesis
    using assms(1) c processMessage_good [OF c assms(2) decrypt_key_ok [OF c assms(3)]]
    by (auto simp: handleMeshPacket_def Let_def split: prod.splits)
qed

lemma client_step_good:
  assumes "client_step E c c'" "good M (e_lib E) c" "radio_keys_ok (e_lib E)"
  shows "good M (e_lib E) c'"
  using assms(1)
proof cases
  case (receive p)
  then show ?thesis using assms by (simp add: handleMeshPacket_good)
next
  case (connect)
  then show ?thesis using assms by (simp add: client_Connect_def Let_def)
next
  case (state_change i le)
  then show ?thesis
    using assms by (simp add: handleConnectorStateChange_def Let_def split: ListenerEvent.splits)
qed (use assms in \<open>simp_all add: send_ops_good SendNodeInfo_good SendMapReport_good AddChannel_good
    AddChannelDef_good SetPrimaryChannel_good SetHopLimit_good SetNeighborBroadcastInterval_def
    AddMQTTHandler_def AddUDPHandler_def client_Disconnect_def\<close>)

end

interpretation own: managed_within E "e_managed E" for E by unfold_locales

interpretation any: managed_within E "\<lambda>_. True" for E by unfold_locales simp

lemma client_run_good:
  assumes "client_run P c c'" "good M L c" "radio_keys_ok L"
    and "\<And>E. P E \<Longrightarrow> e_lib E = L \<and> (\<forall>n. e_managed E n \<longrightarrow> M n)"
  shows "good M L c'"
  using assms
proof (induction rule: client_run.induct)
  case (step c c' E c'')
  then have E: "e_lib E = L" "managed_within E M" by (auto simp: managed_within_def)
  have "good M L c'" using step.IH step.prems by blast
  then show ?case
    using managed_within.client_step_good [OF E(2) step.hyps(3)] E(1) step.prems(2) by simp
qed simp

lemma first_primary_good:
  assumes "radio_keys_ok L" "NewChannelDef L n (Some k) = Inr d"
  shows "good M L (SetPrimaryChannel L n k (NewMeshtasticClient nid now cache rnd))"
  using assms NewChannelDef_wf(1) [OF assms]
  by (simp add: SetPrimaryChannel_def AddChannelDef_def notifyEvent_def Let_def good_def ready_def
      client_inv_def NewMeshtasticClient_def DefaultHopLimit_def MAX_HOPS_def)

text \<open>
  C2: from the moment the primary channel is set on a new client, whatever the client does and
  receives, it does not panic on a missing channel, and every packet it ever handed to its
  connectors was sent by a node the bridge manages (or managed at the time, where the answers
  change over the run), kept its hop counters within the protocol's limit of seven, was encrypted
  unless it is a map report, and used channel 0 where it is unencrypted or encrypted for one node.
\<close>

theorem client_safe:
  assumes "radio_keys_ok L" "NewChannelDef L n (Some k) = Inr d"
    and "client_run (\<lambda>E. e_lib E = L \<and> (\<forall>n. e_managed E n \<longrightarrow> M n))
           (SetPrimaryChannel L n k (NewMeshtasticClient nid now cache rnd)) c"
  shows "\<not> crashed c \<and> hopLimit c < MAX_HOPS \<and> (\<forall>np \<in> set (outbox c). packet_ok M (snd np))"
  using client_run_good [OF assms(3) first_primary_good [OF assms(1,2), of M] assms(1)]
  by (simp add: good_def ready_def client_inv_def)

theorem client_safe_witness:
  "\<exists>c. c = snd (SendMessage sample_env 3 BROADCAST_ID (Some sample_channel) ''hi'' 0 False
             (SetPrimaryChannel sample_lib ''LongFast'' [] (NewMeshtasticClient 2 0 [] (\<lambda>i. 5)))) \<and>
       \<not> crashed c \<and> hopLimit c < MAX_HOPS \<and> length (outbox c) = 1 \<and>
       (\<forall>np \<in> set (outbox c). packet_ok (e_managed sample_env) (snd np))"
proof -
  let ?init = "SetPrimaryChannel sample_lib ''LongFast'' [] (NewMeshtasticClient 2 0 [] (\<lambda>i. 5))"
  let ?c = "snd (SendMessage sample_env 3 BROADCAST_ID (Some sample_channel) ''hi'' 0 False ?init)"
  let ?P = "\<lambda>E. e_lib E = sample_lib \<and> (\<forall>n. e_managed E n \<longrightarrow> e_managed sample_env n)"
  have L: "e_lib sample_env = sample_lib" by (simp add: sample_env_def)
  have "client_step sample_env ?init ?c" by (rule client_step.message)
  from client_run.step [OF client_run.start [of ?P] _ this] have "client_run ?P ?init ?c" using L by simp
  moreover have "NewChannelDef sample_lib ''LongFast'' (Some []) =
      Inr \<lparr>cd_name = ''LongFast'', cd_key = None, cd_keyBytes = []\<rparr>"
    by (simp add: NewChannelDef_def)
  ultimately have "\<not> crashed ?c \<and> hopLimit ?c < MAX_HOPS \<and>
      (\<forall>np \<in> set (outbox ?c). packet_ok (e_managed sample_env) (snd np))"
    using client_safe [of sample_lib "''LongFast''" "[]" _ "e_managed sample_env" 2 0 "[]" "\<lambda>i. 5" ?c] sample_lib_keys_ok by simp
  moreover have "length (outbox ?c) = 1"
    by (simp add: SendMessage_def sendBytes_def generatePacketId_def randUint32_def encrypt_packet_def
        deliver_def data_of_def packet_header_def SetPrimaryChannel_def NewChannelDef_def
        AddChannelDef_def notifyEvent_def sample_defs Let_def PacketInfo0_def)
  ultimately show ?thesis by blast
qed

section \<open>Duplicate suppression\<close>

lemma cacheKey_parts:
  "drop_bit 32 (cacheKey p) = ucast (p_From (np_MeshPacket p))"
  "take_bit 32 (cacheKey p) = ucast (p_Id (np_MeshPacket p))"
  by (auto simp: cacheKey_def bit_eq_iff bit_simps dest: bit_imp_le_length)

lemma cacheKey_inj:
  assumes "cacheKey p = cacheKey q"
  shows "p_From (np_MeshPacket p) = p_From (np_MeshPacket q)" "p_Id (np_MeshPacket p) = p_Id (np_MeshPacket q)"
proof -
  have inj: "a = b" if "(ucast a :: 64 word) = ucast b" for a b :: "32 word"
  proof (rule bit_word_eqI)
    fix n assume "n < LENGTH(32)"
    then show "bit a n = bit b n" using that by (auto simp: bit_eq_iff bit_simps)
  qed
  show "p_From (np_MeshPacket p) = p_From (np_MeshPacket q)" "p_Id (np_MeshPacket p) = p_Id (np_MeshPacket q)"
    using assms cacheKey_parts [of p] cacheKey_parts [of q] by (auto intro: inj)
qed

text \<open>The steps leave the cache alone, except for a packet that was not seen before.\<close>

lemma send_ops_cache [simp]:
  "packetCache (snd (SendMessage E src dst channel msg reply pki c)) = packetCache c"
  "packetCache (snd (SendReaction E src dst channel pid emoji pki c)) = packetCache c"
  "packetCache (snd (SendTelemetry E src dst c)) = packetCache c"
  "packetCache (snd (SendHostMetrics E src dst c)) = packetCache c"
  "packetCache (snd (SendNeighborInfo E src ids iv c)) = packetCache c"
  "packetCache (snd (SendPosition E src dst loc ts c)) = packetCache c"
  "packetCache (snd (SendAck E src dst pid c)) = packetCache c"
  "packetCache (snd (SendNack E src dst pid c)) = packetCache c"
  "packetCache (snd (SendTraceroute E src dst channel c)) = packetCache c"
  "packetCache (snd (SendTelemetryResponse E src dst channel enc pid c)) = packetCache c"
  "packetCache (snd (SendHostMetricsResponse E src dst channel enc pid c)) = packetCache c"
  "packetCache (snd (SendNeighborInfoResponse E src dst ids iv channel enc pid c)) = packetCache c"
  "packetCache (snd (SendMapReport E src lname sname loc n c)) = packetCache c"
  by (simp_all add: SendMessage_def SendReaction_def SendTelemetry_def SendHostMetrics_def
      SendNeighborInfo_def SendPosition_def SendAck_def SendNack_def SendTraceroute_def
      SendTelemetryResponse_def SendHostMetricsResponse_def SendNeighborInfoResponse_def
      SendMapReport_def split: sum.splits option.splits)

lemma SendNodeInfo_cache [simp]:
  "packetCache (snd (SendNodeInfo E src dst lname sname wr pk c)) = packetCache c"
proof -
  obtain pid err c' where r: "sendProtoMessage E (primary c) (MsgUser (nodeInfo_user c src lname sname pk))
     ((PacketInfo0 NODEINFO_APP PSKEncryption src dst)\<lparr>pi_WantResponse := wr\<rparr>) c = ((pid, err), c')"
    by (metis prod.exhaust)
  then have "packetCache c' = packetCache c" by (metis sendProtoMessage_frame(6) snd_conv)
  with r show ?thesis by (simp add: SendNodeInfo_def Let_def)
qed

lemma processMessage_cache [simp]: "packetCache (snd (processMessage E p d c)) = packetCache c"
proof -
  have t: "packetCache (handleTelemetryRequest E p t c) = packetCache c" for t
    by (cases "canRespondTelemetry (throttle c) (p_To (np_MeshPacket p)) (e_now E)")
      (simp add: handleTelemetryRequest_def Let_def split: option.split TelemetryVariant.split)
  have n: "packetCache (handleNeighborInfoRequest E p n c) = packetCache c" for n
    by (cases "canRespondNeighbor (throttle c) (p_To (np_MeshPacket p)) (e_now E)")
      (simp add: handleNeighborInfoRequest_def Let_def)
  have r: "packetCache (handleTracerouteRequest E p r c) = packetCache c" for r
    by (simp add: handleTracerouteRequest_def Let_def)
  have "packetCache (snd (dispatch E p m c)) = packetCache c" for m
    by (simp add: dispatch_def Let_def t n r split: PortNum.split prod.split)
  then show ?thesis
    by (cases d; simp add: processMessage_def notifyEvent_def split: prod.split) (metis snd_conv)
qed

lemma handleMeshPacket_cache:
  "packetCache (handleMeshPacket E p c) =
     (if isDuplicatePacket E c p then packetCache c
      else e_cacheSet E (packetCache c) (e_now E) (cacheKey p))"
  by (simp add: handleMeshPacket_def cachePacket_def Let_def split: prod.splits)

lemma AddChannelDef_cache [simp]: "packetCache (AddChannelDef rd c) = packetCache c"
  by (simp add: AddChannelDef_def notifyEvent_def Let_def split: option.splits)

lemma client_step_cache:
  assumes "client_step E c c'"
  shows "packetCache c' = packetCache c \<or>
    (\<exists>p. \<not> isDuplicatePacket E c p \<and> packetCache c' = e_cacheSet E (packetCache c) (e_now E) (cacheKey p))"
  using assms
proof cases
  case (receive p)
  then show ?thesis by (auto simp: handleMeshPacket_cache)
next
  case (state_change i le)
  then show ?thesis by (simp add: handleConnectorStateChange_def Let_def split: ListenerEvent.splits)
qed (simp_all add: AddChannel_def SetPrimaryChannel_def SetHopLimit_def SetNeighborBroadcastInterval_def
    AddMQTTHandler_def AddUDPHandler_def client_Connect_def client_Disconnect_def Let_def
    split: sum.splits)

definition cache_env ::
  "('c \<Rightarrow> gotime \<Rightarrow> 64 word \<Rightarrow> bool) \<Rightarrow> ('c \<Rightarrow> gotime \<Rightarrow> 64 word \<Rightarrow> 'c) \<Rightarrow> gotime \<Rightarrow> gotime \<Rightarrow> 'c env \<Rightarrow> bool"
where
  "cache_env has put t0 t1 E \<longleftrightarrow> e_cacheHas E = has \<and> e_cacheSet E = put \<and> t0 \<le> e_now E \<and> e_now E < t1"

lemma client_run_remembers:
  assumes "client_run (cache_env has put t (t + ttl)) c c'" "ttl_cache_ok has put ttl"
    and "p_Id (np_MeshPacket p) \<noteq> 0"
    and "\<And>t'. t \<le> t' \<Longrightarrow> t' < t + ttl \<Longrightarrow> has (packetCache c) t' (cacheKey p)"
    and "t \<le> t'" "t' < t + ttl"
  shows "has (packetCache c') t' (cacheKey p)"
  using assms
proof (induction arbitrary: t' rule: client_run.induct)
  case (step c c' E c'')
  have IH: "has (packetCache c') s (cacheKey p)" if "t \<le> s" "s < t + ttl" for s
    using step.IH step.prems that by blast
  have E: "e_cacheHas E = has" "e_cacheSet E = put" "t \<le> e_now E" "e_now E < t + ttl"
    using step.hyps(2) by (auto simp: cache_env_def)
  consider "packetCache c'' = packetCache c'"
    | q where "\<not> isDuplicatePacket E c' q" "packetCache c'' = put (packetCache c') (e_now E) (cacheKey q)"
    using client_step_cache [OF step.hyps(3)] E by auto
  then show ?case
  proof cases
    case (2 q)
    have "cacheKey q \<noteq> cacheKey p"
    proof
      assume eq: "cacheKey q = cacheKey p"
      then have "p_Id (np_MeshPacket q) \<noteq> 0" using cacheKey_inj(2) step.prems(2) by metis
      then show False using 2(1) IH [of "e_now E"] E eq by (simp add: isDuplicatePacket_def)
    qed
    then show ?thesis
      using 2(2) step.prems(1) IH [OF step.prems(4,5)] by (metis ttl_cache_ok_def)
  qed (use IH step.prems in simp)
qed simp

text \<open>
  C7: a packet with a nonzero number is handled once: for the time to live of the cache after it
  was first seen, whatever the client does in between, another packet with the same sender and
  number changes nothing.
\<close>

theorem duplicate_ignored:
  assumes "ttl_cache_ok has put ttl"
    and "cache_env has put t (t + ttl) E" "e_now E = t" "\<not> isDuplicatePacket E c p"
    and "client_run (cache_env has put t (t + ttl)) (handleMeshPacket E p c) c'"
    and "cache_env has put t (t + ttl) E'"
    and "p_Id (np_MeshPacket p) \<noteq> 0"
    and "p_From (np_MeshPacket q) = p_From (np_MeshPacket p)" "p_Id (np_MeshPacket q) = p_Id (np_MeshPacket p)"
  shows "handleMeshPacket E' q c' = c'"
proof -
  have key: "cacheKey q = cacheKey p" using assms(8,9) by (simp add: cacheKey_def)
  have "has (packetCache (handleMeshPacket E p c)) t' (cacheKey p)" if "t \<le> t'" "t' < t + ttl" for t'
    using assms(1-4) that by (simp add: handleMeshPacket_cache cache_env_def ttl_cache_ok_def)
  then have "has (packetCache c') (e_now E') (cacheKey p)"
    using client_run_remembers [OF assms(5,1,7)] assms(6) by (simp add: cache_env_def)
  then show ?thesis
    using assms(6,7,9) key by (simp add: handleMeshPacket_def isDuplicatePacket_def cache_env_def)
qed

theorem duplicate_ignored_witness:
  "handleMeshPacket (sample_env\<lparr>e_now := 2000 * Second\<rparr>) (sample_net_packet\<lparr>np_Source := PacketSourceUDP\<rparr>)
     (handleMeshPacket sample_env sample_net_packet sample_client) =
   handleMeshPacket sample_env sample_net_packet sample_client"
  by (rule duplicate_ignored [OF sample_cache_ok, where t = "1000 * Second" and E = sample_env
        and p = sample_net_packet and c = sample_client, OF _ _ _ client_run.start])
     (simp_all add: cache_env_def isDuplicatePacket_def sample_defs)

end
