(* ===== verification/Mesh_DB.thy ===== *)
theory Mesh_DB
  imports Mesh_Packets
begin

text \<open>
  The bridge's own tables, \<^verbatim>\<open>pkg/connector/meshdb\<close>: nodes and waypoints.  A table is a list of
  rows in no particular order (no query asks for one).  The queries of the sources are the
  operations below; the constraints are those of \<^verbatim>\<open>upgrades/00-latest-schema.sql\<close>.  What depends
  on the database in use is the parameter \<open>dbms\<close>: whether the lengths of character columns and
  foreign keys are enforced, how \<^verbatim>\<open>LIKE\<close> compares characters, the error of a query that fails
  for reasons outside the model, and whether the query helper answers a query for one row with
  nil when there is none.
\<close>

section \<open>Data\<close>

record dbms =
  db_fault :: "go_error option"
  db_varchar :: "nat \<Rightarrow> string \<Rightarrow> bool"
  db_foreign_keys :: bool
  db_like_eq :: "char \<Rightarrow> char \<Rightarrow> bool"
  db_absent_nil :: bool

record MeshNodeInfo =
  mn_NodeID :: NodeID
  mn_UserID :: string
  mn_LongName :: string
  mn_ShortName :: string
  mn_Role :: string
  mn_IsLicensed :: bool
  mn_IsUnmessagable :: bool
  mn_IsManaged :: bool
  mn_IsDirect :: bool
  mn_PublicKey :: bytes
  mn_PrivateKey :: bytes
  mn_LastSeen :: "gotime option"

record WaypointInfo =
  wp_WaypointID :: "32 word"
  wp_Name :: string
  wp_Icon :: string
  wp_Description :: string
  wp_Latitude :: gofloat
  wp_Longitude :: gofloat
  wp_LockedTo :: "NodeID option"
  wp_Expires :: "gotime option"
  wp_UpdatedBy :: NodeID
  wp_UpdatedDate :: "gotime option"

text \<open>
  The structs are stored as they are, except that times are stored in seconds: \<^verbatim>\<open>sqlVariables\<close>
  followed by \<^verbatim>\<open>Scan\<close> rounds a time down to the second.  A row is what \<^verbatim>\<open>Scan\<close> reads.
\<close>

definition to_second :: "gotime \<Rightarrow> gotime" where
  "to_second t = unix_seconds t * Second"

definition node_row :: "MeshNodeInfo \<Rightarrow> MeshNodeInfo" where
  "node_row m = m\<lparr>mn_LastSeen := map_option to_second (mn_LastSeen m)\<rparr>"

definition waypoint_row :: "WaypointInfo \<Rightarrow> WaypointInfo" where
  "waypoint_row w = w\<lparr>wp_Expires := map_option to_second (wp_Expires w),
                      wp_UpdatedDate := map_option to_second (wp_UpdatedDate w)\<rparr>"

definition newMeshNodeInfo :: MeshNodeInfo where
  "newMeshNodeInfo =
     \<lparr>mn_NodeID = 0, mn_UserID = [], mn_LongName = [], mn_ShortName = [], mn_Role = [],
      mn_IsLicensed = False, mn_IsUnmessagable = False, mn_IsManaged = False, mn_IsDirect = False,
      mn_PublicKey = [], mn_PrivateKey = [], mn_LastSeen = None\<rparr>"

definition newWaypoint :: WaypointInfo where
  "newWaypoint =
     \<lparr>wp_WaypointID = 0, wp_Name = [], wp_Icon = [], wp_Description = [], wp_Latitude = Fin 0,
      wp_Longitude = Fin 0, wp_LockedTo = None, wp_Expires = None, wp_UpdatedBy = 0,
      wp_UpdatedDate = None\<rparr>"

record meshdb =
  db_nodes :: "MeshNodeInfo list"
  db_waypoints :: "WaypointInfo list"

section \<open>Tables\<close>

text \<open>
  \<^verbatim>\<open>INSERT ... ON CONFLICT (id) DO UPDATE\<close>: replace the row with the key by \<open>merge\<close> of it, or
  append the new row; nothing changes when the resulting row breaks a constraint.
\<close>

definition constraint_error :: go_error where
  "constraint_error = External ''constraint failed''"

definition upsert ::
  "('r \<Rightarrow> 'k) \<Rightarrow> ('r \<Rightarrow> 'r list \<Rightarrow> bool) \<Rightarrow> 'r \<Rightarrow> ('r \<Rightarrow> 'r) \<Rightarrow> 'r list \<Rightarrow> go_error option \<times> 'r list" where
  "upsert key ok row merge t =
     (let others = filter (\<lambda>r. key r \<noteq> key row) t in
      case find (\<lambda>r. key r = key row) t of
        Some r \<Rightarrow> if ok (merge r) others
                  then (None, map (\<lambda>q. if key q = key row then merge q else q) t)
                  else (Some constraint_error, t)
      | None \<Rightarrow> if ok row others then (None, t @ [row]) else (Some constraint_error, t))"

definition node_id_ok :: "NodeID \<Rightarrow> bool" where
  "node_id_ok n \<longleftrightarrow> 2 \<le> n \<and> n < BROADCAST_ID"

definition node_constraints :: "dbms \<Rightarrow> MeshNodeInfo \<Rightarrow> MeshNodeInfo list \<Rightarrow> bool" where
  "node_constraints db r others \<longleftrightarrow>
     node_id_ok (mn_NodeID r) \<and>
     db_varchar db 20 (mn_UserID r) \<and> db_varchar db 39 (mn_LongName r) \<and>
     db_varchar db 4 (mn_ShortName r) \<and> db_varchar db 20 (mn_Role r) \<and>
     mn_UserID r \<notin> mn_UserID ` set others"

definition waypoint_constraints ::
  "dbms \<Rightarrow> MeshNodeInfo list \<Rightarrow> WaypointInfo \<Rightarrow> WaypointInfo list \<Rightarrow> bool" where
  "waypoint_constraints db nodes w others \<longleftrightarrow>
     db_varchar db 29 (wp_Name w) \<and> db_varchar db 1 (wp_Icon w) \<and> db_varchar db 99 (wp_Description w) \<and>
     (\<forall>n \<in> set_option (wp_LockedTo w). node_id_ok n) \<and> node_id_ok (wp_UpdatedBy w) \<and>
     wp_UpdatedDate w \<noteq> None \<and>
     (db_foreign_keys db \<longrightarrow>
        wp_UpdatedBy w \<in> mn_NodeID ` set nodes \<and>
        (\<forall>n \<in> set_option (wp_LockedTo w). n \<in> mn_NodeID ` set nodes))"

section \<open>mesh\_node.go\<close>

definition query :: "dbms \<Rightarrow> 'a \<Rightarrow> go_error + 'a" where
  "query db x = (case db_fault db of Some e \<Rightarrow> Inl e | None \<Rightarrow> Inr x)"

text \<open>
  \<^verbatim>\<open>QueryOne\<close> of the query helper clears the error when no row matches.  \<^verbatim>\<open>Scan\<close> returns its
  receiver, the empty struct, also in that case; whether the caller sees it or nil is up to the
  helper.
\<close>

definition QueryOne :: "dbms \<Rightarrow> 'r \<Rightarrow> 'r option \<Rightarrow> go_error + 'r option" where
  "QueryOne db blank found =
     query db (case found of Some r \<Rightarrow> Some r | None \<Rightarrow> if db_absent_nil db then None else Some blank)"

definition GetByNodeID :: "dbms \<Rightarrow> NodeID \<Rightarrow> meshdb \<Rightarrow> go_error + MeshNodeInfo option" where
  "GetByNodeID db nodeID d = QueryOne db newMeshNodeInfo (find (\<lambda>r. mn_NodeID r = nodeID) (db_nodes d))"

definition GetByUserID :: "dbms \<Rightarrow> string \<Rightarrow> meshdb \<Rightarrow> go_error + MeshNodeInfo option" where
  "GetByUserID db userID d = QueryOne db newMeshNodeInfo (find (\<lambda>r. mn_UserID r = userID) (db_nodes d))"

text \<open>\<^verbatim>\<open>LIKE '!____xxxx'\<close>: nine characters, four of them free.\<close>

definition like_short :: "dbms \<Rightarrow> string \<Rightarrow> string \<Rightarrow> bool" where
  "like_short db s u \<longleftrightarrow>
     length u = 5 + length s \<and> db_like_eq db (hd u) (CHR ''!'') \<and> list_all2 (db_like_eq db) (drop 5 u) s"

definition short_user_ok :: "string \<Rightarrow> bool" where
  "short_user_ok s \<longleftrightarrow> length s = 4 \<and> list_all (\<lambda>c. c \<in> set ''0123456789abcdef'') s"

definition GetByShortUserID :: "dbms \<Rightarrow> string \<Rightarrow> meshdb \<Rightarrow> go_error + MeshNodeInfo option" where
  "GetByShortUserID db userID d =
     (if \<not> short_user_ok userID then Inl (Errorf ''short user ID must be a four-character hex code'')
      else QueryOne db newMeshNodeInfo (find (\<lambda>r. like_short db userID (mn_UserID r)) (db_nodes d)))"

definition GetDirectNeighbors :: "dbms \<Rightarrow> meshdb \<Rightarrow> go_error + MeshNodeInfo list" where
  "GetDirectNeighbors db d = query db (filter (\<lambda>r. mn_IsDirect r \<and> mn_LastSeen r \<noteq> None) (db_nodes d))"

definition GetManagedNodes :: "dbms \<Rightarrow> meshdb \<Rightarrow> go_error + MeshNodeInfo list" where
  "GetManagedNodes db d = query db (filter mn_IsManaged (db_nodes d))"

text \<open>A statement: the fault first, then the change.\<close>

definition exec :: "dbms \<Rightarrow> (meshdb \<Rightarrow> go_error option \<times> meshdb) \<Rightarrow> meshdb \<Rightarrow> go_error option \<times> meshdb" where
  "exec db f d = (case db_fault db of Some e \<Rightarrow> (Some e, d) | None \<Rightarrow> f d)"

definition put_node ::
  "dbms \<Rightarrow> MeshNodeInfo \<Rightarrow> (MeshNodeInfo \<Rightarrow> MeshNodeInfo) \<Rightarrow> meshdb \<Rightarrow> go_error option \<times> meshdb" where
  "put_node db row merge = exec db (\<lambda>d.
     let (err, t) = upsert mn_NodeID (node_constraints db) row merge (db_nodes d)
     in (err, d\<lparr>db_nodes := t\<rparr>))"

definition node_SetAll :: "dbms \<Rightarrow> MeshNodeInfo \<Rightarrow> meshdb \<Rightarrow> go_error option \<times> meshdb" where
  "node_SetAll db m = put_node db (node_row m) (\<lambda>_. node_row m)"

definition SetLastSeen :: "dbms \<Rightarrow> gotime \<Rightarrow> NodeID \<Rightarrow> bool \<Rightarrow> meshdb \<Rightarrow> go_error option \<times> meshdb" where
  "SetLastSeen db now nodeID isDirect =
     put_node db
       (newMeshNodeInfo\<lparr>mn_NodeID := nodeID, mn_UserID := NodeID_String nodeID, mn_IsDirect := isDirect,
                        mn_LastSeen := Some (to_second now)\<rparr>)
       (\<lambda>r. r\<lparr>mn_IsDirect := isDirect, mn_LastSeen := Some (to_second now)\<rparr>)"

text \<open>\<^verbatim>\<open>UPDATE ... WHERE id = $3\<close>: no row, no change.\<close>

definition SetNames :: "dbms \<Rightarrow> NodeID \<Rightarrow> string \<Rightarrow> string \<Rightarrow> meshdb \<Rightarrow> go_error option \<times> meshdb" where
  "SetNames db nodeID longName shortName = exec db (\<lambda>d.
     if find (\<lambda>r. mn_NodeID r = nodeID) (db_nodes d) = None then (None, d)
     else if \<not> db_varchar db 39 longName \<or> \<not> db_varchar db 4 shortName then (Some constraint_error, d)
     else (None, d\<lparr>db_nodes := map (\<lambda>r. if mn_NodeID r = nodeID
                     then r\<lparr>mn_LongName := longName, mn_ShortName := shortName\<rparr> else r) (db_nodes d)\<rparr>))"

section \<open>waypoints.go\<close>

definition GetByWaypointID :: "dbms \<Rightarrow> 32 word \<Rightarrow> meshdb \<Rightarrow> go_error + WaypointInfo option" where
  "GetByWaypointID db i d = QueryOne db newWaypoint (find (\<lambda>w. wp_WaypointID w = i) (db_waypoints d))"

definition waypoints_GetByNodeID :: "dbms \<Rightarrow> NodeID \<Rightarrow> meshdb \<Rightarrow> go_error + WaypointInfo list" where
  "waypoints_GetByNodeID db n d =
     query db (filter (\<lambda>w. wp_LockedTo w = Some n \<or> wp_UpdatedBy w = n) (db_waypoints d))"

definition DeleteByID :: "dbms \<Rightarrow> 32 word \<Rightarrow> meshdb \<Rightarrow> go_error option \<times> meshdb" where
  "DeleteByID db i = exec db (\<lambda>d.
     (None, d\<lparr>db_waypoints := filter (\<lambda>w. wp_WaypointID w \<noteq> i) (db_waypoints d)\<rparr>))"

definition waypoint_SetAll :: "dbms \<Rightarrow> WaypointInfo \<Rightarrow> meshdb \<Rightarrow> go_error option \<times> meshdb" where
  "waypoint_SetAll db w = exec db (\<lambda>d.
     let (err, t) = upsert wp_WaypointID (waypoint_constraints db (db_nodes d)) (waypoint_row w)
                      (\<lambda>_. waypoint_row w) (db_waypoints d)
     in (err, d\<lparr>db_waypoints := t\<rparr>))"

section \<open>Contract of a table\<close>

text \<open>
  What the handlers of the bridge rely on when they read a row, change it and store it back.
\<close>

locale keyed_store =
  fixes look :: "'t \<Rightarrow> 'k \<Rightarrow> 'v option"
    and store :: "'v \<Rightarrow> 't \<Rightarrow> go_error option \<times> 't"
    and key :: "'v \<Rightarrow> 'k"
    and saved :: "'v \<Rightarrow> 'v"
  assumes store_look: "store v t = (None, t') \<Longrightarrow> look t' (key v) = Some (saved v)"
    and store_other: "store v t = (None, t') \<Longrightarrow> k \<noteq> key v \<Longrightarrow> look t' k = look t k"
    and store_error: "store v t = (Some e, t') \<Longrightarrow> t' = t"
begin

lemma store_look_iff:
  assumes "store v t = (None, t')"
  shows "look t' k = (if k = key v then Some (saved v) else look t k)"
  using assms store_look store_other by simp

lemma stores_last:
  assumes "fst (store v (fold (\<lambda>u t. snd (store u t)) us t)) = None"
    and "key v \<notin> key ` set vs"
  shows "look (fold (\<lambda>u t. snd (store u t)) (us @ v # vs) t) (key v) = Some (saved v)"
proof -
  have "look (fold (\<lambda>u t. snd (store u t)) vs s) (key v) = look s (key v)" if "key v \<notin> key ` set vs" for s
    using that
  proof (induction vs arbitrary: s)
    case (Cons u vs)
    obtain e s' where u: "store u s = (e, s')" by fastforce
    have "look s' (key v) = look s (key v)"
      using u Cons.prems store_other [of u s s' "key v"] store_error [of u s _ s'] by (cases e) auto
    with Cons u show ?case by simp
  qed simp
  moreover have "look (snd (store v (fold (\<lambda>u t. snd (store u t)) us t))) (key v) = Some (saved v)"
    using assms(1) store_look [of v] by (metis prod.collapse)
  ultimately show ?thesis using assms(2) by simp
qed

end

lemma find_map_other:
  "\<lbrakk>\<And>r. key r = k' \<Longrightarrow> key (merge r) = k'; k \<noteq> k'\<rbrakk> \<Longrightarrow>
   find (\<lambda>r. key r = k) (map (\<lambda>q. if key q = k' then merge q else q) t) = find (\<lambda>r. key r = k) t"
  by (induction t) auto

lemma find_map_same:
  "\<lbrakk>\<And>r. key r = k \<Longrightarrow> key (merge r) = k\<rbrakk> \<Longrightarrow>
   find (\<lambda>r. key r = k) (map (\<lambda>q. if key q = k then merge q else q) t) =
     map_option merge (find (\<lambda>r. key r = k) t)"
  by (induction t) auto

lemma find_append: "find P (xs @ ys) = (case find P xs of None \<Rightarrow> find P ys | Some x \<Rightarrow> Some x)"
  by (induction xs) auto

lemma upsert_error: "upsert key ok row merge t = (Some e, t') \<Longrightarrow> t' = t"
  by (auto simp: upsert_def Let_def split: option.splits if_splits)

lemma upsert_find:
  assumes "upsert key ok row merge t = (None, t')" "\<And>r. key (merge r) = key r \<or> key (merge r) = key row"
  shows "find (\<lambda>r. key r = k) t' =
    (if k = key row
     then Some (case find (\<lambda>r. key r = key row) t of Some r \<Rightarrow> merge r | None \<Rightarrow> row)
     else find (\<lambda>r. key r = k) t)"
proof (cases "find (\<lambda>r. key r = key row) t")
  case None
  then have "t' = t @ [row]"
    using assms(1) by (simp add: upsert_def Let_def split: if_splits)
  then show ?thesis using None by (auto simp: find_append split: option.split)
next
  case (Some r)
  then have t': "t' = map (\<lambda>q. if key q = key row then merge q else q) t"
    using assms(1) by (simp add: upsert_def Let_def split: if_splits)
  have "key q = key row \<Longrightarrow> key (merge q) = key row" for q using assms(2) [of q] by auto
  then show ?thesis
    unfolding t' using Some find_map_same [of key "key row" merge t] find_map_other [of key "key row" merge k t]
    by auto
qed

definition look_node :: "meshdb \<Rightarrow> NodeID \<Rightarrow> MeshNodeInfo option" where
  "look_node d n = find (\<lambda>r. mn_NodeID r = n) (db_nodes d)"

definition look_waypoint :: "meshdb \<Rightarrow> 32 word \<Rightarrow> WaypointInfo option" where
  "look_waypoint d i = find (\<lambda>w. wp_WaypointID w = i) (db_waypoints d)"

lemma GetByNodeID_look: "GetByNodeID db n d = QueryOne db newMeshNodeInfo (look_node d n)"
  by (simp add: GetByNodeID_def look_node_def)

lemma GetByWaypointID_look: "GetByWaypointID db n d = QueryOne db newWaypoint (look_waypoint d n)"
  by (simp add: GetByWaypointID_def look_waypoint_def)

lemma node_row_key [simp]: "mn_NodeID (node_row m) = mn_NodeID m" "wp_WaypointID (waypoint_row w) = wp_WaypointID w"
  by (simp_all add: node_row_def waypoint_row_def)

lemma put_node_None:
  assumes "put_node db row merge d = (None, d')"
  obtains t where "upsert mn_NodeID (node_constraints db) row merge (db_nodes d) = (None, t)"
    "d' = d\<lparr>db_nodes := t\<rparr>"
  using assms by (auto simp: put_node_def exec_def split: option.splits prod.splits)

lemma put_node_Some: "put_node db row merge d = (Some e, d') \<Longrightarrow> d' = d"
  by (auto simp: put_node_def exec_def split: option.splits prod.splits dest!: upsert_error)

interpretation nodes: keyed_store look_node "node_SetAll db" mn_NodeID node_row for db
proof
  fix v k e and t t' :: meshdb
  show "look_node t' (mn_NodeID v) = Some (node_row v)" if "node_SetAll db v t = (None, t')"
    using that upsert_find [of mn_NodeID _ "node_row v" "\<lambda>_. node_row v" "db_nodes t" _ "mn_NodeID v"]
    by (auto simp: node_SetAll_def look_node_def elim!: put_node_None split: option.splits)
  show "look_node t' k = look_node t k" if "node_SetAll db v t = (None, t')" "k \<noteq> mn_NodeID v"
    using that upsert_find [of mn_NodeID _ "node_row v" "\<lambda>_. node_row v" "db_nodes t" _ k]
    by (auto simp: node_SetAll_def look_node_def elim!: put_node_None)
  show "t' = t" if "node_SetAll db v t = (Some e, t')"
    using that by (simp add: node_SetAll_def put_node_Some)
qed

interpretation waypoints: keyed_store look_waypoint "waypoint_SetAll db" wp_WaypointID waypoint_row for db
proof
  fix v k e and t t' :: meshdb
  let ?ups = "upsert wp_WaypointID (waypoint_constraints db (db_nodes t)) (waypoint_row v)
      (\<lambda>_. waypoint_row v) (db_waypoints t)"
  have ups: "\<exists>s. ?ups = (None, s) \<and> t' = t\<lparr>db_waypoints := s\<rparr>" if "waypoint_SetAll db v t = (None, t')"
    using that by (auto simp: waypoint_SetAll_def exec_def split: option.splits prod.splits)
  show "look_waypoint t' (wp_WaypointID v) = Some (waypoint_row v)" if "waypoint_SetAll db v t = (None, t')"
    using ups [OF that] upsert_find [of wp_WaypointID _ "waypoint_row v" "\<lambda>_. waypoint_row v" "db_waypoints t" _ "wp_WaypointID v"]
    by (auto simp: look_waypoint_def split: option.splits)
  show "look_waypoint t' k = look_waypoint t k" if "waypoint_SetAll db v t = (None, t')" "k \<noteq> wp_WaypointID v"
    using ups [OF that(1)] that(2) upsert_find [of wp_WaypointID _ "waypoint_row v" "\<lambda>_. waypoint_row v" "db_waypoints t" _ k]
    by (auto simp: look_waypoint_def)
  show "t' = t" if "waypoint_SetAll db v t = (Some e, t')"
    using that by (auto simp: waypoint_SetAll_def exec_def split: option.splits prod.splits dest!: upsert_error)
qed

section \<open>Invariant\<close>

text \<open>
  Identifiers are unique and in range, the text identifiers of nodes are unique, and every
  waypoint refers to nodes of the table (no operation of the bridge deletes a node).
\<close>

definition node_table_inv :: "MeshNodeInfo list \<Rightarrow> bool" where
  "node_table_inv t \<longleftrightarrow>
     distinct (map mn_NodeID t) \<and> distinct (map mn_UserID t) \<and> (\<forall>r \<in> set t. node_id_ok (mn_NodeID r))"

definition waypoint_refs_ok :: "meshdb \<Rightarrow> bool" where
  "waypoint_refs_ok d \<longleftrightarrow>
     (\<forall>w \<in> set (db_waypoints d). wp_UpdatedBy w \<in> mn_NodeID ` set (db_nodes d) \<and>
        (\<forall>n \<in> set_option (wp_LockedTo w). n \<in> mn_NodeID ` set (db_nodes d)))"

definition db_inv :: "meshdb \<Rightarrow> bool" where
  "db_inv d \<longleftrightarrow>
     node_table_inv (db_nodes d) \<and> distinct (map wp_WaypointID (db_waypoints d)) \<and> waypoint_refs_ok d"

lemma map_update_keys:
  "(\<And>r. key r = k \<Longrightarrow> key (merge r) = k) \<Longrightarrow>
   map key (map (\<lambda>q. if key q = k then merge q else q) t) = map key t"
  by (induction t) auto

lemma update_unique:
  assumes "distinct (map key t)" "r \<in> set t" "key r = k"
  shows "\<exists>xs ys. t = xs @ r # ys \<and> k \<notin> key ` set xs \<and> k \<notin> key ` set ys"
proof -
  obtain xs ys where t: "t = xs @ r # ys" using assms(2) by (meson split_list)
  with assms show ?thesis by (intro exI [of _ xs] exI [of _ ys]) auto
qed

lemma map_id_outside: "k \<notin> key ` set xs \<Longrightarrow> map (\<lambda>q. if key q = k then f q else q) xs = xs"
  by (induction xs) auto

lemma filter_outside: "k \<notin> key ` set xs \<Longrightarrow> filter (\<lambda>q. key q \<noteq> k) xs = xs"
  by (induction xs) auto

lemma upsert_table_inv:
  assumes inv: "node_table_inv t" and ups: "upsert mn_NodeID (node_constraints db) row merge t = (None, t')"
    and key: "\<And>r. mn_NodeID r = mn_NodeID row \<Longrightarrow> mn_NodeID (merge r) = mn_NodeID row"
  shows "node_table_inv t' \<and> mn_NodeID ` set t \<subseteq> mn_NodeID ` set t'"
proof (cases "find (\<lambda>r. mn_NodeID r = mn_NodeID row) t")
  case None
  then have "t' = t @ [row]" "node_constraints db row (filter (\<lambda>r. mn_NodeID r \<noteq> mn_NodeID row) t)"
    using ups by (auto simp: upsert_def Let_def split: if_splits)
  moreover have out: "mn_NodeID row \<notin> mn_NodeID ` set t" using None by (auto simp: find_None_iff)
  moreover have "filter (\<lambda>r. mn_NodeID r \<noteq> mn_NodeID row) t = t" using out by (rule filter_outside)
  ultimately show ?thesis using inv by (auto simp: node_table_inv_def node_constraints_def)
next
  case (Some r)
  let ?k = "mn_NodeID row"
  have r: "r \<in> set t" "mn_NodeID r = ?k" using Some by (auto simp: find_Some_iff)
  have t': "t' = map (\<lambda>q. if mn_NodeID q = ?k then merge q else q) t"
    and c: "node_constraints db (merge r) (filter (\<lambda>q. mn_NodeID q \<noteq> ?k) t)"
    using ups Some by (auto simp: upsert_def Let_def split: if_splits)
  obtain xs ys where t: "t = xs @ r # ys" "?k \<notin> mn_NodeID ` set xs" "?k \<notin> mn_NodeID ` set ys"
    using update_unique [of mn_NodeID t r ?k] inv r by (auto simp: node_table_inv_def)
  have t'2: "t' = xs @ merge r # ys" unfolding t' t(1) using r(2) t(2,3) by (simp add: map_id_outside)
  have "filter (\<lambda>q. mn_NodeID q \<noteq> ?k) t = xs @ ys"
    unfolding t(1) using r(2) t(2,3) by (simp add: filter_outside)
  with c have "node_constraints db (merge r) (xs @ ys)" by simp
  with inv key [OF r(2)] t r(2) show ?thesis
    unfolding t'2 by (auto simp: node_table_inv_def node_constraints_def)
qed

lemma upsert_nodes_inv:
  assumes "db_inv d" "put_node db row merge d = (err, d')"
    and "\<And>r. mn_NodeID r = mn_NodeID row \<Longrightarrow> mn_NodeID (merge r) = mn_NodeID row"
  shows "db_inv d'"
proof (cases err)
  case None
  then obtain t where "upsert mn_NodeID (node_constraints db) row merge (db_nodes d) = (None, t)"
    "d' = d\<lparr>db_nodes := t\<rparr>"
    using assms(2) by (auto elim: put_node_None)
  with assms(1) upsert_table_inv [OF _ _ assms(3)] show ?thesis
    by (fastforce simp: db_inv_def waypoint_refs_ok_def)
qed (use assms put_node_Some [of db row merge d _ d'] in auto)

lemma node_ops_inv:
  assumes "db_inv d"
  shows "db_inv (snd (node_SetAll db m d))" "db_inv (snd (SetLastSeen db now n isDirect d))"
proof -
  show "db_inv (snd (node_SetAll db m d))"
    unfolding node_SetAll_def by (rule upsert_nodes_inv [OF assms prod.collapse [symmetric]]) simp
  show "db_inv (snd (SetLastSeen db now n isDirect d))"
    unfolding SetLastSeen_def by (rule upsert_nodes_inv [OF assms prod.collapse [symmetric]]) simp
qed

lemma db_inv_same_ids:
  assumes "map mn_NodeID t = map mn_NodeID (db_nodes d)" "map mn_UserID t = map mn_UserID (db_nodes d)" "db_inv d"
  shows "db_inv (d\<lparr>db_nodes := t\<rparr>)"
proof -
  have ids: "mn_NodeID ` set t = mn_NodeID ` set (db_nodes d)" using assms(1) by (metis list.set_map)
  have "(\<forall>r \<in> set t. node_id_ok (mn_NodeID r)) = (\<forall>n \<in> mn_NodeID ` set t. node_id_ok n)" by simp
  then have "\<forall>r \<in> set t. node_id_ok (mn_NodeID r)"
    using assms(3) by (simp add: ids db_inv_def node_table_inv_def)
  with assms show ?thesis by (simp add: ids db_inv_def node_table_inv_def waypoint_refs_ok_def)
qed

lemma SetNames_inv: "db_inv d \<Longrightarrow> db_inv (snd (SetNames db n lname sname d))"
proof -
  assume inv: "db_inv d"
  let ?f = "\<lambda>r. if mn_NodeID r = n then r\<lparr>mn_LongName := lname, mn_ShortName := sname\<rparr> else r"
  have "db_inv (d\<lparr>db_nodes := map ?f (db_nodes d)\<rparr>)"
    by (rule db_inv_same_ids [OF _ _ inv]) simp_all
  then show ?thesis using inv by (auto simp: SetNames_def exec_def split: option.splits)
qed

lemma waypoint_SetAll_inv:
  assumes inv: "db_inv d" and fk: "db_foreign_keys db"
  shows "db_inv (snd (waypoint_SetAll db w d))"
proof -
  let ?row = "waypoint_row w"
  let ?t = "db_waypoints d"
  let ?others = "filter (\<lambda>r. wp_WaypointID r \<noteq> wp_WaypointID w) ?t"
  have "db_inv (d\<lparr>db_waypoints := t'\<rparr>)"
    if ups: "upsert wp_WaypointID (waypoint_constraints db (db_nodes d)) ?row (\<lambda>_. ?row) ?t = (None, t')" for t'
  proof (cases "find (\<lambda>r. wp_WaypointID r = wp_WaypointID w) ?t")
    case None
    then have "t' = ?t @ [?row]" "waypoint_constraints db (db_nodes d) ?row ?others"
      using ups by (auto simp: upsert_def Let_def split: if_splits)
    moreover have "wp_WaypointID w \<notin> wp_WaypointID ` set ?t" using None by (auto simp: find_None_iff)
    ultimately show ?thesis
      using inv fk by (auto simp: db_inv_def waypoint_refs_ok_def waypoint_constraints_def)
  next
    case (Some r)
    let ?upd = "map (\<lambda>q. if wp_WaypointID q = wp_WaypointID w then ?row else q) ?t"
    have t': "t' = ?upd" and c: "waypoint_constraints db (db_nodes d) ?row ?others"
      using ups Some by (auto simp: upsert_def Let_def split: if_splits)
    have "map wp_WaypointID ?upd = map wp_WaypointID ?t" by (rule map_update_keys) simp
    then have "distinct (map wp_WaypointID t')" using inv unfolding t' db_inv_def by metis
    moreover have "waypoint_refs_ok (d\<lparr>db_waypoints := t'\<rparr>)"
      using inv c fk unfolding t'
      by (auto simp: db_inv_def waypoint_refs_ok_def waypoint_constraints_def split: if_splits)
    ultimately show ?thesis using inv by (simp add: db_inv_def)
  qed
  moreover have "d\<lparr>db_waypoints := ?t\<rparr> = d" by simp
  ultimately show ?thesis
    using inv
    by (cases "upsert wp_WaypointID (waypoint_constraints db (db_nodes d)) ?row (\<lambda>_. ?row) ?t" rule: prod.exhaust;
        cases "fst (upsert wp_WaypointID (waypoint_constraints db (db_nodes d)) ?row (\<lambda>_. ?row) ?t)")
      (auto simp: waypoint_SetAll_def exec_def split: option.splits dest: upsert_error)
qed

lemma DeleteByID_inv: "db_inv d \<Longrightarrow> db_inv (snd (DeleteByID db i d))"
  by (auto simp: DeleteByID_def exec_def db_inv_def waypoint_refs_ok_def distinct_map_filter
      split: option.splits)

section \<open>Properties\<close>

inductive db_reachable :: "meshdb \<Rightarrow> bool" where
  empty: "db_reachable \<lparr>db_nodes = [], db_waypoints = []\<rparr>"
| set_node: "db_reachable d \<Longrightarrow> db_reachable (snd (node_SetAll db m d))"
| last_seen: "db_reachable d \<Longrightarrow> db_reachable (snd (SetLastSeen db now n isDirect d))"
| set_names: "db_reachable d \<Longrightarrow> db_reachable (snd (SetNames db n lname sname d))"
| set_waypoint: "db_reachable d \<Longrightarrow> db_foreign_keys db \<Longrightarrow> db_reachable (snd (waypoint_SetAll db w d))"
| delete_waypoint: "db_reachable d \<Longrightarrow> db_reachable (snd (DeleteByID db i d))"

lemma db_reachable_inv:
  assumes "db_reachable d"
  shows "db_inv d"
  using assms
  by induction
    (simp_all add: node_ops_inv SetNames_inv waypoint_SetAll_inv DeleteByID_inv,
     simp add: db_inv_def node_table_inv_def waypoint_refs_ok_def)

text \<open>
  C15: over every sequence of the operations on the two tables, failing ones included, node
  numbers are unique and never one of the reserved numbers, text identifiers of nodes are
  unique, waypoint numbers are unique, and, where foreign keys are enforced, waypoints refer to
  nodes of the table.
\<close>

theorem tables_consistent:
  assumes "db_reachable d"
  shows "db_inv d"
  using assms by (rule db_reachable_inv)

definition sample_dbms :: dbms where
  "sample_dbms = \<lparr>db_fault = None, db_varchar = (\<lambda>n s. length s \<le> n), db_foreign_keys = True,
                  db_like_eq = (=), db_absent_nil = True\<rparr>"

theorem tables_consistent_witness:
  "db_inv (snd (SetLastSeen sample_dbms 0 20 True \<lparr>db_nodes = [], db_waypoints = []\<rparr>))"
  by (rule tables_consistent) (intro db_reachable.intros)

section \<open>The tables as maps\<close>

lemma SetLastSeen_look:
  assumes "SetLastSeen db now n isDirect d = (None, d')"
  shows "look_node d' n =
      Some ((case look_node d n of
               Some r \<Rightarrow> r
             | None \<Rightarrow> newMeshNodeInfo\<lparr>mn_NodeID := n, mn_UserID := NodeID_String n\<rparr>)
            \<lparr>mn_IsDirect := isDirect, mn_LastSeen := Some (to_second now)\<rparr>) \<and>
    (k \<noteq> n \<longrightarrow> look_node d' k = look_node d k)"
proof -
  let ?row = "newMeshNodeInfo\<lparr>mn_NodeID := n, mn_UserID := NodeID_String n, mn_IsDirect := isDirect,
      mn_LastSeen := Some (to_second now)\<rparr>"
  let ?merge = "\<lambda>r. r\<lparr>mn_IsDirect := isDirect, mn_LastSeen := Some (to_second now)\<rparr>"
  obtain t where "upsert mn_NodeID (node_constraints db) ?row ?merge (db_nodes d) = (None, t)"
    "d' = d\<lparr>db_nodes := t\<rparr>"
    using assms by (auto simp: SetLastSeen_def elim: put_node_None)
  then show ?thesis
    using upsert_find [of mn_NodeID "node_constraints db" ?row ?merge "db_nodes d" t]
    by (auto simp: look_node_def split: option.split)
qed

lemma SetNames_look:
  assumes "SetNames db n lname sname d = (None, d')"
  shows "look_node d' = (look_node d)(n := map_option (\<lambda>r. r\<lparr>mn_LongName := lname, mn_ShortName := sname\<rparr>) (look_node d n))"
proof (cases "look_node d n")
  case None
  then show ?thesis using assms by (auto simp: SetNames_def exec_def look_node_def split: option.splits)
next
  case (Some r)
  then have d': "db_nodes d' = map (\<lambda>r. if mn_NodeID r = n then r\<lparr>mn_LongName := lname, mn_ShortName := sname\<rparr> else r) (db_nodes d)"
    using assms by (auto simp: SetNames_def exec_def look_node_def split: option.splits if_splits)
  have "look_node d' k = (if k = n then map_option (\<lambda>r. r\<lparr>mn_LongName := lname, mn_ShortName := sname\<rparr>) (look_node d n)
      else look_node d k)" for k
    using find_map_same [of mn_NodeID n "\<lambda>r. r\<lparr>mn_LongName := lname, mn_ShortName := sname\<rparr>" "db_nodes d"]
      find_map_other [of mn_NodeID n "\<lambda>r. r\<lparr>mn_LongName := lname, mn_ShortName := sname\<rparr>" k "db_nodes d"]
    by (simp add: look_node_def d')
  then show ?thesis by (auto simp: fun_eq_iff)
qed

lemma DeleteByID_look:
  assumes "DeleteByID db i d = (None, d')"
  shows "look_waypoint d' = (look_waypoint d)(i := None)" "look_node d' = look_node d"
proof -
  have d': "d' = d\<lparr>db_waypoints := filter (\<lambda>w. wp_WaypointID w \<noteq> i) (db_waypoints d)\<rparr>"
    using assms by (auto simp: DeleteByID_def exec_def split: option.splits)
  have "find (\<lambda>w. wp_WaypointID w = k) (filter (\<lambda>w. wp_WaypointID w \<noteq> i) ws) =
      (if k = i then None else find (\<lambda>w. wp_WaypointID w = k) ws)" for k and ws :: "WaypointInfo list"
    by (induction ws) auto
  then show "look_waypoint d' = (look_waypoint d)(i := None)" "look_node d' = look_node d"
    by (auto simp: look_waypoint_def look_node_def d' fun_eq_iff)
qed

text \<open>The operations on the tables, and what each means for the maps from numbers to rows.\<close>

datatype table_op =
    SetAllOp MeshNodeInfo
  | LastSeenOp gotime NodeID bool
  | NamesOp NodeID string string
  | WaypointOp WaypointInfo
  | DeleteOp "32 word"

fun run_op :: "dbms \<Rightarrow> table_op \<Rightarrow> meshdb \<Rightarrow> go_error option \<times> meshdb" where
  "run_op db (SetAllOp m) d = node_SetAll db m d"
| "run_op db (LastSeenOp now n isDirect) d = SetLastSeen db now n isDirect d"
| "run_op db (NamesOp n lname sname) d = SetNames db n lname sname d"
| "run_op db (WaypointOp w) d = waypoint_SetAll db w d"
| "run_op db (DeleteOp i) d = DeleteByID db i d"

fun map_op ::
  "table_op \<Rightarrow> (NodeID \<rightharpoonup> MeshNodeInfo) \<times> (32 word \<rightharpoonup> WaypointInfo)
   \<Rightarrow> (NodeID \<rightharpoonup> MeshNodeInfo) \<times> (32 word \<rightharpoonup> WaypointInfo)" where
  "map_op (SetAllOp m) (N, W) = (N(mn_NodeID m \<mapsto> m\<lparr>mn_LastSeen := map_option to_second (mn_LastSeen m)\<rparr>), W)"
| "map_op (LastSeenOp now n isDirect) (N, W) =
     (N(n \<mapsto> (case N n of Some r \<Rightarrow> r | None \<Rightarrow> newMeshNodeInfo\<lparr>mn_NodeID := n, mn_UserID := NodeID_String n\<rparr>)
                \<lparr>mn_IsDirect := isDirect, mn_LastSeen := Some (to_second now)\<rparr>), W)"
| "map_op (NamesOp n lname sname) (N, W) =
     (N(n := map_option (\<lambda>r. r\<lparr>mn_LongName := lname, mn_ShortName := sname\<rparr>) (N n)), W)"
| "map_op (WaypointOp w) (N, W) = (N, W(wp_WaypointID w \<mapsto> waypoint_row w))"
| "map_op (DeleteOp i) (N, W) = (N, W(i := None))"

definition abs_tables :: "meshdb \<Rightarrow> (NodeID \<rightharpoonup> MeshNodeInfo) \<times> (32 word \<rightharpoonup> WaypointInfo)" where
  "abs_tables d = (look_node d, look_waypoint d)"

lemma node_ops_waypoints:
  "db_waypoints (snd (put_node db row merge d)) = db_waypoints d"
  "db_waypoints (snd (SetNames db n lname sname d)) = db_waypoints d"
  "db_nodes (snd (waypoint_SetAll db w d)) = db_nodes d"
  by (simp_all add: put_node_def SetNames_def waypoint_SetAll_def exec_def split: option.split prod.split)

lemma run_op_error: "run_op db p d = (Some e, d') \<Longrightarrow> d' = d"
  by (cases p) (auto simp: node_SetAll_def SetLastSeen_def SetNames_def DeleteByID_def exec_def
      split: option.splits if_splits dest: put_node_Some waypoints.store_error)

lemma run_op_maps:
  assumes "run_op db p d = (None, d')" shows "abs_tables d' = map_op p (abs_tables d)"
proof (cases p)
  case (SetAllOp m)
  then show ?thesis
    using assms nodes.store_look_iff [of db m d d'] node_ops_waypoints(1) [of db _ _ d]
    by (auto simp: abs_tables_def look_waypoint_def node_row_def node_SetAll_def fun_eq_iff dest!: arg_cong [of _ _ snd])
next
  case (LastSeenOp now n isDirect)
  then show ?thesis
    using assms SetLastSeen_look [of db now n isDirect d d'] node_ops_waypoints(1) [of db _ _ d]
    by (auto simp: abs_tables_def look_waypoint_def SetLastSeen_def fun_eq_iff dest!: arg_cong [of _ _ snd])
next
  case (NamesOp n lname sname)
  then show ?thesis
    using assms SetNames_look [of db n lname sname d d'] node_ops_waypoints(2) [of db n lname sname d]
    by (simp add: abs_tables_def look_waypoint_def fun_eq_iff)
next
  case (WaypointOp w)
  then show ?thesis
    using assms waypoints.store_look_iff [of db w d d'] node_ops_waypoints(3) [of db w d]
    by (auto simp: abs_tables_def look_node_def fun_eq_iff)
next
  case (DeleteOp i)
  then show ?thesis using assms DeleteByID_look by (simp add: abs_tables_def)
qed

lemma node_rows_look:
  assumes "db_inv d" shows "set (db_nodes d) = {r. \<exists>n. look_node d n = Some r}"
proof -
  have "find (\<lambda>r. mn_NodeID r = n) t = Some r \<longleftrightarrow> r \<in> set t \<and> mn_NodeID r = n"
    if "distinct (map mn_NodeID t)" for n r and t :: "MeshNodeInfo list"
    using that by (induction t) (auto simp: image_iff)
  then show ?thesis using assms by (auto simp: look_node_def db_inv_def node_table_inv_def)
qed

text \<open>
  C10: the two tables implement maps from numbers to rows.  A successful operation does to the maps
  exactly what it stands for: a stored row is the row given, its time rounded to the second; a
  node that was heard keeps all but its time and direct mark, and is created unmanaged and
  without names and keys; names are changed only where there is a row; deleting a waypoint
  removes that one.  A failed operation changes nothing, and the queries answer from the maps.
\<close>

theorem tables_refine_maps:
  assumes "run_op db p d = (err, d')" "db_inv d'" "db_fault db' = None"
  shows "abs_tables d' = (if err = None then map_op p (abs_tables d) else abs_tables d) \<and>
    GetByNodeID db' n d' = Inr (case fst (abs_tables d') n of
       Some r \<Rightarrow> Some r | None \<Rightarrow> if db_absent_nil db' then None else Some newMeshNodeInfo) \<and>
    (\<exists>rs. GetManagedNodes db' d' = Inr rs \<and> set rs = {r. \<exists>n. fst (abs_tables d') n = Some r \<and> mn_IsManaged r})"
proof -
  have "abs_tables d' = (if err = None then map_op p (abs_tables d) else abs_tables d)"
    using assms(1) run_op_maps [of db p d d'] run_op_error [of db p d] by (cases err) auto
  moreover have "GetByNodeID db' n d' = Inr (case fst (abs_tables d') n of
       Some r \<Rightarrow> Some r | None \<Rightarrow> if db_absent_nil db' then None else Some newMeshNodeInfo)"
    using assms(3) by (simp add: GetByNodeID_look QueryOne_def query_def abs_tables_def)
  moreover have "set (filter mn_IsManaged (db_nodes d')) = {r. \<exists>n. fst (abs_tables d') n = Some r \<and> mn_IsManaged r}"
    using node_rows_look [OF assms(2)] by (auto simp: abs_tables_def)
  moreover have "GetManagedNodes db' d' = Inr (filter mn_IsManaged (db_nodes d'))"
    using assms(3) by (simp add: GetManagedNodes_def query_def)
  ultimately show ?thesis by blast
qed

theorem tables_refine_maps_witness:
  "\<exists>d'. d' = snd (run_op sample_dbms (LastSeenOp 1500000000 20 True) \<lparr>db_nodes = [], db_waypoints = []\<rparr>) \<and>
     GetByNodeID sample_dbms 20 d' = Inr (Some (newMeshNodeInfo\<lparr>mn_NodeID := 20, mn_UserID := ''!00000014'',
       mn_IsDirect := True, mn_LastSeen := Some 1000000000\<rparr>))"
proof -
  let ?d = "\<lparr>db_nodes = [], db_waypoints = []\<rparr>"
  have "NodeID_String 20 = ''!00000014''" by code_simp
  moreover obtain d' where r: "run_op sample_dbms (LastSeenOp 1500000000 20 True) ?d = (None, d')"
    by (simp add: SetLastSeen_def put_node_def exec_def upsert_def node_constraints_def node_id_ok_def
        newMeshNodeInfo_def sample_dbms_def BROADCAST_ID_def)
  moreover have "db_inv d'"
    using node_ops_inv(2) [of ?d sample_dbms 1500000000 20 True] r
    by (simp add: db_inv_def node_table_inv_def waypoint_refs_ok_def)
  ultimately show ?thesis
    using tables_refine_maps [OF r _ _, of sample_dbms 20]
    by (simp add: abs_tables_def [of ?d] look_node_def to_second_def unix_seconds_def duration_defs)
       (simp add: sample_dbms_def)
qed

end
