(* ===== verification/Bridge_Core.thy ===== *)
theory Bridge_Core
  imports Mesh_Protocol Mesh_DB
begin

text \<open>
  The bridge's connector object, \<^verbatim>\<open>pkg/connector/connector.go\<close>, \<^verbatim>\<open>config.go\<close> and the key and name
  management of \<^verbatim>\<open>handle_matrix.go\<close>.  The bridge framework
  (\<^verbatim>\<open>maunium.net/go/mautrix/bridgev2\<close>) is outside the repository: its own state is of an abstract
  type \<open>'w\<close>, and the calls the bridge makes are the fields of a record.  What the bridge hands to
  the framework to be delivered later is kept in the state: queued remote events and notices.
\<close>

section \<open>The framework\<close>

datatype RoomType = RoomTypeDefault | RoomTypeDM | RoomTypeOther string

text \<open>
  \<open>gh_UserMXID\<close> is \<open>None\<close> when the metadata of a ghost is not a \<^verbatim>\<open>*meshid.GhostMetadata\<close>.
\<close>

record ghost =
  gh_ID :: string
  gh_Name :: string
  gh_NameSet :: bool
  gh_UserMXID :: "string option"

record PortalKey =
  pk_ID :: string
  pk_Receiver :: string

record portal =
  po_Key :: PortalKey
  po_RoomType :: RoomType
  po_MXID :: string

record EventSender =
  es_IsFromMe :: bool
  es_Sender :: string
  es_SenderLogin :: string

record ChatInfo =
  ci_Name :: "string option"
  ci_Topic :: "string option"
  ci_Type :: "RoomType option"
  ci_IsFull :: bool
  ci_TotalMemberCount :: int
  ci_OtherUserID :: string
  ci_Members :: "(string \<times> EventSender) list"

text \<open>
  A login; \<^verbatim>\<open>GetDBMetaTypes\<close> makes its metadata a \<^verbatim>\<open>*meshid.UserLoginMetadata\<close>, so the type
  assertions on it hold.
\<close>

record login =
  ul_ID :: string
  ul_NodeID :: NodeID
  ul_UserMXID :: string

text \<open>The converters \<^verbatim>\<open>msgconv.New\<close> configures the framework's HTML parser with.\<close>

record HTMLParser =
  hp_Pill :: "string \<Rightarrow> string \<Rightarrow> string \<Rightarrow> string"
  hp_Newline :: string
  hp_TabsToSpaces :: int
  hp_Bold :: "string \<Rightarrow> string"
  hp_Italic :: "string \<Rightarrow> string"
  hp_Strikethrough :: "string \<Rightarrow> string"
  hp_Monospace :: "string \<Rightarrow> string"
  hp_MonospaceBlock :: "string \<Rightarrow> string \<Rightarrow> string"

record 'w framework =
  fw_BotMXID :: string
  fw_SplitPortals :: bool
  fw_GetExistingGhost :: "'w \<Rightarrow> string \<Rightarrow> go_error + ghost option"
  fw_GetGhost :: "'w \<Rightarrow> string \<Rightarrow> (go_error + ghost) \<times> 'w"
  fw_UpdateInfo :: "ghost \<Rightarrow> string \<Rightarrow> (ghost \<Rightarrow> ghost \<times> bool) option \<Rightarrow> 'w \<Rightarrow> ghost \<times> 'w"
  fw_AllPortals :: "'w \<Rightarrow> go_error + portal list"
  fw_DMPortalsWith :: "'w \<Rightarrow> string \<Rightarrow> portal list \<times> go_error option"
  fw_ReIDPortal :: "PortalKey \<Rightarrow> PortalKey \<Rightarrow> 'w \<Rightarrow> go_error option \<times> 'w"
  fw_LoginsInPortal :: "'w \<Rightarrow> PortalKey \<Rightarrow> go_error + string list"
  fw_ExistingUser :: "'w \<Rightarrow> string \<Rightarrow> go_error option"
  fw_MemberDisplayname :: "'w \<Rightarrow> string \<Rightarrow> string \<Rightarrow> go_error + string"
  fw_ParseGhostMXID :: "string \<Rightarrow> string option"
  fw_FormatGhostMXID :: "string \<Rightarrow> string"
  fw_GhostMXID :: "ghost \<Rightarrow> string"
  fw_ValidMXID :: "string \<Rightarrow> bool"
  fw_MatrixToURL :: "string \<Rightarrow> string"
  fw_FullyQualify :: "string \<Rightarrow> string"
  fw_HTMLParse :: "HTMLParser \<Rightarrow> string \<Rightarrow> string"
  fw_DefaultPill :: "string \<Rightarrow> string \<Rightarrow> string \<Rightarrow> string"
  fw_CachedLogin :: "'w \<Rightarrow> string \<Rightarrow> login option"
  fw_DefaultLogin :: "'w \<Rightarrow> string \<Rightarrow> login option"
  fw_NewLogin :: "string \<Rightarrow> login \<Rightarrow> string \<Rightarrow> string \<Rightarrow> 'w \<Rightarrow> (go_error + login) \<times> 'w"
  fw_GetPortal :: "PortalKey \<Rightarrow> 'w \<Rightarrow> (go_error + portal) \<times> 'w"
  fw_CreateRoom :: "portal \<Rightarrow> login option \<Rightarrow> ChatInfo \<Rightarrow> 'w \<Rightarrow> go_error option \<times> 'w"
  fw_JoinedMembers :: "'w \<Rightarrow> string \<Rightarrow> go_error + string list"
  fw_LeaveRoom :: "string \<Rightarrow> string \<Rightarrow> 'w \<Rightarrow> go_error option \<times> 'w"
  fw_LastMessage :: "'w \<Rightarrow> PortalKey \<Rightarrow> string \<Rightarrow> go_error + gotime option"
  fw_LastReaction :: "'w \<Rightarrow> PortalKey \<Rightarrow> string \<Rightarrow> go_error + gotime option"

section \<open>Configuration\<close>

text \<open>The nested structs of \<^verbatim>\<open>PrimaryChannel\<close> and \<^verbatim>\<open>Mqtt\<close> are flattened.\<close>

record Config =
  cfg_LongName :: string
  cfg_ShortName :: string
  cfg_HopLimit :: "32 word"
  cfg_PrimaryName :: string
  cfg_PrimaryKey :: string
  cfg_UDP :: bool
  cfg_MqttEnabled :: bool
  cfg_MqttUri :: string
  cfg_MqttUsername :: string
  cfg_MqttPassword :: string
  cfg_MqttRootTopic :: string
  cfg_InactivityThreshold :: int

definition ValidateConfig :: "Config \<Rightarrow> go_error option" where
  "ValidateConfig c =
     (if cfg_LongName c = [] \<or> cfg_ShortName c = [] then
        Some (Errorf ''both long_name and short_name are required'')
      else if length (cfg_LongName c) \<ge> 40 then Some (Errorf ''long_name must be less than 40 bytes'')
      else if length (cfg_ShortName c) \<ge> 5 then Some (Errorf ''short_name must be less than 5 bytes'')
      else if cfg_HopLimit c \<ge> MAX_HOPS then Some (Errorf ''hop_limit must be less than 7'')
      else if \<not> cfg_UDP c \<and> \<not> cfg_MqttEnabled c then
        Some (Errorf ''at least one connection method must be enabled'')
      else None)"

section \<open>Environment and state\<close>

record ('c, 'w) benv =
  be_mesh :: "'c env"
  be_fw :: "'w framework"
  be_dbms :: dbms
  be_cfg :: Config
  be_KeyPair :: "go_error + (bytes \<times> bytes)"

record TracerouteRequest =
  tr_PacketID :: "32 word"
  tr_FromNode :: NodeID
  tr_TargetNode :: NodeID
  tr_RoomID :: string
  tr_Timestamp :: gotime
  tr_Channel :: "ChannelDef option"

record TracerouteTracker =
  pendingRequests :: "32 word \<rightharpoonup> TracerouteRequest"
  lastTraceroute :: "NodeID \<times> NodeID \<rightharpoonup> gotime"

definition NewTracerouteTracker :: TracerouteTracker where
  "NewTracerouteTracker = \<lparr>pendingRequests = Map.empty, lastTraceroute = Map.empty\<rparr>"

datatype remote_event =
    RemoteMessage PortalKey RoomType EventSender gotime string MeshTextEvent
  | RemoteReaction PortalKey EventSender gotime string string
  | RemoteChatInfo PortalKey ChatInfo

text \<open>
  \<open>b_clients\<close> are the logins whose handler is registered with the mesh client, after the
  connector's own; \<open>b_tasks\<close> numbers the contexts of background tasks that were not cancelled,
  \<open>b_canceller\<close> the one \<^verbatim>\<open>bgTaskCanceller\<close> cancels, \<open>b_nextTask\<close> the next number.
  \<open>b_queued\<close> holds the events with the login they are queued for, \<open>b_notices\<close> the notices sent to
  rooms, \<open>b_spawned\<close> the ghosts whose node information is to be requested by a goroutine.  A nil
  dereference or an index out of range ends the process; \<open>b_panic\<close> records it, and a
  function whose result is \<open>Panic\<close> does not return.
\<close>

record ('c, 'w) bridge =
  b_mesh :: "'c client"
  b_db :: meshdb
  b_world :: 'w
  b_baseNodeID :: NodeID
  b_managedNodeCache :: "NodeID \<rightharpoonup> bool"
  b_tracker :: TracerouteTracker
  b_clients :: "login list"
  b_tasks :: "nat list"
  b_canceller :: "nat option"
  b_nextTask :: nat
  b_queued :: "(string \<times> remote_event) list"
  b_notices :: "(string \<times> string) list"
  b_spawned :: "string list"
  b_panic :: bool

datatype 'a outcome = Ok 'a | Err go_error | Panic

definition panic :: "('c, 'w) bridge \<Rightarrow> ('c, 'w) bridge" where
  "panic b = b\<lparr>b_panic := True\<rparr>"

text \<open>Reading and writing the tables.\<close>

definition db_get :: "('c, 'w) benv \<Rightarrow> NodeID \<Rightarrow> ('c, 'w) bridge \<Rightarrow> go_error + MeshNodeInfo option" where
  "db_get B n b = GetByNodeID (be_dbms B) n (b_db b)"

definition db_put ::
  "(meshdb \<Rightarrow> go_error option \<times> meshdb) \<Rightarrow> ('c, 'w) bridge \<Rightarrow> go_error option \<times> ('c, 'w) bridge" where
  "db_put f b = (let (err, d) = f (b_db b) in (err, b\<lparr>b_db := d\<rparr>))"

abbreviation be_now :: "('c, 'w) benv \<Rightarrow> gotime" where
  "be_now B \<equiv> e_now (be_mesh B)"

section \<open>Node identity\<close>

definition GetBaseNodeID :: "('c, 'w) benv \<Rightarrow> ('c, 'w) bridge \<Rightarrow> NodeID \<times> ('c, 'w) bridge" where
  "GetBaseNodeID B b =
     (let b = (if b_baseNodeID b = 0 then b\<lparr>b_baseNodeID := MXIDToNodeID (fw_BotMXID (be_fw B))\<rparr> else b)
      in (b_baseNodeID b, b))"

definition cache_managed :: "NodeID \<Rightarrow> bool \<Rightarrow> ('c, 'w) bridge \<Rightarrow> bool \<times> ('c, 'w) bridge" where
  "cache_managed n v b = (v, b\<lparr>b_managedNodeCache := (b_managedNodeCache b)(n \<mapsto> v)\<rparr>)"

definition IsManagedNode :: "('c, 'w) benv \<Rightarrow> NodeID \<Rightarrow> ('c, 'w) bridge \<Rightarrow> bool \<times> ('c, 'w) bridge" where
  "IsManagedNode B nodeID b =
     (case b_managedNodeCache b nodeID of
        Some v \<Rightarrow> (v, b)
      | None \<Rightarrow>
          let (baseNode, b) = GetBaseNodeID B b in
          if nodeID = baseNode then cache_managed nodeID True b
          else case fw_GetExistingGhost (be_fw B) (b_world b) (MakeUserID nodeID) of
                 Inl err \<Rightarrow> (False, b)
               | Inr None \<Rightarrow> cache_managed nodeID False b
               | Inr (Some ghost) \<Rightarrow>
                   cache_managed nodeID
                     (case gh_UserMXID ghost of Some m \<Rightarrow> m \<noteq> [] | None \<Rightarrow> False) b)"

section \<open>Keys\<close>

text \<open>
  Both functions read the node's row without asking whether there is one.
\<close>

definition generate_keys ::
  "('c, 'w) benv \<Rightarrow> MeshNodeInfo \<Rightarrow> ('c, 'w) bridge \<Rightarrow> (go_error + (bytes \<times> bytes)) \<times> ('c, 'w) bridge" where
  "generate_keys B nodeInfo b =
     (case be_KeyPair B of
        Inl err \<Rightarrow> (Inl err, b)
      | Inr (pub, priv) \<Rightarrow>
          (case db_put (node_SetAll (be_dbms B) (nodeInfo\<lparr>mn_PublicKey := pub, mn_PrivateKey := priv\<rparr>)) b of
             (Some err, b) \<Rightarrow> (Inl err, b)
           | (None, b) \<Rightarrow> (Inr (pub, priv), b)))"

definition getGhostPublicKey ::
  "('c, 'w) benv \<Rightarrow> NodeID \<Rightarrow> ('c, 'w) bridge \<Rightarrow> bytes outcome \<times> ('c, 'w) bridge" where
  "getGhostPublicKey B nodeID b =
     (case db_get B nodeID b of
        Inl err \<Rightarrow> (Err err, b)
      | Inr None \<Rightarrow> (Panic, panic b)
      | Inr (Some nodeInfo) \<Rightarrow>
          if mn_PublicKey nodeInfo \<noteq> [] then (Ok (mn_PublicKey nodeInfo), b)
          else if mn_IsManaged nodeInfo then
            (case generate_keys B nodeInfo b of
               (Inl err, b) \<Rightarrow> (Err err, b)
             | (Inr (pub, priv), b) \<Rightarrow> (Ok pub, b))
          else (Err (Errorf ''no public key found''), b))"

definition getGhostPrivateKey ::
  "('c, 'w) benv \<Rightarrow> NodeID \<Rightarrow> ('c, 'w) bridge \<Rightarrow> bytes outcome \<times> ('c, 'w) bridge" where
  "getGhostPrivateKey B nodeID b =
     (case db_get B nodeID b of
        Inl err \<Rightarrow> (Err err, b)
      | Inr None \<Rightarrow> (Panic, panic b)
      | Inr (Some nodeInfo) \<Rightarrow>
          if mn_PrivateKey nodeInfo \<noteq> [] then (Ok (mn_PrivateKey nodeInfo), b)
          else if mn_IsManaged nodeInfo then
            (case generate_keys B nodeInfo b of
               (Inl err, b) \<Rightarrow> (Err err, b)
             | (Inr (pub, priv), b) \<Rightarrow> (Ok pub, b))
          else (Err (Errorf ''no private key found''), b))"

text \<open>
  The closures \<^verbatim>\<open>Start\<close> installs as key and neighbour callbacks of the mesh client.  The mesh client
  takes texts, so a callback that panics, for a nil row, is not a panic of the call it is made in: it
  reads as no key there, and as the panic it is where the key function is a step of its own.
\<close>

definition key_text :: "bytes outcome \<Rightarrow> string option" where
  "key_text r = (case r of Ok raw \<Rightarrow> if raw = [] then None else Some (base64_EncodeToString raw) | _ \<Rightarrow> None)"

definition neighbor_ids :: "('c, 'w) benv \<Rightarrow> ('c, 'w) bridge \<Rightarrow> NodeID list" where
  "neighbor_ids B b =
     (case GetDirectNeighbors (be_dbms B) (b_db b) of
        Inl err \<Rightarrow> []
      | Inr ns \<Rightarrow> map mn_NodeID ns)"

text \<open>
  The environment of the mesh client, with the callbacks bound to the bridge's present state; and
  a call of the client.  The answers a call gets are those of the state it starts in.  What a
  callback changes (a cached answer, a new key pair) is not part of the call: \<open>IsManagedNode\<close> and
  the key functions are operations of their own, which may happen at any time.
\<close>

definition mesh_env :: "('c, 'w) benv \<Rightarrow> ('c, 'w) bridge \<Rightarrow> 'c env" where
  "mesh_env B b =
     (be_mesh B)
       \<lparr>e_managed := \<lambda>n. fst (IsManagedNode B n b),
        e_pubKeyRequest := Some (\<lambda>n. key_text (fst (getGhostPublicKey B n b))),
        e_privKeyRequest := Some (\<lambda>n. key_text (fst (getGhostPrivateKey B n b))),
        e_neighborProvider := Some (\<lambda>n. neighbor_ids B b)\<rparr>"

definition on_mesh ::
  "('c, 'w) benv \<Rightarrow> ('c env \<Rightarrow> 'c client \<Rightarrow> 'r \<times> 'c client) \<Rightarrow> ('c, 'w) bridge \<Rightarrow> 'r \<times> ('c, 'w) bridge" where
  "on_mesh B f b = (let (r, c) = f (mesh_env B b) (b_mesh b) in (r, b\<lparr>b_mesh := c\<rparr>))"

section \<open>Names\<close>

definition updateGhostSenderID :: "string \<Rightarrow> ghost \<Rightarrow> ghost \<times> bool" where
  "updateGhostSenderID mxid g =
     (g\<lparr>gh_UserMXID := Some mxid\<rparr>,
      mxid \<noteq> (case gh_UserMXID g of Some m \<Rightarrow> m | None \<Rightarrow> []))"

text \<open>\<^verbatim>\<open>UpdateGhostMeshNames\<close> in three stages: the ghost, the row, and storing and announcing it.\<close>

definition register_ghost ::
  "('c, 'w) benv \<Rightarrow> string \<Rightarrow> string \<Rightarrow> string \<Rightarrow> ('c, 'w) bridge \<Rightarrow> (go_error + NodeID) \<times> ('c, 'w) bridge" where
  "register_ghost B userID mxid longName b =
     (let (g, w) = fw_GetGhost (be_fw B) (b_world b) userID; b = b\<lparr>b_world := w\<rparr> in
      case g of
        Inl err \<Rightarrow> (Inl err, b)
      | Inr ghost \<Rightarrow>
          let b = b\<lparr>b_world := snd (fw_UpdateInfo (be_fw B) ghost longName
                                 (Some (updateGhostSenderID mxid)) (b_world b))\<rparr>
          in case ParseUserID userID of
               (_, Some err) \<Rightarrow> (Inl err, b)
             | (nodeID, None) \<Rightarrow> (Inr nodeID, b))"

definition named_row ::
  "('c, 'w) benv \<Rightarrow> NodeID \<Rightarrow> MeshNodeInfo option \<Rightarrow> string \<Rightarrow> string \<Rightarrow> go_error + MeshNodeInfo" where
  "named_row B nodeID row longName shortName =
     (let nodeInfo = (case row of
            Some r \<Rightarrow> r
          | None \<Rightarrow> newMeshNodeInfo\<lparr>mn_NodeID := nodeID, mn_UserID := NodeID_String nodeID,
                                    mn_IsManaged := True, mn_IsDirect := True\<rparr>);
          keyed = (if mn_PrivateKey nodeInfo = []
                   then case be_KeyPair B of
                          Inl err \<Rightarrow> Inl err
                        | Inr (pub, priv) \<Rightarrow> Inr (nodeInfo\<lparr>mn_PublicKey := pub, mn_PrivateKey := priv\<rparr>)
                   else Inr nodeInfo)
      in case keyed of
           Inl err \<Rightarrow> Inl err
         | Inr nodeInfo \<Rightarrow> Inr (nodeInfo\<lparr>mn_LongName := longName, mn_ShortName := shortName\<rparr>))"

definition store_names ::
  "('c, 'w) benv \<Rightarrow> NodeID \<Rightarrow> string \<Rightarrow> string \<Rightarrow> ('c, 'w) bridge \<Rightarrow> go_error option \<times> ('c, 'w) bridge" where
  "store_names B nodeID longName shortName b =
     (case db_get B nodeID b of
        Inl err \<Rightarrow> (Some err, b)
      | Inr row \<Rightarrow>
          (case named_row B nodeID row longName shortName of
             Inl err \<Rightarrow> (Some err, b)
           | Inr nodeInfo \<Rightarrow>
               (case db_put (node_SetAll (be_dbms B) nodeInfo) b of
                  (Some err, b) \<Rightarrow> (Some err, b)
                | (None, b) \<Rightarrow>
                    on_mesh B (\<lambda>E. SendNodeInfo E nodeID BROADCAST_ID longName shortName
                                    False (mn_PublicKey nodeInfo)) b)))"

definition UpdateGhostMeshNames ::
  "('c, 'w) benv \<Rightarrow> string \<Rightarrow> string \<Rightarrow> string \<Rightarrow> string \<Rightarrow> ('c, 'w) bridge
   \<Rightarrow> go_error option \<times> ('c, 'w) bridge" where
  "UpdateGhostMeshNames B userID mxid longName shortName b =
     (if length longName > 39 then (Some (Errorf ''long name must be less than 40 bytes''), b)
      else if length shortName > 4 then (Some (Errorf ''short name must be less than 5 bytes''), b)
      else case register_ghost B userID mxid longName b of
             (Inl err, b) \<Rightarrow> (Some err, b)
           | (Inr nodeID, b) \<Rightarrow> store_names B nodeID longName shortName b)"

section \<open>Starting\<close>

definition rateNeighborInfo :: duration where
  "rateNeighborInfo = 12 * Hour + 31 * Second"

text \<open>
  \<^verbatim>\<open>Start\<close>: the errors of \<^verbatim>\<open>SetHopLimit\<close> and \<^verbatim>\<open>Connect\<close> are dropped.  \<open>cache\<close> and \<open>rnd\<close> are the
  empty duplicate cache and the random numbers of the new client.
\<close>

definition bridge_Start ::
  "('c, 'w) benv \<Rightarrow> 'c \<Rightarrow> (nat \<Rightarrow> 32 word) \<Rightarrow> ('c, 'w) bridge \<Rightarrow> ('c, 'w) bridge" where
  "bridge_Start B cache rnd b =
     (let (base, b) = GetBaseNodeID B b;
          cfg = be_cfg B;
          c = NewMeshtasticClient base (be_now B) cache rnd;
          c = fst (SetHopLimit (cfg_HopLimit cfg) c);
          c = (if cfg_UDP cfg then AddUDPHandler c else c);
          c = (if cfg_MqttEnabled cfg then AddMQTTHandler c else c);
          c = SetPrimaryChannel (e_lib (be_mesh B)) (cfg_PrimaryName cfg) (cfg_PrimaryKey cfg) c;
          c = SetNeighborBroadcastInterval
                (uint32_of_float (ufloat_oor (e_lib (be_mesh B))) (Duration_Seconds rateNeighborInfo)) c
      in b\<lparr>b_mesh := fst (client_Connect (be_mesh B) c)\<rparr>)"

text \<open>
  The loop of \<^verbatim>\<open>onMeshConnected\<close> over the portals.  The error of \<^verbatim>\<open>NewChannelDef\<close> is dropped and
  the nil channel it comes with is used.
\<close>

definition restore_portal :: "('c, 'w) benv \<Rightarrow> portal \<Rightarrow> ('c, 'w) bridge \<Rightarrow> ('c, 'w) bridge" where
  "restore_portal B p b =
     (if b_panic b then b
      else case ParsePortalID (pk_ID (po_Key p)) of
        (_, Some err) \<Rightarrow> b
      | ((channelID, channelKey), None) \<Rightarrow>
          (case NewChannelDef (e_lib (be_mesh B)) channelID (Some channelKey) of
             Inl err \<Rightarrow> panic b
           | Inr chanDef \<Rightarrow>
               let b = (if GetKeyString chanDef \<noteq> channelKey
                        then b\<lparr>b_world := snd (fw_ReIDPortal (be_fw B) (po_Key p)
                                 ((po_Key p)\<lparr>pk_ID := MakePortalID channelID (Some (GetKeyString chanDef))\<rparr>)
                                 (b_world b))\<rparr>
                        else b);
                   c = b_mesh b
               in b\<lparr>b_mesh := AddChannelDef (nextRef c, chanDef) (c\<lparr>nextRef := Suc (nextRef c)\<rparr>)\<rparr>))"

text \<open>
  Both handlers start or cancel the background tasks; the new context replaces the canceller of
  the one before without cancelling it.
\<close>

definition cancel_tasks :: "('c, 'w) bridge \<Rightarrow> ('c, 'w) bridge" where
  "cancel_tasks b =
     (case b_canceller b of
        None \<Rightarrow> b
      | Some t \<Rightarrow> b\<lparr>b_tasks := filter (\<lambda>u. u \<noteq> t) (b_tasks b)\<rparr>)"

definition start_tasks :: "('c, 'w) bridge \<Rightarrow> ('c, 'w) bridge" where
  "start_tasks b =
     b\<lparr>b_tasks := b_tasks b @ [b_nextTask b], b_canceller := Some (b_nextTask b),
       b_nextTask := Suc (b_nextTask b)\<rparr>"

definition onMeshConnected :: "('c, 'w) benv \<Rightarrow> bool \<Rightarrow> ('c, 'w) bridge \<Rightarrow> ('c, 'w) bridge" where
  "onMeshConnected B isReconnect b =
     (let b = (if isReconnect then b
               else fold (restore_portal B)
                      (case fw_AllPortals (be_fw B) (b_world b) of Inl err \<Rightarrow> [] | Inr ps \<Rightarrow> ps) b)
      in if b_panic b then b else start_tasks b)"

definition onMeshDisconnected :: "('c, 'w) bridge \<Rightarrow> ('c, 'w) bridge" where
  "onMeshDisconnected b = cancel_tasks b"

definition bridge_Stop :: "('c, 'w) bridge \<Rightarrow> ('c, 'w) bridge" where
  "bridge_Stop b = (let b = cancel_tasks b in b\<lparr>b_mesh := client_Disconnect (b_mesh b)\<rparr>)"

section \<open>A sample environment\<close>

text \<open>The framework's state is the list of its ghosts; there are no portals.\<close>

definition sample_find_ghost :: "ghost list \<Rightarrow> string \<Rightarrow> ghost option" where
  "sample_find_ghost w i = find (\<lambda>g. gh_ID g = i) w"

definition sample_framework :: "ghost list framework" where
  "sample_framework =
     \<lparr>fw_BotMXID = ''@bot:example.org'', fw_SplitPortals = False,
      fw_GetExistingGhost = (\<lambda>w i. Inr (sample_find_ghost w i)),
      fw_GetGhost = (\<lambda>w i. case sample_find_ghost w i of
         Some g \<Rightarrow> (Inr g, w)
       | None \<Rightarrow> let g = \<lparr>gh_ID = i, gh_Name = [], gh_NameSet = False, gh_UserMXID = Some []\<rparr>
                 in (Inr g, g # w)),
      fw_UpdateInfo = (\<lambda>g name extra w.
         let g' = (case extra of None \<Rightarrow> g | Some f \<Rightarrow> fst (f g))\<lparr>gh_Name := name, gh_NameSet := True\<rparr>
         in (g', map (\<lambda>h. if gh_ID h = gh_ID g then g' else h) w)),
      fw_AllPortals = (\<lambda>w. Inr []), fw_DMPortalsWith = (\<lambda>w i. ([], None)),
      fw_ReIDPortal = (\<lambda>k k' w. (None, w)), fw_LoginsInPortal = (\<lambda>w k. Inr []),
      fw_ExistingUser = (\<lambda>w u. None), fw_MemberDisplayname = (\<lambda>w r u. Inr ''Alice''),
      fw_ParseGhostMXID = (\<lambda>u. None), fw_FormatGhostMXID = (\<lambda>i. ''@mesh_'' @ i @ '':example.org''),
      fw_GhostMXID = (\<lambda>g. ''@mesh_'' @ gh_ID g @ '':example.org''), fw_ValidMXID = (\<lambda>s. s \<noteq> []),
      fw_MatrixToURL = (\<lambda>s. ''https://matrix.to/#/'' @ s), fw_FullyQualify = (\<lambda>s. s),
      fw_HTMLParse = (\<lambda>p s. s), fw_DefaultPill = (\<lambda>name mxid evt. name),
      fw_CachedLogin = (\<lambda>w i. None), fw_DefaultLogin = (\<lambda>w u. None),
      fw_NewLogin = (\<lambda>u l rname pname w. (Inr l, w)),
      fw_GetPortal = (\<lambda>k w. (Inr \<lparr>po_Key = k, po_RoomType = RoomTypeDefault, po_MXID = []\<rparr>, w)),
      fw_CreateRoom = (\<lambda>p l info w. (None, w)), fw_JoinedMembers = (\<lambda>w r. Inr []),
      fw_LeaveRoom = (\<lambda>u r w. (None, w)), fw_LastMessage = (\<lambda>w k u. Inr None),
      fw_LastReaction = (\<lambda>w k u. Inr None)\<rparr>"

definition sample_config :: Config where
  "sample_config =
     \<lparr>cfg_LongName = ''Matrix Bridge'', cfg_ShortName = ''MB'', cfg_HopLimit = 3,
      cfg_PrimaryName = ''LongFast'', cfg_PrimaryKey = [], cfg_UDP = True, cfg_MqttEnabled = True,
      cfg_MqttUri = ''tcp://localhost:1883'', cfg_MqttUsername = [], cfg_MqttPassword = [], cfg_MqttRootTopic = ''msh/US'',
      cfg_InactivityThreshold = 0\<rparr>"

definition sample_benv :: "(sample_cache, ghost list) benv" where
  "sample_benv = \<lparr>be_mesh = sample_env, be_fw = sample_framework, be_dbms = sample_dbms,
                  be_cfg = sample_config, be_KeyPair = Inr (''pub'', ''priv'')\<rparr>"

definition sample_bridge :: "(sample_cache, ghost list) bridge" where
  "sample_bridge =
     \<lparr>b_mesh = sample_client, b_db = \<lparr>db_nodes = [], db_waypoints = []\<rparr>, b_world = [],
      b_baseNodeID = 2, b_managedNodeCache = Map.empty, b_tracker = NewTracerouteTracker,
      b_clients = [], b_tasks = [], b_canceller = None, b_nextTask = 0,
      b_queued = [], b_notices = [], b_spawned = [], b_panic = False\<rparr>"

section \<open>Properties\<close>

lemma client_Connect_known:
  assumes "channels_known c" shows "channels_known (fst (client_Connect E c))"
proof -
  have "conn_knows (fst (conn_Start N h)) n = conn_knows h n" for N h n
    by (cases h) (simp_all add: conn_knows_def)
  then show ?thesis using assms by (simp add: client_Connect_def channels_known_def Let_def)
qed

text \<open>
  With a configuration that passes validation and a primary key that parses, the bridge
  starts with a client that meets its invariant: a primary channel, the configured hop limit, at
  least one connector, and every channel known to every connector.
\<close>

lemma start_good:
  assumes "ValidateConfig (be_cfg B) = None" "radio_keys_ok (e_lib (be_mesh B))"
    and "NewChannelDef (e_lib (be_mesh B)) (cfg_PrimaryName (be_cfg B)) (Some (cfg_PrimaryKey (be_cfg B))) = Inr d"
    and "c = b_mesh (bridge_Start B cache rnd b)"
  shows "good M (e_lib (be_mesh B)) c \<and> hopLimit c = cfg_HopLimit (be_cfg B) \<and> meshConnectors c \<noteq> [] \<and> channels_known c"
proof -
  let ?cfg = "be_cfg B" and ?L = "e_lib (be_mesh B)"
  define base where "base = fst (GetBaseNodeID B b)"
  define c0 where "c0 = fst (SetHopLimit (cfg_HopLimit ?cfg) (NewMeshtasticClient base (be_now B) cache rnd))"
  define c1 where "c1 = (if cfg_UDP ?cfg then AddUDPHandler c0 else c0)"
  define c2 where "c2 = (if cfg_MqttEnabled ?cfg then AddMQTTHandler c1 else c1)"
  define c3 where "c3 = SetPrimaryChannel ?L (cfg_PrimaryName ?cfg) (cfg_PrimaryKey ?cfg) c2"
  define i where "i = uint32_of_float (ufloat_oor ?L) (Duration_Seconds rateNeighborInfo)"
  have c: "c = fst (client_Connect (be_mesh B) (SetNeighborBroadcastInterval i c3))"
    unfolding assms(4) bridge_Start_def Let_def
    by (simp add: base_def c0_def c1_def c2_def c3_def i_def split: prod.split)
  have hop: "cfg_HopLimit ?cfg < MAX_HOPS" and some: "cfg_UDP ?cfg \<or> cfg_MqttEnabled ?cfg"
    using assms(1) by (auto simp: ValidateConfig_def not_le split: if_splits)
  have c2: "channels c2 = []" "hopLimit c2 = cfg_HopLimit ?cfg" "\<not> crashed c2" "outbox c2 = []" "meshConnectors c2 \<noteq> []"
    using hop some by (auto simp: c2_def c1_def c0_def SetHopLimit_def AddUDPHandler_def AddMQTTHandler_def
        NewMeshtasticClient_def not_le)
  have c3: "c3 = (AddChannelDef (nextRef c2, d) (c2\<lparr>nextRef := Suc (nextRef c2)\<rparr>))\<lparr>primaryChannel := Some (nextRef c2, d)\<rparr>"
    using assms(3) by (simp add: c3_def SetPrimaryChannel_def Let_def)
  have add: "AddChannelDef (nextRef c2, d) (c2\<lparr>nextRef := Suc (nextRef c2)\<rparr>) =
      c2\<lparr>nextRef := Suc (nextRef c2), events := events c2 @ [ChannelJoined (GetName d) (Some (GetKeyString d))],
         meshConnectors := map (\<lambda>h. conn_AddChannel h (GetName d)) (meshConnectors c2),
         channels := [(nextRef c2, d)]\<rparr>"
    using c2(1) by (simp add: AddChannelDef_def notifyEvent_def Let_def)
  have good3: "good M ?L c3"
    using c2 hop NewChannelDef_wf(1) [OF assms(2,3)]
    by (simp add: c3 add good_def ready_def client_inv_def)
  have known3: "channels_known c3" by (auto simp: c3 add channels_known_def conn_AddChannel_knows)
  have "channels_known (SetNeighborBroadcastInterval i c3)"
    using known3 by (simp add: channels_known_def SetNeighborBroadcastInterval_def)
  then have "channels_known c" unfolding c by (rule client_Connect_known)
  moreover have "good M ?L c"
    using good3 by (simp add: c client_Connect_def SetNeighborBroadcastInterval_def Let_def)
  moreover have "meshConnectors c \<noteq> []" "hopLimit c = cfg_HopLimit ?cfg"
    using c2 by (simp_all add: c client_Connect_def SetNeighborBroadcastInterval_def Let_def c3 add)
  ultimately show ?thesis by blast
qed

lemma GetBaseNodeID_frame [simp]:
  "b_managedNodeCache (snd (GetBaseNodeID B b)) = b_managedNodeCache b"
  "b_world (snd (GetBaseNodeID B b)) = b_world b"
  by (simp_all add: GetBaseNodeID_def Let_def)

text \<open>
  Which nodes the bridge manages is decided on the first question.  Its own node is always
  managed; another node is managed exactly if its ghost belongs to a Matrix user, and the answer
  is remembered unless the ghost could not be looked up.
\<close>

lemma managed_first_answer:
  assumes "b_managedNodeCache b n = None"
  shows "fst (IsManagedNode B n b) =
      (n = fst (GetBaseNodeID B b) \<or>
       (\<exists>g m. fw_GetExistingGhost (be_fw B) (b_world b) (MakeUserID n) = Inr (Some g) \<and>
              gh_UserMXID g = Some m \<and> m \<noteq> [])) \<and>
    b_managedNodeCache (snd (IsManagedNode B n b)) =
      (if n \<noteq> fst (GetBaseNodeID B b) \<and> (\<exists>e. fw_GetExistingGhost (be_fw B) (b_world b) (MakeUserID n) = Inl e)
       then b_managedNodeCache b else (b_managedNodeCache b)(n \<mapsto> fst (IsManagedNode B n b)))"
  using assms GetBaseNodeID_frame [of B b]
  by (cases "GetBaseNodeID B b")
    (auto simp: IsManagedNode_def cache_managed_def split: sum.splits option.splits)

lemma db_put_frame [simp]:
  "b_managedNodeCache (snd (db_put f b)) = b_managedNodeCache b" "b_panic (snd (db_put f b)) = b_panic b"
  "b_world (snd (db_put f b)) = b_world b" "b_mesh (snd (db_put f b)) = b_mesh b"
  by (simp_all add: db_put_def split: prod.split)

lemma on_mesh_frame [simp]:
  "b_managedNodeCache (snd (on_mesh B g b)) = b_managedNodeCache b" "b_panic (snd (on_mesh B g b)) = b_panic b"
  "b_world (snd (on_mesh B g b)) = b_world b" "b_db (snd (on_mesh B g b)) = b_db b"
  by (simp_all add: on_mesh_def split: prod.split)

lemma register_ghost_frame [simp]:
  "b_managedNodeCache (snd (register_ghost B u mxid lname b)) = b_managedNodeCache b"
  "b_db (snd (register_ghost B u mxid lname b)) = b_db b"
  by (simp_all add: register_ghost_def Let_def split: prod.split sum.split option.split)

lemma store_names_cache [simp]:
  "b_managedNodeCache (snd (store_names B n lname sname b)) = b_managedNodeCache b"
proof -
  have "b_managedNodeCache (snd (case db_put f b of (Some err, b) \<Rightarrow> (Some err, b) | (None, b) \<Rightarrow> on_mesh B g b)) =
      b_managedNodeCache b" for f and g :: "'a env \<Rightarrow> 'a client \<Rightarrow> go_error option \<times> 'a client"
    using db_put_frame(1) [of f b] by (cases "db_put f b") (auto split: option.split)
  then show ?thesis by (simp add: store_names_def split: sum.split)
qed

lemma UpdateGhostMeshNames_cache [simp]:
  "b_managedNodeCache (snd (UpdateGhostMeshNames B u mxid lname sname b)) = b_managedNodeCache b"
  using register_ghost_frame(1) [of B u mxid lname b]
  by (cases "register_ghost B u mxid lname b") (auto simp: UpdateGhostMeshNames_def split: sum.split)

lemma named_row_fields:
  assumes "named_row B n row lname sname = Inr m"
  shows "mn_LongName m = lname" "mn_ShortName m = sname"
    "mn_NodeID m = (case row of None \<Rightarrow> n | Some r \<Rightarrow> mn_NodeID r)"
    "mn_UserID m = (case row of None \<Rightarrow> NodeID_String n | Some r \<Rightarrow> mn_UserID r)"
    "mn_Role m = (case row of None \<Rightarrow> [] | Some r \<Rightarrow> mn_Role r)"
    "mn_IsLicensed m = (case row of None \<Rightarrow> False | Some r \<Rightarrow> mn_IsLicensed r)"
    "mn_IsUnmessagable m = (case row of None \<Rightarrow> False | Some r \<Rightarrow> mn_IsUnmessagable r)"
    "mn_IsManaged m = (case row of None \<Rightarrow> True | Some r \<Rightarrow> mn_IsManaged r)"
    "mn_IsDirect m = (case row of None \<Rightarrow> True | Some r \<Rightarrow> mn_IsDirect r)"
    "mn_LastSeen m = (case row of None \<Rightarrow> None | Some r \<Rightarrow> mn_LastSeen r)"
    "case row of
       Some r \<Rightarrow> if mn_PrivateKey r \<noteq> [] then mn_PrivateKey m = mn_PrivateKey r \<and> mn_PublicKey m = mn_PublicKey r
                else be_KeyPair B = Inr (mn_PublicKey m, mn_PrivateKey m)
     | None \<Rightarrow> be_KeyPair B = Inr (mn_PublicKey m, mn_PrivateKey m)"
  using assms
  by (auto simp: named_row_def Let_def newMeshNodeInfo_def split: option.splits sum.splits if_splits)

lemma UpdateGhostMeshNames_row:
  assumes "UpdateGhostMeshNames B (MakeUserID n) mxid lname sname b = (None, b')" "db_absent_nil (be_dbms B)"
  obtains m b2 where "look_node (b_db b') n = Some (node_row m)" "\<forall>k. k \<noteq> n \<longrightarrow> look_node (b_db b') k = look_node (b_db b) k"
    "named_row B n (look_node (b_db b) n) lname sname = Inr m"
    "on_mesh B (\<lambda>E. SendNodeInfo E n BROADCAST_ID lname sname False (mn_PublicKey m)) b2 = (None, b')"
proof -
  obtain x b1 where reg: "register_ghost B (MakeUserID n) mxid lname b = (x, b1)" by fastforce
  have x: "x = Inr n" and st: "store_names B n lname sname b1 = (None, b')"
    using assms(1) reg by (auto simp: UpdateGhostMeshNames_def register_ghost_def Let_def
        split: if_splits sum.splits prod.splits)
  have db1: "b_db b1 = b_db b" using register_ghost_frame(2) [of B "MakeUserID n" mxid lname b] reg by simp
  obtain row m b2 where row: "db_get B n b1 = Inr row" and m: "named_row B n row lname sname = Inr m"
    and put: "db_put (node_SetAll (be_dbms B) m) b1 = (None, b2)"
    and sent: "on_mesh B (\<lambda>E. SendNodeInfo E n BROADCAST_ID lname sname False (mn_PublicKey m)) b2 = (None, b')"
    using st by (auto simp: store_names_def split: sum.splits prod.splits option.splits)
  have row': "row = look_node (b_db b) n"
    using row assms(2) by (auto simp: db_get_def GetByNodeID_look QueryOne_def query_def db1 split: option.splits)
  have "mn_NodeID r = n" if "row = Some r" for r
    using that row' by (auto simp: look_node_def find_Some_iff)
  then have key: "mn_NodeID m = n"
    using named_row_fields(3) [OF m] by (simp split: option.splits)
  have "node_SetAll (be_dbms B) m (b_db b) = (None, b_db b2)"
    using put by (auto simp: db_put_def db1 split: prod.splits)
  moreover have "b_db b' = b_db b2" using sent by (auto simp: on_mesh_def split: prod.splits)
  ultimately have "look_node (b_db b') k = (if k = n then Some (node_row m) else look_node (b_db b) k)" for k
    using nodes.store_look_iff [of "be_dbms B" m "b_db b" "b_db b2"] key by simp
  then show thesis using that m sent unfolding row' by simp
qed

text \<open>
  C19: what registering the names of a node stores, where the row helper gives nil for a node
  without a row.  A row that was there keeps every field but the names (its time to the second),
  and its keys where it has a private one; a new row is of a managed direct node with the text
  identifier of its number, without a role, marks or a time.  Where there was no private key, both
  keys are of the pair that was generated.  The rows of other nodes stay as they are.
\<close>

theorem names_registered:
  assumes "UpdateGhostMeshNames B (MakeUserID n) mxid lname sname b = (None, b')" "db_absent_nil (be_dbms B)"
  shows "\<exists>pub priv.
     look_node (b_db b') n = Some
       (case look_node (b_db b) n of
          Some r0 \<Rightarrow>
            \<lparr>mn_NodeID = mn_NodeID r0, mn_UserID = mn_UserID r0, mn_LongName = lname, mn_ShortName = sname,
             mn_Role = mn_Role r0, mn_IsLicensed = mn_IsLicensed r0, mn_IsUnmessagable = mn_IsUnmessagable r0,
             mn_IsManaged = mn_IsManaged r0, mn_IsDirect = mn_IsDirect r0, mn_PublicKey = pub, mn_PrivateKey = priv,
             mn_LastSeen = map_option to_second (mn_LastSeen r0)\<rparr>
        | None \<Rightarrow>
            \<lparr>mn_NodeID = n, mn_UserID = ''!'' @ Sprintf_08x n, mn_LongName = lname, mn_ShortName = sname, mn_Role = [],
             mn_IsLicensed = False, mn_IsUnmessagable = False, mn_IsManaged = True, mn_IsDirect = True,
             mn_PublicKey = pub, mn_PrivateKey = priv, mn_LastSeen = None\<rparr>) \<and>
     (case look_node (b_db b) n of
        Some r0 \<Rightarrow> if mn_PrivateKey r0 \<noteq> [] then pub = mn_PublicKey r0 \<and> priv = mn_PrivateKey r0
                   else be_KeyPair B = Inr (pub, priv)
      | None \<Rightarrow> be_KeyPair B = Inr (pub, priv)) \<and>
     (\<forall>k. k \<noteq> n \<longrightarrow> look_node (b_db b') k = look_node (b_db b) k)"
proof -
  obtain m where look: "look_node (b_db b') n = Some (node_row m)"
    and other: "\<forall>k. k \<noteq> n \<longrightarrow> look_node (b_db b') k = look_node (b_db b) k"
    and m: "named_row B n (look_node (b_db b) n) lname sname = Inr m"
    by (rule UpdateGhostMeshNames_row [OF assms])
  show ?thesis
    by (intro exI [of _ "mn_PublicKey m"] exI [of _ "mn_PrivateKey m"], cases "look_node (b_db b) n")
      (use look other named_row_fields [OF m] in \<open>simp_all add: node_row_def NodeID_String_def\<close>)
qed

lemma sample_SendNodeInfo:
  "m 3 \<Longrightarrow>
   fst (SendNodeInfo (sample_env\<lparr>e_managed := m, e_pubKeyRequest := p, e_privKeyRequest := q, e_neighborProvider := r\<rparr>)
          3 BROADCAST_ID ''Alice'' ''A'' False pk sample_client) = None"
  by (simp add: SendNodeInfo_def sendProtoMessage_def sendBytes_def generatePacketId_def randUint32_def
      encrypt_packet_def deliver_def data_of_def packet_header_def primary_def join_errors_def
      sample_defs Let_def PacketInfo0_def)

lemma sample_mesh_env:
  "mesh_env sample_benv b =
     sample_env\<lparr>e_managed := \<lambda>n. fst (IsManagedNode sample_benv n b),
       e_pubKeyRequest := Some (\<lambda>n. key_text (fst (getGhostPublicKey sample_benv n b))),
       e_privKeyRequest := Some (\<lambda>n. key_text (fst (getGhostPrivateKey sample_benv n b))),
       e_neighborProvider := Some (\<lambda>n. neighbor_ids sample_benv b)\<rparr>"
  by (simp add: mesh_env_def sample_benv_def)

text \<open>The sample bridge once the names of node 3 are stored, before they are announced.\<close>

definition sample_row :: MeshNodeInfo where
  "sample_row = newMeshNodeInfo\<lparr>mn_NodeID := 3, mn_UserID := NodeID_String 3, mn_IsManaged := True, mn_IsDirect := True,
      mn_PublicKey := ''pub'', mn_PrivateKey := ''priv'', mn_LongName := ''Alice'', mn_ShortName := ''A''\<rparr>"

definition sample_registered :: "(sample_cache, ghost list) bridge" where
  "sample_registered = sample_bridge
     \<lparr>b_world := [\<lparr>gh_ID = MakeUserID 3, gh_Name = ''Alice'', gh_NameSet = True, gh_UserMXID = Some ''@a:b''\<rparr>],
      b_db := \<lparr>db_nodes = [node_row sample_row], db_waypoints = []\<rparr>\<rparr>"

lemma sample_names_stored:
  assumes "be_fw B = sample_framework" "be_dbms B = sample_dbms" "be_KeyPair B = Inr (''pub'', ''priv'')"
  shows "UpdateGhostMeshNames B (MakeUserID 3) ''@a:b'' ''Alice'' ''A'' sample_bridge =
      on_mesh B (\<lambda>E. SendNodeInfo E 3 BROADCAST_ID ''Alice'' ''A'' False ''pub'') sample_registered"
    "e_managed (mesh_env B sample_registered) 3"
proof -
  let ?g = "\<lparr>gh_ID = MakeUserID 3, gh_Name = ''Alice'', gh_NameSet = True, gh_UserMXID = Some ''@a:b''\<rparr>"
  let ?b1 = "sample_bridge\<lparr>b_world := [?g]\<rparr>"
  have "register_ghost B (MakeUserID 3) ''@a:b'' ''Alice'' sample_bridge = (Inr 3, ?b1)"
    by (simp add: register_ghost_def assms sample_framework_def sample_find_ghost_def sample_bridge_def
        updateGhostSenderID_def Let_def)
  moreover have "db_put (node_SetAll sample_dbms sample_row) ?b1 = (None, sample_registered)"
    by (simp add: db_put_def node_SetAll_def put_node_def exec_def upsert_def node_constraints_def node_row_def
        node_id_ok_def newMeshNodeInfo_def BROADCAST_ID_def NodeID_String_def sample_dbms_def sample_bridge_def
        sample_row_def sample_registered_def)
  moreover have "db_get B 3 ?b1 = Inr None"
    by (simp add: db_get_def GetByNodeID_def QueryOne_def query_def assms sample_dbms_def sample_bridge_def)
  moreover have "named_row B 3 None ''Alice'' ''A'' = Inr sample_row" "mn_PublicKey sample_row = ''pub''"
    by (simp_all add: named_row_def assms newMeshNodeInfo_def sample_row_def Let_def)
  ultimately show "UpdateGhostMeshNames B (MakeUserID 3) ''@a:b'' ''Alice'' ''A'' sample_bridge =
      on_mesh B (\<lambda>E. SendNodeInfo E 3 BROADCAST_ID ''Alice'' ''A'' False ''pub'') sample_registered"
    by (simp add: UpdateGhostMeshNames_def store_names_def assms)
  show "e_managed (mesh_env B sample_registered) 3"
    by (simp add: mesh_env_def IsManagedNode_def cache_managed_def GetBaseNodeID_def assms sample_framework_def
        sample_find_ghost_def sample_bridge_def sample_registered_def)
qed

theorem names_registered_witness:
  "\<exists>b' r. UpdateGhostMeshNames sample_benv (MakeUserID 3) ''@a:b'' ''Alice'' ''A'' sample_bridge = (None, b') \<and>
     look_node (b_db b') 3 = Some r \<and> mn_LongName r = ''Alice'' \<and> mn_IsManaged r \<and> mn_PublicKey r = ''pub''"
proof -
  have B: "be_fw sample_benv = sample_framework" "be_dbms sample_benv = sample_dbms"
    "be_KeyPair sample_benv = Inr (''pub'', ''priv'')"
    by (simp_all add: sample_benv_def)
  note st = sample_names_stored [OF B]
  have "b_mesh sample_registered = sample_client" by (simp add: sample_registered_def sample_bridge_def)
  then have "fst (on_mesh sample_benv (\<lambda>E. SendNodeInfo E 3 BROADCAST_ID ''Alice'' ''A'' False ''pub'') sample_registered) = None"
    using st(2) unfolding on_mesh_def sample_mesh_env
    by (simp add: case_prod_beta Let_def sample_SendNodeInfo)
  then obtain b' where
    r: "UpdateGhostMeshNames sample_benv (MakeUserID 3) ''@a:b'' ''Alice'' ''A'' sample_bridge = (None, b')"
    unfolding st(1) by (metis prod.collapse)
  show ?thesis
    using names_registered [OF r] r
    by (auto simp: sample_benv_def sample_dbms_def sample_bridge_def look_node_def)
qed

text \<open>
  Two faults of the key lookup.  Asked for the private key of a managed node that has none,
  the bridge generates a pair, stores it, and hands out the public key in place of the private
  one.  And where the query helper answers nil for a node that is not in the table, looking up
  either key of such a node dereferences nil.
\<close>

lemma ghost_key_faults:
  assumes "db_fault (be_dbms B) = None" "db_absent_nil (be_dbms B)"
  shows "(look_node (b_db b) n = None \<longrightarrow>
            fst (getGhostPublicKey B n b) = Panic \<and> fst (getGhostPrivateKey B n b) = Panic) \<and>
         (look_node (b_db b) n = Some r \<and> mn_IsManaged r \<and> mn_PrivateKey r = [] \<and> be_KeyPair B = Inr (pub, priv) \<and>
          node_SetAll (be_dbms B) (r\<lparr>mn_PublicKey := pub, mn_PrivateKey := priv\<rparr>) (b_db b) = (None, d) \<longrightarrow>
            getGhostPrivateKey B n b = (Ok pub, b\<lparr>b_db := d\<rparr>) \<and>
            (\<exists>r'. look_node d n = Some r' \<and> mn_PrivateKey r' = priv))"
proof -
  have "mn_NodeID r = n" if "look_node (b_db b) n = Some r" using that by (auto simp: look_node_def find_Some_iff)
  then show ?thesis
    using assms nodes.store_look [of "be_dbms B" "r\<lparr>mn_PublicKey := pub, mn_PrivateKey := priv\<rparr>" "b_db b" d]
    by (auto simp: getGhostPublicKey_def getGhostPrivateKey_def generate_keys_def db_get_def db_put_def
        GetByNodeID_look QueryOne_def query_def node_row_def)
qed

end
