(* ===== verification/Bridge_Traceroute.thy ===== *)
theory Bridge_Traceroute
  imports Bridge_Core
begin

text \<open>
  Traceroutes on the Matrix side, \<^verbatim>\<open>pkg/connector/traceroute.go\<close>: pending requests with their
  rate limit, and the answer shown in the room the request came from.
\<close>

section \<open>Tracker\<close>

definition TracerouteTimeout :: duration where "TracerouteTimeout = 30 * Second"
definition TracerouteResponseTimeout :: duration where "TracerouteResponseTimeout = 60 * Second"

definition CanSendTraceroute :: "TracerouteTracker \<Rightarrow> NodeID \<Rightarrow> NodeID \<Rightarrow> gotime \<Rightarrow> bool \<times> duration" where
  "CanSendTraceroute t src dst now =
     (case lastTraceroute t (src, dst) of
        Some lastTime \<Rightarrow>
          let elapsed = now - lastTime
          in if elapsed < TracerouteTimeout then (False, TracerouteTimeout - elapsed) else (True, 0)
      | None \<Rightarrow> (True, 0))"

definition AddRequest :: "TracerouteRequest \<Rightarrow> TracerouteTracker \<Rightarrow> TracerouteTracker" where
  "AddRequest req t =
     t\<lparr>lastTraceroute := (lastTraceroute t)((tr_FromNode req, tr_TargetNode req) \<mapsto> tr_Timestamp req),
       pendingRequests := (pendingRequests t)(tr_PacketID req \<mapsto> req)\<rparr>"

definition GetAndRemoveRequest ::
  "32 word \<Rightarrow> TracerouteTracker \<Rightarrow> TracerouteRequest option \<times> TracerouteTracker" where
  "GetAndRemoveRequest packetID t =
     (pendingRequests t packetID, t\<lparr>pendingRequests := (pendingRequests t)(packetID := None)\<rparr>)"

definition CleanupExpired :: "gotime \<Rightarrow> TracerouteTracker \<Rightarrow> TracerouteTracker" where
  "CleanupExpired now t =
     t\<lparr>pendingRequests := (\<lambda>p. case pendingRequests t p of
          Some req \<Rightarrow> if now - tr_Timestamp req > TracerouteResponseTimeout then None else Some req
        | None \<Rightarrow> None),
       lastTraceroute := (\<lambda>k. case lastTraceroute t k of
          Some lastTime \<Rightarrow> if now - lastTime > TracerouteTimeout * 2 then None else Some lastTime
        | None \<Rightarrow> None)\<rparr>"

section \<open>Formatting\<close>

text \<open>
  \<^verbatim>\<open>%.2f\<close> of a \<^verbatim>\<open>float32\<close>: the value rounded to hundredths, ties to even.
\<close>

definition Sprintf_2f :: "gofloat \<Rightarrow> string" where
  "Sprintf_2f x =
     (case x of
        NaN \<Rightarrow> ''NaN'' | PosInf \<Rightarrow> ''+Inf'' | NegInf \<Rightarrow> ''-Inf''
      | Fin r \<Rightarrow>
          (let h = round_half_even (\<bar>r\<bar> * 100); f = h mod 100
           in (if r < 0 then ''-'' else []) @ Itoa (h div 100) @ ''.'' @
              (if f < 10 then ''0'' else []) @ Itoa f))"

definition snr_text :: "32 word \<Rightarrow> string" where
  "snr_text s = Sprintf_2f (float32_mul (float32_of_int (sint s)) (Fin (1 / 4)))"

definition nl :: string where "nl = [CHR 0x0A]"
definition down_arrow :: string where "down_arrow = [CHR 0xE2, CHR 0x86, CHR 0x93]"

definition getNodeDisplayName :: "('c, 'w) benv \<Rightarrow> ('c, 'w) bridge \<Rightarrow> NodeID \<Rightarrow> string" where
  "getNodeDisplayName B b nodeID =
     (case db_get B nodeID b of
        Inl err \<Rightarrow> NodeID_String nodeID
      | Inr None \<Rightarrow> NodeID_String nodeID
      | Inr (Some nodeInfo) \<Rightarrow>
          if mn_LongName nodeInfo = [] then NodeID_String nodeID
          else mn_LongName nodeInfo @ '' ('' @ mn_ShortName nodeInfo @ '')'')"

definition hop_snr :: "32 word list \<Rightarrow> nat \<Rightarrow> string" where
  "hop_snr snrs i = (if i < length snrs \<and> snrs ! i \<noteq> SNR_unknown then snr_text (snrs ! i) else ''?'')"

definition last_snr :: "32 word list \<Rightarrow> string" where
  "last_snr snrs =
     (if snrs \<noteq> [] \<and> snrs ! (length snrs - 1) \<noteq> SNR_unknown then snr_text (snrs ! (length snrs - 1)) else ''?'')"

text \<open>The line \<^verbatim>\<open>logRoute\<close> of the mesh client writes for a request, with the same signal texts.\<close>

definition hex_text :: "32 word \<Rightarrow> string" where
  "hex_text w = ''0x'' @ map digit_char (digits 16 (unat w))"

definition logRoute :: "RouteDiscovery \<Rightarrow> 32 word \<Rightarrow> 32 word \<Rightarrow> string" where
  "logRoute r origin dest =
     hex_text origin @ '' --> '' @
     concat (map (\<lambda>i. hex_text (Route r ! i) @ '' ('' @ hop_snr (SnrTowards r) i @ ''dB) --> '') [0..<length (Route r)]) @
     hex_text dest @ '' ('' @ last_snr (SnrTowards r) @ ''dB)''"

definition route_hops :: "(NodeID \<Rightarrow> string) \<Rightarrow> string \<Rightarrow> 32 word list \<Rightarrow> 32 word list \<Rightarrow> string" where
  "route_hops name lead route snrs =
     concat (map (\<lambda>i. lead @ down_arrow @ '' '' @ hop_snr snrs i @ '' dB'' @ nl @
                      ''&nbsp;&nbsp;'' @ name (route ! i) @ nl) [0..<length route])"

definition formatTracerouteResponse ::
  "(NodeID \<Rightarrow> string) \<Rightarrow> MeshTracerouteEvent \<Rightarrow> TracerouteRequest \<Rightarrow> string" where
  "formatTracerouteResponse name evt req =
     ''**Traceroute to '' @ NodeID_String (tr_TargetNode req) @ ''**'' @ nl @
     ''**Route:**'' @ nl @
     ''&nbsp;&nbsp;'' @ name (tr_FromNode req) @ nl @
     route_hops name ''&nbsp;&nbsp;&nbsp'' (ev_Route evt) (ev_SnrTowards evt) @
     ''&nbsp;&nbsp;&nbsp;'' @ down_arrow @ '' '' @ last_snr (ev_SnrTowards evt) @ '' dB'' @ nl @
     ''&nbsp;&nbsp;'' @ name (tr_TargetNode req) @ nl @
     (if ev_RouteBack evt = [] then []
      else
        nl @ ''**Return Route:**'' @ nl @
        ''&nbsp;&nbsp;'' @ name (tr_TargetNode req) @ nl @
        route_hops name ''&nbsp;&nbsp;&nbsp;'' (ev_RouteBack evt) (ev_SnrBack evt) @
        ''&nbsp;&nbsp;&nbsp;'' @ down_arrow @ '' '' @ last_snr (ev_SnrBack evt) @ '' dB'' @ nl @
        ''&nbsp;&nbsp;'' @ name (tr_FromNode req) @ nl)"

definition sendNoticeToRoom :: "string \<Rightarrow> string \<Rightarrow> ('c, 'w) bridge \<Rightarrow> ('c, 'w) bridge" where
  "sendNoticeToRoom roomID message b = b\<lparr>b_notices := b_notices b @ [(roomID, message)]\<rparr>"

definition handleMeshTraceroute ::
  "('c, 'w) benv \<Rightarrow> MeshTracerouteEvent \<Rightarrow> ('c, 'w) bridge \<Rightarrow> ('c, 'w) bridge" where
  "handleMeshTraceroute B evt b =
     (let (req, t) = GetAndRemoveRequest (ev_RequestId evt) (b_tracker b); b = b\<lparr>b_tracker := t\<rparr> in
      case req of
        None \<Rightarrow> b
      | Some req \<Rightarrow>
          sendNoticeToRoom (tr_RoomID req)
            (formatTracerouteResponse (getNodeDisplayName B b) evt req) b)"

section \<open>Properties\<close>

text \<open>
  The tracker as a rate limiter: a request is granted when it may be sent, and is then recorded.
  This is what the command does when no other command for the same pair runs between its check and
  its record, which it makes after the send, with a clock reading of its own; here both are one
  step with one reading.  \<open>req\<close> builds the request that is recorded.
\<close>

definition trace_ask ::
  "(NodeID \<times> NodeID \<Rightarrow> gotime \<Rightarrow> TracerouteRequest) \<Rightarrow> TracerouteTracker \<Rightarrow> NodeID \<times> NodeID \<Rightarrow> gotime
   \<Rightarrow> bool \<times> TracerouteTracker" where
  "trace_ask req t k now =
     (if fst (CanSendTraceroute t (fst k) (snd k) now)
      then (True, AddRequest ((req k now)\<lparr>tr_FromNode := fst k, tr_TargetNode := snd k, tr_Timestamp := now\<rparr>) t)
      else (False, t))"

text \<open>With two readings: a record blocks every check made less than thirty seconds after it.\<close>

lemma recorded_blocks:
  "fst (CanSendTraceroute (AddRequest req t) (tr_FromNode req) (tr_TargetNode req) now) \<longleftrightarrow>
     30 * Second \<le> now - tr_Timestamp req"
  by (auto simp: CanSendTraceroute_def AddRequest_def TracerouteTimeout_def Let_def)

interpretation trace_limit: rate_limiter "trace_ask req" lastTraceroute "\<lambda>_. TracerouteTimeout" for req
  by unfold_locales (auto simp: trace_ask_def CanSendTraceroute_def AddRequest_def Let_def split: option.splits)

text \<open>
  C30: over any sequence of traceroute commands, one after the other, with a clock that never goes
  back, two requests that go out for the same pair of nodes are at least thirty seconds apart.
\<close>

theorem traceroutes_spaced:
  assumes "sorted (map snd rs)"
    and "grants (trace_ask req) t rs = xs @ (k, t1) # ys" and "(k, t2) \<in> set ys"
  shows "30 * Second \<le> t2 - t1"
  using trace_limit.grants_spaced [OF assms] by (simp add: TracerouteTimeout_def)

definition sample_request :: "NodeID \<times> NodeID \<Rightarrow> gotime \<Rightarrow> TracerouteRequest" where
  "sample_request k now = \<lparr>tr_PacketID = 9, tr_FromNode = fst k, tr_TargetNode = snd k,
     tr_RoomID = ''!room'', tr_Timestamp = now, tr_Channel = None\<rparr>"

theorem traceroutes_spaced_witness:
  "30 * Second \<le> 31 * Second - (0 :: gotime)"
proof (rule traceroutes_spaced)
  show "sorted (map snd [((3, 20) :: NodeID \<times> NodeID, 0), ((3, 20), 10 * Second), ((3, 20), 31 * Second)])"
    by (simp add: duration_defs)
  show "grants (trace_ask sample_request) NewTracerouteTracker
      [((3, 20), 0), ((3, 20), 10 * Second), ((3, 20), 31 * Second)] = [] @ ((3, 20), 0) # [((3, 20), 31 * Second)]"
    by (simp add: trace_ask_def CanSendTraceroute_def AddRequest_def NewTracerouteTracker_def
        TracerouteTimeout_def duration_defs)
  show "((3, 20), 31 * Second) \<in> set [((3, 20) :: NodeID \<times> NodeID, 31 * Second)]" by simp
qed

text \<open>
  Cleaning up is invisible to the rate limit: the answer and the waiting time for any pair of
  nodes, then and later, are the same with and without it.
\<close>

lemma cleanup_keeps_limit:
  assumes "now \<le> later"
  shows "CanSendTraceroute (CleanupExpired now t) src dst later = CanSendTraceroute t src dst later"
  using assms
  by (auto simp: CanSendTraceroute_def CleanupExpired_def TracerouteTimeout_def duration_defs Let_def
      split: option.splits)

definition sample_envelope :: MeshEvent where
  "sample_envelope =
     \<lparr>ev_ChannelName = ''LongFast'', ev_ChannelKey = None, ev_From = 20, ev_To = 3, ev_Via = 0,
      ev_Timestamp = 5, ev_PacketId = 77, ev_WantAck = False, ev_WantResponse = False, ev_IsNeighbor = True\<rparr>"

end
