(* ===== verification/Bridge_Events.thy ===== *)
theory Bridge_Events
  imports Bridge_Traceroute "HOL-Library.AList"
begin

text \<open>
  Events from the mesh on the bridge's side: \<^verbatim>\<open>pkg/connector/handle_meshtastic.go\<close>, with the
  helpers of \<^verbatim>\<open>client.go\<close> and \<^verbatim>\<open>chatinfo.go\<close> it uses.  Handlers of the connector are shared;
  handlers of a user's client take the user's login.
\<close>

section \<open>Logins, portals and chats\<close>

definition makePortalKey :: "('c, 'w) benv \<Rightarrow> login \<Rightarrow> string \<Rightarrow> string option \<Rightarrow> PortalKey" where
  "makePortalKey B l channelID channelKey =
     \<lparr>pk_ID = MakePortalID channelID channelKey,
      pk_Receiver = (if fw_SplitPortals (be_fw B) then ul_ID l else [])\<rparr>"

definition makeDMPortalKey :: "login \<Rightarrow> NodeID \<Rightarrow> NodeID \<Rightarrow> PortalKey" where
  "makeDMPortalKey l remote synth = \<lparr>pk_ID = MakeDMPortalID remote synth, pk_Receiver = ul_ID l\<rparr>"

definition makeEventSender :: "login \<Rightarrow> NodeID \<Rightarrow> EventSender" where
  "makeEventSender l sender =
     \<lparr>es_IsFromMe = (ul_NodeID l = sender), es_Sender = MakeUserID sender,
      es_SenderLogin = MakeUserLoginID sender\<rparr>"

definition IsThisUser :: "login \<Rightarrow> string \<Rightarrow> bool" where
  "IsThisUser l userID \<longleftrightarrow> MakeUserID (ul_NodeID l) = userID"

definition setDMNames :: "('c, 'w) benv \<Rightarrow> ('c, 'w) bridge \<Rightarrow> ghost \<Rightarrow> ChatInfo \<Rightarrow> ChatInfo" where
  "setDMNames B b ghost info =
     (if gh_Name ghost = [] then info
      else
        let info = info\<lparr>ci_Name := Some (gh_Name ghost)\<rparr> in
        case ParseUserID (gh_ID ghost) of
          (_, Some err) \<Rightarrow> info
        | (nodeID, None) \<Rightarrow>
            (case db_get B nodeID b of
               Inr (Some nodeInfo) \<Rightarrow>
                 info\<lparr>ci_Name := Some (mn_LongName nodeInfo @ '' ('' @ mn_ShortName nodeInfo @ '')'')\<rparr>
             | _ \<Rightarrow> info))"

definition emptyChatInfo :: ChatInfo where
  "emptyChatInfo =
     \<lparr>ci_Name = None, ci_Topic = None, ci_Type = None, ci_IsFull = False, ci_TotalMemberCount = 0,
      ci_OtherUserID = [], ci_Members = []\<rparr>"

definition wrapDMInfo :: "('c, 'w) benv \<Rightarrow> login \<Rightarrow> ('c, 'w) bridge \<Rightarrow> NodeID \<Rightarrow> NodeID \<Rightarrow> ChatInfo" where
  "wrapDMInfo B l b synthNode remoteNode =
     (let info = \<lparr>ci_Name = None, ci_Topic = Some (''Meshtastic node '' @ NodeID_String remoteNode),
                  ci_Type = Some RoomTypeDM, ci_IsFull = True, ci_TotalMemberCount = 2,
                  ci_OtherUserID = MakeUserID remoteNode,
                  ci_Members = AList.update (MakeUserID synthNode) (makeEventSender l synthNode)
                     [(MakeUserID remoteNode, makeEventSender l remoteNode)]\<rparr>
      in case fw_GetExistingGhost (be_fw B) (b_world b) (MakeUserID remoteNode) of
           Inr (Some ghost) \<Rightarrow> setDMNames B b ghost info
         | _ \<Rightarrow> info)"

text \<open>The UTF-8 bytes of the warning sign and of the open lock.\<close>

definition warning_sign :: string where
  "warning_sign = [CHR 0xE2, CHR 0x9A, CHR 0xA0, CHR 0xEF, CHR 0xB8, CHR 0x8F]"

definition open_lock :: string where
  "open_lock = [CHR 0xF0, CHR 0x9F, CHR 0x94, CHR 0x93]"

definition wrapChatInfo :: "string option \<Rightarrow> string \<Rightarrow> string \<Rightarrow> ChatInfo" where
  "wrapChatInfo userMXID channelID channelKey =
     (let members = (case userMXID of
            None \<Rightarrow> []
          | Some mxid \<Rightarrow>
              let nodeID = MXIDToNodeID mxid in
              [(MakeUserID nodeID, \<lparr>es_IsFromMe = False, es_Sender = MakeUserID nodeID,
                                    es_SenderLogin = MakeUserLoginID nodeID\<rparr>)])
      in emptyChatInfo
           \<lparr>ci_Name := Some (if channelKey = [] then channelID @ '' '' @ open_lock else channelID),
            ci_Topic := Some (if channelKey = [] then ''Shared Key: '' @ channelKey
                              else warning_sign @ '' Unencrypted''),
            ci_Type := Some RoomTypeDefault, ci_Members := members\<rparr>)"

definition GetChatInfo ::
  "('c, 'w) benv \<Rightarrow> login \<Rightarrow> ('c, 'w) bridge \<Rightarrow> string \<Rightarrow> go_error + (RoomType \<times> ChatInfo)" where
  "GetChatInfo B l b portalID =
     (case ParseDMPortalID portalID of
        ((remoteNode, synthNode), None) \<Rightarrow> Inr (RoomTypeDM, wrapDMInfo B l b synthNode remoteNode)
      | (_, Some err1) \<Rightarrow>
          (case ParsePortalID portalID of
             ((channelName, channelKey), None) \<Rightarrow>
               Inr (RoomTypeDefault, wrapChatInfo None channelName channelKey)
           | (_, Some err2) \<Rightarrow> Inl (Joined [err1, err2])))"

definition GetUserInfo :: "('c, 'w) benv \<Rightarrow> ('c, 'w) bridge \<Rightarrow> string \<Rightarrow> go_error + string" where
  "GetUserInfo B b ghostID =
     (case ParseUserID ghostID of
        (_, Some err) \<Rightarrow> Inl err
      | (nodeID, None) \<Rightarrow>
          (case db_get B nodeID b of
             Inl err \<Rightarrow> Inl err
           | Inr (Some nodeInfo) \<Rightarrow>
               if mn_LongName nodeInfo \<noteq> [] then Inr (mn_LongName nodeInfo)
               else Inr (fst (GetDefaultNodeNames nodeID))
           | Inr None \<Rightarrow> Inr (fst (GetDefaultNodeNames nodeID))))"

section \<open>Ghosts\<close>

definition requestGhostNodeInfo :: "('c, 'w) benv \<Rightarrow> string \<Rightarrow> ('c, 'w) bridge \<Rightarrow> ('c, 'w) bridge" where
  "requestGhostNodeInfo B ghostID b =
     (case ParseUserID ghostID of
        (_, Some err) \<Rightarrow> b
      | (nodeID, None) \<Rightarrow>
          let (base, b) = GetBaseNodeID B b; (key, b) = getGhostPublicKey B base b in
          case key of
            Panic \<Rightarrow> b
          | _ \<Rightarrow>
              snd (on_mesh B (\<lambda>E. SendNodeInfo E base nodeID (cfg_LongName (be_cfg B))
                     (cfg_ShortName (be_cfg B)) True (case key of Ok k \<Rightarrow> k | _ \<Rightarrow> [])) b))"

definition getRemoteGhost ::
  "('c, 'w) benv \<Rightarrow> string \<Rightarrow> bool \<Rightarrow> ('c, 'w) bridge \<Rightarrow> (go_error + ghost) \<times> ('c, 'w) bridge" where
  "getRemoteGhost B ghostID requestInfoIfNew b =
     (let get = (\<lambda>b. let (g, w) = fw_GetGhost (be_fw B) (b_world b) ghostID in (g, b\<lparr>b_world := w\<rparr>)) in
      if \<not> requestInfoIfNew then get b
      else case fw_GetExistingGhost (be_fw B) (b_world b) ghostID of
             Inl err \<Rightarrow> (Inl err, b)
           | Inr (Some ghost) \<Rightarrow> (Inr ghost, b)
           | Inr None \<Rightarrow> get (b\<lparr>b_spawned := b_spawned b @ [ghostID]\<rparr>))"

definition set_last_seen :: "('c, 'w) benv \<Rightarrow> NodeID \<Rightarrow> bool \<Rightarrow> ('c, 'w) bridge \<Rightarrow> ('c, 'w) bridge" where
  "set_last_seen B n isDirect b = snd (db_put (SetLastSeen (be_dbms B) (be_now B) n isDirect) b)"

section \<open>Events of the connector\<close>

definition handleUnknownPacket :: "('c, 'w) benv \<Rightarrow> MeshEvent \<Rightarrow> ('c, 'w) bridge \<Rightarrow> ('c, 'w) bridge" where
  "handleUnknownPacket B evt b =
     set_last_seen B (ev_From evt) (ev_IsNeighbor evt)
       (snd (getRemoteGhost B (MakeUserID (ev_From evt)) True b))"

definition handleMeshLocation :: "('c, 'w) benv \<Rightarrow> MeshLocationEvent \<Rightarrow> ('c, 'w) bridge \<Rightarrow> ('c, 'w) bridge" where
  "handleMeshLocation B evt b =
     set_last_seen B (ev_From evt) (ev_IsNeighbor evt)
       (snd (getRemoteGhost B (MakeUserID (ev_From evt)) True b))"

definition sendNodeInfo ::
  "('c, 'w) benv \<Rightarrow> NodeID \<Rightarrow> NodeID \<Rightarrow> bool \<Rightarrow> ('c, 'w) bridge \<Rightarrow> ('c, 'w) bridge" where
  "sendNodeInfo B fromNode toNode wantResponse b =
     (let (managed, b) = IsManagedNode B fromNode b in
      if \<not> managed then b
      else case db_get B fromNode b of
        Inl err \<Rightarrow> b
      | Inr nodeInfo \<Rightarrow>
          let (longName, shortName, pubKey) =
                (case nodeInfo of
                   Some r \<Rightarrow> (mn_LongName r, mn_ShortName r, mn_PublicKey r)
                 | None \<Rightarrow> (fst (GetDefaultNodeNames fromNode), snd (GetDefaultNodeNames fromNode), []));
              (base, b) = GetBaseNodeID B b;
              (longName, shortName) =
                (if fromNode = base then (cfg_LongName (be_cfg B), cfg_ShortName (be_cfg B))
                 else (longName, shortName))
          in snd (on_mesh B (\<lambda>E. SendNodeInfo E fromNode toNode longName shortName wantResponse pubKey) b))"

text \<open>
  \<^verbatim>\<open>loginsInPortal[0]\<close> is evaluated also when the list is empty, after an error has been logged.
\<close>

definition update_dm_portal ::
  "('c, 'w) benv \<Rightarrow> ghost \<Rightarrow> portal \<Rightarrow> ('c, 'w) bridge \<Rightarrow> ('c, 'w) bridge" where
  "update_dm_portal B ghost p b =
     (if b_panic b then b
      else
        let ci = setDMNames B b ghost emptyChatInfo;
            logins = (case fw_LoginsInPortal (be_fw B) (b_world b) (po_Key p) of Inl err \<Rightarrow> [] | Inr ls \<Rightarrow> ls)
        in case logins of
             [] \<Rightarrow> panic b
           | first # _ \<Rightarrow> b\<lparr>b_queued := b_queued b @ [(first, RemoteChatInfo (po_Key p) ci)]\<rparr>)"

definition updateDMPortalInfo :: "('c, 'w) benv \<Rightarrow> ghost \<Rightarrow> ('c, 'w) bridge \<Rightarrow> ('c, 'w) bridge" where
  "updateDMPortalInfo B ghost b =
     fold (update_dm_portal B ghost) (fst (fw_DMPortalsWith (be_fw B) (b_world b) (gh_ID ghost))) b"

text \<open>The common end of both handlers below: the ghost's name, and the names of its direct chats.\<close>

definition rename_ghost ::
  "('c, 'w) benv \<Rightarrow> ghost \<Rightarrow> string \<Rightarrow> bool \<Rightarrow> ('c, 'w) bridge \<Rightarrow> ('c, 'w) bridge" where
  "rename_ghost B ghost longName needUpdate b =
     (if longName = [] then b
      else
        let (ghost, w) = fw_UpdateInfo (be_fw B) ghost longName None (b_world b); b = b\<lparr>b_world := w\<rparr>
        in if needUpdate then updateDMPortalInfo B ghost b else b)"

definition known_or_new :: "('c, 'w) benv \<Rightarrow> NodeID \<Rightarrow> ('c, 'w) bridge \<Rightarrow> MeshNodeInfo" where
  "known_or_new B n b =
     (case db_get B n b of Inr (Some r) \<Rightarrow> r | _ \<Rightarrow> newMeshNodeInfo\<lparr>mn_NodeID := n\<rparr>)"

definition nodeInfo_changed :: "MeshNodeInfo \<Rightarrow> MeshNodeInfoEvent \<Rightarrow> bool" where
  "nodeInfo_changed mn evt \<longleftrightarrow>
     mn_UserID mn \<noteq> ev_UserID evt \<or> mn_LongName mn \<noteq> ev_LongName evt \<or>
     mn_ShortName mn \<noteq> ev_ShortName evt \<or> mn_PublicKey mn \<noteq> ev_PublicKey evt"

definition nodeInfo_update :: "MeshNodeInfo \<Rightarrow> MeshNodeInfoEvent \<Rightarrow> MeshNodeInfo" where
  "nodeInfo_update mn evt =
     (if nodeInfo_changed mn evt
      then mn\<lparr>mn_UserID := ev_UserID evt, mn_LongName := ev_LongName evt,
              mn_ShortName := ev_ShortName evt, mn_PublicKey := ev_PublicKey evt\<rparr>
      else mn)
     \<lparr>mn_Role := ev_Role evt, mn_IsDirect := ev_IsNeighbor evt, mn_IsLicensed := ev_IsLicensed evt,
      mn_IsUnmessagable := ev_IsUnmessagable evt,
      mn_LastSeen := Some (uint (ev_Timestamp evt) * Second)\<rparr>"

definition handleMeshNodeInfo ::
  "('c, 'w) benv \<Rightarrow> MeshNodeInfoEvent \<Rightarrow> ('c, 'w) bridge \<Rightarrow> ('c, 'w) bridge" where
  "handleMeshNodeInfo B evt b =
     (let (base, b) = GetBaseNodeID B b;
          (g, b) = getRemoteGhost B (MakeUserID (ev_From evt)) (ev_To evt \<noteq> base) b
      in case g of
           Inl err \<Rightarrow> b
         | Inr ghost \<Rightarrow>
             let b = (if ev_To evt \<noteq> BROADCAST_ID \<and> ev_WantResponse evt
                      then sendNodeInfo B (ev_To evt) (ev_From evt) False b else b);
                 mn = known_or_new B (ev_From evt) b;
                 b = snd (db_put (node_SetAll (be_dbms B) (nodeInfo_update mn evt)) b)
             in rename_ghost B ghost (ev_LongName evt) (nodeInfo_changed mn evt) b)"

definition mapReport_changed :: "MeshNodeInfo \<Rightarrow> MeshMapReportEvent \<Rightarrow> bool" where
  "mapReport_changed mn evt \<longleftrightarrow>
     mn_LongName mn \<noteq> ev_mr_LongName evt \<or> mn_ShortName mn \<noteq> ev_mr_ShortName evt"

definition mapReport_update :: "MeshNodeInfo \<Rightarrow> MeshMapReportEvent \<Rightarrow> MeshNodeInfo" where
  "mapReport_update mn evt =
     mn\<lparr>mn_UserID := (if mn_UserID mn = [] then NodeID_String (ev_From evt) else mn_UserID mn),
        mn_LongName := ev_mr_LongName evt, mn_ShortName := ev_mr_ShortName evt,
        mn_IsUnmessagable := (if mn_Role mn \<noteq> ev_mr_Role evt then ev_mr_IsUnmessagableRole evt
                              else mn_IsUnmessagable mn),
        mn_Role := ev_mr_Role evt, mn_IsDirect := ev_IsNeighbor evt,
        mn_LastSeen := Some (uint (ev_Timestamp evt) * Second)\<rparr>"

definition handleMapReport ::
  "('c, 'w) benv \<Rightarrow> MeshMapReportEvent \<Rightarrow> ('c, 'w) bridge \<Rightarrow> ('c, 'w) bridge" where
  "handleMapReport B evt b =
     (let (base, b) = GetBaseNodeID B b;
          (g, b) = getRemoteGhost B (MakeUserID (ev_From evt)) (ev_To evt \<noteq> base) b
      in case g of
           Inl err \<Rightarrow> b
         | Inr ghost \<Rightarrow>
             let b = (if ev_To evt \<noteq> BROADCAST_ID \<and> ev_WantResponse evt
                      then sendNodeInfo B (ev_To evt) (ev_From evt) False b else b);
                 mn = known_or_new B (ev_From evt) b;
                 b = snd (db_put (node_SetAll (be_dbms B) (mapReport_update mn evt)) b)
             in rename_ghost B ghost (ev_mr_LongName evt) (mapReport_changed mn evt) b)"

definition waypoint_update :: "WaypointInfo \<Rightarrow> MeshWaypointEvent \<Rightarrow> WaypointInfo" where
  "waypoint_update w evt =
     w\<lparr>wp_Name := ev_Name evt, wp_Description := ev_Description evt, wp_Icon := ev_Icon evt,
       wp_Expires := ev_Expires evt, wp_Latitude := ev_Latitude evt, wp_Longitude := ev_Longitude evt,
       wp_UpdatedBy := ev_From evt, wp_UpdatedDate := Some (uint (ev_Timestamp evt) * Second),
       wp_LockedTo := ev_LockedTo evt\<rparr>"

definition handleMeshWaypoint ::
  "('c, 'w) benv \<Rightarrow> MeshWaypointEvent \<Rightarrow> ('c, 'w) bridge \<Rightarrow> ('c, 'w) bridge" where
  "handleMeshWaypoint B evt b =
     (let b = set_last_seen B (ev_From evt) (ev_IsNeighbor evt) b in
      if ev_IsDelete evt then snd (db_put (DeleteByID (be_dbms B) (ev_WaypointID evt)) b)
      else case GetByWaypointID (be_dbms B) (ev_WaypointID evt) (b_db b) of
        Inl err \<Rightarrow> b
      | Inr waypoint \<Rightarrow>
          if (case waypoint of Some w \<Rightarrow> wp_LockedTo w \<noteq> None \<and> wp_LockedTo w \<noteq> Some (ev_From evt) | None \<Rightarrow> False)
          then b
          else
            let w = (case waypoint of Some w \<Rightarrow> w | None \<Rightarrow> newWaypoint\<lparr>wp_WaypointID := ev_WaypointID evt\<rparr>)
            in snd (db_put (waypoint_SetAll (be_dbms B) (waypoint_update w evt)) b))"

definition handleGlobalMeshEvent :: "('c, 'w) benv \<Rightarrow> event \<Rightarrow> ('c, 'w) bridge \<Rightarrow> ('c, 'w) bridge" where
  "handleGlobalMeshEvent B rawEvt b =
     (case rawEvt of
        NodeInfoEvent evt \<Rightarrow> handleMeshNodeInfo B evt b
      | MapReportEvent evt \<Rightarrow> handleMapReport B evt b
      | LocationEvent evt \<Rightarrow> handleMeshLocation B evt b
      | WaypointEvent evt \<Rightarrow> handleMeshWaypoint B evt b
      | TracerouteEvent evt \<Rightarrow> handleMeshTraceroute B evt b
      | EnvelopePtr evt \<Rightarrow> handleUnknownPacket B evt b
      | _ \<Rightarrow> b)"

section \<open>Events of a user's client\<close>

definition in_portal :: "('c, 'w) benv \<Rightarrow> login \<Rightarrow> PortalKey \<Rightarrow> ('c, 'w) bridge \<Rightarrow> bool" where
  "in_portal B l key b =
     (case fw_LoginsInPortal (be_fw B) (b_world b) key of
        Inl err \<Rightarrow> False
      | Inr logins \<Rightarrow> ul_ID l \<in> set logins)"

text \<open>
  The portal of a text event, the name its message identifier carries, and the acknowledgement
  sent for it.
\<close>

definition text_portal :: "('c, 'w) benv \<Rightarrow> login \<Rightarrow> MeshTextEvent \<Rightarrow> PortalKey" where
  "text_portal B l evt =
     (if ev_IsDM evt then makeDMPortalKey l (ev_From evt) (ev_To evt)
      else makePortalKey B l (ev_ChannelName evt) (ev_ChannelKey evt))"

definition text_sender :: "MeshTextEvent \<Rightarrow> string" where
  "text_sender evt = (if ev_IsDM evt then NodeID_String (ev_From evt) else ev_ChannelName evt)"

definition acknowledge :: "('c, 'w) benv \<Rightarrow> MeshTextEvent \<Rightarrow> ('c, 'w) bridge \<Rightarrow> ('c, 'w) bridge" where
  "acknowledge B evt b =
     (if \<not> ev_WantAck evt then b
      else if ev_IsDM evt then snd (on_mesh B (\<lambda>E. SendAck E (ev_To evt) (ev_From evt) (ev_PacketId evt)) b)
      else
        let (base, b) = GetBaseNodeID B b
        in snd (on_mesh B (\<lambda>E. SendAck E base (ev_From evt) (ev_PacketId evt)) b))"

definition handleMeshMessage ::
  "('c, 'w) benv \<Rightarrow> login \<Rightarrow> MeshTextEvent \<Rightarrow> ('c, 'w) bridge \<Rightarrow> ('c, 'w) bridge" where
  "handleMeshMessage B l evt b =
     (if ev_IsDM evt \<and> ul_NodeID l \<noteq> ev_To evt then b
      else
        let b = snd (getRemoteGhost B (MakeUserID (ev_From evt)) True b);
            key = text_portal B l evt;
            b = acknowledge B evt b
        in if \<not> ev_IsDM evt \<and> \<not> in_portal B l key b then b
           else
             let msg = RemoteMessage key (if ev_IsDM evt then RoomTypeDM else RoomTypeDefault)
                         (makeEventSender l (ev_From evt)) (uint (ev_Timestamp evt) * Second)
                         (MakeMessageID (text_sender evt) (ev_PacketId evt)) evt;
                 b = b\<lparr>b_queued := b_queued b @ [(ul_ID l, msg)]\<rparr>
             in set_last_seen B (ev_From evt) (ev_IsNeighbor evt) b)"

definition handleMeshReaction ::
  "('c, 'w) benv \<Rightarrow> login \<Rightarrow> MeshTextEvent \<Rightarrow> ('c, 'w) bridge \<Rightarrow> ('c, 'w) bridge" where
  "handleMeshReaction B l evt b =
     (if ev_IsDM evt \<and> ul_NodeID l \<noteq> ev_To evt then b
      else
        let b = snd (getRemoteGhost B (MakeUserID (ev_From evt)) True b);
            key = text_portal B l evt;
            b = acknowledge B evt b
        in if \<not> ev_IsDM evt \<and> \<not> in_portal B l key b then b
           else
             let msg = RemoteReaction key (makeEventSender l (ev_From evt)) (uint (ev_Timestamp evt) * Second)
                         (ev_Message evt) (MakeMessageID (text_sender evt) (ev_ReplyId evt));
                 b = set_last_seen B (ev_From evt) (ev_IsNeighbor evt) b
             in b\<lparr>b_queued := b_queued b @ [(ul_ID l, msg)]\<rparr>)"

definition handleMeshEvent :: "('c, 'w) benv \<Rightarrow> login \<Rightarrow> event \<Rightarrow> ('c, 'w) bridge \<Rightarrow> ('c, 'w) bridge" where
  "handleMeshEvent B l rawEvt b =
     (case rawEvt of
        MessageEvent evt \<Rightarrow> handleMeshMessage B l evt b
      | ReactionEvent evt \<Rightarrow> handleMeshReaction B l evt b
      | _ \<Rightarrow> b)"

section \<open>Frames\<close>

lemma events_frame [simp]:
  "b_queued (snd (getRemoteGhost B i r b)) = b_queued b" "b_db (snd (getRemoteGhost B i r b)) = b_db b"
  "b_queued (acknowledge B evt b) = b_queued b" "b_world (acknowledge B evt b) = b_world b"
  "b_queued (set_last_seen B n d b) = b_queued b"
  "b_queued (snd (on_mesh B f b)) = b_queued b" "b_db (snd (GetBaseNodeID B b)) = b_db b"
  by (simp_all add: getRemoteGhost_def acknowledge_def set_last_seen_def on_mesh_def db_put_def
      GetBaseNodeID_def Let_def split: sum.split option.split prod.split)

lemma sendNodeInfo_db [simp]: "b_db (sendNodeInfo B f t r b) = b_db b"
proof -
  have "b_db (snd (IsManagedNode B f b)) = b_db b"
    by (auto simp: IsManagedNode_def cache_managed_def GetBaseNodeID_def Let_def
        split: option.split sum.split)
  then show ?thesis
    by (cases "IsManagedNode B f b")
      (auto simp: sendNodeInfo_def GetBaseNodeID_def on_mesh_def Let_def split: sum.split prod.split)
qed

lemma rename_ghost_db [simp]: "b_db (rename_ghost B g n u b) = b_db b"
proof -
  have "b_db (fold (update_dm_portal B g) ps b) = b_db b" for g ps b
    by (induction ps arbitrary: b) (simp_all add: update_dm_portal_def panic_def Let_def split: list.split)
  then show ?thesis by (simp add: rename_ghost_def updateDMPortalInfo_def Let_def split: prod.split)
qed

section \<open>Properties\<close>

lemma handleMeshMessage_queued:
  "b_queued (handleMeshMessage B l evt b) = b_queued b @
     (if (if ev_IsDM evt then ul_NodeID l = ev_To evt
          else in_portal B l (text_portal B l evt)
                 (b\<lparr>b_world := b_world (snd (getRemoteGhost B (MakeUserID (ev_From evt)) True b))\<rparr>))
      then [(ul_ID l, RemoteMessage (text_portal B l evt)
                        (if ev_IsDM evt then RoomTypeDM else RoomTypeDefault)
                        (makeEventSender l (ev_From evt)) (uint (ev_Timestamp evt) * Second)
                        (MakeMessageID (text_sender evt) (ev_PacketId evt)) evt)]
      else [])"
  by (simp add: handleMeshMessage_def in_portal_def Let_def)

text \<open>
  C13: a text message from the mesh is queued for a login at most once: a direct message exactly
  for the login of the node it is addressed to, a channel message exactly for the logins that are
  in the channel's portal.  The event that is queued names the direct chat of the sender and the
  addressed node, kept for this login, or the room of the channel with its key; as its sender the
  ghost of the node it came from, which is the user's own only for the login's node; the time of
  the packet; and a message identifier that reads back as the sender's node, or the name of the
  channel, and the number of the packet.
\<close>

theorem message_delivered:
  assumes "b' = handleMeshMessage B l evt b"
    and "w = b_world (snd (getRemoteGhost B (MakeUserID (ev_From evt)) True b))"
    and key: "key = (if ev_IsDM evt
      then \<lparr>pk_ID = MakeDMPortalID (ev_From evt) (ev_To evt), pk_Receiver = ul_ID l\<rparr>
      else \<lparr>pk_ID = MakePortalID (ev_ChannelName evt) (ev_ChannelKey evt),
            pk_Receiver = (if fw_SplitPortals (be_fw B) then ul_ID l else [])\<rparr>)"
    and name: "name = (if ev_IsDM evt then ''!'' @ Sprintf_08x (ev_From evt) else ev_ChannelName evt)"
    and sender: "sender = \<lparr>es_IsFromMe = (ul_NodeID l = ev_From evt), es_Sender = MakeUserID (ev_From evt),
      es_SenderLogin = MakeUserLoginID (ev_From evt)\<rparr>"
  shows "b_queued b' = b_queued b @
     (if (if ev_IsDM evt then ul_NodeID l = ev_To evt
          else \<exists>logins. fw_LoginsInPortal (be_fw B) w key = Inr logins \<and> ul_ID l \<in> set logins)
      then [(ul_ID l, RemoteMessage key (if ev_IsDM evt then RoomTypeDM else RoomTypeDefault)
                        sender (uint (ev_Timestamp evt) * Second) (MakeMessageID name (ev_PacketId evt)) evt)]
      else []) \<and>
    ParseMessageID (MakeMessageID name (ev_PacketId evt)) = ((name, ev_PacketId evt), None) \<and>
    ParseUserID (es_Sender sender) = (ev_From evt, None) \<and>
    (ev_IsDM evt \<longrightarrow> ParseDMPortalID (pk_ID key) = ((ev_From evt, ev_To evt), None))"
proof -
  have model: "key = text_portal B l evt" "name = text_sender evt" "sender = makeEventSender l (ev_From evt)"
    by (auto simp: key name sender text_portal_def makeDMPortalKey_def makePortalKey_def text_sender_def
        NodeID_String_def makeEventSender_def)
  have "b_queued b' = b_queued b @
     (if (if ev_IsDM evt then ul_NodeID l = ev_To evt
          else \<exists>logins. fw_LoginsInPortal (be_fw B) w key = Inr logins \<and> ul_ID l \<in> set logins)
      then [(ul_ID l, RemoteMessage key (if ev_IsDM evt then RoomTypeDM else RoomTypeDefault)
                        sender (uint (ev_Timestamp evt) * Second) (MakeMessageID name (ev_PacketId evt)) evt)]
      else [])"
    unfolding model assms(1,2) handleMeshMessage_queued in_portal_def by (auto split: sum.split)
  moreover have "es_Sender sender = MakeUserID (ev_From evt)" using sender by simp
  moreover have "ev_IsDM evt \<longrightarrow> pk_ID key = MakeDMPortalID (ev_From evt) (ev_To evt)" using key by simp
  ultimately show ?thesis by simp
qed

definition sample_text :: MeshTextEvent where
  "sample_text = MeshEvent.extend sample_envelope (MeshTextEvent.fields ''hi'' True 0)"

theorem message_delivered_witness:
  "length (b_queued (handleMeshMessage sample_benv \<lparr>ul_ID = ''u'', ul_NodeID = 3, ul_UserMXID = ''@a:b''\<rparr>
      sample_text sample_bridge)) = 1"
  using message_delivered [OF refl refl refl refl refl, of sample_benv "\<lparr>ul_ID = ''u'', ul_NodeID = 3, ul_UserMXID = ''@a:b''\<rparr>"
      sample_text sample_bridge]
  by (simp add: sample_text_def MeshEvent.extend_def MeshTextEvent.fields_def sample_envelope_def sample_bridge_def)

text \<open>
  Packets without an event of their own (telemetry, neighbour reports, routing and unknown
  ports, positions without coordinates) reach the bridge as a plain envelope by value, which its
  event handler does not recognise: the pointer form it handles is never produced, and the value
  form has no effect, so these packets do not mark their sender as seen.
\<close>

lemma unknown_packets_dropped:
  "fst (fst (dispatch E p m c)) \<noteq> EnvelopePtr e \<and> handleGlobalMeshEvent B (EnvelopeValue e) b = b"
proof -
  have "position_event env pos \<noteq> EnvelopePtr e" "waypoint_event E env w \<noteq> EnvelopePtr e"
    "text_event env m \<noteq> EnvelopePtr e" for env pos w
    by (simp_all add: position_event_def waypoint_event_def text_event_def Let_def split: option.split)
  then have "fst (fst (dispatch E p m c)) \<noteq> EnvelopePtr e"
    by (simp add: dispatch_def nodeInfo_event_def mapReport_event_def traceroute_event_def Let_def
        split: PortNum.split prod.split)
  then show ?thesis by (simp add: handleGlobalMeshEvent_def)
qed

lemma set_last_seen_waypoints [simp]: "db_waypoints (b_db (set_last_seen B n d b)) = db_waypoints (b_db b)"
  by (simp add: set_last_seen_def db_put_def SetLastSeen_def put_node_def exec_def
      split: option.split prod.split)

lemma look_waypoint_last_seen [simp]: "look_waypoint (b_db (set_last_seen B n d b)) i = look_waypoint (b_db b) i"
  by (simp add: look_waypoint_def)

lemma look_waypoint_deleted:
  "db_waypoints d' = db_waypoints d \<Longrightarrow>
   look_waypoint (d'\<lparr>db_waypoints := filter (\<lambda>w. wp_WaypointID w \<noteq> k) (db_waypoints d)\<rparr>) i =
     (if i = k then None else look_waypoint d i)"
proof -
  have "find (\<lambda>w. wp_WaypointID w = i) (filter (\<lambda>w. wp_WaypointID w \<noteq> k) t) =
      (if i = k then None else find (\<lambda>w. wp_WaypointID w = i) t)" for t :: "WaypointInfo list"
    by (induction t) auto
  then show ?thesis by (simp add: look_waypoint_def)
qed

lemma handleMeshWaypoint_other:
  assumes "i \<noteq> ev_WaypointID evt" "db_absent_nil (be_dbms B)"
  shows "look_waypoint (b_db (handleMeshWaypoint B evt b)) i = look_waypoint (b_db b) i"
proof -
  let ?b = "set_last_seen B (ev_From evt) (ev_IsNeighbor evt) b"
  have del: "look_waypoint (b_db (snd (db_put (DeleteByID (be_dbms B) (ev_WaypointID evt)) ?b))) i = look_waypoint (b_db b) i"
    using assms(1) by (simp add: db_put_def DeleteByID_def exec_def look_waypoint_deleted split: option.split)
  have st: "look_waypoint (b_db (snd (db_put (waypoint_SetAll (be_dbms B) w) ?b))) i = look_waypoint (b_db b) i"
    if "wp_WaypointID w = ev_WaypointID evt" for w
  proof -
    obtain err d where s: "waypoint_SetAll (be_dbms B) w (b_db ?b) = (err, d)" by fastforce
    have "look_waypoint d i = look_waypoint (b_db ?b) i"
      using s waypoints.store_other [of "be_dbms B" w "b_db ?b" d i]
        waypoints.store_error [of "be_dbms B" w "b_db ?b" _ d] assms(1) that
      by (cases err) (auto simp del: look_waypoint_last_seen)
    then show ?thesis using s by (simp add: db_put_def)
  qed
  have key: "wp_WaypointID w = ev_WaypointID evt"
    if "GetByWaypointID (be_dbms B) (ev_WaypointID evt) (b_db ?b) = Inr (Some w)" for w
    using that assms(2)
    by (auto simp: GetByWaypointID_def QueryOne_def query_def find_Some_iff split: option.splits)
  show ?thesis
    using del st key
    by (auto simp: handleMeshWaypoint_def waypoint_update_def Let_def split: sum.split option.split)
qed

text \<open>
  Every waypoint shares one slot: the event made from a received waypoint never carries its
  identifier, so storing or deleting it only ever touches the row with identifier 0.
\<close>

lemma waypoints_share_slot:
  assumes "fst (fst (dispatch E p m c)) = WaypointEvent evt" "i \<noteq> 0" "db_absent_nil (be_dbms B)"
  shows "ev_WaypointID evt = 0 \<and>
    look_waypoint (b_db (handleGlobalMeshEvent B (WaypointEvent evt) b)) i = look_waypoint (b_db b) i"
proof -
  have "ev_WaypointID evt = 0"
    using assms(1)
    by (auto simp: dispatch_def waypoint_event_def text_event_def position_event_def nodeInfo_event_def
        mapReport_event_def traceroute_event_def MeshEvent.extend_def MeshWaypointEvent.fields_def Let_def
        split: PortNum.splits prod.splits option.splits if_splits)
  then show ?thesis
    using handleMeshWaypoint_other [of i evt B b] assms(2,3) by (simp add: handleGlobalMeshEvent_def)
qed

text \<open>
  C38: a waypoint locked to a node is not overwritten on behalf of another node; but a deletion
  removes it whoever sends it.
\<close>

theorem locked_waypoint:
  assumes "look_waypoint (b_db b) (ev_WaypointID evt) = Some w" "wp_LockedTo w = Some owner" "owner \<noteq> ev_From evt"
    and "db_fault (be_dbms B) = None"
  shows "(\<not> ev_IsDelete evt \<longrightarrow> db_waypoints (b_db (handleMeshWaypoint B evt b)) = db_waypoints (b_db b)) \<and>
         (ev_IsDelete evt \<longrightarrow> look_waypoint (b_db (handleMeshWaypoint B evt b)) (ev_WaypointID evt) = None)"
  using assms look_waypoint_last_seen [of B "ev_From evt" "ev_IsNeighbor evt" b "ev_WaypointID evt"]
  by (simp add: handleMeshWaypoint_def GetByWaypointID_look look_waypoint_deleted QueryOne_def query_def Let_def
      db_put_def DeleteByID_def exec_def)

definition sample_waypoint :: WaypointInfo where
  "sample_waypoint = newWaypoint\<lparr>wp_WaypointID := 9, wp_Name := ''camp'', wp_LockedTo := Some 30\<rparr>"

definition sample_waypoint_event :: "bool \<Rightarrow> MeshWaypointEvent" where
  "sample_waypoint_event isDelete =
     MeshEvent.extend sample_envelope
       (MeshWaypointEvent.fields 9 isDelete ''mine'' [] (Fin 0) (Fin 0) [] None None)"

theorem locked_waypoint_witness:
  "db_waypoints (b_db (handleMeshWaypoint sample_benv (sample_waypoint_event False)
      (sample_bridge\<lparr>b_db := \<lparr>db_nodes = [], db_waypoints = [sample_waypoint]\<rparr>\<rparr>))) = [sample_waypoint] \<and>
   look_waypoint (b_db (handleMeshWaypoint sample_benv (sample_waypoint_event True)
      (sample_bridge\<lparr>b_db := \<lparr>db_nodes = [], db_waypoints = [sample_waypoint]\<rparr>\<rparr>))) 9 = None"
proof -
  let ?b = "sample_bridge\<lparr>b_db := \<lparr>db_nodes = [], db_waypoints = [sample_waypoint]\<rparr>\<rparr>"
  have "look_waypoint (b_db ?b) (ev_WaypointID (sample_waypoint_event x)) = Some sample_waypoint"
    "wp_LockedTo sample_waypoint = Some 30" "30 \<noteq> ev_From (sample_waypoint_event x)"
    "db_fault (be_dbms sample_benv) = None" "ev_IsDelete (sample_waypoint_event x) = x"
    "ev_WaypointID (sample_waypoint_event x) = 9" for x
    by (simp_all add: look_waypoint_def sample_waypoint_event_def sample_waypoint_def newWaypoint_def
        MeshEvent.extend_def MeshWaypointEvent.fields_def sample_envelope_def sample_benv_def sample_dbms_def)
  then show ?thesis
    using locked_waypoint [of ?b "sample_waypoint_event False" sample_waypoint 30 sample_benv]
      locked_waypoint [of ?b "sample_waypoint_event True" sample_waypoint 30 sample_benv]
    by simp
qed

lemma node_info_row:
  assumes "fst (getRemoteGhost B (MakeUserID (ev_From evt)) (ev_To evt \<noteq> fst (GetBaseNodeID B b))
                 (snd (GetBaseNodeID B b))) = Inr g"
    and "db_fault (be_dbms B) = None" "db_absent_nil (be_dbms B)"
    and "node_SetAll (be_dbms B) (nodeInfo_update (known_or_new B (ev_From evt) b) evt) (b_db b) = (None, d)"
  shows "(\<exists>r. look_node (b_db (handleMeshNodeInfo B evt b)) (ev_From evt) = Some r \<and>
           mn_UserID r = ev_UserID evt \<and> mn_LongName r = ev_LongName evt \<and>
           mn_ShortName r = ev_ShortName evt \<and> mn_PublicKey r = ev_PublicKey evt \<and>
           mn_Role r = ev_Role evt \<and> mn_LastSeen r = Some (uint (ev_Timestamp evt) * Second) \<and>
           (case look_node (b_db b) (ev_From evt) of
              Some q \<Rightarrow> mn_IsManaged r = mn_IsManaged q \<and> mn_PrivateKey r = mn_PrivateKey q
            | None \<Rightarrow> \<not> mn_IsManaged r \<and> mn_PrivateKey r = [])) \<and>
         (n \<noteq> ev_From evt \<longrightarrow> look_node (b_db (handleMeshNodeInfo B evt b)) n = look_node (b_db b) n)"
proof -
  let ?mn = "known_or_new B (ev_From evt) b"
  have mn: "?mn = (case look_node (b_db b) (ev_From evt) of Some r \<Rightarrow> r | None \<Rightarrow> newMeshNodeInfo\<lparr>mn_NodeID := ev_From evt\<rparr>)"
    using assms(2,3) by (simp add: known_or_new_def db_get_def GetByNodeID_look QueryOne_def query_def split: option.split)
  then have key: "mn_NodeID (nodeInfo_update ?mn evt) = ev_From evt"
    by (auto simp: nodeInfo_update_def look_node_def find_Some_iff split: option.split)
  have db: "b_db (handleMeshNodeInfo B evt b) = d"
  proof -
    obtain base b1 where base: "GetBaseNodeID B b = (base, b1)" by fastforce
    obtain b2 where g: "getRemoteGhost B (MakeUserID (ev_From evt)) (ev_To evt \<noteq> base) b1 = (Inr g, b2)"
      using assms(1) base by (cases "getRemoteGhost B (MakeUserID (ev_From evt)) (ev_To evt \<noteq> base) b1") auto
    have "b_db b2 = b_db b"
      using events_frame(2) [of B "MakeUserID (ev_From evt)" "ev_To evt \<noteq> base" b1]
        events_frame(7) [of B b] base g by simp
    then show ?thesis
      using base g assms(4) by (simp add: handleMeshNodeInfo_def known_or_new_def db_get_def db_put_def)
  qed
  show ?thesis
    unfolding db using nodes.store_look_iff [OF assms(4)] key mn
    by (auto simp: nodeInfo_update_def nodeInfo_changed_def node_row_def newMeshNodeInfo_def to_second_def
        unix_seconds_def split: option.split)
qed

text \<open>
  C18: after a node announced itself and the row could be stored, the table has its names, role,
  public key and time; the bridge's own mark on the node and its private key are as they were
  (absent for a node not known before), and no other node's row has changed, whatever the answer
  sent to the node and the renaming of its chats did.
\<close>

theorem node_info_stored:
  assumes "fst (getRemoteGhost B (MakeUserID (ev_From evt)) (ev_To evt \<noteq> fst (GetBaseNodeID B b))
                 (snd (GetBaseNodeID B b))) = Inr g"
    and "db_fault (be_dbms B) = None" "db_absent_nil (be_dbms B)"
    and "node_SetAll (be_dbms B) (nodeInfo_update (known_or_new B (ev_From evt) b) evt) (b_db b) = (None, d)"
  shows "(\<exists>r. look_node (b_db (handleMeshNodeInfo B evt b)) (ev_From evt) = Some r \<and>
           mn_UserID r = ev_UserID evt \<and> mn_LongName r = ev_LongName evt \<and>
           mn_ShortName r = ev_ShortName evt \<and> mn_PublicKey r = ev_PublicKey evt \<and>
           mn_Role r = ev_Role evt \<and> mn_LastSeen r = Some (uint (ev_Timestamp evt) * Second) \<and>
           (case look_node (b_db b) (ev_From evt) of
              Some q \<Rightarrow> mn_IsManaged r = mn_IsManaged q \<and> mn_PrivateKey r = mn_PrivateKey q
            | None \<Rightarrow> \<not> mn_IsManaged r \<and> mn_PrivateKey r = [])) \<and>
         (n \<noteq> ev_From evt \<longrightarrow> look_node (b_db (handleMeshNodeInfo B evt b)) n = look_node (b_db b) n)"
  using assms by (rule node_info_row)

definition sample_node_info :: MeshNodeInfoEvent where
  "sample_node_info =
     MeshEvent.extend sample_envelope
       (MeshNodeInfoEvent.fields ''!00000014'' ''N20'' ''Node 20'' ''CLIENT'' ''key'' False False)"

theorem node_info_stored_witness:
  "\<exists>r. look_node (b_db (handleMeshNodeInfo sample_benv sample_node_info sample_bridge)) 20 = Some r \<and>
       mn_LongName r = ''Node 20'' \<and> mn_PublicKey r = ''key'' \<and> \<not> mn_IsManaged r"
proof -
  have f: "ev_From sample_node_info = 20" "ev_To sample_node_info = 3" "ev_UserID sample_node_info = ''!00000014''"
    "ev_LongName sample_node_info = ''Node 20''" "ev_ShortName sample_node_info = ''N20''"
    "ev_PublicKey sample_node_info = ''key''" "ev_Role sample_node_info = ''CLIENT''"
    by (simp_all add: sample_node_info_def MeshEvent.extend_def MeshNodeInfoEvent.fields_def sample_envelope_def)
  have g: "\<exists>g. fst (getRemoteGhost sample_benv (MakeUserID (ev_From sample_node_info))
       (ev_To sample_node_info \<noteq> fst (GetBaseNodeID sample_benv sample_bridge))
       (snd (GetBaseNodeID sample_benv sample_bridge))) = Inr g"
    by (simp add: f getRemoteGhost_def sample_benv_def sample_framework_def sample_find_ghost_def
        sample_bridge_def GetBaseNodeID_def Let_def)
  have "known_or_new sample_benv (ev_From sample_node_info) sample_bridge = newMeshNodeInfo\<lparr>mn_NodeID := 20\<rparr>"
    by (simp add: f known_or_new_def db_get_def GetByNodeID_def QueryOne_def query_def sample_benv_def
        sample_dbms_def sample_bridge_def)
  then have s: "\<exists>d. node_SetAll (be_dbms sample_benv)
       (nodeInfo_update (known_or_new sample_benv (ev_From sample_node_info) sample_bridge) sample_node_info)
       (b_db sample_bridge) = (None, d)"
    by (simp add: f nodeInfo_update_def nodeInfo_changed_def node_SetAll_def put_node_def exec_def upsert_def
        node_constraints_def node_id_ok_def node_row_def newMeshNodeInfo_def sample_benv_def sample_dbms_def
        sample_bridge_def BROADCAST_ID_def)
  obtain g d where "fst (getRemoteGhost sample_benv (MakeUserID (ev_From sample_node_info))
       (ev_To sample_node_info \<noteq> fst (GetBaseNodeID sample_benv sample_bridge))
       (snd (GetBaseNodeID sample_benv sample_bridge))) = Inr g"
    "node_SetAll (be_dbms sample_benv)
       (nodeInfo_update (known_or_new sample_benv (ev_From sample_node_info) sample_bridge) sample_node_info)
       (b_db sample_bridge) = (None, d)"
    using g s by blast
  from node_info_stored [OF this(1) _ _ this(2)] show ?thesis
    by (auto simp: f sample_benv_def sample_dbms_def look_node_def sample_bridge_def)
qed

end
