(* ===== verification/Geo_URI.thy ===== *)
theory Geo_URI
  imports Mesh_Packets
begin

text \<open>
  Parsing of geo URIs, \<^verbatim>\<open>pkg/meshid/gpslocation.go\<close>, over the parts of Go's \<^verbatim>\<open>strconv\<close> and
  \<^verbatim>\<open>net/url\<close> it uses: \<^verbatim>\<open>ParseFloat(s, 32)\<close>, \<^verbatim>\<open>Atoi\<close>, \<^verbatim>\<open>QueryUnescape\<close> and \<^verbatim>\<open>ParseQuery\<close>.
\<close>

section \<open>strconv.ParseFloat\<close>

definition lower :: "char \<Rightarrow> char" where
  "lower c = (let n = of_char c :: nat in if 65 \<le> n \<and> n \<le> 90 then char_of (n + 32) else c)"

definition base_digit :: "nat \<Rightarrow> char \<Rightarrow> nat option" where
  "base_digit base c = (case digit_val c of Some d \<Rightarrow> if d < base then Some d else None | None \<Rightarrow> None)"

text \<open>An optional sign, and whether it was a minus.\<close>

definition cut_sign :: "string \<Rightarrow> bool \<times> string" where
  "cut_sign s =
     (case s of
        c # r \<Rightarrow> if c = CHR ''-'' then (True, r) else if c = CHR ''+'' then (False, r) else (False, s)
      | [] \<Rightarrow> (False, s))"

text \<open>
  The digits of \<^verbatim>\<open>readFloat\<close>: value, number of digits after the point, whether there was a
  digit and whether there was an underscore, with the text that follows.
\<close>

fun read_digits ::
  "nat \<Rightarrow> bool \<Rightarrow> nat \<times> nat \<times> bool \<times> bool \<Rightarrow> string \<Rightarrow> (nat \<times> nat \<times> bool \<times> bool) \<times> string" where
  "read_digits base sawdot (m, f, sawdigits, us) [] = ((m, f, sawdigits, us), [])"
| "read_digits base sawdot (m, f, sawdigits, us) (c # s) =
     (if c = CHR ''_'' then read_digits base sawdot (m, f, sawdigits, True) s
      else if c = CHR ''.'' then
        if sawdot then ((m, f, sawdigits, us), c # s)
        else read_digits base True (m, f, sawdigits, us) s
      else case base_digit base c of
             Some d \<Rightarrow> read_digits base sawdot (m * base + d, if sawdot then Suc f else f, True, us) s
           | None \<Rightarrow> ((m, f, sawdigits, us), c # s))"

text \<open>The exponent stops growing once it has five digits.\<close>

fun read_exp_digits :: "nat \<Rightarrow> bool \<Rightarrow> string \<Rightarrow> (nat \<times> bool) \<times> string" where
  "read_exp_digits e us [] = ((e, us), [])"
| "read_exp_digits e us (c # s) =
     (if c = CHR ''_'' then read_exp_digits e True s
      else case base_digit 10 c of
             Some d \<Rightarrow> read_exp_digits (if e < 10000 then e * 10 + d else e) us s
           | None \<Rightarrow> ((e, us), c # s))"

definition read_exponent :: "string \<Rightarrow> ((int \<times> bool) \<times> string) option" where
  "read_exponent s =
     (let (neg, s) = cut_sign s in
      if s = [] \<or> base_digit 10 (hd s) = None then None
      else let ((e, us), s) = read_exp_digits 0 False s
           in Some ((if neg then - int e else int e, us), s))"

text \<open>
  Underscores must separate digits; a base prefix counts as a digit.  The state is the kind of
  the previous character: \<^verbatim>\<open>'0'\<close> for a digit, \<^verbatim>\<open>'_'\<close> for an underscore, another one otherwise.
\<close>

fun underscore_scan :: "bool \<Rightarrow> char \<Rightarrow> string \<Rightarrow> bool" where
  "underscore_scan hex prev [] = (prev \<noteq> CHR ''_'')"
| "underscore_scan hex prev (c # s) =
     (if base_digit (if hex then 16 else 10) c \<noteq> None then underscore_scan hex (CHR ''0'') s
      else if c = CHR ''_'' then prev = CHR ''0'' \<and> underscore_scan hex (CHR ''_'') s
      else prev \<noteq> CHR ''_'' \<and> underscore_scan hex (CHR ''!'') s)"

definition underscoreOK :: "string \<Rightarrow> bool" where
  "underscoreOK s =
     (let s = snd (cut_sign s) in
      case s of
        z # x # r \<Rightarrow>
          if z = CHR ''0'' \<and> lower x \<in> {CHR ''b'', CHR ''o'', CHR ''x''}
          then underscore_scan (lower x = CHR ''x'') (CHR ''0'') r
          else underscore_scan False (CHR ''^'') s
      | _ \<Rightarrow> underscore_scan False (CHR ''^'') s)"

definition pow10 :: "int \<Rightarrow> rat" where
  "pow10 e = (if 0 \<le> e then 10 ^ nat e else 1 / 10 ^ nat (- e))"

definition float_value :: "nat \<Rightarrow> nat \<Rightarrow> nat \<Rightarrow> int \<Rightarrow> rat" where
  "float_value base m f e =
     (if base = 16 then of_nat m * pow2 (e - 4 * int f) else of_nat m * pow10 (e - int f))"

text \<open>
  \<^verbatim>\<open>readFloat\<close> on the whole string: the exact value that is written there, or \<open>None\<close> for a
  syntax error.
\<close>

definition readFloat :: "string \<Rightarrow> rat option" where
  "readFloat text =
     (let (neg, s) = cut_sign text;
          hex = (2 < length s \<and> s ! 0 = CHR ''0'' \<and> lower (s ! 1) = CHR ''x'');
          base = (if hex then 16 else 10);
          ((m, f, sawdigits, us), s) = read_digits base False (0, 0, False, False) (if hex then drop 2 s else s);
          exp = (if s \<noteq> [] \<and> lower (hd s) = (if hex then CHR ''p'' else CHR ''e'') then read_exponent (tl s)
                 else if hex then None
                 else Some ((0, False), s))
      in if \<not> sawdigits then None
         else case exp of
                None \<Rightarrow> None
              | Some ((e, us'), rest) \<Rightarrow>
                  if rest \<noteq> [] \<or> ((us \<or> us') \<and> \<not> underscoreOK text) then None
                  else Some (if neg then - float_value base m f e else float_value base m f e))"

definition special :: "string \<Rightarrow> gofloat option" where
  "special text =
     (let (neg, s) = cut_sign text in
      if map lower s = ''inf'' \<or> map lower s = ''infinity'' then Some (if neg then NegInf else PosInf)
      else if map lower text = ''nan'' then Some NaN
      else None)"

definition ParseFloat32 :: "string \<Rightarrow> gofloat \<times> go_error option" where
  "ParseFloat32 s =
     (case special s of
        Some x \<Rightarrow> (x, None)
      | None \<Rightarrow>
          (case readFloat s of
             None \<Rightarrow> (Fin 0, Some NumSyntax)
           | Some r \<Rightarrow>
               (case float32_round r of
                  Fin x \<Rightarrow> (Fin x, None)
                | x \<Rightarrow> (x, Some NumRange))))"

text \<open>\<^verbatim>\<open>strconv.Atoi\<close>, with a 64-bit \<^verbatim>\<open>int\<close>.\<close>

definition Atoi :: "string \<Rightarrow> go_error + int" where
  "Atoi s =
     (let (neg, r) = cut_sign s in
      case ParseUint r 10 64 of
        (n, Some err) \<Rightarrow> Inl err
      | (n, None) \<Rightarrow>
          if \<not> neg \<and> n \<ge> 2 ^ 63 \<or> neg \<and> n > 2 ^ 63 then Inl NumRange
          else Inr (if neg then - int n else int n))"

section \<open>net/url\<close>

definition EscapeError :: go_error where
  "EscapeError = External ''invalid URL escape''"

text \<open>\<^verbatim>\<open>QueryUnescape\<close>: on an error the text is empty.\<close>

fun unescape :: "string \<Rightarrow> string option" where
  "unescape [] = Some []"
| "unescape (c # s) =
     (if c = CHR ''%'' then
        (case s of
           a # b # r \<Rightarrow>
             (case (base_digit 16 a, base_digit 16 b) of
                (Some x, Some y) \<Rightarrow> map_option (Cons (char_of (16 * x + y))) (unescape r)
              | _ \<Rightarrow> None)
         | _ \<Rightarrow> None)
      else map_option (Cons (if c = CHR ''+'' then CHR '' '' else c)) (unescape s))"

definition QueryUnescape :: "string \<Rightarrow> string \<times> go_error option" where
  "QueryUnescape s = (case unescape s of Some t \<Rightarrow> (t, None) | None \<Rightarrow> ([], Some EscapeError))"

text \<open>\<^verbatim>\<open>strings.Cut\<close> where the absence of the separator does not matter.\<close>

definition cut_at :: "string \<Rightarrow> string \<Rightarrow> string \<times> string" where
  "cut_at s sep = (case Cut s sep of Some ab \<Rightarrow> ab | None \<Rightarrow> (s, []))"

text \<open>
  \<^verbatim>\<open>ParseQuery\<close>: the first value of every key, which is all the code reads, and the error;
  every part is read, also after an error.
\<close>

definition query_part :: "string \<Rightarrow> (string \<rightharpoonup> string) \<times> go_error option \<Rightarrow> (string \<rightharpoonup> string) \<times> go_error option" where
  "query_part part acc =
     (let (m, err) = acc in
      if CHR '';'' \<in> set part then (m, Some (External ''invalid semicolon separator in query''))
      else if part = [] then (m, err)
      else
        let (k, v) = cut_at part ''=''; (key, err1) = QueryUnescape k; (val, err2) = QueryUnescape v in
        if err1 \<noteq> None then (m, if err = None then err1 else err)
        else if err2 \<noteq> None then (m, if err = None then err2 else err)
        else (if m key = None then m(key \<mapsto> val) else m, err))"

definition ParseQuery :: "string \<Rightarrow> (string \<rightharpoonup> string) \<times> go_error option" where
  "ParseQuery query = (if query = [] then (Map.empty, None) else fold query_part (Split query ''&'') (Map.empty, None))"

section \<open>ParseGeoURI\<close>

definition geo_param :: "string \<Rightarrow> go_error + GeoURI \<Rightarrow> go_error + GeoURI" where
  "geo_param p acc =
     (case acc of
        Inl err \<Rightarrow> Inl err
      | Inr geo \<Rightarrow>
          if p = [] then Inr geo
          else
            let (k, v) = cut_at p ''=''; key = fst (QueryUnescape k); val = fst (QueryUnescape v) in
            if key = ''u'' then
              (case ParseFloat32 val of
                 (_, Some err) \<Rightarrow> Inl (Errorf ''invalid u= uncertainty'')
               | (u, None) \<Rightarrow> Inr (geo\<lparr>Uncertainty := Some u\<rparr>))
            else if key = ''crs'' then Inr (geo\<lparr>CRS := val\<rparr>)
            else Inr (geo\<lparr>OtherParams := (OtherParams geo)(key \<mapsto> val)\<rparr>))"

definition geo_query :: "string \<Rightarrow> GeoURI \<Rightarrow> go_error + GeoURI" where
  "geo_query rawQuery geo =
     (if rawQuery = [] then Inr geo
      else case ParseQuery rawQuery of
        (_, Some err) \<Rightarrow> Inl (Errorf ''invalid query string'')
      | (values, None) \<Rightarrow>
          let geo = geo\<lparr>Query := (case values ''q'' of Some q \<Rightarrow> q | None \<Rightarrow> Query geo),
                        QueryParams := values(''z'' := None, ''q'' := None)\<rparr>
          in case values ''z'' of
               None \<Rightarrow> Inr geo
             | Some z \<Rightarrow>
                 (case Atoi z of
                    Inl err \<Rightarrow> Inl (Errorf ''invalid zoom level'')
                  | Inr n \<Rightarrow> Inr (geo\<lparr>Zoom := Some n\<rparr>)))"

definition geo_coordinates :: "string list \<Rightarrow> go_error + GeoURI" where
  "geo_coordinates tokens =
     (if length tokens < 2 \<or> 3 < length tokens then Inl (Errorf ''expected 2 or 3 coordinates'')
      else case ParseFloat32 (tokens ! 0) of
        (_, Some err) \<Rightarrow> Inl (Errorf ''invalid latitude'')
      | (lat, None) \<Rightarrow>
          (case ParseFloat32 (tokens ! 1) of
             (_, Some err) \<Rightarrow> Inl (Errorf ''invalid longitude'')
           | (lon, None) \<Rightarrow>
               let geo = \<lparr>Latitude = lat, Longitude = lon, Altitude = None, Uncertainty = None, CRS = [],
                          Zoom = None, Query = [], OtherParams = Map.empty, QueryParams = Map.empty\<rparr>
               in if length tokens = 3 then
                    (case ParseFloat32 (tokens ! 2) of
                       (_, Some err) \<Rightarrow> Inl (Errorf ''invalid altitude'')
                     | (a, None) \<Rightarrow> Inr (geo\<lparr>Altitude := Some a\<rparr>))
                  else Inr geo))"

definition ParseGeoURI :: "string \<Rightarrow> go_error + GeoURI" where
  "ParseGeoURI uri =
     (if \<not> HasPrefix uri ''geo:'' then Inl (Errorf (''invalid geo URI: must start with '' @ [CHR 0x27] @ ''geo:'' @ [CHR 0x27]))
      else
        let (mainPart, rawQuery) = cut_at (drop 4 uri) ''?'';
            parts = Split mainPart '';''
        in case fold geo_param (tl parts) (geo_coordinates (Split (hd parts) '','')) of
             Inl err \<Rightarrow> Inl err
           | Inr geo \<Rightarrow> geo_query rawQuery geo)"

section \<open>Decimal texts\<close>

text \<open>A decimal number as a client writes it: sign, digits before and after the point.\<close>

record decimal =
  d_neg :: bool
  d_int :: "nat list"
  d_frac :: "nat list"

definition decimal_ok :: "decimal \<Rightarrow> bool" where
  "decimal_ok d \<longleftrightarrow> d_int d \<noteq> [] \<and> (\<forall>x \<in> set (d_int d @ d_frac d). x < 10)"

definition decimal_text :: "decimal \<Rightarrow> string" where
  "decimal_text d =
     (if d_neg d then ''-'' else []) @ map digit_char (d_int d) @ ''.'' @ map digit_char (d_frac d)"

definition decimal_value :: "decimal \<Rightarrow> rat" where
  "decimal_value d =
     (let v = of_nat (foldl (\<lambda>n x. n * 10 + x) 0 (d_int d @ d_frac d)) / 10 ^ length (d_frac d)
      in if d_neg d then - v else v)"

lemma base_digit_char: "d < 10 \<Longrightarrow> base_digit 10 (digit_char d) = Some d"
  by (simp add: base_digit_def digit_val_char)

lemma digit_char_decimal:
  assumes "d < 10"
  shows "digit_char d \<notin> {CHR ''_'', CHR ''.'', CHR ''-'', CHR ''+'', CHR ''?'', CHR '';'', CHR '','', CHR ''n'', CHR ''N''}"
    "lower (digit_char d) \<notin> {CHR ''x'', CHR ''i'', CHR ''n''}"
proof -
  have "list_all (\<lambda>d. digit_char d \<notin> {CHR ''_'', CHR ''.'', CHR ''-'', CHR ''+'', CHR ''?'', CHR '';'', CHR '','', CHR ''n'', CHR ''N''} \<and>
      lower (digit_char d) \<notin> {CHR ''x'', CHR ''i'', CHR ''n''}) [0..<10]"
    by code_simp
  moreover have "d \<in> set [0..<10]" using assms by simp
  ultimately show "digit_char d \<notin> {CHR ''_'', CHR ''.'', CHR ''-'', CHR ''+'', CHR ''?'', CHR '';'', CHR '','', CHR ''n'', CHR ''N''}"
    "lower (digit_char d) \<notin> {CHR ''x'', CHR ''i'', CHR ''n''}"
    unfolding list_all_iff by blast+
qed

lemma read_digits_map:
  "\<forall>x \<in> set ds. x < 10 \<Longrightarrow>
   read_digits 10 dot (m, f, sd, us) (map digit_char ds @ r) =
     read_digits 10 dot (foldl (\<lambda>n x. n * 10 + x) m ds, if dot then f + length ds else f, sd \<or> ds \<noteq> [], us) r"
proof (induction ds arbitrary: m f sd)
  case (Cons d ds)
  then have "d < 10" by simp
  with digit_char_decimal(1) [of d] Cons show ?case by (simp add: base_digit_char)
qed simp

lemma readFloat_decimal:
  assumes "decimal_ok d"
  shows "readFloat (decimal_text d) = Some (decimal_value d)"
proof -
  let ?s = "map digit_char (d_int d) @ CHR ''.'' # map digit_char (d_frac d)"
  obtain x xs where ds: "d_int d = x # xs" using assms by (cases "d_int d") (auto simp: decimal_ok_def)
  have small: "\<forall>x \<in> set (d_int d). x < 10" "\<forall>x \<in> set (d_frac d). x < 10" "x < 10"
    using assms ds by (auto simp: decimal_ok_def)
  have sign: "cut_sign (decimal_text d) = (d_neg d, ?s)"
    using digit_char_decimal(1) [OF small(3)] by (auto simp: decimal_text_def cut_sign_def ds)
  have "lower ((map digit_char xs @ CHR ''.'' # t) ! 0) \<noteq> CHR ''x''" for t
  proof (cases xs)
    case Nil
    have "lower (CHR ''.'') \<noteq> CHR ''x''" by code_simp
    with Nil show ?thesis by simp
  next
    case (Cons y ys)
    then have "y < 10" using small(1) ds by simp
    with digit_char_decimal(2) [of y] Cons show ?thesis by simp
  qed
  then have hex: "lower (?s ! 1) \<noteq> CHR ''x''" by (simp add: ds)
  have digits: "read_digits 10 False (0, 0, False, False) ?s =
      ((foldl (\<lambda>n x. n * 10 + x) 0 (d_int d @ d_frac d), length (d_frac d), True, False), [])"
    using read_digits_map [OF small(1), of False 0 0 False False "CHR ''.'' # map digit_char (d_frac d)"]
      read_digits_map [OF small(2), of True _ 0 True False "[]"] ds by simp
  show ?thesis
    using hex digits by (simp add: readFloat_def sign Let_def float_value_def decimal_value_def pow10_def)
qed

lemma special_decimal:
  assumes "decimal_ok d"
  shows "special (decimal_text d) = None"
proof -
  obtain x xs where ds: "d_int d = x # xs" using assms by (cases "d_int d") (auto simp: decimal_ok_def)
  then have x: "x < 10" using assms by (auto simp: decimal_ok_def)
  have "lower (CHR ''-'') = CHR ''-''" by code_simp
  with digit_char_decimal [OF x] show ?thesis
    by (auto simp: special_def cut_sign_def decimal_text_def ds)
qed

lemma ParseFloat32_decimal:
  assumes "decimal_ok d" "float32_round (decimal_value d) = Fin r"
  shows "ParseFloat32 (decimal_text d) = (Fin r, None)"
  using assms by (simp add: ParseFloat32_def special_decimal readFloat_decimal)

lemma decimal_text_chars:
  assumes "decimal_ok d"
  shows "set (decimal_text d) \<inter> {CHR ''?'', CHR '';'', CHR '',''} = {}"
proof -
  have "digit_char x \<notin> {CHR ''?'', CHR '';'', CHR '',''}" if "x \<in> set (d_int d @ d_frac d)" for x
    using digit_char_decimal(1) [of x] assms that by (auto simp: decimal_ok_def)
  then have "set (map digit_char (d_int d @ d_frac d)) \<inter> {CHR ''?'', CHR '';'', CHR '',''} = {}"
    unfolding set_map by blast
  moreover have "set (decimal_text d) \<subseteq> {CHR ''-'', CHR ''.''} \<union> set (map digit_char (d_int d @ d_frac d))"
    by (auto simp: decimal_text_def)
  ultimately show ?thesis by auto
qed

section \<open>Properties\<close>

text \<open>
  A location as clients write it is read exactly: for coordinates in decimal notation whose
  rounded values are in range, the result has the two \<^verbatim>\<open>float32\<close> values nearest to the written
  numbers, and no altitude, uncertainty or parameters.
\<close>

lemma geo_decimal:
  assumes "decimal_ok lat" "float32_round (decimal_value lat) = Fin x"
    and "decimal_ok lon" "float32_round (decimal_value lon) = Fin y"
  shows "ParseGeoURI (''geo:'' @ decimal_text lat @ '','' @ decimal_text lon) =
    Inr \<lparr>Latitude = Fin x, Longitude = Fin y, Altitude = None, Uncertainty = None, CRS = [],
         Zoom = None, Query = [], OtherParams = Map.empty, QueryParams = Map.empty\<rparr>"
proof -
  let ?t = "decimal_text lat @ '','' @ decimal_text lon"
  note c = decimal_text_chars [OF assms(1)] decimal_text_chars [OF assms(3)]
  have cut: "Cut ?t ''?'' = None" "Cut ?t '';'' = None"
    by (rule Cut_None_single; use c in auto)+
  then have "Split ?t '';'' = [?t]" by (subst Split.simps) simp
  moreover have "Split ?t '','' = [decimal_text lat, decimal_text lon]"
    using Split_single_two [of "CHR '',''" "decimal_text lat" "decimal_text lon"] c by auto
  ultimately show ?thesis
    using cut ParseFloat32_decimal [OF assms(1,2)] ParseFloat32_decimal [OF assms(3,4)]
    by (simp add: ParseGeoURI_def HasPrefix_def cut_at_def geo_coordinates_def geo_query_def Let_def)
qed

text \<open>
  Coordinates are not checked: \<^verbatim>\<open>ParseFloat\<close> also reads infinities and not-a-number, so a
  location with such coordinates is accepted and only converted, to an unspecified integer, when
  it is sent.
\<close>

lemma geo_unchecked:
  "\<exists>g. ParseGeoURI ''geo:nan,inf'' = Inr g \<and> Latitude g = NaN \<and> Longitude g = PosInf"
proof -
  have "Split ''nan,inf'' '','' = [''nan'', ''inf'']" "Split ''nan,inf'' '';'' = [''nan,inf'']"
    "cut_at ''nan,inf'' ''?'' = (''nan,inf'', [])"
    "ParseFloat32 ''nan'' = (NaN, None)" "ParseFloat32 ''inf'' = (PosInf, None)"
    by code_simp+
  then show ?thesis
    by (simp add: ParseGeoURI_def HasPrefix_def geo_coordinates_def geo_query_def Let_def)
qed

end
