(* ===== verification/Bridge_Matrix.thy ===== *)
theory Bridge_Matrix
  imports Bridge_Events Geo_URI
begin

text \<open>
  Events from Matrix: \<^verbatim>\<open>pkg/connector/handle_matrix.go\<close>, the conversion of their text
  (\<^verbatim>\<open>pkg/msgconv\<close>), and the remaining operations of a user's client
  (\<^verbatim>\<open>pkg/connector/client.go\<close>).  Handlers of a user's client share the connector's state.
\<close>

section \<open>Message conversion\<close>

definition convertPill :: "('c, 'w) benv \<Rightarrow> string \<Rightarrow> string \<Rightarrow> string \<Rightarrow> string" where
  "convertPill B displayname mxid eventID =
     (if mxid = [] \<or> hd mxid \<noteq> CHR ''@'' then
        if displayname = ''@room'' then BellCharacter
        else fw_DefaultPill (be_fw B) displayname mxid eventID
      else
        let nodeID = (case fw_ParseGhostMXID (be_fw B) mxid of
                        Some gid \<Rightarrow> fst (ParseUserID gid)
                      | None \<Rightarrow> MXIDToNodeID mxid);
            nodeStr = NodeID_String nodeID
        in drop (length nodeStr - 4) nodeStr)"

definition msgconv_New :: "('c, 'w) benv \<Rightarrow> HTMLParser" where
  "msgconv_New B =
     \<lparr>hp_Pill = convertPill B, hp_Newline = nl, hp_TabsToSpaces = 2,
      hp_Bold = (\<lambda>text. ''*'' @ text @ ''*''), hp_Italic = (\<lambda>text. ''_'' @ text @ ''_''),
      hp_Strikethrough = (\<lambda>text. text), hp_Monospace = (\<lambda>text. text),
      hp_MonospaceBlock = (\<lambda>code language. ''```'' @ nl @ code @ nl @ ''```'')\<rparr>"

datatype MsgType = MsgText | MsgNotice | MsgEmote | MsgLocation | MsgOther string

record MessageContent =
  mc_MsgType :: MsgType
  mc_Body :: string
  mc_IsHTML :: bool
  mc_FormattedBody :: string
  mc_GeoURI :: string

definition parseText :: "('c, 'w) benv \<Rightarrow> MessageContent \<Rightarrow> string" where
  "parseText B content =
     (if mc_IsHTML content then fw_HTMLParse (be_fw B) (msgconv_New B) (mc_FormattedBody content)
      else mc_Body content)"

definition ToMeshtastic :: "('c, 'w) benv \<Rightarrow> MessageContent \<Rightarrow> string" where
  "ToMeshtastic B content = parseText B content"

section \<open>Messages\<close>

text \<open>
  \<open>MatrixIgnored\<close> is the result \<^verbatim>\<open>nil, nil\<close>.  \<open>MatrixSent\<close> carries the identifiers of the row the
  framework saves for the message.
\<close>

datatype matrix_result =
    MatrixIgnored
  | MatrixError go_error
  | MatrixSent string string
  | MatrixPanic

record MatrixMessage =
  mm_Sender :: string
  mm_RoomID :: string
  mm_Timestamp :: int
  mm_Portal :: portal
  mm_Content :: MessageContent
  mm_ReplyTo :: "string option"

text \<open>
  Where a message goes: channel, name for the message identifier, target node, and whether to
  encrypt for the target.  Asking for the target's key can generate one, and it panics for a node
  without a row.
\<close>

record route =
  rt_channel :: "ChannelDef option"
  rt_name :: string
  rt_target :: NodeID
  rt_usePKI :: bool

definition has_key :: "bytes outcome \<Rightarrow> bool" where
  "has_key r = (case r of Ok k \<Rightarrow> k \<noteq> [] | _ \<Rightarrow> False)"

definition message_route ::
  "('c, 'w) benv \<Rightarrow> portal \<Rightarrow> ('c, 'w) bridge \<Rightarrow> route outcome \<times> ('c, 'w) bridge" where
  "message_route B p b =
     (case po_RoomType p of
        RoomTypeDefault \<Rightarrow>
          (case ChannelDefFromPortalID (e_lib (be_mesh B)) (pk_ID (po_Key p)) of
             Inl err \<Rightarrow> (Err err, b)
           | Inr ch \<Rightarrow>
               (Ok \<lparr>rt_channel = Some ch, rt_name = GetName ch, rt_target = BROADCAST_ID, rt_usePKI = False\<rparr>, b))
      | RoomTypeDM \<Rightarrow>
          (case ParseDMPortalID (pk_ID (po_Key p)) of
             (_, Some err) \<Rightarrow> (Err err, b)
           | ((targetNode, _), None) \<Rightarrow>
               let unmessagable = (case db_get B targetNode b of
                       Inr (Some r) \<Rightarrow> mn_IsUnmessagable r
                     | _ \<Rightarrow> False);
                   (key, b) = getGhostPublicKey B targetNode b
               in if key = Panic then (Panic, b)
                  else if unmessagable then (Err (Errorf ''node is marked as unmesseagable''), b)
                  else (Ok \<lparr>rt_channel = primary (b_mesh b), rt_name = NodeID_String targetNode,
                            rt_target = targetNode, rt_usePKI = has_key key\<rparr>, b))
      | RoomTypeOther t \<Rightarrow> (Err (Errorf (''unsupported room type: '' @ t)), b))"

definition send_content ::
  "('c, 'w) benv \<Rightarrow> MatrixMessage \<Rightarrow> route \<Rightarrow> ('c, 'w) bridge
   \<Rightarrow> (go_error + 32 word) \<times> ('c, 'w) bridge" where
  "send_content B msg r b =
     (let fromNode = MXIDToNodeID (mm_Sender msg);
          result = (\<lambda>((pid, err), b). (case err of None \<Rightarrow> Inr pid | Some e \<Rightarrow> Inl e, b))
      in case mc_MsgType (mm_Content msg) of
           MsgLocation \<Rightarrow>
             (case ParseGeoURI (mc_GeoURI (mm_Content msg)) of
                Inl err \<Rightarrow> (Inl err, b)
              | Inr geouri \<Rightarrow>
                  result (on_mesh B (\<lambda>E. SendPosition E fromNode (rt_target r) geouri (mm_Timestamp msg * 1000000)) b))
         | MsgOther t \<Rightarrow> (Inl (External ''unsupported message type''), b)
         | _ \<Rightarrow>
             let replyID = (case mm_ReplyTo msg of None \<Rightarrow> 0 | Some i \<Rightarrow> snd (fst (ParseMessageID i)))
             in result (on_mesh B (\<lambda>E. SendMessage E fromNode (rt_target r) (rt_channel r)
                          (ToMeshtastic B (mm_Content msg)) replyID (rt_usePKI r)) b))"

definition HandleMatrixMessage ::
  "('c, 'w) benv \<Rightarrow> MatrixMessage \<Rightarrow> ('c, 'w) bridge \<Rightarrow> matrix_result \<times> ('c, 'w) bridge" where
  "HandleMatrixMessage B msg b =
     (case fw_ExistingUser (be_fw B) (b_world b) (mm_Sender msg) of
        Some err \<Rightarrow> (MatrixIgnored, b)
      | None \<Rightarrow>
          (case message_route B (mm_Portal msg) b of
             (Panic, b) \<Rightarrow> (MatrixPanic, b)
           | (Err err, b) \<Rightarrow> (MatrixIgnored, b)
           | (Ok r, b) \<Rightarrow>
               (case send_content B msg r b of
                  (Inl err, b) \<Rightarrow> (MatrixError err, b)
                | (Inr packetId, b) \<Rightarrow>
                    (MatrixSent (MakeMessageID (rt_name r) packetId)
                       (MakeUserID (MXIDToNodeID (mm_Sender msg))), b))))"

definition postMessageSave ::
  "('c, 'w) benv \<Rightarrow> string \<Rightarrow> string \<Rightarrow> string \<Rightarrow> ('c, 'w) bridge \<Rightarrow> ('c, 'w) bridge" where
  "postMessageSave B mxid roomId senderID b =
     (let (g, w) = fw_GetGhost (be_fw B) (b_world b) senderID; b = b\<lparr>b_world := w\<rparr> in
      case g of
        Inl err \<Rightarrow> b
      | Inr ghost \<Rightarrow>
          (case fw_MemberDisplayname (be_fw B) (b_world b) roomId mxid of
             Inl err \<Rightarrow> b
           | Inr displayname \<Rightarrow>
               if gh_NameSet ghost then b
               else
                 let (longName, shortName) = GetDefaultNodeNames (MXIDToNodeID mxid);
                     longName = (if TrimSpace displayname \<noteq> [] then TruncateString (TrimSpace displayname) 39
                                 else longName)
                 in snd (UpdateGhostMeshNames B senderID mxid longName shortName b)))"

section \<open>Reactions\<close>

record MatrixReaction =
  rx_Sender :: string
  rx_Key :: string
  rx_Portal :: portal
  rx_TargetID :: string

text \<open>Sender, emoji identifier and emoji.\<close>

definition PreHandleMatrixReaction :: "('c, 'w) benv \<Rightarrow> MatrixReaction \<Rightarrow> string \<times> string \<times> string" where
  "PreHandleMatrixReaction B msg =
     (MakeUserID (MXIDToNodeID (rx_Sender msg)), rx_Key msg, fw_FullyQualify (be_fw B) (rx_Key msg))"

text \<open>
  The key of the target is asked for also when the portal identifier did not parse, for whatever
  number the parser returned.
\<close>

definition reaction_route ::
  "('c, 'w) benv \<Rightarrow> portal \<Rightarrow> ('c, 'w) bridge \<Rightarrow> route outcome \<times> ('c, 'w) bridge" where
  "reaction_route B p b =
     (case po_RoomType p of
        RoomTypeDefault \<Rightarrow>
          (case ChannelDefFromPortalID (e_lib (be_mesh B)) (pk_ID (po_Key p)) of
             Inl err \<Rightarrow> (Err err, b)
           | Inr ch \<Rightarrow>
               (Ok \<lparr>rt_channel = Some ch, rt_name = [], rt_target = BROADCAST_ID, rt_usePKI = False\<rparr>, b))
      | RoomTypeDM \<Rightarrow>
          let ((targetNode, _), err) = ParseDMPortalID (pk_ID (po_Key p));
              (key, b) = getGhostPublicKey B targetNode b
          in if key = Panic then (Panic, b)
             else (case err of
                     Some e \<Rightarrow> (Err e, b)
                   | None \<Rightarrow>
                       (Ok \<lparr>rt_channel = primary (b_mesh b), rt_name = [], rt_target = targetNode,
                            rt_usePKI = has_key key\<rparr>, b))
      | RoomTypeOther t \<Rightarrow> (Err (Errorf (''unsupported room type: '' @ t)), b))"

definition HandleMatrixReaction ::
  "('c, 'w) benv \<Rightarrow> MatrixReaction \<Rightarrow> ('c, 'w) bridge \<Rightarrow> unit outcome \<times> ('c, 'w) bridge" where
  "HandleMatrixReaction B msg b =
     (let (senderID, _, emoji) = PreHandleMatrixReaction B msg in
      case ParseMessageID (rx_TargetID msg) of
        (_, Some err) \<Rightarrow> (Err err, b)
      | ((_, packetID), None) \<Rightarrow>
          (case reaction_route B (rx_Portal msg) b of
             (Panic, b) \<Rightarrow> (Panic, b)
           | (Err err, b) \<Rightarrow> (Err err, b)
           | (Ok r, b) \<Rightarrow>
               (case ParseUserID senderID of
                  (_, Some err) \<Rightarrow> (Err err, b)
                | (fromNode, None) \<Rightarrow>
                    (case on_mesh B (\<lambda>E. SendReaction E fromNode (rt_target r) (rt_channel r) packetID emoji (rt_usePKI r)) b of
                       ((_, None), b) \<Rightarrow> (Ok (), b)
                     | ((_, Some err), b) \<Rightarrow> (Err err, b)))))"

section \<open>Presence\<close>

definition UpdateLastSeenDate :: "('c, 'w) benv \<Rightarrow> string \<Rightarrow> ('c, 'w) bridge \<Rightarrow> ('c, 'w) bridge" where
  "UpdateLastSeenDate B sender b =
     (if fw_ParseGhostMXID (be_fw B) sender \<noteq> None then b
      else
        let nodeID = MXIDToNodeID sender;
            (g, w) = fw_GetGhost (be_fw B) (b_world b) (MakeUserID nodeID);
            b = b\<lparr>b_world := w\<rparr>
        in case g of
             Inl err \<Rightarrow> b
           | Inr ghost \<Rightarrow> set_last_seen B nodeID True b)"

definition HandleMatrixReactionRemove ::
  "('c, 'w) benv \<Rightarrow> string \<Rightarrow> ('c, 'w) bridge \<Rightarrow> go_error \<times> ('c, 'w) bridge" where
  "HandleMatrixReactionRemove B sender b =
     (Errorf ''reaction removal is not supported on Meshtastic network'', UpdateLastSeenDate B sender b)"

definition HandleMatrixTyping :: "('c, 'w) benv \<Rightarrow> login \<Rightarrow> bool \<Rightarrow> ('c, 'w) bridge \<Rightarrow> ('c, 'w) bridge" where
  "HandleMatrixTyping B l isTyping b = (if \<not> isTyping then b else UpdateLastSeenDate B (ul_UserMXID l) b)"

definition HandleMatrixReadReceipt :: "('c, 'w) benv \<Rightarrow> login \<Rightarrow> ('c, 'w) bridge \<Rightarrow> ('c, 'w) bridge" where
  "HandleMatrixReadReceipt B l b = UpdateLastSeenDate B (ul_UserMXID l) b"

text \<open>The target of a membership change, and the ghost a join is redirected to.\<close>

datatype member_target = GhostTarget string | LoginTarget string | OtherTarget

definition target_node ::
  "('c, 'w) benv \<Rightarrow> member_target \<Rightarrow> ('c, 'w) bridge \<Rightarrow> (go_error + NodeID) \<times> ('c, 'w) bridge" where
  "target_node B t b =
     (let parse = (\<lambda>u. case ParseUserID u of
                         (_, Some err) \<Rightarrow> Inl (Errorf ''failed to parse node ID for user'')
                       | (n, None) \<Rightarrow> Inr n)
      in case t of
           GhostTarget i \<Rightarrow> (parse i, b)
         | LoginTarget i \<Rightarrow>
             (let (g, w) = fw_GetGhost (be_fw B) (b_world b) i; b = b\<lparr>b_world := w\<rparr>
              in case g of
                   Inl err \<Rightarrow> (Inl (Errorf ''failed to get ghost for user''), b)
                 | Inr ghost \<Rightarrow> (parse (gh_ID ghost), b))
         | OtherTarget \<Rightarrow> (Inl (Errorf ''cannot get target intent: unknown type''), b))"

definition HandleMatrixMembership ::
  "('c, 'w) benv \<Rightarrow> bool \<Rightarrow> member_target \<Rightarrow> ('c, 'w) bridge
   \<Rightarrow> (go_error + string option) \<times> ('c, 'w) bridge" where
  "HandleMatrixMembership B isJoin t b =
     (if \<not> isJoin then (Inr None, b)
      else case target_node B t b of
             (Inl err, b) \<Rightarrow> (Inl err, b)
           | (Inr nodeID, b) \<Rightarrow>
               let (managed, b) = IsManagedNode B nodeID b
               in (Inr (if managed then Some (MakeUserID nodeID) else None), b))"

section \<open>The user's client\<close>

text \<open>
  \<^verbatim>\<open>Connect\<close>: the error code of the bridge state that is sent, or \<open>None\<close> when the client's
  handler was registered.
\<close>

definition client_login_Connect ::
  "('c, 'w) benv \<Rightarrow> login \<Rightarrow> ('c, 'w) bridge \<Rightarrow> string option \<times> ('c, 'w) bridge" where
  "client_login_Connect B l b =
     (let register = (\<lambda>b. (None, b\<lparr>b_clients := b_clients b @ [l]\<rparr>)) in
      case db_get B (MXIDToNodeID (ul_UserMXID l)) b of
        Inl err \<Rightarrow> (Some ''meshtastic-node-db-error'', b)
      | Inr None \<Rightarrow> (Some ''meshtastic-node-info-missing'', b)
      | Inr (Some nodeInfo) \<Rightarrow>
          if mn_PrivateKey nodeInfo \<noteq> [] then register b
          else (case be_KeyPair B of
                  Inl err \<Rightarrow> (Some ''meshtastic-key-pair-generation-error'', b)
                | Inr (pub, priv) \<Rightarrow>
                    (case db_put (node_SetAll (be_dbms B) (nodeInfo\<lparr>mn_PublicKey := pub, mn_PrivateKey := priv\<rparr>)) b of
                       (Some err, b) \<Rightarrow> (Some ''meshtastic-node-info-save-error'', b)
                     | (None, b) \<Rightarrow> register b)))"

definition client_login_Disconnect :: "('c, 'w) bridge \<Rightarrow> ('c, 'w) bridge" where
  "client_login_Disconnect b = b\<lparr>b_mesh := client_Disconnect (b_mesh b)\<rparr>"

definition IsLoggedIn :: "('c, 'w) bridge \<Rightarrow> bool" where
  "IsLoggedIn b = IsConnected (b_mesh b)"

definition ResolveIdentifier ::
  "('c, 'w) benv \<Rightarrow> login \<Rightarrow> string \<Rightarrow> ('c, 'w) bridge
   \<Rightarrow> (go_error + (ghost \<times> string \<times> PortalKey \<times> ChatInfo)) \<times> ('c, 'w) bridge" where
  "ResolveIdentifier B l identifier b =
     (case ParseNodeID identifier of
        (_, Some err) \<Rightarrow> (Inl err, b)
      | (remoteNode, None) \<Rightarrow>
          let (g, w) = fw_GetGhost (be_fw B) (b_world b) (MakeUserID remoteNode); b = b\<lparr>b_world := w\<rparr> in
          case g of
            Inl err \<Rightarrow> (Inl (Errorf ''failed to get ghost''), b)
          | Inr ghost \<Rightarrow>
              let myNode = MXIDToNodeID (ul_UserMXID l)
              in (Inr (ghost, MakeUserID remoteNode, makeDMPortalKey l remoteNode myNode,
                       wrapDMInfo B l b myNode remoteNode), b))"

section \<open>Sending\<close>

lemma packet_header_addr [simp]:
  "p_From (packet_header E c ch info d pid) = pi_From info"
  "p_To (packet_header E c ch info d pid) = pi_To info"
  "p_Id (packet_header E c ch info d pid) = pid"
  by (simp_all add: packet_header_def Let_def)

lemma sendBytes_success:
  assumes "sendBytes E channel raw info c = ((pid, None), c')" "channel \<noteq> None"
  shows "\<exists>ch pkt. channel = Some ch \<and> outbox c' = outbox c @ [(GetName ch, pkt)] \<and> e_managed E (pi_From info) \<and>
    p_From pkt = pi_From info \<and> p_To pkt = pi_To info \<and> p_Id pkt = pid \<and>
    (p_PkiEncrypted pkt \<longleftrightarrow> pi_Encrypted info = PKIEncryption)"
  using assms(1)
proof (cases rule: sendBytes_cases)
  case (sent ch pkt n)
  then obtain rawData where "encrypt_packet E ch info (data_of raw info) rawData
      (packet_header E c ch info (data_of raw info) pid) = Inr pkt" "e_managed E (pi_From info)"
    by (auto simp: sent_packet_def)
  with sent show ?thesis
    using encrypt_packet_header(1-3) [of E ch info] encrypt_packet_payload(3) [of E ch info]
    by (fastforce simp: packet_header_def)
qed (use assms(2) in auto)

lemma sendProtoMessage_success:
  assumes "sendProtoMessage E channel m info c = ((pid, None), c')" "channel \<noteq> None"
  shows "\<exists>ch pkt. channel = Some ch \<and> outbox c' = outbox c @ [(GetName ch, pkt)] \<and> e_managed E (pi_From info) \<and>
    p_From pkt = pi_From info \<and> p_To pkt = pi_To info \<and> p_Id pkt = pid \<and>
    (p_PkiEncrypted pkt \<longleftrightarrow> pi_Encrypted info = PKIEncryption)"
  using assms by (auto simp: sendProtoMessage_def split: sum.splits dest: sendBytes_success)

lemma getGhostPublicKey_frame [simp]:
  "b_mesh (snd (getGhostPublicKey B n b)) = b_mesh b"
  "b_world (snd (getGhostPublicKey B n b)) = b_world b"
  "b_managedNodeCache (snd (getGhostPublicKey B n b)) = b_managedNodeCache b"
  "b_baseNodeID (snd (getGhostPublicKey B n b)) = b_baseNodeID b"
  by (auto simp: getGhostPublicKey_def generate_keys_def db_put_def panic_def split: sum.split option.split prod.split)

lemma IsManagedNode_cong:
  assumes "b_world b' = b_world b" "b_managedNodeCache b' = b_managedNodeCache b" "b_baseNodeID b' = b_baseNodeID b"
  shows "fst (IsManagedNode B n b') = fst (IsManagedNode B n b)"
  using assms
  by (auto simp: IsManagedNode_def GetBaseNodeID_def cache_managed_def Let_def split: option.split sum.split)

lemma message_route_frame [simp]:
  "b_mesh (snd (message_route B p b)) = b_mesh b"
  "fst (IsManagedNode B n (snd (message_route B p b))) = fst (IsManagedNode B n b)"
proof -
  have "b_mesh (snd (message_route B p b)) = b_mesh b \<and>
    fst (IsManagedNode B n (snd (message_route B p b))) = fst (IsManagedNode B n b)"
  proof (cases "po_RoomType p")
    case RoomTypeDM
    obtain t s err where d: "ParseDMPortalID (pk_ID (po_Key p)) = ((t, s), err)" by (metis prod.exhaust)
    obtain k b1 where k: "getGhostPublicKey B t b = (k, b1)" by fastforce
    have "b_mesh b1 = b_mesh b" "fst (IsManagedNode B n b1) = fst (IsManagedNode B n b)"
      using getGhostPublicKey_frame [of B t b] k IsManagedNode_cong [of b1 b B n] by simp_all
    with RoomTypeDM d k show ?thesis by (auto simp: message_route_def Let_def split: option.split)
  qed (auto simp: message_route_def split: sum.split)
  then show "b_mesh (snd (message_route B p b)) = b_mesh b"
    "fst (IsManagedNode B n (snd (message_route B p b))) = fst (IsManagedNode B n b)" by simp_all
qed

lemma message_route_channel:
  assumes "message_route B p b = (Ok r, b1)" "primary (b_mesh b) \<noteq> None"
  shows "rt_channel r \<noteq> None"
proof (cases "po_RoomType p")
  case RoomTypeDM
  obtain t s err where d: "ParseDMPortalID (pk_ID (po_Key p)) = ((t, s), err)" by (metis prod.exhaust)
  obtain k b2 where k: "getGhostPublicKey B t b = (k, b2)" by fastforce
  then have "b_mesh b2 = b_mesh b" using getGhostPublicKey_frame(1) [of B t b] by simp
  with RoomTypeDM d k assms show ?thesis
    by (auto simp: message_route_def Let_def split: option.splits if_splits)
qed (use assms in \<open>auto simp: message_route_def split: sum.splits\<close>)

text \<open>The room's part of the route, read off its kind and its identifier.\<close>

lemma message_route_dest:
  assumes "message_route B p b = (Ok r, b1)"
  shows "case po_RoomType p of
      RoomTypeDefault \<Rightarrow> \<exists>d. ChannelDefFromPortalID (e_lib (be_mesh B)) (pk_ID (po_Key p)) = Inr d \<and>
        r = \<lparr>rt_channel = Some d, rt_name = GetName d, rt_target = BROADCAST_ID, rt_usePKI = False\<rparr>
    | RoomTypeDM \<Rightarrow> \<exists>t s. ParseDMPortalID (pk_ID (po_Key p)) = ((t, s), None) \<and>
        r = \<lparr>rt_channel = primary (b_mesh b), rt_name = NodeID_String t, rt_target = t,
             rt_usePKI = has_key (fst (getGhostPublicKey B t b))\<rparr>
    | RoomTypeOther k \<Rightarrow> False"
proof (cases "po_RoomType p")
  case RoomTypeDM
  obtain t s err where d: "ParseDMPortalID (pk_ID (po_Key p)) = ((t, s), err)" by (metis prod.exhaust)
  obtain k b2 where k: "getGhostPublicKey B t b = (k, b2)" by fastforce
  then have "b_mesh b2 = b_mesh b" using getGhostPublicKey_frame(1) [of B t b] by simp
  with RoomTypeDM d k assms show ?thesis
    by (cases err) (auto simp: message_route_def Let_def split: option.splits if_splits)
qed (use assms in \<open>auto simp: message_route_def split: sum.splits\<close>)

lemma on_mesh_eq: "on_mesh B f b = ((r, b')) \<longleftrightarrow> (\<exists>c. f (mesh_env B b) (b_mesh b) = (r, c) \<and> b' = b\<lparr>b_mesh := c\<rparr>)"
  by (auto simp: on_mesh_def split: prod.splits)

lemma mesh_env_simps [simp]:
  "e_managed (mesh_env B b) n = fst (IsManagedNode B n b)" "e_lib (mesh_env B b) = e_lib (be_mesh B)"
  "e_net (mesh_env B b) = e_net (be_mesh B)" "e_now (mesh_env B b) = be_now B"
  by (simp_all add: mesh_env_def)

lemma send_content_success:
  assumes "send_content B msg r b = (Inr pid, b')" "rt_channel r = Some ch" "primary (b_mesh b) = Some pc"
  shows "\<exists>pkt. outbox (b_mesh b') = outbox (b_mesh b) @
      [(if mc_MsgType (mm_Content msg) = MsgLocation then GetName pc else GetName ch, pkt)] \<and>
    fst (IsManagedNode B (MXIDToNodeID (mm_Sender msg)) b) \<and>
    p_From pkt = MXIDToNodeID (mm_Sender msg) \<and> p_To pkt = rt_target r \<and> p_Id pkt = pid \<and>
    (p_PkiEncrypted pkt \<longleftrightarrow> rt_usePKI r \<and> mc_MsgType (mm_Content msg) \<noteq> MsgLocation)"
  using assms
  by (auto simp: send_content_def on_mesh_eq SendMessage_def SendPosition_def Let_def PacketInfo0_def
      split: MsgType.splits sum.splits prod.splits option.splits if_splits
      dest!: sendBytes_success sendProtoMessage_success)

lemma send_content_frame: "b_db (snd (send_content B msg r b)) = b_db b"
  by (auto simp: send_content_def Let_def on_mesh_def split: MsgType.split sum.split option.split prod.split)

section \<open>Properties\<close>


definition sample_content :: MessageContent where
  "sample_content = \<lparr>mc_MsgType = MsgText, mc_Body = ''hi'', mc_IsHTML = False, mc_FormattedBody = [], mc_GeoURI = []\<rparr>"

definition sample_matrix_message :: MatrixMessage where
  "sample_matrix_message =
     \<lparr>mm_Sender = ''@a:b'', mm_RoomID = ''!room'', mm_Timestamp = 5000,
      mm_Portal = \<lparr>po_Key = \<lparr>pk_ID = MakePortalID ''LongFast'' (Some []), pk_Receiver = []\<rparr>,
                   po_RoomType = RoomTypeDefault, po_MXID = ''!room''\<rparr>,
      mm_Content = sample_content, mm_ReplyTo = None\<rparr>"

definition sample_managed :: "(sample_cache, ghost list) bridge" where
  "sample_managed = sample_bridge\<lparr>b_managedNodeCache := [MXIDToNodeID ''@a:b'' \<mapsto> True]\<rparr>"

definition sample_open_channel :: ChannelDef where
  "sample_open_channel = \<lparr>cd_name = ''LongFast'', cd_key = None, cd_keyBytes = []\<rparr>"

lemma sample_route:
  "ChannelDefFromPortalID sample_lib (MakePortalID ''LongFast'' (Some [])) = Inr sample_open_channel"
proof -
  have "ParsePortalID (MakePortalID ''LongFast'' (Some [])) = ((''LongFast'', []), None)"
    by (rule channel_portal.dec_enc [of "(''LongFast'', [])", simplified])
      (simp add: portal_parts_ok_def portal_name_ok_def separatorPortalID_def HasPrefix_def)
  then show ?thesis by (simp add: ChannelDefFromPortalID_def NewChannelDef_def sample_open_channel_def)
qed

lemma sample_send:
  assumes "m n"
  shows "\<exists>c' pid. SendMessage (sample_env\<lparr>e_managed := m, e_pubKeyRequest := p, e_privKeyRequest := q, e_neighborProvider := r\<rparr>)
     n BROADCAST_ID (Some sample_open_channel) ''hi'' 0 False sample_client = ((pid, None), c')"
  using assms
  by (simp add: SendMessage_def sendBytes_def generatePacketId_def randUint32_def encrypt_packet_def
      deliver_def data_of_def packet_header_def join_errors_def sample_open_channel_def GetKeyBytes_def
      sample_defs Let_def PacketInfo0_def)

lemma sample_message_sent:
  "\<exists>pid c'. HandleMatrixMessage sample_benv sample_matrix_message sample_managed =
     (MatrixSent (MakeMessageID ''LongFast'' pid) (MakeUserID (MXIDToNodeID ''@a:b'')), sample_managed\<lparr>b_mesh := c'\<rparr>)"
  "message_route sample_benv (mm_Portal sample_matrix_message) sample_managed =
      (Ok \<lparr>rt_channel = Some sample_open_channel, rt_name = ''LongFast'', rt_target = BROADCAST_ID, rt_usePKI = False\<rparr>,
       sample_managed)"
proof -
  have man: "fst (IsManagedNode sample_benv (MXIDToNodeID ''@a:b'') sample_managed)"
    by (simp add: IsManagedNode_def sample_managed_def)
  obtain c' pid where snd: "SendMessage (mesh_env sample_benv sample_managed) (MXIDToNodeID ''@a:b'') BROADCAST_ID
      (Some sample_open_channel) ''hi'' 0 False sample_client = ((pid, None), c')"
    unfolding sample_mesh_env using sample_send [of "\<lambda>n. fst (IsManagedNode sample_benv n sample_managed)", OF man] by blast
  show route: "message_route sample_benv (mm_Portal sample_matrix_message) sample_managed =
      (Ok \<lparr>rt_channel = Some sample_open_channel, rt_name = ''LongFast'', rt_target = BROADCAST_ID, rt_usePKI = False\<rparr>,
       sample_managed)"
    using sample_route
    by (simp add: message_route_def sample_matrix_message_def sample_benv_def sample_env_def sample_open_channel_def GetName_def)
  have "fw_ExistingUser (be_fw sample_benv) w u = None" for w u by (simp add: sample_benv_def sample_framework_def)
  moreover have "b_mesh sample_managed = sample_client" by (simp add: sample_managed_def sample_bridge_def)
  ultimately have "HandleMatrixMessage sample_benv sample_matrix_message sample_managed =
      (MatrixSent (MakeMessageID ''LongFast'' pid) (MakeUserID (MXIDToNodeID ''@a:b'')), sample_managed\<lparr>b_mesh := c'\<rparr>)"
    using snd route
    by (simp add: HandleMatrixMessage_def send_content_def on_mesh_def sample_matrix_message_def sample_content_def
        ToMeshtastic_def parseText_def)
  then show "\<exists>pid c'. HandleMatrixMessage sample_benv sample_matrix_message sample_managed =
     (MatrixSent (MakeMessageID ''LongFast'' pid) (MakeUserID (MXIDToNodeID ''@a:b'')), sample_managed\<lparr>b_mesh := c'\<rparr>)"
    by blast
qed

lemma sample_managed_mesh:
  "primaryChannel (b_mesh sample_managed) = Some (0, sample_channel)" "outbox (b_mesh sample_managed) = []"
  by (simp_all add: sample_managed_def sample_bridge_def sample_client_def NewMeshtasticClient_def)


text \<open>
  A location from Matrix is sent on the primary channel whatever room it was posted in, and
  with the channel's key even in a direct chat whose text messages are encrypted for the other
  node alone.
\<close>

lemma location_on_primary:
  assumes "mc_MsgType (mm_Content msg) = MsgLocation" "primaryChannel (b_mesh b) = Some (i, pc)"
    and "HandleMatrixMessage B msg b = (MatrixSent mid sid, b')"
  shows "\<exists>pkt. outbox (b_mesh b') = outbox (b_mesh b) @ [(GetName pc, pkt)] \<and> \<not> p_PkiEncrypted pkt"
proof -
  obtain x b1 where route: "message_route B (mm_Portal msg) b = (x, b1)" by fastforce
  have b1: "b_mesh b1 = b_mesh b" using message_route_frame(1) [of B "mm_Portal msg" b] route by simp
  obtain r pid where "send_content B msg r b1 = (Inr pid, b')"
    using assms(3) route by (auto simp: HandleMatrixMessage_def split: option.splits outcome.splits prod.splits sum.splits)
  then obtain geo c where "SendPosition (mesh_env B b1) (MXIDToNodeID (mm_Sender msg)) (rt_target r) geo
      (mm_Timestamp msg * 1000000) (b_mesh b) = ((pid, None), c)" "b' = b1\<lparr>b_mesh := c\<rparr>"
    using assms(1) b1 by (auto simp: send_content_def on_mesh_eq Let_def split: sum.splits option.splits prod.splits)
  then obtain raw where "sendBytes (mesh_env B b1) (Some pc) raw
      (PacketInfo0 POSITION_APP PSKEncryption (MXIDToNodeID (mm_Sender msg)) (rt_target r)) (b_mesh b) = ((pid, None), c)"
    using assms(2) by (auto simp: SendPosition_def sendProtoMessage_def primary_def split: sum.splits)
  then show ?thesis
  proof (cases rule: sendBytes_cases)
    case (sent ch pkt n)
    then show ?thesis
      using \<open>b' = b1\<lparr>b_mesh := c\<rparr>\<close> encrypt_packet_payload(3)
      by (fastforce simp: sent_packet_def packet_header_def Let_def)
  qed auto
qed

end
