(* ===== verification/Bridge_Commands.thy ===== *)
theory Bridge_Commands
  imports Bridge_Matrix
begin

text \<open>
  The bridge's commands, \<^verbatim>\<open>pkg/connector/commands.go\<close>, joining a channel
  (\<^verbatim>\<open>handle_meshtastic.go\<close>) and the login process, \<^verbatim>\<open>pkg/connector/login.go\<close>.  A command
  returns its replies; \<open>ReplyError\<close> is a reply that ends in the text of an error.  The network and
  Matrix connectors of the process are the ones of this repository and of the framework, so the
  type assertions on them hold.
\<close>

section \<open>Joining a channel\<close>

definition joinChannel ::
  "('c, 'w) benv \<Rightarrow> login \<Rightarrow> string \<Rightarrow> string \<Rightarrow> ('c, 'w) bridge \<Rightarrow> go_error option \<times> ('c, 'w) bridge" where
  "joinChannel B l channelName channelKey b =
     (let (p, w) = fw_GetPortal (be_fw B) (makePortalKey B l channelName (Some channelKey)) (b_world b);
          b = b\<lparr>b_world := w\<rparr>
      in case p of
           Inl err \<Rightarrow> (Some err, b)
         | Inr portal \<Rightarrow>
             let chatInfo = wrapChatInfo (Some (ul_UserMXID l)) channelName channelKey;
                 (err, w) = fw_CreateRoom (be_fw B) portal (fw_DefaultLogin (be_fw B) (b_world b) (ul_UserMXID l))
                              chatInfo (b_world b)
             in (err, b\<lparr>b_world := w\<rparr>))"

section \<open>Commands\<close>

datatype reply = Reply string | ReplyError string go_error

record command =
  ce_UserMXID :: string
  ce_RoomID :: string
  ce_Portal :: "portal option"
  ce_Args :: "string list"

definition fnJoinChannel :: "('c, 'w) benv \<Rightarrow> command \<Rightarrow> ('c, 'w) bridge \<Rightarrow> reply list \<times> ('c, 'w) bridge" where
  "fnJoinChannel B ce b =
     (case ce_Args ce of
        [name, key] \<Rightarrow>
          (case fw_DefaultLogin (be_fw B) (b_world b) (ce_UserMXID ce) of
             None \<Rightarrow> ([Reply ''Login not found''], b)
           | Some l \<Rightarrow>
               if \<not> IsLoggedIn b then ([Reply ''Not logged in''], b)
               else (case NewChannelDef (e_lib (be_mesh B)) name (Some key) of
                       Inl err \<Rightarrow> ([ReplyError ''Failed to join channel: '' err], b)
                     | Inr chanDef \<Rightarrow>
                         let c = b_mesh b;
                             b = b\<lparr>b_mesh := AddChannelDef (nextRef c, chanDef) (c\<lparr>nextRef := Suc (nextRef c)\<rparr>)\<rparr>
                         in case joinChannel B l name (GetKeyString chanDef) b of
                              (Some err, b) \<Rightarrow> ([ReplyError ''Failed to join channel: '' err], b)
                            | (None, b) \<Rightarrow>
                                ([Reply ''Successfully joined channel, the portal should be created momentarily''], b)))
      | _ \<Rightarrow> ([Reply ''**Usage:** `$cmdprefix join-channel <channel_name> <channel_key>`''], b))"

definition fnUpdateNames :: "('c, 'w) benv \<Rightarrow> command \<Rightarrow> ('c, 'w) bridge \<Rightarrow> reply list \<times> ('c, 'w) bridge" where
  "fnUpdateNames B ce b =
     (case ce_Args ce of
        shortName # a # as \<Rightarrow>
          let longName = Join (a # as) '' '';
              nodeID = MXIDToNodeID (ce_UserMXID ce)
          in if length longName > 39 then ([Reply ''Long name must be less than 40 bytes''], b)
             else if length shortName > 4 then ([Reply ''Short name must be less than 5 bytes''], b)
             else (case UpdateGhostMeshNames B (MakeUserID nodeID) (ce_UserMXID ce) longName shortName b of
                     (Some err, b) \<Rightarrow> ([ReplyError ''Unable to set your names on Meshtastic: '' err], b)
                   | (None, b) \<Rightarrow> ([Reply ''Successfully updated Meshtastic names''], b))
      | _ \<Rightarrow> ([Reply ''**Usage:** `$cmdprefix update-names <short_name> <long_name>`''], b))"

text \<open>The Matrix user \<^verbatim>\<open>fnNodeInfo\<close> is about, and whether a node was named.\<close>

definition info_target :: "('c, 'w) benv \<Rightarrow> command \<Rightarrow> string \<times> bool" where
  "info_target B ce =
     (case ce_Args ce of
        [] \<Rightarrow> (ce_UserMXID ce, False)
      | a # _ \<Rightarrow>
          (case ParseNodeID a of
             (parsedID, None) \<Rightarrow> (fw_FormatGhostMXID (be_fw B) (MakeUserID parsedID), True)
           | (_, Some err) \<Rightarrow> (if fw_ValidMXID (be_fw B) a then a else ce_UserMXID ce, False)))"

definition fnNodeInfo :: "('c, 'w) benv \<Rightarrow> command \<Rightarrow> ('c, 'w) bridge \<Rightarrow> reply list \<times> ('c, 'w) bridge" where
  "fnNodeInfo B ce b =
     (let fromNode = MXIDToNodeID (ce_UserMXID ce);
          (userMXID, isMeshNode) = info_target B ce;
          (nodeID, isMeshNode) = (case fw_ParseGhostMXID (be_fw B) userMXID of
             Some gid \<Rightarrow> (fst (ParseUserID gid), True)
           | None \<Rightarrow> (MXIDToNodeID userMXID, isMeshNode));
          unknown = (if isMeshNode
                     then ([Reply (''Unknown node '' @ NodeID_String nodeID @ ''. Sending request to mesh'')],
                           sendNodeInfo B fromNode nodeID True b)
                     else ([Reply (''Matrix user '' @ userMXID @ '' is not associated with a Meshtastic node'')], b))
      in case db_get B nodeID b of
           Inl err \<Rightarrow> ([ReplyError ''Failed to fetch node info: '' err], b)
         | Inr None \<Rightarrow> unknown
         | Inr (Some nodeInfo) \<Rightarrow>
             if mn_LongName nodeInfo = [] \<or> mn_ShortName nodeInfo = [] then unknown
             else
               let pubKey = (if mn_PublicKey nodeInfo \<noteq> []
                             then ''`'' @ base64_EncodeToString (mn_PublicKey nodeInfo) @ ''`''
                             else ''*unknown*'')
               in ([Reply (''**Node ID:** '' @ NodeID_String nodeID @ nl @ ''**Long Name:** '' @ mn_LongName nodeInfo @ nl @
                           ''**Short Name:** '' @ mn_ShortName nodeInfo @ nl @ ''**Public Key:** '' @ pubKey)], b))"

definition trace_target :: "('c, 'w) benv \<Rightarrow> string \<Rightarrow> NodeID option" where
  "trace_target B a =
     (case ParseNodeID a of
        (parsedID, None) \<Rightarrow> Some parsedID
      | (_, Some err) \<Rightarrow>
          if fw_ValidMXID (be_fw B) a then
            (case fw_ParseGhostMXID (be_fw B) a of
               Some gid \<Rightarrow> (case ParseUserID gid of (nodeID, None) \<Rightarrow> Some nodeID | _ \<Rightarrow> None)
             | None \<Rightarrow> None)
          else None)"

definition trace_channel ::
  "('c, 'w) benv \<Rightarrow> portal option \<Rightarrow> ('c, 'w) bridge \<Rightarrow> reply + ChannelDef" where
  "trace_channel B portal b =
     (case portal of
        Some p \<Rightarrow>
          (case ParsePortalID (pk_ID (po_Key p)) of
             (_, Some err) \<Rightarrow> Inl (ReplyError ''Failed to get channel info: '' err)
           | ((channelID, channelKey), None) \<Rightarrow>
               (case NewChannelDef (e_lib (be_mesh B)) channelID (Some channelKey) of
                  Inl err \<Rightarrow> Inl (ReplyError ''Failed to create channel definition: '' err)
                | Inr ch \<Rightarrow> Inr ch))
      | None \<Rightarrow>
          (case primary (b_mesh b) of
             None \<Rightarrow> Inl (Reply ''No primary channel configured'')
           | Some ch \<Rightarrow> Inr ch))"

text \<open>\<^verbatim>\<open>int(waitTime.Seconds())\<close>; the value is far within the range of \<^verbatim>\<open>int\<close>.\<close>

definition whole_seconds :: "duration \<Rightarrow> int" where
  "whole_seconds d = (case Duration_Seconds d of Fin r \<Rightarrow> rat_trunc r | _ \<Rightarrow> 0)"

definition fnTraceroute :: "('c, 'w) benv \<Rightarrow> command \<Rightarrow> ('c, 'w) bridge \<Rightarrow> reply list \<times> ('c, 'w) bridge" where
  "fnTraceroute B ce b =
     (case ce_Args ce of
        [] \<Rightarrow> ([Reply ''**Usage:** `$cmdprefix traceroute <node_id>`''], b)
      | a # _ \<Rightarrow>
          let fromNode = MXIDToNodeID (ce_UserMXID ce) in
          case trace_target B a of
            None \<Rightarrow> ([Reply (''Invalid node ID: '' @ a)], b)
          | Some targetNode \<Rightarrow>
              if targetNode = 0 then ([Reply (''Invalid node ID: '' @ a)], b)
              else
                let (canSend, waitTime) = CanSendTraceroute (b_tracker b) fromNode targetNode (be_now B) in
                if \<not> canSend then
                  ([Reply (''Please wait '' @ Itoa (whole_seconds waitTime) @
                           '' seconds before sending another traceroute to this node'')], b)
                else case trace_channel B (ce_Portal ce) b of
                  Inl r \<Rightarrow> ([r], b)
                | Inr channel \<Rightarrow>
                    (case on_mesh B (\<lambda>E. SendTraceroute E fromNode targetNode (Some channel)) b of
                       ((_, Some err), b) \<Rightarrow> ([ReplyError ''Failed to send traceroute: '' err], b)
                     | ((packetID, None), b) \<Rightarrow>
                         let req = \<lparr>tr_PacketID = packetID, tr_FromNode = fromNode, tr_TargetNode = targetNode,
                                    tr_RoomID = ce_RoomID ce, tr_Timestamp = be_now B, tr_Channel = Some channel\<rparr>
                         in ([Reply (''Traceroute request sent to '' @ NodeID_String targetNode @
                                     ''. Waiting for response...'')],
                             b\<lparr>b_tracker := AddRequest req (b_tracker b)\<rparr>)))"

section \<open>Login\<close>

definition LoginFlowIDUsernamePassword :: string where "LoginFlowIDUsernamePassword = ''user-pass''"
definition LoginFieldLongName :: string where "LoginFieldLongName = ''long-name''"
definition LoginFieldShortName :: string where "LoginFieldShortName = ''short-name''"

definition CreateLogin :: "string \<Rightarrow> go_error option" where
  "CreateLogin flowID =
     (if flowID \<noteq> LoginFlowIDUsernamePassword then Some (Errorf (''unsupported login flow ID: '' @ flowID)) else None)"

text \<open>The validators of the two input fields.\<close>

definition login_Validate :: "string \<Rightarrow> string \<Rightarrow> go_error option" where
  "login_Validate field s =
     (if field = LoginFieldLongName then
        if length s > 39 then Some (Errorf ''must be less than 40 bytes long'') else None
      else if length s > 4 then Some (Errorf ''must be less than 5 bytes long'') else None)"

definition SubmitUserInput ::
  "('c, 'w) benv \<Rightarrow> string \<Rightarrow> (string \<rightharpoonup> string) \<Rightarrow> ('c, 'w) bridge \<Rightarrow> (go_error + login) \<times> ('c, 'w) bridge" where
  "SubmitUserInput B mxid input b =
     (let field = (\<lambda>f. case input f of Some s \<Rightarrow> s | None \<Rightarrow> []);
          long_name = field LoginFieldLongName;
          short_name = field LoginFieldShortName;
          userNodeId = MXIDToNodeID mxid
      in if long_name = [] \<or> short_name = [] then (Inl (Errorf ''long and short names are required''), b)
         else case UpdateGhostMeshNames B (MakeUserID userNodeId) mxid long_name short_name b of
                (Some err, b) \<Rightarrow> (Inl (Errorf ''failed to create user login''), b)
              | (None, b) \<Rightarrow>
                  let (ul, w) = fw_NewLogin (be_fw B) mxid
                         \<lparr>ul_ID = MakeUserLoginID userNodeId, ul_NodeID = userNodeId, ul_UserMXID = mxid\<rparr>
                         short_name long_name (b_world b);
                      b = b\<lparr>b_world := w\<rparr>
                  in case ul of
                       Inl err \<Rightarrow> (Inl (Errorf ''failed to create user login''), b)
                     | Inr l \<Rightarrow> (Inr l, b))"

section \<open>Unmanaged nodes\<close>

lemma SendNodeInfo_unmanaged:
  assumes "\<not> e_managed E src"
  shows "fst (SendNodeInfo E src dst lname sname wr pk c) \<noteq> None"
proof -
  obtain pid err c' where r: "sendProtoMessage E (primary c) (MsgUser (nodeInfo_user c src lname sname pk))
     ((PacketInfo0 NODEINFO_APP PSKEncryption src dst)\<lparr>pi_WantResponse := wr\<rparr>) c = ((pid, err), c')"
    by (metis prod.exhaust)
  then have "err \<noteq> None" using assms by (auto simp: sendProtoMessage_def sendBytes_def split: sum.splits)
  with r show ?thesis by (auto simp: SendNodeInfo_def Let_def)
qed

lemma UpdateGhostMeshNames_unmanaged:
  assumes "b_managedNodeCache b n = Some False"
  shows "fst (UpdateGhostMeshNames B (MakeUserID n) mxid lname sname b) \<noteq> None"
proof -
  obtain x b1 where reg: "register_ghost B (MakeUserID n) mxid lname b = (x, b1)" by fastforce
  have x: "x = Inr n \<or> (\<exists>e. x = Inl e)"
    using reg by (auto simp: register_ghost_def Let_def split: sum.splits prod.splits)
  have "b_managedNodeCache b1 n = Some False"
    using register_ghost_frame(1) [of B "MakeUserID n" mxid lname b] reg assms by simp
  then have man: "\<not> fst (IsManagedNode B n (b1\<lparr>b_db := d\<rparr>))" for d by (simp add: IsManagedNode_def)
  have "fst (on_mesh B (\<lambda>E. SendNodeInfo E n BROADCAST_ID lname sname False pk) (b1\<lparr>b_db := d\<rparr>)) \<noteq> None" for pk d
    using SendNodeInfo_unmanaged [of "mesh_env B (b1\<lparr>b_db := d\<rparr>)" n] man
    by (simp add: on_mesh_def case_prod_beta)
  then have "fst (store_names B n lname sname b1) \<noteq> None"
    by (auto simp: store_names_def db_put_def split: sum.splits option.splits prod.splits)
  with x reg show ?thesis by (auto simp: UpdateGhostMeshNames_def)
qed

lemma SubmitUserInput_error:
  assumes "\<And>lname sname. \<exists>e b2. UpdateGhostMeshNames B (MakeUserID (MXIDToNodeID mxid)) mxid lname sname b = (Some e, b2)"
  shows "\<exists>e. fst (SubmitUserInput B mxid input b) = Inl e"
proof -
  define lname where "lname = (case input LoginFieldLongName of Some s \<Rightarrow> s | None \<Rightarrow> [])"
  define sname where "sname = (case input LoginFieldShortName of Some s \<Rightarrow> s | None \<Rightarrow> [])"
  obtain e b2 where "UpdateGhostMeshNames B (MakeUserID (MXIDToNodeID mxid)) mxid lname sname b = (Some e, b2)"
    using assms by blast
  then show ?thesis by (simp add: SubmitUserInput_def lname_def sname_def Let_def)
qed

section \<open>Properties\<close>

definition sample_command :: command where
  "sample_command = \<lparr>ce_UserMXID = ''@a:b'', ce_RoomID = ''!room'', ce_Portal = None, ce_Args = [NodeID_String 20]\<rparr>"

text \<open>
  C39: a user who asks for information about an unknown node before logging in cannot log in
  afterwards.  The request is sent on behalf of the user's node, which is found not to be managed;
  this answer is remembered, and the announcement that is part of every login is refused, until
  the bridge is restarted.
\<close>

theorem info_blocks_login:
  assumes "ParseNodeID a = (n, None)"
    and "fw_ParseGhostMXID (be_fw B) (fw_FormatGhostMXID (be_fw B) (MakeUserID n)) = Some (MakeUserID n)"
    and "db_get B n b = Inr None"
    and "b_managedNodeCache b (MXIDToNodeID mxid) = None" "fst (GetBaseNodeID B b) \<noteq> MXIDToNodeID mxid"
    and "fw_GetExistingGhost (be_fw B) (b_world b) (MakeUserID (MXIDToNodeID mxid)) = Inr None"
    and "b' = snd (fnNodeInfo B \<lparr>ce_UserMXID = mxid, ce_RoomID = room, ce_Portal = p, ce_Args = [a]\<rparr> b)"
  shows "\<exists>e. fst (SubmitUserInput B mxid input b') = Inl e"
proof -
  let ?me = "MXIDToNodeID mxid"
  obtain base b1 where base: "GetBaseNodeID B b = (base, b1)" by fastforce
  then have b1: "b_world b1 = b_world b" using GetBaseNodeID_frame(2) [of B b] by simp
  have "b' = sendNodeInfo B ?me n True b"
    using assms(1-3,7) by (simp add: fnNodeInfo_def info_target_def)
  also have "\<dots> = b1\<lparr>b_managedNodeCache := (b_managedNodeCache b1)(?me \<mapsto> False)\<rparr>"
    using assms(4-6) base b1 by (auto simp: sendNodeInfo_def IsManagedNode_def cache_managed_def)
  finally have "b_managedNodeCache b' ?me = Some False" by simp
  then have "\<exists>e b2. UpdateGhostMeshNames B (MakeUserID ?me) mxid lname sname b' = (Some e, b2)" for lname sname
    using UpdateGhostMeshNames_unmanaged [of b' ?me B mxid lname sname] by (metis option.exhaust prod.collapse)
  then show ?thesis
    by (rule SubmitUserInput_error)
qed

definition sample_ghosts :: "(sample_cache, ghost list) benv" where
  "sample_ghosts = sample_benv\<lparr>be_fw := sample_framework\<lparr>fw_ParseGhostMXID := \<lambda>u. Some (MakeUserID 20)\<rparr>\<rparr>"

lemma sample_MXID: "MXIDToNodeID ''@a:b'' = 0x7550f83b"
  by (simp add: MXIDToNodeID_def crc32_eval)

theorem info_blocks_login_witness:
  "\<exists>e. fst (SubmitUserInput sample_ghosts ''@a:b'' [LoginFieldLongName \<mapsto> ''Alice'', LoginFieldShortName \<mapsto> ''A'']
        (snd (fnNodeInfo sample_ghosts sample_command sample_bridge))) = Inl e"
proof -
  have db: "db_get sample_ghosts 20 sample_bridge = Inr None"
    by (simp add: db_get_def sample_ghosts_def sample_benv_def sample_bridge_def GetByNodeID_def QueryOne_def query_def
        sample_dbms_def)
  have "fst (GetBaseNodeID sample_ghosts sample_bridge) = 2" "b_managedNodeCache sample_bridge n = None" for n
    by (simp_all add: GetBaseNodeID_def sample_bridge_def)
  moreover have "fw_GetExistingGhost (be_fw sample_ghosts) (b_world sample_bridge) i = Inr None" for i
    by (simp add: sample_ghosts_def sample_framework_def sample_find_ghost_def sample_bridge_def)
  moreover have "fw_ParseGhostMXID (be_fw sample_ghosts) u = Some (MakeUserID 20)" for u
    by (simp add: sample_ghosts_def)
  ultimately show ?thesis
    unfolding sample_command_def
    by (intro info_blocks_login [OF ParseNodeID_String [of 20] _ db _ _ _ refl]) (simp_all add: sample_MXID)
qed

lemma fnTraceroute_tracked:
  assumes "fnTraceroute B ce b = (rs, b')" "b_tracker b' \<noteq> b_tracker b"
  shows "\<exists>t ch pid b1. trace_channel B (ce_Portal ce) b = Inr ch \<and>
    fst (CanSendTraceroute (b_tracker b) (MXIDToNodeID (ce_UserMXID ce)) t (be_now B)) \<and>
    on_mesh B (\<lambda>E. SendTraceroute E (MXIDToNodeID (ce_UserMXID ce)) t (Some ch)) b = ((pid, None), b1) \<and>
    b' = b1\<lparr>b_tracker := AddRequest \<lparr>tr_PacketID = pid, tr_FromNode = MXIDToNodeID (ce_UserMXID ce), tr_TargetNode = t,
       tr_RoomID = ce_RoomID ce, tr_Timestamp = be_now B, tr_Channel = Some ch\<rparr> (b_tracker b1)\<rparr>"
proof -
  let ?me = "MXIDToNodeID (ce_UserMXID ce)"
  obtain a as where args: "ce_Args ce = a # as" using assms by (cases "ce_Args ce") (auto simp: fnTraceroute_def)
  obtain t where t: "trace_target B a = Some t" "t \<noteq> 0"
    using assms args by (cases "trace_target B a"; cases "trace_target B a = Some 0") (auto simp: fnTraceroute_def)
  obtain cs w where can: "CanSendTraceroute (b_tracker b) ?me t (be_now B) = (cs, w)" by fastforce
  have cs using assms args t can by (cases cs) (auto simp: fnTraceroute_def)
  with can have can: "CanSendTraceroute (b_tracker b) ?me t (be_now B) = (True, w)" by simp
  obtain ch where ch: "trace_channel B (ce_Portal ce) b = Inr ch"
    using assms args t can by (cases "trace_channel B (ce_Portal ce) b") (auto simp: fnTraceroute_def)
  obtain pid err b1 where s: "on_mesh B (\<lambda>E. SendTraceroute E ?me t (Some ch)) b = ((pid, err), b1)"
    by (metis prod.exhaust)
  then have b1: "b_tracker b1 = b_tracker b" by (auto simp: on_mesh_eq)
  have "err = None" using assms args t can ch s b1 by (cases err) (simp_all add: fnTraceroute_def)
  moreover from this have "b' = b1\<lparr>b_tracker := AddRequest \<lparr>tr_PacketID = pid, tr_FromNode = ?me, tr_TargetNode = t,
       tr_RoomID = ce_RoomID ce, tr_Timestamp = be_now B, tr_Channel = Some ch\<rparr> (b_tracker b1)\<rparr>"
    using assms(1) args t can ch s by (simp add: fnTraceroute_def)
  ultimately show ?thesis
    using can ch s by (intro exI [of _ t] exI [of _ ch] exI [of _ pid] exI [of _ b1]) simp
qed

text \<open>
  C20: a traceroute command is answered where it was given.  Either the command sends nothing that
  is tracked, or exactly one packet went out from the user's node, the limit allowed it and now
  refuses the next one for this pair, and the first response that refers to the packet's number
  is shown as one notice in the room of the command; the same response again is ignored.
\<close>

theorem traceroute_answered:
  assumes "fnTraceroute B ce b = (rs, b')"
  shows "b_tracker b' = b_tracker b \<or>
    (\<exists>n pkt. outbox (b_mesh b') = outbox (b_mesh b) @ [(n, pkt)] \<and>
       p_From pkt = MXIDToNodeID (ce_UserMXID ce) \<and>
       fst (CanSendTraceroute (b_tracker b) (p_From pkt) (p_To pkt) (be_now B)) \<and>
       \<not> fst (CanSendTraceroute (b_tracker b') (p_From pkt) (p_To pkt) (be_now B)) \<and>
       (\<forall>evt b''. ev_RequestId evt = p_Id pkt \<and> b_tracker b'' = b_tracker b' \<longrightarrow>
          (\<exists>msg. b_notices (handleMeshTraceroute B evt b'') = b_notices b'' @ [(ce_RoomID ce, msg)]) \<and>
          handleMeshTraceroute B evt (handleMeshTraceroute B evt b'') = handleMeshTraceroute B evt b''))"
proof (cases "b_tracker b' = b_tracker b")
  case False
  obtain t ch pid b1
    where c: "fst (CanSendTraceroute (b_tracker b) (MXIDToNodeID (ce_UserMXID ce)) t (be_now B))"
    and s: "on_mesh B (\<lambda>E. SendTraceroute E (MXIDToNodeID (ce_UserMXID ce)) t (Some ch)) b = ((pid, None), b1)"
    and b': "b' = b1\<lparr>b_tracker := AddRequest \<lparr>tr_PacketID = pid, tr_FromNode = MXIDToNodeID (ce_UserMXID ce), tr_TargetNode = t,
                 tr_RoomID = ce_RoomID ce, tr_Timestamp = be_now B, tr_Channel = Some ch\<rparr> (b_tracker b1)\<rparr>"
    using fnTraceroute_tracked [OF assms False] by blast
  obtain n pkt where "outbox (b_mesh b1) = outbox (b_mesh b) @ [(n, pkt)]" "p_From pkt = MXIDToNodeID (ce_UserMXID ce)"
      "p_To pkt = t" "p_Id pkt = pid"
    using s by (auto simp: on_mesh_eq SendTraceroute_def dest!: sendProtoMessage_success)
  then show ?thesis
    using c b'
    by (intro disjI2 exI [of _ n] exI [of _ pkt])
      (auto simp: AddRequest_def CanSendTraceroute_def TracerouteTimeout_def handleMeshTraceroute_def
        GetAndRemoveRequest_def sendNoticeToRoom_def Let_def)
qed simp

lemma sample_send_traceroute:
  assumes "m n"
  shows "\<exists>c' pid. SendTraceroute (sample_env\<lparr>e_managed := m, e_pubKeyRequest := p, e_privKeyRequest := q, e_neighborProvider := r\<rparr>)
     n t (Some sample_channel) sample_client = ((pid, None), c')"
  using assms
  by (simp add: SendTraceroute_def sendProtoMessage_def sendBytes_def generatePacketId_def randUint32_def
      encrypt_packet_def deliver_def data_of_def packet_header_def join_errors_def
      sample_defs Let_def PacketInfo0_def)

theorem traceroute_answered_witness:
  "\<exists>n pkt. outbox (b_mesh (snd (fnTraceroute sample_benv sample_command sample_managed))) = [(n, pkt)] \<and>
     p_From pkt = 0x7550f83b \<and>
     \<not> fst (CanSendTraceroute (b_tracker (snd (fnTraceroute sample_benv sample_command sample_managed)))
              0x7550f83b (p_To pkt) (be_now sample_benv))"
proof -
  have man: "fst (IsManagedNode sample_benv 0x7550f83b sample_managed)"
    by (simp add: IsManagedNode_def sample_managed_def sample_MXID)
  obtain c' pid where snd: "SendTraceroute (mesh_env sample_benv sample_managed) 0x7550f83b 20
      (Some sample_channel) sample_client = ((pid, None), c')"
    unfolding sample_mesh_env using sample_send_traceroute [of "\<lambda>n. fst (IsManagedNode sample_benv n sample_managed)", OF man] by blast
  have m: "b_mesh sample_managed = sample_client" "b_tracker sample_managed = NewTracerouteTracker"
    by (simp_all add: sample_managed_def sample_bridge_def)
  have "trace_channel sample_benv None sample_managed = Inr sample_channel"
    by (simp add: trace_channel_def primary_def m sample_client_def NewMeshtasticClient_def)
  then have f: "fnTraceroute sample_benv sample_command sample_managed =
      ([Reply (''Traceroute request sent to '' @ NodeID_String 20 @ ''. Waiting for response...'')],
       sample_managed\<lparr>b_mesh := c', b_tracker := AddRequest \<lparr>tr_PacketID = pid, tr_FromNode = 0x7550f83b, tr_TargetNode = 20,
          tr_RoomID = ''!room'', tr_Timestamp = be_now sample_benv, tr_Channel = Some sample_channel\<rparr> NewTracerouteTracker\<rparr>)"
    using snd m
    by (simp add: fnTraceroute_def sample_command_def trace_target_def sample_MXID CanSendTraceroute_def
        NewTracerouteTracker_def on_mesh_def)
  have "b_tracker (snd (fnTraceroute sample_benv sample_command sample_managed)) \<noteq> b_tracker sample_managed"
    unfolding f by (auto simp: m AddRequest_def NewTracerouteTracker_def dest: fun_cong [of _ _ pid])
  moreover have "outbox (b_mesh sample_managed) = []" "MXIDToNodeID (ce_UserMXID sample_command) = 0x7550f83b"
    by (simp_all add: m sample_client_def NewMeshtasticClient_def sample_command_def sample_MXID)
  ultimately show ?thesis using traceroute_answered [OF f] unfolding f by auto
qed

end
