(* ===== verification/Bridge_Tasks.thy ===== *)
theory Bridge_Tasks
  imports Bridge_Matrix "HOL-Library.Multiset"
begin

text \<open>
  The background tasks, \<^verbatim>\<open>pkg/connector/background_tasks.go\<close>: the periodic broadcasts of node
  information, telemetry and neighbours, and the removal of inactive ghosts from channel rooms.
  A ticker's tick is an operation; which ticks come, and when, is up to the runtime.
\<close>

section \<open>Periodic broadcasts\<close>

definition rateTelemetry :: duration where "rateTelemetry = 6 * Hour + 5 * Second"
definition rateHostInfo :: duration where "rateHostInfo = 12 * Hour + 7 * Second"
definition rateNodeInfo :: duration where "rateNodeInfo = 3 * Hour + 13 * Second"
definition rateInactiveCleanup :: duration where "rateInactiveCleanup = 24 * Hour"

text \<open>
  \<^verbatim>\<open>doForAllManagedGhosts\<close> starts one goroutine for each of these rows; it calls back after a random
  delay of less than five minutes, unless the task was cancelled.
\<close>

definition doForAllManagedGhosts :: "('c, 'w) benv \<Rightarrow> ('c, 'w) bridge \<Rightarrow> MeshNodeInfo list" where
  "doForAllManagedGhosts B b =
     (case GetManagedNodes (be_dbms B) (b_db b) of
        Inl err \<Rightarrow> []
      | Inr ghosts \<Rightarrow>
          let maxAge = be_now B - 7 * 24 * Hour
          in filter (\<lambda>g. mn_NodeID g \<noteq> fst (GetBaseNodeID B b) \<and>
                         (case mn_LastSeen g of Some t \<Rightarrow> t > maxAge | None \<Rightarrow> False)) ghosts)"

text \<open>The two callbacks, with the row they were started for.\<close>

datatype job = NodeInfoJob MeshNodeInfo | TelemetryJob MeshNodeInfo

definition job_row :: "job \<Rightarrow> MeshNodeInfo" where
  "job_row j = (case j of NodeInfoJob meta \<Rightarrow> meta | TelemetryJob meta \<Rightarrow> meta)"

definition run_job :: "('c, 'w) benv \<Rightarrow> job \<Rightarrow> ('c, 'w) bridge \<Rightarrow> ('c, 'w) bridge" where
  "run_job B j b =
     (case j of
        NodeInfoJob meta \<Rightarrow>
          snd (on_mesh B (\<lambda>E. SendNodeInfo E (mn_NodeID meta) BROADCAST_ID (mn_LongName meta)
                 (mn_ShortName meta) False (mn_PublicKey meta)) b)
      | TelemetryJob meta \<Rightarrow> snd (on_mesh B (\<lambda>E. SendTelemetry E (mn_NodeID meta) BROADCAST_ID) b))"

definition sendPeriodicHostInfo :: "('c, 'w) benv \<Rightarrow> ('c, 'w) bridge \<Rightarrow> ('c, 'w) bridge" where
  "sendPeriodicHostInfo B b =
     (let (base, b) = GetBaseNodeID B b
      in snd (on_mesh B (\<lambda>E. SendHostMetrics E base BROADCAST_ID) b))"

definition sendPeriodicTelemetry :: "('c, 'w) benv \<Rightarrow> ('c, 'w) bridge \<Rightarrow> job list \<times> ('c, 'w) bridge" where
  "sendPeriodicTelemetry B b =
     (let (base, b) = GetBaseNodeID B b;
          b = snd (on_mesh B (\<lambda>E. SendTelemetry E base BROADCAST_ID) b);
          jobs = map TelemetryJob (doForAllManagedGhosts B b);
          b = snd (on_mesh B (\<lambda>E. SendHostMetrics E base BROADCAST_ID) b)
      in (jobs, b))"

text \<open>
  \<open>srt\<close> is \<^verbatim>\<open>sort.Slice\<close> with the comparison of the source, which is free in the order of rows seen
  at the same time.  The rows have a \<^verbatim>\<open>last_seen\<close>, as the query asks for it.
\<close>

definition last_seen :: "MeshNodeInfo \<Rightarrow> gotime" where
  "last_seen r = (case mn_LastSeen r of Some t \<Rightarrow> t | None \<Rightarrow> 0)"

definition sorts_newest_first :: "(MeshNodeInfo list \<Rightarrow> MeshNodeInfo list) \<Rightarrow> bool" where
  "sorts_newest_first srt \<longleftrightarrow>
     (\<forall>rs. mset (srt rs) = mset rs \<and> sorted_wrt (\<lambda>r s. last_seen r \<ge> last_seen s) (srt rs))"

definition periodic_neighbor_ids ::
  "('c, 'w) benv \<Rightarrow> (MeshNodeInfo list \<Rightarrow> MeshNodeInfo list) \<Rightarrow> NodeID \<Rightarrow> MeshNodeInfo list \<Rightarrow> NodeID list" where
  "periodic_neighbor_ids B srt base directNeighbors =
     (let maxAge = be_now B + (-2 * rateNeighborInfo)
      in base # map mn_NodeID (takeWhile (\<lambda>g. last_seen g > maxAge) (srt directNeighbors)))"

definition sendPeriodicNeighborInfo ::
  "('c, 'w) benv \<Rightarrow> (MeshNodeInfo list \<Rightarrow> MeshNodeInfo list) \<Rightarrow> ('c, 'w) bridge \<Rightarrow> ('c, 'w) bridge" where
  "sendPeriodicNeighborInfo B srt b =
     (case GetDirectNeighbors (be_dbms B) (b_db b) of
        Inl err \<Rightarrow> b
      | Inr directNeighbors \<Rightarrow>
          let (base, b) = GetBaseNodeID B b
          in snd (on_mesh B (\<lambda>E. SendNeighborInfo E base (periodic_neighbor_ids B srt base directNeighbors)
                    (uint32_of_float (ufloat_oor (e_lib (be_mesh B))) (Duration_Seconds rateNeighborInfo))) b))"

text \<open>The error of the key is dropped, and then the key is nil.\<close>

definition sendPeriodicNodeInfo :: "('c, 'w) benv \<Rightarrow> ('c, 'w) bridge \<Rightarrow> job list \<times> ('c, 'w) bridge" where
  "sendPeriodicNodeInfo B b =
     (let (base, b) = GetBaseNodeID B b;
          (key, b) = getGhostPublicKey B base b
      in if key = Panic then ([], b)
         else
           let pubKey = (case key of Ok k \<Rightarrow> k | _ \<Rightarrow> []);
               b = snd (on_mesh B (\<lambda>E. SendNodeInfo E base BROADCAST_ID (cfg_LongName (be_cfg B))
                          (cfg_ShortName (be_cfg B)) False pubKey) b)
           in (map NodeInfoJob (doForAllManagedGhosts B b), b))"

datatype tick = TickTele | TickHost | TickNodeInfo | TickNeighbors | TickCleanup

section \<open>Inactive nodes\<close>

text \<open>The conversion to \<^verbatim>\<open>int64\<close>, which \<^verbatim>\<open>time.Duration\<close> and \<^verbatim>\<open>UnixNano\<close> are subject to.\<close>

definition int64_of :: "int \<Rightarrow> int" where
  "int64_of x = sint (word_of_int x :: 64 word)"

definition getLastActivityInPortal ::
  "('c, 'w) benv \<Rightarrow> string \<Rightarrow> PortalKey \<Rightarrow> ('c, 'w) bridge \<Rightarrow> gotime option" where
  "getLastActivityInPortal B senderID portalKey b =
     (let stamp = (\<lambda>r. case r of Inr t \<Rightarrow> t | Inl err \<Rightarrow> None);
          msgTimestamp = stamp (fw_LastMessage (be_fw B) (b_world b) portalKey senderID);
          rxnTimestamp = stamp (fw_LastReaction (be_fw B) (b_world b) portalKey senderID)
      in case (msgTimestamp, rxnTimestamp) of
           (Some m, Some r) \<Rightarrow> Some (if m > r then m else r)
         | (Some m, None) \<Rightarrow> Some m
         | (None, r) \<Rightarrow> r)"

definition removeGhostFromPortal ::
  "('c, 'w) benv \<Rightarrow> string \<Rightarrow> string \<Rightarrow> ('c, 'w) bridge \<Rightarrow> go_error option \<times> ('c, 'w) bridge" where
  "removeGhostFromPortal B memberMXID roomID b =
     (let (err, w) = fw_LeaveRoom (be_fw B) memberMXID roomID (b_world b) in (err, b\<lparr>b_world := w\<rparr>))"

text \<open>The body of the loop over the members, which come in any order; the first component are the removed.\<close>

definition cleanup_member ::
  "('c, 'w) benv \<Rightarrow> portal \<Rightarrow> int \<Rightarrow> string \<Rightarrow> string list \<times> ('c, 'w) bridge \<Rightarrow> string list \<times> ('c, 'w) bridge" where
  "cleanup_member B p thresholdNanos memberMXID s =
     (let (removed, b) = s in
      case fw_ParseGhostMXID (be_fw B) memberMXID of
        None \<Rightarrow> (removed, b)
      | Some ghostID \<Rightarrow>
          (case ParseUserID ghostID of
             (_, Some err) \<Rightarrow> (removed, b)
           | (nodeID, None) \<Rightarrow>
               let (managed, b) = IsManagedNode B nodeID b in
               if managed then (removed, b)
               else if (case getLastActivityInPortal B ghostID (po_Key p) b of
                          Some lastActivity \<Rightarrow> lastActivity \<ge> thresholdNanos
                        | None \<Rightarrow> False) then (removed, b)
               else case removeGhostFromPortal B memberMXID (po_MXID p) b of
                      (Some err, b) \<Rightarrow> (removed, b)
                    | (None, b) \<Rightarrow> (removed @ [memberMXID], b)))"

definition cleanupPortalInactiveMembers ::
  "('c, 'w) benv \<Rightarrow> portal \<Rightarrow> int \<Rightarrow> ('c, 'w) bridge \<Rightarrow> (go_error + string list) \<times> ('c, 'w) bridge" where
  "cleanupPortalInactiveMembers B p thresholdNanos b =
     (if po_MXID p = [] then (Inr [], b)
      else case fw_JoinedMembers (be_fw B) (b_world b) (po_MXID p) of
             Inl err \<Rightarrow> (Inl err, b)
           | Inr members \<Rightarrow>
               let (removed, b) = fold (cleanup_member B p thresholdNanos) members ([], b) in (Inr removed, b))"

definition cleanup_threshold :: "('c, 'w) benv \<Rightarrow> int" where
  "cleanup_threshold B =
     int64_of (be_now B + int64_of (int64_of (- cfg_InactivityThreshold (be_cfg B)) * 24 * Hour))"

definition cleanup_portal ::
  "('c, 'w) benv \<Rightarrow> portal \<Rightarrow> (string \<times> string) list \<times> ('c, 'w) bridge \<Rightarrow> (string \<times> string) list \<times> ('c, 'w) bridge" where
  "cleanup_portal B p s =
     (let (removed, b) = s in
      if po_RoomType p \<noteq> RoomTypeDefault then (removed, b)
      else case cleanupPortalInactiveMembers B p (cleanup_threshold B) b of
             (Inl err, b) \<Rightarrow> (removed, b)
           | (Inr ms, b) \<Rightarrow> (removed @ map (\<lambda>m. (po_MXID p, m)) ms, b))"

definition cleanupInactiveNodes ::
  "('c, 'w) benv \<Rightarrow> ('c, 'w) bridge \<Rightarrow> (string \<times> string) list \<times> ('c, 'w) bridge" where
  "cleanupInactiveNodes B b =
     (case fw_AllPortals (be_fw B) (b_world b) of
        Inl err \<Rightarrow> ([], b)
      | Inr portals \<Rightarrow> fold (cleanup_portal B) portals ([], b))"

section \<open>The tasks\<close>

text \<open>
  A tick of one of the tasks of a context.  The cleanup task exists when a threshold is configured.
  The tasks begin with the actions of \<open>TickNodeInfo\<close> and \<open>TickCleanup\<close>.
\<close>

definition cleanup_enabled :: "('c, 'w) benv \<Rightarrow> bool" where
  "cleanup_enabled B \<longleftrightarrow> \<not> cfg_InactivityThreshold (be_cfg B) \<le> 0"

definition run_tick ::
  "('c, 'w) benv \<Rightarrow> (MeshNodeInfo list \<Rightarrow> MeshNodeInfo list) \<Rightarrow> tick \<Rightarrow> ('c, 'w) bridge \<Rightarrow> job list \<times> ('c, 'w) bridge" where
  "run_tick B srt k b =
     (case k of
        TickTele \<Rightarrow> sendPeriodicTelemetry B b
      | TickHost \<Rightarrow> ([], sendPeriodicHostInfo B b)
      | TickNodeInfo \<Rightarrow> sendPeriodicNodeInfo B b
      | TickNeighbors \<Rightarrow> ([], sendPeriodicNeighborInfo B srt b)
      | TickCleanup \<Rightarrow> ([], if cleanup_enabled B then snd (cleanupInactiveNodes B b) else b))"

text \<open>A call of the handlers \<^verbatim>\<open>Start\<close> installs for the state of the connection.\<close>

definition run_connect_call :: "('c, 'w) benv \<Rightarrow> connect_call \<Rightarrow> ('c, 'w) bridge \<Rightarrow> ('c, 'w) bridge" where
  "run_connect_call B k b =
     (case k of CallConnect isReconnect \<Rightarrow> onMeshConnected B isReconnect b | CallDisconnect \<Rightarrow> onMeshDisconnected b)"

section \<open>Managed nodes during a sweep\<close>

lemma IsManagedNode_frame [simp]:
  "b_world (snd (IsManagedNode B n b)) = b_world b"
  by (auto simp: IsManagedNode_def GetBaseNodeID_def cache_managed_def Let_def split: option.split sum.split)

lemma IsManagedNode_determined:
  assumes "b_managedNodeCache b' m = b_managedNodeCache b m" "b_world b' = b_world b"
    and "fst (GetBaseNodeID B b') = base" "fst (GetBaseNodeID B b) = base"
  shows "fst (IsManagedNode B m b') = fst (IsManagedNode B m b)"
proof -
  obtain b1 b2 where "GetBaseNodeID B b' = (base, b1)" "GetBaseNodeID B b = (base, b2)"
    using assms(3,4) by (metis prod.collapse)
  moreover from this have "b_world b1 = b_world b" "b_world b2 = b_world b"
    using assms(2) GetBaseNodeID_frame(2) [of B b] GetBaseNodeID_frame(2) [of B b'] by simp_all
  ultimately show ?thesis
    using assms(1) by (auto simp: IsManagedNode_def cache_managed_def split: option.split sum.split)
qed

lemma IsManagedNode_again [simp]:
  "fst (IsManagedNode B m (snd (IsManagedNode B n b))) = fst (IsManagedNode B m b)"
proof (cases "b_managedNodeCache b n")
  case None
  obtain base b1 where g: "GetBaseNodeID B b = (base, b1)" by fastforce
  then have b1: "b_world b1 = b_world b" "b_managedNodeCache b1 = b_managedNodeCache b"
    "GetBaseNodeID B (b1\<lparr>b_managedNodeCache := k\<rparr>) = (base, b1\<lparr>b_managedNodeCache := k\<rparr>)"
    "GetBaseNodeID B b1 = (base, b1)" for k
    by (auto simp: GetBaseNodeID_def Let_def split: if_splits)
  show ?thesis
  proof (cases "m = n")
    case True
    then show ?thesis
      using None g b1 by (auto simp: IsManagedNode_def cache_managed_def split: option.splits sum.splits)
  next
    case False
    then have "IsManagedNode B n b = (v, b') \<Longrightarrow> b_managedNodeCache b' m = b_managedNodeCache b m \<and>
        b_world b' = b_world b \<and> fst (GetBaseNodeID B b') = base" for v b'
      using None g b1 by (auto simp: IsManagedNode_def cache_managed_def split: option.splits sum.splits if_splits)
    then have "b_managedNodeCache (snd (IsManagedNode B n b)) m = b_managedNodeCache b m"
        "b_world (snd (IsManagedNode B n b)) = b_world b" "fst (GetBaseNodeID B (snd (IsManagedNode B n b))) = base"
      by (metis prod.collapse)+
    then show ?thesis by (rule IsManagedNode_determined) (simp_all add: g)
  qed
qed (simp add: IsManagedNode_def)

lemma IsManagedNode_world:
  assumes "\<And>i. fw_GetExistingGhost (be_fw B) w i = fw_GetExistingGhost (be_fw B) (b_world b) i"
  shows "fst (IsManagedNode B n (b\<lparr>b_world := w\<rparr>)) = fst (IsManagedNode B n b)"
  using assms
  by (auto simp: IsManagedNode_def GetBaseNodeID_def cache_managed_def Let_def split: option.split sum.split)

text \<open>What leaving a room does not change: the ghosts, and the messages and reactions of a portal.\<close>

definition leave_keeps :: "'w framework \<Rightarrow> bool" where
  "leave_keeps fw \<longleftrightarrow>
     (\<forall>u r w. let w' = snd (fw_LeaveRoom fw u r w) in
        fw_GetExistingGhost fw w' = fw_GetExistingGhost fw w \<and>
        fw_LastMessage fw w' = fw_LastMessage fw w \<and> fw_LastReaction fw w' = fw_LastReaction fw w)"

definition same_answers :: "('c, 'w) benv \<Rightarrow> ('c, 'w) bridge \<Rightarrow> ('c, 'w) bridge \<Rightarrow> bool" where
  "same_answers B b b' \<longleftrightarrow>
     (\<forall>n. fst (IsManagedNode B n b') = fst (IsManagedNode B n b)) \<and>
     (\<forall>i k. getLastActivityInPortal B i k b' = getLastActivityInPortal B i k b)"

lemma same_answers_refl [simp]: "same_answers B b b"
  by (simp add: same_answers_def)

lemma same_answers_trans: "same_answers B b b1 \<Longrightarrow> same_answers B b1 b2 \<Longrightarrow> same_answers B b b2"
  by (simp add: same_answers_def)

lemma same_answers_managed [simp]: "same_answers B b (snd (IsManagedNode B n b))"
  by (simp add: same_answers_def getLastActivityInPortal_def)

lemma same_answers_leave:
  assumes "leave_keeps (be_fw B)"
  shows "same_answers B b (snd (removeGhostFromPortal B m r b))"
proof -
  let ?w = "snd (fw_LeaveRoom (be_fw B) m r (b_world b))"
  have w: "fw_GetExistingGhost (be_fw B) ?w = fw_GetExistingGhost (be_fw B) (b_world b)"
    "fw_LastMessage (be_fw B) ?w = fw_LastMessage (be_fw B) (b_world b)"
    "fw_LastReaction (be_fw B) ?w = fw_LastReaction (be_fw B) (b_world b)"
    using assms by (auto simp: leave_keeps_def Let_def)
  have "snd (removeGhostFromPortal B m r b) = b\<lparr>b_world := ?w\<rparr>"
    by (simp add: removeGhostFromPortal_def case_prod_beta)
  then show ?thesis
    using w by (simp add: same_answers_def IsManagedNode_world getLastActivityInPortal_def)
qed

section \<open>Who is removed\<close>

text \<open>
  A ghost of a node the bridge does not manage, with no activity found in the portal since \<open>nanos\<close>.
\<close>

definition inactive_ghost :: "('c, 'w) benv \<Rightarrow> portal \<Rightarrow> int \<Rightarrow> ('c, 'w) bridge \<Rightarrow> string \<Rightarrow> bool" where
  "inactive_ghost B p nanos b m =
     (case fw_ParseGhostMXID (be_fw B) m of
        None \<Rightarrow> False
      | Some ghostID \<Rightarrow>
          snd (ParseUserID ghostID) = None \<and> \<not> fst (IsManagedNode B (fst (ParseUserID ghostID)) b) \<and>
          (case getLastActivityInPortal B ghostID (po_Key p) b of Some t \<Rightarrow> t < nanos | None \<Rightarrow> True))"

text \<open>No message and no reaction of the ghost is found; a query that fails finds none.\<close>

lemma inactive_ghost_iff:
  "inactive_ghost B p nanos b m \<longleftrightarrow>
     (\<exists>g n. fw_ParseGhostMXID (be_fw B) m = Some g \<and> ParseUserID g = (n, None) \<and> \<not> fst (IsManagedNode B n b) \<and>
        (\<forall>t. fw_LastMessage (be_fw B) (b_world b) (po_Key p) g = Inr (Some t) \<longrightarrow> t < nanos) \<and>
        (\<forall>t. fw_LastReaction (be_fw B) (b_world b) (po_Key p) g = Inr (Some t) \<longrightarrow> t < nanos))"
proof (cases "fw_ParseGhostMXID (be_fw B) m")
  case (Some g)
  obtain n err where n: "ParseUserID g = (n, err)" by fastforce
  have "(case getLastActivityInPortal B g k b of Some t \<Rightarrow> t < nanos | None \<Rightarrow> True) \<longleftrightarrow>
      (\<forall>t. fw_LastMessage (be_fw B) (b_world b) k g = Inr (Some t) \<longrightarrow> t < nanos) \<and>
      (\<forall>t. fw_LastReaction (be_fw B) (b_world b) k g = Inr (Some t) \<longrightarrow> t < nanos)" for k
    by (cases "fw_LastMessage (be_fw B) (b_world b) k g"; cases "fw_LastReaction (be_fw B) (b_world b) k g")
      (auto simp: getLastActivityInPortal_def split: option.split)
  with Some n show ?thesis by (simp add: inactive_ghost_def)
qed (simp add: inactive_ghost_def)

lemma inactive_same: "same_answers B b b' \<Longrightarrow> inactive_ghost B p nanos b' m = inactive_ghost B p nanos b m"
  by (simp add: inactive_ghost_def same_answers_def split: option.split)

lemma cleanup_member_spec:
  assumes "leave_keeps (be_fw B)"
  shows "same_answers B b (snd (cleanup_member B p nanos m (removed, b))) \<and>
    (fst (cleanup_member B p nanos m (removed, b)) = removed \<and>
       (inactive_ghost B p nanos b m \<longrightarrow> (\<exists>w. fst (fw_LeaveRoom (be_fw B) m (po_MXID p) w) \<noteq> None)) \<or>
     fst (cleanup_member B p nanos m (removed, b)) = removed @ [m] \<and> inactive_ghost B p nanos b m) \<and>
    b_world (snd (cleanup_member B p nanos m (removed, b))) =
      (if inactive_ghost B p nanos b m then snd (fw_LeaveRoom (be_fw B) m (po_MXID p) (b_world b)) else b_world b)"
proof (cases "fw_ParseGhostMXID (be_fw B) m")
  case None
  then show ?thesis by (simp add: cleanup_member_def inactive_ghost_def)
next
  case (Some i)
  obtain n err where u: "ParseUserID i = (n, err)" by fastforce
  obtain man b1 where m1: "IsManagedNode B n b = (man, b1)" by fastforce
  have s1: "same_answers B b b1" using same_answers_managed [of B b n] m1 by simp
  then have act: "getLastActivityInPortal B i (po_Key p) b1 = getLastActivityInPortal B i (po_Key p) b"
    by (simp add: same_answers_def)
  obtain e b2 where r: "removeGhostFromPortal B m (po_MXID p) b1 = (e, b2)" by fastforce
  then have s2: "same_answers B b b2" and e: "e = fst (fw_LeaveRoom (be_fw B) m (po_MXID p) (b_world b1))"
    and w2: "b_world b2 = snd (fw_LeaveRoom (be_fw B) m (po_MXID p) (b_world b1))"
    using same_answers_leave [OF assms, of b1 m "po_MXID p"] s1 same_answers_trans
    by (fastforce, auto simp: removeGhostFromPortal_def case_prod_beta)
  have w1: "b_world b1 = b_world b" using IsManagedNode_frame [of B n b] m1 by simp
  show ?thesis
    using Some u m1 s1 s2 act r e w1 w2
    by (cases err; cases man; cases e)
      (auto simp: cleanup_member_def inactive_ghost_def split: option.splits)
qed

lemma cleanup_members_spec:
  assumes "leave_keeps (be_fw B)" "fold (cleanup_member B p nanos) ms (rs, b) = (rs', b')"
  shows "same_answers B b b' \<and>
    set rs \<subseteq> set rs' \<and> set rs' \<subseteq> set rs \<union> {m \<in> set ms. inactive_ghost B p nanos b m} \<and>
    (\<forall>m \<in> set ms. inactive_ghost B p nanos b m \<and> (\<forall>w. fst (fw_LeaveRoom (be_fw B) m (po_MXID p) w) = None)
       \<longrightarrow> m \<in> set rs') \<and>
    b_world b' = fold (\<lambda>m w. snd (fw_LeaveRoom (be_fw B) m (po_MXID p) w)) (filter (inactive_ghost B p nanos b) ms) (b_world b)"
  using assms(2)
proof (induction ms arbitrary: rs b)
  case (Cons m ms)
  obtain rs1 b1 where s: "cleanup_member B p nanos m (rs, b) = (rs1, b1)" by fastforce
  note one = cleanup_member_spec [OF assms(1), of b p nanos m rs, unfolded s fst_conv snd_conv]
  have "fold (cleanup_member B p nanos) ms (rs1, b1) = (rs', b')" using Cons.prems s by simp
  note rest = Cons.IH [OF this]
  have "same_answers B b b'" using one rest same_answers_trans by blast
  moreover have same: "inactive_ghost B p nanos b1 x = inactive_ghost B p nanos b x" for x
    using one inactive_same by blast
  moreover have "b_world b' = fold (\<lambda>m w. snd (fw_LeaveRoom (be_fw B) m (po_MXID p) w))
      (filter (inactive_ghost B p nanos b) (m # ms)) (b_world b)"
    using one rest by (simp add: same)
  moreover have "set rs \<subseteq> set rs1" "set rs1 \<subseteq> set rs \<union> {x \<in> {m}. inactive_ghost B p nanos b x}" using one by auto
  moreover have "inactive_ghost B p nanos b m \<and> (\<forall>w. fst (fw_LeaveRoom (be_fw B) m (po_MXID p) w) = None) \<Longrightarrow> m \<in> set rs1"
    using one by auto
  ultimately show ?case using rest by auto
qed simp

lemma int64_of_id: "- (2 ^ 63) \<le> x \<Longrightarrow> x < 2 ^ 63 \<Longrightarrow> int64_of x = x"
  by (simp add: int64_of_def sint_sbintrunc' signed_take_bit_int_eq_self)

lemma cleanup_threshold_days:
  assumes "0 < cfg_InactivityThreshold (be_cfg B)" "cfg_InactivityThreshold (be_cfg B) \<le> 100000"
    and "0 \<le> be_now B" "be_now B < 2 ^ 63"
  shows "cleanup_threshold B = be_now B - cfg_InactivityThreshold (be_cfg B) * 24 * Hour"
proof -
  have "int64_of (- cfg_InactivityThreshold (be_cfg B)) = - cfg_InactivityThreshold (be_cfg B)"
    using assms by (intro int64_of_id) auto
  moreover have "int64_of (- cfg_InactivityThreshold (be_cfg B) * 24 * Hour) = - cfg_InactivityThreshold (be_cfg B) * 24 * Hour"
    using assms by (intro int64_of_id) (auto simp: duration_defs)
  moreover have "int64_of (be_now B + - cfg_InactivityThreshold (be_cfg B) * 24 * Hour) =
      be_now B + - cfg_InactivityThreshold (be_cfg B) * 24 * Hour"
    using assms by (intro int64_of_id) (auto simp: duration_defs)
  ultimately show ?thesis by (simp add: cleanup_threshold_def)
qed

section \<open>Properties\<close>

text \<open>
  C16: who is removed from a room.  With a threshold of at most 100000 days, exactly those members
  are made to leave, each once for every time it is listed and in that order, that are ghosts of
  nodes the bridge does not manage and of whom no message and no reaction in the room is found
  that is at most that many days old.  A query that fails finds nothing, so a failure of both makes
  an active ghost leave.  Leaving a room is taken to change neither ghosts nor messages and
  reactions (\<open>leave_keeps\<close>).  Counted as removed are none but these, and each of them whose leaving
  does not fail.
\<close>

theorem cleanup_exact:
  assumes "leave_keeps (be_fw B)"
    and "0 < cfg_InactivityThreshold (be_cfg B)" "cfg_InactivityThreshold (be_cfg B) \<le> 100000"
    and "0 \<le> be_now B" "be_now B < 2 ^ 63"
    and "po_MXID p \<noteq> []" "fw_JoinedMembers (be_fw B) (b_world b) (po_MXID p) = Inr members"
    and "cleanupPortalInactiveMembers B p (cleanup_threshold B) b = (Inr removed, b')"
    and "since = be_now B - cfg_InactivityThreshold (be_cfg B) * 24 * Hour"
    and idle: "\<And>m. idle m \<longleftrightarrow>
      (\<exists>g n. fw_ParseGhostMXID (be_fw B) m = Some g \<and> ParseUserID g = (n, None) \<and> \<not> fst (IsManagedNode B n b) \<and>
        (\<forall>t. fw_LastMessage (be_fw B) (b_world b) (po_Key p) g = Inr (Some t) \<longrightarrow> t < since) \<and>
        (\<forall>t. fw_LastReaction (be_fw B) (b_world b) (po_Key p) g = Inr (Some t) \<longrightarrow> t < since))"
  shows "b_world b' = fold (\<lambda>m w. snd (fw_LeaveRoom (be_fw B) m (po_MXID p) w)) (filter idle members) (b_world b) \<and>
    set removed \<subseteq> {m \<in> set members. idle m} \<and>
    {m \<in> set members. idle m \<and> (\<forall>w. fst (fw_LeaveRoom (be_fw B) m (po_MXID p) w) = None)} \<subseteq> set removed"
proof -
  have "fold (cleanup_member B p since) members ([], b) = (removed, b')"
    using assms(6-9) cleanup_threshold_days [OF assms(2-5)]
    by (auto simp: cleanupPortalInactiveMembers_def split: prod.splits)
  moreover have "idle = inactive_ghost B p since b" by (rule ext) (simp only: idle inactive_ghost_iff)
  ultimately show ?thesis using cleanup_members_spec [OF assms(1), of p since members "[]" b removed b'] by auto
qed

definition sample_cleanup :: "(sample_cache, ghost list) benv" where
  "sample_cleanup =
     sample_benv\<lparr>be_cfg := sample_config\<lparr>cfg_InactivityThreshold := 30\<rparr>,
       be_fw := sample_framework\<lparr>fw_ParseGhostMXID := (\<lambda>u. if u = ''@ghost'' then Some (MakeUserID 20) else None),
                                 fw_JoinedMembers := (\<lambda>w r. Inr [''@ghost'', ''@human''])\<rparr>\<rparr>"

definition sample_room :: portal where
  "sample_room = \<lparr>po_Key = \<lparr>pk_ID = ''p'', pk_Receiver = []\<rparr>, po_RoomType = RoomTypeDefault, po_MXID = ''!room''\<rparr>"

theorem cleanup_exact_witness:
  "\<exists>removed. fst (cleanupPortalInactiveMembers sample_cleanup sample_room (cleanup_threshold sample_cleanup) sample_bridge) =
     Inr removed \<and> ''@ghost'' \<in> set removed \<and> ''@human'' \<notin> set removed"
proof -
  have fw: "leave_keeps (be_fw sample_cleanup)"
    "fw_JoinedMembers (be_fw sample_cleanup) w r = Inr [''@ghost'', ''@human'']"
    "fst (fw_LeaveRoom (be_fw sample_cleanup) m r w) = None" for w r m
    by (simp_all add: leave_keeps_def sample_cleanup_def sample_framework_def)
  obtain removed b' where f: "fold (cleanup_member sample_cleanup sample_room (cleanup_threshold sample_cleanup))
      [''@ghost'', ''@human''] ([], sample_bridge) = (removed, b')" by fastforce
  have c: "cleanupPortalInactiveMembers sample_cleanup sample_room (cleanup_threshold sample_cleanup)
      sample_bridge = (Inr removed, b')"
    unfolding cleanupPortalInactiveMembers_def fw(2) sum.case f Let_def by (simp add: sample_room_def)
  have t: "0 < cfg_InactivityThreshold (be_cfg sample_cleanup)" "cfg_InactivityThreshold (be_cfg sample_cleanup) \<le> 100000"
    "0 \<le> be_now sample_cleanup" "be_now sample_cleanup < 2 ^ 63" "po_MXID sample_room \<noteq> []"
    by (simp_all add: sample_cleanup_def sample_benv_def sample_env_def sample_room_def duration_defs)
  have parse: "fw_ParseGhostMXID (be_fw sample_cleanup) ''@ghost'' = Some (MakeUserID 20)"
    "fw_ParseGhostMXID (be_fw sample_cleanup) ''@human'' = None"
    "fw_LastMessage (be_fw sample_cleanup) w k u = Inr None" "fw_LastReaction (be_fw sample_cleanup) w k u = Inr None"
    "\<not> fst (IsManagedNode sample_cleanup 20 sample_bridge)" for w k u
    by (simp_all add: sample_cleanup_def sample_benv_def sample_framework_def IsManagedNode_def GetBaseNodeID_def
        cache_managed_def sample_bridge_def sample_find_ghost_def)
  note exact = cleanup_exact [OF fw(1) t fw(2) c refl refl]
  have "''@ghost'' \<in> set removed" using exact [THEN conjunct2, THEN conjunct2] fw(3) parse by auto
  moreover have "''@human'' \<notin> set removed" using exact [THEN conjunct2, THEN conjunct1] parse by auto
  ultimately show ?thesis using c by simp
qed

lemma takeWhile_sorted_wrt:
  assumes "sorted_wrt Q xs" "\<And>x y. Q x y \<Longrightarrow> P y \<Longrightarrow> P x"
  shows "takeWhile P xs = filter P xs"
  using assms(1)
proof (induction xs)
  case (Cons x xs)
  have "filter P xs = []" if "\<not> P x" using that Cons.prems assms(2) by (fastforce simp: filter_empty_conv)
  with Cons show ?case by auto
qed simp

text \<open>
  C17: the neighbours of the periodic broadcast.  The loop over the sorted rows stops at the first
  old one and the message is cut at ten entries; what is announced is what the unsorted rows
  say: the direct neighbours seen within two periods, without the bridge's own node and the
  reserved numbers, and if there are more than ten, ten of them none of which was seen before one
  that is left out.
\<close>

theorem periodic_neighbors_newest:
  assumes "sorts_newest_first srt"
    and "R = filter (\<lambda>r. last_seen r > be_now B - 2 * rateNeighborInfo \<and> mn_NodeID r \<noteq> base \<and> mn_NodeID r > 1) rows"
  shows "\<exists>kept. map nb_NodeId (ni_Neighbors (buildNeighborInfo base (periodic_neighbor_ids B srt base rows) interval)) =
       map mn_NodeID kept \<and>
     mset kept \<subseteq># mset R \<and> length kept = min maxNeighborLen (length R) \<and>
     (\<forall>r \<in># mset R - mset kept. \<forall>k \<in> set kept. last_seen r \<le> last_seen k)"
proof -
  let ?recent = "\<lambda>r. last_seen r > be_now B - 2 * rateNeighborInfo"
  let ?other = "\<lambda>r. mn_NodeID r \<noteq> base \<and> mn_NodeID r > 1"
  define L where "L = filter ?other (filter ?recent (srt rows))"
  have srt: "mset (srt rows) = mset rows" "sorted_wrt (\<lambda>r s. last_seen r \<ge> last_seen s) (srt rows)"
    using assms(1) by (auto simp: sorts_newest_first_def)
  have "takeWhile ?recent (srt rows) = filter ?recent (srt rows)"
    by (rule takeWhile_sorted_wrt [OF srt(2)]) simp
  then have "map nb_NodeId (ni_Neighbors (buildNeighborInfo base (periodic_neighbor_ids B srt base rows) interval)) =
      map mn_NodeID (take maxNeighborLen L)"
    by (simp add: buildNeighborInfo_def periodic_neighbor_ids_def L_def filter_map comp_def take_map Let_def)
  moreover have R: "mset R = mset (take maxNeighborLen L) + mset (drop maxNeighborLen L)"
    unfolding assms(2) L_def mset_append [symmetric] append_take_drop_id
    by (simp add: srt(1) filter_filter_mset conj_commute)
  moreover have "sorted_wrt (\<lambda>r s. last_seen r \<ge> last_seen s) (take maxNeighborLen L @ drop maxNeighborLen L)"
    using srt(2) by (simp add: L_def sorted_wrt_filter)
  then have "\<forall>r \<in> set (drop maxNeighborLen L). \<forall>k \<in> set (take maxNeighborLen L). last_seen r \<le> last_seen k"
    unfolding sorted_wrt_append by blast
  moreover have "length R = length L" using R by (metis append_take_drop_id mset_append size_mset)
  ultimately show ?thesis by (intro exI [of _ "take maxNeighborLen L"]) auto
qed

definition sample_neighbor :: "NodeID \<Rightarrow> gotime \<Rightarrow> MeshNodeInfo" where
  "sample_neighbor n t = newMeshNodeInfo\<lparr>mn_NodeID := n, mn_IsDirect := True, mn_LastSeen := Some t\<rparr>"

lemma sort_key_newest: "sorts_newest_first (sort_key (\<lambda>r. - last_seen r))"
proof -
  have "sorted_wrt (\<lambda>r s. last_seen r \<ge> last_seen s) (sort_key (\<lambda>r. - last_seen r) rs)" for rs
    using sorted_sort_key [of "\<lambda>r. - last_seen r" rs] by (simp add: sorted_map)
  then show ?thesis by (simp add: sorts_newest_first_def)
qed

theorem periodic_neighbors_newest_witness:
  "\<exists>kept. map nb_NodeId (ni_Neighbors (buildNeighborInfo 2 (periodic_neighbor_ids sample_benv
        (sort_key (\<lambda>r. - last_seen r)) 2 [sample_neighbor 7 5, sample_neighbor 8 9, sample_neighbor 2 9]) 60)) =
       map mn_NodeID kept \<and> mset kept = {#sample_neighbor 7 5, sample_neighbor 8 9#}"
proof -
  let ?rows = "[sample_neighbor 7 5, sample_neighbor 8 9, sample_neighbor 2 9]"
  let ?R = "[sample_neighbor 7 5, sample_neighbor 8 9]"
  have R: "?R = filter (\<lambda>r. last_seen r > be_now sample_benv - 2 * rateNeighborInfo \<and> mn_NodeID r \<noteq> 2 \<and> mn_NodeID r > 1) ?rows"
    by (simp add: sample_neighbor_def last_seen_def sample_benv_def sample_env_def rateNeighborInfo_def duration_defs)
  obtain kept where "map nb_NodeId (ni_Neighbors (buildNeighborInfo 2 (periodic_neighbor_ids sample_benv
        (sort_key (\<lambda>r. - last_seen r)) 2 ?rows) 60)) = map mn_NodeID kept"
      "mset kept \<subseteq># mset ?R" "length kept = min maxNeighborLen (length ?R)"
    using periodic_neighbors_newest [OF sort_key_newest R] by blast
  moreover from this have "mset kept = mset ?R"
    using mset_subset_size [of "mset kept" "mset ?R"] by (auto simp: subset_mset.less_le maxNeighborLen_def)
  ultimately show ?thesis by auto
qed

section \<open>Contexts of the tasks\<close>

lemma restore_portal_tasks [simp]:
  "b_tasks (restore_portal B p b) = b_tasks b" "b_nextTask (restore_portal B p b) = b_nextTask b"
  "b_canceller (restore_portal B p b) = b_canceller b" "b_panic b \<Longrightarrow> b_panic (restore_portal B p b)"
  by (auto simp: restore_portal_def panic_def Let_def split: prod.split option.split sum.split)

lemma restore_portals_tasks [simp]:
  "b_tasks (fold (restore_portal B) ps b) = b_tasks b" "b_nextTask (fold (restore_portal B) ps b) = b_nextTask b"
  "b_canceller (fold (restore_portal B) ps b) = b_canceller b" "b_panic b \<Longrightarrow> b_panic (fold (restore_portal B) ps b)"
  by (induction ps arbitrary: b) simp_all

lemma onMeshConnected_tasks:
  "b_panic b \<Longrightarrow> b_panic (onMeshConnected B r b)"
  "\<not> b_panic (onMeshConnected B r b) \<Longrightarrow> b_tasks (onMeshConnected B r b) = b_tasks b @ [b_nextTask b] \<and>
     b_nextTask (onMeshConnected B r b) = Suc (b_nextTask b) \<and> b_canceller (onMeshConnected B r b) = Some (b_nextTask b)"
  by (auto simp: onMeshConnected_def start_tasks_def Let_def split: if_splits)

text \<open>
  C40: the first connection starts the background tasks twice.  The handler of the first event of a
  connector calls the connector's \<^verbatim>\<open>onMeshConnected\<close> for the first connection ever, and once more
  for the connection; the second call overwrites the canceller of the first, so that the first set
  of tasks goes on after the bridge was stopped.
\<close>

theorem first_connect_leaks_tasks:
  assumes "\<not> previouslyConnected c" "connectedCount c i = 0" "connectCalls c = []"
    and "b' = fold (run_connect_call B) (connectCalls (handleConnectorStateChange c i EventStarted)) b" "\<not> b_panic b'"
  shows "b_tasks b' = b_tasks b @ [b_nextTask b, Suc (b_nextTask b)] \<and> b_nextTask b \<in> set (b_tasks (bridge_Stop b'))"
proof -
  have "connectCalls (handleConnectorStateChange c i EventStarted) = [CallConnect False, CallConnect False]"
    using assms(1-3) by (simp add: handleConnectorStateChange_def connectedCount_def)
  then have b': "b' = onMeshConnected B False (onMeshConnected B False b)"
    using assms(4) by (simp add: run_connect_call_def)
  then have "\<not> b_panic (onMeshConnected B False b)" using assms(5) onMeshConnected_tasks(1) by blast
  then have "b_tasks b' = b_tasks b @ [b_nextTask b, Suc (b_nextTask b)]" "b_canceller b' = Some (Suc (b_nextTask b))"
    using onMeshConnected_tasks(2) [of B False] b' assms(5) by simp_all
  then show ?thesis by (simp add: bridge_Stop_def cancel_tasks_def)
qed

theorem first_connect_leaks_tasks_witness:
  "\<exists>b'. b' = fold (run_connect_call sample_benv)
       (connectCalls (handleConnectorStateChange (NewMeshtasticClient 2 0 [] (\<lambda>i. 5) :: sample_cache client) 0 EventStarted))
       sample_bridge \<and> b_tasks b' = [0, 1] \<and> 0 \<in> set (b_tasks (bridge_Stop b'))"
proof -
  let ?c = "NewMeshtasticClient 2 0 [] (\<lambda>i. 5) :: sample_cache client"
  have c: "\<not> previouslyConnected ?c" "connectedCount ?c 0 = 0" "connectCalls ?c = []"
    by (simp_all add: NewMeshtasticClient_def connectedCount_def)
  have "\<not> b_panic (fold (run_connect_call sample_benv) (connectCalls (handleConnectorStateChange ?c 0 EventStarted)) sample_bridge)"
    by (simp add: NewMeshtasticClient_def handleConnectorStateChange_def connectedCount_def run_connect_call_def
        onMeshConnected_def start_tasks_def sample_benv_def sample_framework_def sample_bridge_def)
  from first_connect_leaks_tasks [OF c refl this] show ?thesis by (simp add: sample_bridge_def)
qed

end
