(* ===== verification/Bridge_Convert.thy ===== *)
theory Bridge_Convert
  imports Bridge_Events "HOL-Library.Sublist"
begin

text \<open>
  The conversion of a text message from the mesh to a Matrix message: \<^verbatim>\<open>shortUserRegex\<close> and
  \<^verbatim>\<open>convertMessageEvent\<close> of \<^verbatim>\<open>pkg/connector/handle_meshtastic.go\<close>.
\<close>

section \<open>Short user identifiers in a text\<close>

text \<open>
  The matches of \<^verbatim>\<open>(?:\b|@\s?)([a-f0-9]{4})\b\<close> in a byte string.  A match begins with a hexadecimal
  digit or with \<^verbatim>\<open>@\<close>, so the alternatives exclude each other, and a white space character is no
  digit, so \<^verbatim>\<open>\s?\<close> never has to give one back.  The bytes of a character outside ASCII are no
  word characters, as the character itself is none.
\<close>

definition is_word :: "char \<Rightarrow> bool" where
  "is_word c \<longleftrightarrow>
     c \<in> set ''0123456789ABCDEFGHIJKLMNOPQRSTUVWXYZabcdefghijklmnopqrstuvwxyz_''"

definition is_regex_space :: "char \<Rightarrow> bool" where
  "is_regex_space c \<longleftrightarrow> c \<in> {CHR 0x09, CHR 0x0A, CHR 0x0C, CHR 0x0D, CHR '' ''}"

definition word_at :: "string \<Rightarrow> nat \<Rightarrow> bool" where
  "word_at s i \<longleftrightarrow> i < length s \<and> is_word (s ! i)"

definition boundary :: "string \<Rightarrow> nat \<Rightarrow> bool" where
  "boundary s i \<longleftrightarrow> (0 < i \<and> word_at s (i - 1)) \<noteq> word_at s i"

definition hex4_at :: "string \<Rightarrow> nat \<Rightarrow> bool" where
  "hex4_at s i \<longleftrightarrow> short_user_ok (take 4 (drop i s)) \<and> boundary s (i + 4)"

text \<open>The start of the capture group, for a match that begins at \<open>i\<close>; it ends four bytes later.\<close>

definition match_at :: "string \<Rightarrow> nat \<Rightarrow> nat option" where
  "match_at s i =
     (if boundary s i \<and> hex4_at s i then Some i
      else if i < length s \<and> s ! i = CHR ''@'' then
        let j = (if Suc i < length s \<and> is_regex_space (s ! Suc i) then i + 2 else i + 1)
        in if hex4_at s j then Some j else None
      else None)"

lemma match_at_ge: "match_at s i = Some j \<Longrightarrow> i \<le> j"
  by (auto simp: match_at_def Let_def split: if_splits)

text \<open>\<^verbatim>\<open>FindAllStringSubmatchIndex\<close> from position \<open>i\<close>: the start of a match and of its group.\<close>

function FindAll :: "string \<Rightarrow> nat \<Rightarrow> (nat \<times> nat) list" where
  "FindAll s i =
     (if i \<ge> length s then []
      else case match_at s i of
             Some j \<Rightarrow> (i, j) # FindAll s (j + 4)
           | None \<Rightarrow> FindAll s (i + 1))"
  by pat_completeness auto
termination
  by (relation "measure (\<lambda>(s, i). length s - i)") (auto dest: match_at_ge)

declare FindAll.simps [simp del]

section \<open>Text\<close>

definition escape_char :: "char \<Rightarrow> string" where
  "escape_char c =
     (if c = CHR ''&'' then ''&amp;''
      else if c = CHR 0x27 then ''&#39;''
      else if c = CHR ''<'' then ''&lt;''
      else if c = CHR ''>'' then ''&gt;''
      else if c = CHR 0x22 then ''&#34;''
      else [c])"

definition EscapeString :: "string \<Rightarrow> string" where
  "EscapeString s = concat (map escape_char s)"

text \<open>\<^verbatim>\<open>strings.ReplaceAll\<close> of the bell, a single byte.\<close>

definition replace_bell :: "string \<Rightarrow> string \<Rightarrow> string" where
  "replace_bell new s = concat (map (\<lambda>c. if [c] = BellCharacter then new else [c]) s)"

definition contains_bell :: "string \<Rightarrow> bool" where
  "contains_bell s \<longleftrightarrow> hd BellCharacter \<in> set s"

definition html_link :: "string \<Rightarrow> string \<Rightarrow> string" where
  "html_link url text = ''<a href='' @ [CHR 0x22] @ url @ [CHR 0x22] @ ''>'' @ text @ ''</a>''"

section \<open>Conversion\<close>

record ConvertedMessage =
  cm_Body :: string
  cm_FormattedBody :: string
  cm_IsHTML :: bool
  cm_UserIDs :: "string list"
  cm_Room :: bool
  cm_ReplyTo :: "string option"

text \<open>
  The user a short identifier stands for: the tag, its link, and the state after its ghost was
  asked for.  The error of the query is dropped.
\<close>

definition find_mention ::
  "('c, 'w) benv \<Rightarrow> string \<Rightarrow> ('c, 'w) bridge \<Rightarrow> (string \<times> string) option \<times> ('c, 'w) bridge" where
  "find_mention B potential b =
     (case GetByShortUserID (be_dbms B) potential (b_db b) of
        Inr (Some ni) \<Rightarrow>
          (case getRemoteGhost B (MakeUserID (mn_NodeID ni)) True b of
             (Inl err, b) \<Rightarrow> (None, b)
           | (Inr ghost, b) \<Rightarrow>
               let ghostMXID = (case gh_UserMXID ghost of
                     Some m \<Rightarrow> if m \<noteq> [] then m else fw_GhostMXID (be_fw B) ghost
                   | None \<Rightarrow> fw_GhostMXID (be_fw B) ghost);
                   userDisplay = (if mn_LongName ni \<noteq> [] then ''@'' @ mn_LongName ni else ghostMXID)
               in (Some (ghostMXID, html_link (fw_MatrixToURL (be_fw B) ghostMXID) (EscapeString userDisplay)), b))
      | _ \<Rightarrow> (None, b))"

record ('c, 'w) builder =
  bl_body :: string
  bl_formatted :: string
  bl_lastIndex :: nat
  bl_users :: "string list"
  bl_bridge :: "('c, 'w) bridge"

definition substring :: "string \<Rightarrow> nat \<Rightarrow> nat \<Rightarrow> string" where
  "substring s i j = take (j - i) (drop i s)"

definition convert_match ::
  "('c, 'w) benv \<Rightarrow> string \<Rightarrow> nat \<times> nat \<Rightarrow> ('c, 'w) builder \<Rightarrow> ('c, 'w) builder" where
  "convert_match B mess m bl =
     (let (start, userStart) = m;
          fin = userStart + 4;
          before = substring mess (bl_lastIndex bl) start;
          (user, b) = find_mention B (substring mess userStart fin) (bl_bridge bl);
          bl = bl\<lparr>bl_body := bl_body bl @ before, bl_formatted := bl_formatted bl @ before,
                  bl_lastIndex := fin, bl_bridge := b\<rparr>
      in case user of
           None \<Rightarrow> bl\<lparr>bl_body := bl_body bl @ substring mess start fin,
                      bl_formatted := bl_formatted bl @ substring mess start fin\<rparr>
         | Some (tag, link) \<Rightarrow>
             bl\<lparr>bl_body := bl_body bl @ tag, bl_formatted := bl_formatted bl @ link,
                bl_users := (if tag \<in> set (bl_users bl) then bl_users bl else bl_users bl @ [tag])\<rparr>)"

definition convert_mentions ::
  "('c, 'w) benv \<Rightarrow> string \<Rightarrow> ('c, 'w) bridge \<Rightarrow> ('c, 'w) builder" where
  "convert_mentions B mess b =
     (let bl0 = \<lparr>bl_body = [], bl_formatted = [], bl_lastIndex = 0, bl_users = [], bl_bridge = b\<rparr>;
          ms = FindAll mess 0
      in if ms = [] then bl0\<lparr>bl_body := mess\<rparr>
         else
           let bl = fold (convert_match B mess) ms bl0;
               rest = drop (bl_lastIndex bl) mess
           in bl\<lparr>bl_body := bl_body bl @ rest, bl_formatted := bl_formatted bl @ rest\<rparr>)"

definition reply_id :: "MeshTextEvent \<Rightarrow> string option" where
  "reply_id data =
     (if ev_ReplyId data \<noteq> 0
      then Some (MakeMessageID (if ev_IsDM data then NodeID_String (ev_From data) else ev_ChannelName data)
                   (ev_ReplyId data))
      else None)"

definition convertMessageEvent ::
  "('c, 'w) benv \<Rightarrow> portal \<Rightarrow> MeshTextEvent \<Rightarrow> ('c, 'w) bridge \<Rightarrow> ConvertedMessage outcome \<times> ('c, 'w) bridge" where
  "convertMessageEvent B p data b =
     (let bl = convert_mentions B (ev_Message data) b;
          mess = bl_body bl;
          b = bl_bridge bl;
          converted = (\<lambda>mess formatted users room.
            (Ok \<lparr>cm_Body = mess, cm_FormattedBody = formatted, cm_IsHTML = (formatted \<noteq> []),
                 cm_UserIDs = users, cm_Room = room, cm_ReplyTo = reply_id data\<rparr>, b))
      in if \<not> contains_bell mess then converted mess (bl_formatted bl) (bl_users bl) False
         else if po_RoomType p = RoomTypeDM then
           (case fw_CachedLogin (be_fw B) (b_world b) (pk_Receiver (po_Key p)) of
              None \<Rightarrow> (Panic, panic b)
            | Some user \<Rightarrow>
                let userTag = ul_UserMXID user
                in converted (replace_bell userTag mess)
                     (replace_bell (html_link (fw_MatrixToURL (be_fw B) userTag) (EscapeString userTag)) (ev_Message data))
                     (bl_users bl @ [userTag]) False)
         else converted (replace_bell (po_MXID p) mess)
                (replace_bell (html_link (fw_MatrixToURL (be_fw B) (po_MXID p)) (EscapeString ''@room'')) (ev_Message data))
                (bl_users bl) True)"

section \<open>The matcher\<close>

text \<open>The regular expression read as a relation: a match at \<open>i\<close> with its group at \<open>j\<close>.\<close>

definition regex_match :: "string \<Rightarrow> nat \<Rightarrow> nat \<Rightarrow> bool" where
  "regex_match s i j \<longleftrightarrow>
     (boundary s i \<and> j = i \<or>
      i < length s \<and> s ! i = CHR ''@'' \<and> (j = i + 1 \<or> Suc i < length s \<and> is_regex_space (s ! Suc i) \<and> j = i + 2)) \<and>
     (j + 4 \<le> length s \<and> (\<forall>k \<in> {j..<j + 4}. s ! k \<in> set ''abcdef0123456789'')) \<and>
     boundary s (j + 4)"

lemma hex4_at_iff:
  "hex4_at s j \<longleftrightarrow>
     (j + 4 \<le> length s \<and> (\<forall>k \<in> {j..<j + 4}. s ! k \<in> set ''abcdef0123456789'')) \<and> boundary s (j + 4)"
proof -
  have all: "list_all P (take 4 (drop j s)) \<longleftrightarrow> (\<forall>k \<in> {j..<j + 4}. P (s ! k))" if "j + 4 \<le> length s" for P
  proof -
    have "list_all P (take 4 (drop j s)) \<longleftrightarrow> (\<forall>n < 4. P (s ! (j + n)))"
      using that by (auto simp: list_all_length)
    also have "\<dots> \<longleftrightarrow> (\<forall>k \<in> {j..<j + 4}. P (s ! k))"
      by (metis add_diff_inverse_nat atLeastLessThan_iff le_add1 nat_add_left_cancel_less not_less)
    finally show ?thesis .
  qed
  have len: "length (take 4 (drop j s)) = 4 \<longleftrightarrow> j + 4 \<le> length s" by auto
  define H where "H = set ''0123456789abcdef''"
  have H: "set ''abcdef0123456789'' = H" by (auto simp: H_def)
  show ?thesis
    unfolding hex4_at_def short_user_ok_def len H H_def [symmetric] using all [of "\<lambda>c. c \<in> H"] by blast
qed

lemma hex4_first:
  assumes "hex4_at s j" shows "j < length s" "s ! j \<noteq> CHR ''@''" "\<not> is_regex_space (s ! j)"
proof -
  have "s ! j \<in> set ''abcdef0123456789''" "j < length s" using assms by (auto simp: hex4_at_iff)
  then show "j < length s" "s ! j \<noteq> CHR ''@''" "\<not> is_regex_space (s ! j)" by (auto simp: is_regex_space_def)
qed

lemma match_at_iff: "match_at s i = Some j \<longleftrightarrow> regex_match s i j"
proof -
  have "regex_match s i j \<longleftrightarrow>
     (boundary s i \<and> j = i \<or>
      i < length s \<and> s ! i = CHR ''@'' \<and> (j = i + 1 \<or> Suc i < length s \<and> is_regex_space (s ! Suc i) \<and> j = i + 2)) \<and>
     hex4_at s j"
    by (simp only: regex_match_def hex4_at_iff)
  also have "\<dots> \<longleftrightarrow> match_at s i = Some j"
    using hex4_first [of s i] hex4_first [of s "Suc i"]
    by (auto simp: match_at_def Let_def)
  finally show ?thesis by simp
qed

lemma FindAll_spec:
  "(\<forall>(i', j) \<in> set (FindAll s i). i \<le> i' \<and> match_at s i' = Some j) \<and>
   sorted_wrt (\<lambda>(i1, j1) (i2, j2). j1 + 4 \<le> i2) (FindAll s i) \<and>
   (\<forall>k \<ge> i. match_at s k \<noteq> None \<longrightarrow> (\<exists>(i', j) \<in> set (FindAll s i). i' \<le> k \<and> k < j + 4))"
proof (induction s i rule: FindAll.induct)
  case (1 s i)
  consider "i \<ge> length s" | j where "i < length s" "match_at s i = Some j" | "i < length s" "match_at s i = None"
    by fastforce
  then show ?case
  proof cases
    case 1
    then have "match_at s k = None" if "k \<ge> i" for k
      using that hex4_first(1) [of s k] by (auto simp: match_at_def)
    with 1 show ?thesis by (simp add: FindAll.simps)
  next
    case (2 j)
    then have fa: "FindAll s i = (i, j) # FindAll s (j + 4)" by (simp add: FindAll.simps)
    note ih = "1.IH"(2) [OF _ 2(2)]
    have ij: "i \<le> j" using 2(2) by (rule match_at_ge)
    have "\<exists>(i', j') \<in> set (FindAll s i). i' \<le> k \<and> k < j' + 4" if "k \<ge> i" "match_at s k \<noteq> None" for k
    proof (cases "k < j + 4")
      case False
      then have "\<exists>(i', j') \<in> set (FindAll s (j + 4)). i' \<le> k \<and> k < j' + 4" using ih 2(1) that(2) by force
      then show ?thesis by (auto simp: fa)
    qed (use that in \<open>auto simp: fa\<close>)
    moreover have "\<forall>(i', j') \<in> set (FindAll s (j + 4)). j + 4 \<le> i' \<and> match_at s i' = Some j'"
      "sorted_wrt (\<lambda>(i1, j1) (i2, j2). j1 + 4 \<le> i2) (FindAll s (j + 4))" using ih 2(1) by simp_all
    ultimately show ?thesis using ij 2(2) by (fastforce simp: fa)
  next
    case 3
    then have fa: "FindAll s i = FindAll s (i + 1)" by (simp add: FindAll.simps)
    have "match_at s k \<noteq> None \<Longrightarrow> k \<ge> i \<Longrightarrow> k \<ge> i + 1" for k using 3(2) by (cases "k = i") auto
    with "1.IH"(1) [OF _ 3(2)] 3(1) show ?thesis unfolding fa by fastforce
  qed
qed

section \<open>Building the texts\<close>

lemma substring_append: "i \<le> j \<Longrightarrow> take i s @ substring s i j = take j s"
  by (metis append_take_drop_id drop_take le_add_diff_inverse substring_def take_add)

lemma find_mention_db [simp]: "b_db (snd (find_mention B w b)) = b_db b"
  by (auto simp: find_mention_def getRemoteGhost_def Let_def split: sum.split option.split prod.split)

lemma convert_match_fields [simp]:
  "bl_lastIndex (convert_match B s (i, j) bl) = j + 4"
  "b_db (bl_bridge (convert_match B s (i, j) bl)) = b_db (bl_bridge bl)"
  using find_mention_db [of B "substring s j (j + 4)" "bl_bridge bl"]
  by (auto simp: convert_match_def Let_def simp del: find_mention_db split: prod.split option.split)

text \<open>The matches \<open>ms\<close> lie in order behind position \<open>i\<close>.\<close>

fun matches_from :: "nat \<Rightarrow> (nat \<times> nat) list \<Rightarrow> bool" where
  "matches_from i [] = True"
| "matches_from i ((start, j) # ms) \<longleftrightarrow> i \<le> start \<and> start \<le> j \<and> matches_from (j + 4) ms"

lemma FindAll_matches_from: "matches_from i (FindAll s i)"
proof (induction s i rule: FindAll.induct)
  case (1 s i)
  have "matches_from (i + 1) ms \<Longrightarrow> matches_from i ms" for ms by (cases ms) auto
  with 1 show ?case by (subst FindAll.simps) (auto dest: match_at_ge split: option.split)
qed

lemma convert_match_unknown:
  assumes "fst (find_mention B (substring s j (j + 4)) (bl_bridge bl)) = None"
    and "bl_lastIndex bl \<le> i" "i \<le> j" "bl_body bl = take (bl_lastIndex bl) s" "bl_formatted bl = take (bl_lastIndex bl) s"
  shows "bl_body (convert_match B s (i, j) bl) = take (j + 4) s" "bl_formatted (convert_match B s (i, j) bl) = take (j + 4) s"
    "bl_users (convert_match B s (i, j) bl) = bl_users bl"
proof -
  obtain b where "find_mention B (substring s j (j + 4)) (bl_bridge bl) = (None, b)" using assms(1) by (metis prod.collapse)
  moreover have "take (bl_lastIndex bl) s @ substring s (bl_lastIndex bl) i @ substring s i (j + 4) = take (j + 4) s"
    using assms(2,3) substring_append [of "bl_lastIndex bl" i s] substring_append [of i "j + 4" s] by (metis append.assoc trans_le_add1)
  ultimately show "bl_body (convert_match B s (i, j) bl) = take (j + 4) s"
    "bl_formatted (convert_match B s (i, j) bl) = take (j + 4) s" "bl_users (convert_match B s (i, j) bl) = bl_users bl"
    using assms(4,5) by (simp_all add: convert_match_def Let_def)
qed

lemma convert_unknown:
  assumes "\<And>w b'. b_db b' = d \<Longrightarrow> fst (find_mention B w b') = None" "matches_from (bl_lastIndex bl) ms"
    and "b_db (bl_bridge bl) = d"
    and "bl_body bl = take (bl_lastIndex bl) s" "bl_formatted bl = take (bl_lastIndex bl) s" "bl_users bl = []"
  shows "let bl' = fold (convert_match B s) ms bl in
    bl_body bl' = take (bl_lastIndex bl') s \<and> bl_formatted bl' = take (bl_lastIndex bl') s \<and> bl_users bl' = []"
  using assms(2-6)
proof (induction ms arbitrary: bl)
  case (Cons m ms)
  obtain i j where m: "m = (i, j)" by fastforce
  note one = convert_match_unknown [of B s j bl i]
  show ?case using Cons.prems assms(1) one unfolding m by (simp add: Cons.IH)
qed simp

section \<open>Properties\<close>

text \<open>
  C25: the short identifiers found in a text are those of the regular expression: every reported
  range is a match of it, the ranges are disjoint and in order, and no place where it matches is
  missed, other than inside a range that is reported.
\<close>

theorem short_ids_found:
  "(\<forall>(i, j) \<in> set (FindAll s 0). regex_match s i j) \<and>
   sorted_wrt (\<lambda>(i1, j1) (i2, j2). j1 + 4 \<le> i2) (FindAll s 0) \<and>
   (\<forall>k j. regex_match s k j \<longrightarrow> (\<exists>(i', j') \<in> set (FindAll s 0). i' \<le> k \<and> k < j' + 4))"
  using FindAll_spec [of s 0] by (fastforce simp: match_at_iff [symmetric])

theorem short_ids_found_witness:
  "\<exists>i' j. (i', j) \<in> set (FindAll ''hi @ 00a1, ok'' 0) \<and> i' \<le> 3 \<and> 3 < j + 4 \<and> regex_match ''hi @ 00a1, ok'' i' j"
proof -
  have "match_at ''hi @ 00a1, ok'' 3 = Some 5"
    by (simp add: match_at_def hex4_at_def boundary_def word_at_def is_word_def is_regex_space_def short_user_ok_def
        numeral_eq_Suc)
  then have "regex_match ''hi @ 00a1, ok'' 3 5" by (simp add: match_at_iff)
  with short_ids_found [of "''hi @ 00a1, ok''"] show ?thesis by blast
qed

text \<open>
  The text of a remote node reaches the formatted body as it is.  When a message without a bell
  contains a word of four hexadecimal digits, although no node is known by it, the message is
  converted to HTML whose source is the message, byte for byte: markup in it takes effect.
\<close>

lemma remote_text_unescaped:
  assumes "FindAll (ev_Message data) 0 \<noteq> []" "\<not> contains_bell (ev_Message data)"
    and "\<And>w. GetByShortUserID (be_dbms B) w (b_db b) \<in> insert (Inr None) (range Inl)"
  shows "\<exists>cm. fst (convertMessageEvent B p data b) = Ok cm \<and> cm_IsHTML cm \<and>
    cm_FormattedBody cm = ev_Message data \<and> cm_Body cm = ev_Message data \<and> cm_UserIDs cm = []"
proof -
  let ?s = "ev_Message data"
  let ?bl0 = "\<lparr>bl_body = [], bl_formatted = [], bl_lastIndex = 0, bl_users = [], bl_bridge = b\<rparr>"
  have "fst (find_mention B w b') = None" if "b_db b' = b_db b" for w b'
    using assms(3) [of w] that by (auto simp: find_mention_def)
  then have "let bl = fold (convert_match B ?s) (FindAll ?s 0) ?bl0 in
      bl_body bl = take (bl_lastIndex bl) ?s \<and> bl_formatted bl = take (bl_lastIndex bl) ?s \<and> bl_users bl = []"
    by (intro convert_unknown [where d = "b_db b"]) (simp_all add: FindAll_matches_from)
  then have "bl_body (convert_mentions B ?s b) = ?s" "bl_formatted (convert_mentions B ?s b) = ?s"
    "bl_users (convert_mentions B ?s b) = []"
    using assms(1) by (simp_all add: convert_mentions_def Let_def)
  moreover have "?s \<noteq> []" using assms(1) by (auto simp: FindAll.simps)
  ultimately show ?thesis using assms(2) by (simp add: convertMessageEvent_def Let_def)
qed

definition sample_markup :: MeshTextEvent where
  "sample_markup = sample_text\<lparr>ev_Message := ''<b>dead''\<rparr>"

lemma remote_text_unescaped_sample:
  "\<exists>cm p. p = \<lparr>po_Key = \<lparr>pk_ID = [], pk_Receiver = []\<rparr>, po_RoomType = RoomTypeDefault, po_MXID = ''!room''\<rparr> \<and>
     fst (convertMessageEvent sample_benv p sample_markup sample_bridge) = Ok cm \<and>
     cm_IsHTML cm \<and> cm_FormattedBody cm = ''<b>dead''"
proof -
  have m: "ev_Message sample_markup = ''<b>dead''" by (simp add: sample_markup_def)
  have "match_at ''<b>dead'' 3 = Some 3"
    by (simp add: match_at_def hex4_at_def boundary_def word_at_def is_word_def short_user_ok_def numeral_eq_Suc)
  then have "FindAll ''<b>dead'' 0 \<noteq> []" using FindAll_spec [of "''<b>dead''" 0] by fastforce
  moreover have "\<not> contains_bell ''<b>dead''" by (simp add: contains_bell_def BellCharacter_def)
  moreover have "GetByShortUserID (be_dbms sample_benv) w (b_db sample_bridge) \<in> insert (Inr None) (range Inl)" for w
    by (simp add: GetByShortUserID_def QueryOne_def query_def sample_benv_def sample_dbms_def sample_bridge_def)
  ultimately show ?thesis using remote_text_unescaped [of sample_markup sample_benv sample_bridge] unfolding m by blast
qed

lemma sublist_extend: "sublist u xs \<Longrightarrow> sublist u (xs @ ys)"
  by (auto simp: sublist_def) (metis append.assoc)

lemma convert_match_users:
  assumes "distinct (bl_users bl)" "\<forall>u \<in> set (bl_users bl). sublist u (bl_body bl)"
  shows "distinct (bl_users (convert_match B s m bl)) \<and>
    (\<forall>u \<in> set (bl_users (convert_match B s m bl)). sublist u (bl_body (convert_match B s m bl)))"
proof -
  have ext: "sublist u (bl_body bl @ x)" if "u \<in> set (bl_users bl)" for u x
    using that assms(2) by (auto intro: sublist_extend)
  have tag: "sublist t (xs @ ys @ t)" for t xs ys :: string by (metis append.assoc append_Nil2 sublist_appendI)
  show ?thesis
    using assms(1) ext by (auto simp: convert_match_def Let_def tag split: prod.split option.split)
qed

lemma convert_matches_users:
  assumes "distinct (bl_users bl)" "\<forall>u \<in> set (bl_users bl). sublist u (bl_body bl)"
  shows "distinct (bl_users (fold (convert_match B s) ms bl)) \<and>
    (\<forall>u \<in> set (bl_users (fold (convert_match B s) ms bl)). sublist u (bl_body (fold (convert_match B s) ms bl)))"
  using assms by (induction ms arbitrary: bl) (simp_all add: convert_match_users)

lemma convert_mentions_users:
  "distinct (bl_users (convert_mentions B s b)) \<and>
   (\<forall>u \<in> set (bl_users (convert_mentions B s b)). sublist u (bl_body (convert_mentions B s b)))"
proof -
  let ?bl = "fold (convert_match B s) (FindAll s 0)
     \<lparr>bl_body = [], bl_formatted = [], bl_lastIndex = 0, bl_users = [], bl_bridge = b\<rparr>"
  have "distinct (bl_users ?bl) \<and> (\<forall>u \<in> set (bl_users ?bl). sublist u (bl_body ?bl))"
    by (rule convert_matches_users) simp_all
  then show ?thesis
    by (auto simp: convert_mentions_def Let_def intro: sublist_extend)
qed

text \<open>
  Who is mentioned.  Without a bell the users a converted message notifies are listed once
  each, and each of them is named in the body; the room is notified only for a bell.
\<close>

lemma mentions_named:
  assumes "convertMessageEvent B p data b = (Ok cm, b')"
  shows "if contains_bell (bl_body (convert_mentions B (ev_Message data) b))
    then cm_Room cm \<longleftrightarrow> po_RoomType p \<noteq> RoomTypeDM
    else \<not> cm_Room cm \<and> distinct (cm_UserIDs cm) \<and> (\<forall>u \<in> set (cm_UserIDs cm). sublist u (cm_Body cm))"
  using assms convert_mentions_users [of B "ev_Message data" b]
  by (auto simp: convertMessageEvent_def Let_def split: option.splits if_splits)

end
