(* ===== verification/Bridge_System.thy ===== *)
theory Bridge_System
  imports Bridge_Commands Bridge_Tasks Bridge_Convert
begin

text \<open>
  The bridge as a whole: all handlers of \<^verbatim>\<open>pkg/connector\<close> as the steps of one system, in any
  order, and what holds in every state it reaches.
\<close>

section \<open>Delivery\<close>

text \<open>
  \<^verbatim>\<open>notifyEvent\<close> calls the connector's handler, then those of the logins in the order they
  connected.  They run here when the mesh client is done with a packet.
\<close>

definition login_handler :: "('c, 'w) benv \<Rightarrow> event \<Rightarrow> login \<Rightarrow> ('c, 'w) bridge \<Rightarrow> ('c, 'w) bridge" where
  "login_handler B evt l b = (if b_panic b then b else handleMeshEvent B l evt b)"

definition deliver_event :: "('c, 'w) benv \<Rightarrow> event \<Rightarrow> ('c, 'w) bridge \<Rightarrow> ('c, 'w) bridge" where
  "deliver_event B evt b =
     (if b_panic b then b
      else fold (login_handler B evt) (b_clients b) (handleGlobalMeshEvent B evt b))"

definition receive_packet :: "('c, 'w) benv \<Rightarrow> NetworkMeshPacket \<Rightarrow> ('c, 'w) bridge \<Rightarrow> ('c, 'w) bridge" where
  "receive_packet B p b =
     (let b' = b\<lparr>b_mesh := handleMeshPacket (mesh_env B b) p (b_mesh b)\<rparr>
      in fold (deliver_event B) (drop (length (events (b_mesh b))) (events (b_mesh b'))) b')"

text \<open>A change of a connector's state, with the calls of the handlers it leads to.\<close>

definition connector_event :: "('c, 'w) benv \<Rightarrow> nat \<Rightarrow> ListenerEvent \<Rightarrow> ('c, 'w) bridge \<Rightarrow> ('c, 'w) bridge" where
  "connector_event B i le b =
     (let b' = b\<lparr>b_mesh := handleConnectorStateChange (b_mesh b) i le\<rparr>
      in fold (run_connect_call B) (drop (length (connectCalls (b_mesh b))) (connectCalls (b_mesh b'))) b')"

section \<open>Steps\<close>

text \<open>
  \<open>connectors\<close>: the connectors change on their own; \<open>world\<close>: so does the state of the framework.
  \<open>job\<close> and \<open>spawned\<close> are goroutines; those of a job hold any row.  \<open>managed\<close> and the two keys are
  the mesh client's callbacks.
\<close>

inductive bridge_step :: "('c, 'w) benv \<Rightarrow> ('c, 'w) bridge \<Rightarrow> ('c, 'w) bridge \<Rightarrow> bool" for B where
  receive: "np_ChannelKey p = None \<Longrightarrow> bridge_step B b (receive_packet B p b)"
| connector: "bridge_step B b (connector_event B i le b)"
| connectors: "bridge_step B b (b\<lparr>b_mesh := (b_mesh b)\<lparr>meshConnectors := hs\<rparr>\<rparr>)"
| world: "bridge_step B b (b\<lparr>b_world := w\<rparr>)"
| spawned: "bridge_step B b (requestGhostNodeInfo B i b)"
| tick: "bridge_step B b (snd (run_tick B srt k b))"
| job: "bridge_step B b (run_job B j b)"
| managed: "bridge_step B b (snd (IsManagedNode B n b))"
| public_key: "bridge_step B b (snd (getGhostPublicKey B n b))"
| private_key: "bridge_step B b (snd (getGhostPrivateKey B n b))"
| convert: "bridge_step B b (snd (convertMessageEvent B p txt b))"
| matrix_message: "bridge_step B b (snd (HandleMatrixMessage B msg b))"
| message_saved: "bridge_step B b (postMessageSave B mxid room sender b)"
| matrix_reaction: "bridge_step B b (snd (HandleMatrixReaction B rx b))"
| reaction_removed: "bridge_step B b (snd (HandleMatrixReactionRemove B sender b))"
| typing: "bridge_step B b (HandleMatrixTyping B l t b)"
| read_receipt: "bridge_step B b (HandleMatrixReadReceipt B l b)"
| membership: "bridge_step B b (snd (HandleMatrixMembership B isJoin target b))"
| resolve: "bridge_step B b (snd (ResolveIdentifier B l ident b))"
| login_connect: "bridge_step B b (snd (client_login_Connect B l b))"
| login_disconnect: "bridge_step B b (client_login_Disconnect b)"
| login_submit: "bridge_step B b (snd (SubmitUserInput B mxid input b))"
| join_channel: "bridge_step B b (snd (fnJoinChannel B ce b))"
| update_names: "bridge_step B b (snd (fnUpdateNames B ce b))"
| node_info: "bridge_step B b (snd (fnNodeInfo B ce b))"
| traceroute: "bridge_step B b (snd (fnTraceroute B ce b))"
| stop: "bridge_step B b (bridge_Stop b)"

text \<open>
  A run; every step has an environment of its own (the time passes, what the libraries return
  changes), of which \<open>P\<close> says what stays.  A panic ends it.
\<close>

inductive bridge_run :: "(('c, 'w) benv \<Rightarrow> bool) \<Rightarrow> ('c, 'w) bridge \<Rightarrow> ('c, 'w) bridge \<Rightarrow> bool" for P where
  start: "bridge_run P b b"
| step: "bridge_run P b b' \<Longrightarrow> \<not> b_panic b' \<Longrightarrow> P B \<Longrightarrow> bridge_step B b' b'' \<Longrightarrow> bridge_run P b b''"

inductive_cases bridge_stepE: "bridge_step B b b'"

section \<open>What a step does to the mesh client and to the tables\<close>

text \<open>
  The nodes the bridge may send for: its own, and those whose ghosts the framework ever reports to
  belong to a Matrix user.  A state is \<open>trusted\<close> when what it remembers is within these nodes.
\<close>

definition owners_in :: "(NodeID \<Rightarrow> bool) \<Rightarrow> ('c, 'w) benv \<Rightarrow> bool" where
  "owners_in M B \<longleftrightarrow>
     M (MXIDToNodeID (fw_BotMXID (be_fw B))) \<and>
     (\<forall>w n g. fw_GetExistingGhost (be_fw B) w (MakeUserID n) = Inr (Some g) \<longrightarrow>
        (case gh_UserMXID g of Some mxid \<Rightarrow> mxid \<noteq> [] \<longrightarrow> M n | None \<Rightarrow> True))"

definition trusted :: "(NodeID \<Rightarrow> bool) \<Rightarrow> ('c, 'w) bridge \<Rightarrow> bool" where
  "trusted M b \<longleftrightarrow>
     (\<forall>n. b_managedNodeCache b n = Some True \<longrightarrow> M n) \<and> (b_baseNodeID b \<noteq> 0 \<longrightarrow> M (b_baseNodeID b))"

lemma trusted_base:
  assumes "owners_in M B" "trusted M b"
  shows "M (fst (GetBaseNodeID B b))" "trusted M (snd (GetBaseNodeID B b))"
  using assms by (auto simp: owners_in_def trusted_def GetBaseNodeID_def Let_def)

lemma trusted_managed:
  assumes "owners_in M B" "trusted M b"
  shows "fst (IsManagedNode B n b) \<Longrightarrow> M n" "trusted M (snd (IsManagedNode B n b))"
proof -
  obtain base b1 where g: "GetBaseNodeID B b = (base, b1)" by fastforce
  have base: "M base" "trusted M b1" using trusted_base [OF assms] g by simp_all
  have owned: "M n" if "fw_GetExistingGhost (be_fw B) w (MakeUserID n) = Inr (Some gh)" "gh_UserMXID gh = Some m" "m \<noteq> []" for w gh m
    using assms(1) that by (force simp: owners_in_def)
  have cached: "trusted M (b1\<lparr>b_managedNodeCache := (b_managedNodeCache b1)(n \<mapsto> v)\<rparr>)" if "v \<Longrightarrow> M n" for v
    using that base(2) by (auto simp: trusted_def)
  show "M n" if "fst (IsManagedNode B n b)"
    using that assms(2) base(1) owned
    by (auto simp: IsManagedNode_def cache_managed_def trusted_def g split: option.splits sum.splits if_splits)
  show "trusted M (snd (IsManagedNode B n b))"
    using assms(2) base cached owned
    by (auto simp: IsManagedNode_def cache_managed_def g split: option.split sum.split)
qed

text \<open>
  The answers that keep the bridge from a panic of its own: the row helper gives no nil for a node
  without a row; the key of a portal whose identifier reads as a channel's is one \<^verbatim>\<open>NewChannelDef\<close>
  accepts; there is a login in every direct chat; and the receiver of a direct chat is known.
\<close>

definition portal_key_ok :: "('c, 'w) benv \<Rightarrow> portal \<Rightarrow> bool" where
  "portal_key_ok B p \<longleftrightarrow>
     (case ParsePortalID (pk_ID (po_Key p)) of
        (_, Some err) \<Rightarrow> True
      | ((name, key), None) \<Rightarrow> \<exists>d. NewChannelDef (e_lib (be_mesh B)) name (Some key) = Inr d)"

definition sound_env :: "('c, 'w) benv \<Rightarrow> bool" where
  "sound_env B \<longleftrightarrow>
     \<not> db_absent_nil (be_dbms B) \<and>
     (\<forall>w ps. fw_AllPortals (be_fw B) w = Inr ps \<longrightarrow> (\<forall>p \<in> set ps. portal_key_ok B p)) \<and>
     (\<forall>w i. \<forall>p \<in> set (fst (fw_DMPortalsWith (be_fw B) w i)). \<exists>l ls. fw_LoginsInPortal (be_fw B) w (po_Key p) = Inr (l # ls)) \<and>
     (\<forall>w (p :: portal). po_RoomType p = RoomTypeDM \<longrightarrow> fw_CachedLogin (be_fw B) w (pk_Receiver (po_Key p)) \<noteq> None)"

text \<open>
  Operations on the tables, one after the other, each on a database of its own settings.
  \<^verbatim>\<open>SetNames\<close> is the one the bridge never calls.
\<close>

definition run_ops :: "(dbms \<times> table_op) list \<Rightarrow> meshdb \<Rightarrow> meshdb" where
  "run_ops ops d = fold (\<lambda>(db, p) d. snd (run_op db p d)) ops d"

definition bridge_op :: "table_op \<Rightarrow> bool" where
  "bridge_op p \<longleftrightarrow> (case p of NamesOp n lname sname \<Rightarrow> False | _ \<Rightarrow> True)"

lemma run_ops_simps [simp]:
  "run_ops [] d = d" "run_ops ((db, p) # ops) d = run_ops ops (snd (run_op db p d))"
  "run_ops (ops @ ops') d = run_ops ops' (run_ops ops d)"
  by (simp_all add: run_ops_def)

lemma run_ops_reachable:
  assumes "db_reachable d" "\<forall>x \<in> set ops. db_foreign_keys (fst x)"
  shows "db_reachable (run_ops ops d)"
  using assms
proof (induction ops arbitrary: d)
  case (Cons x ops)
  obtain db p where x: "x = (db, p)" by fastforce
  have "db_reachable (snd (run_op db p d))"
    using Cons.prems x by (cases p) (auto intro: db_reachable.intros)
  with Cons x show ?case by simp
qed simp

lemma run_op_keeps_nodes: "look_node d n \<noteq> None \<Longrightarrow> look_node (snd (run_op db p d)) n \<noteq> None"
proof -
  assume n: "look_node d n \<noteq> None"
  obtain err d' where r: "run_op db p d = (err, d')" by fastforce
  show ?thesis
  proof (cases err)
    case None
    then have "look_node d' = fst (map_op p (abs_tables d))" using run_op_maps [of db p d d'] r by (simp add: abs_tables_def) (metis fst_conv)
    then show ?thesis using n r by (cases p) (auto simp: abs_tables_def)
  qed (use n r run_op_error in fastforce)
qed

lemma run_ops_keep_nodes: "look_node d n \<noteq> None \<Longrightarrow> look_node (run_ops ops d) n \<noteq> None"
  by (induction ops arbitrary: d) (simp_all add: run_op_keeps_nodes split_paired_all del: not_None_eq)

text \<open>
  A change of the bridge is \<open>linked\<close> when its mesh client moved by steps of the client, in
  environments the bridge provides, its tables by operations on them, and when it did not panic
  on sound answers.
\<close>

definition linked :: "(NodeID \<Rightarrow> bool) \<Rightarrow> ('c, 'w) benv \<Rightarrow> ('c, 'w) bridge \<Rightarrow> ('c, 'w) bridge \<Rightarrow> bool" where
  "linked M B b b' \<longleftrightarrow>
     (radio_keys_ok (e_lib (be_mesh B)) \<and> owners_in M B \<and> trusted M b \<and> good M (e_lib (be_mesh B)) (b_mesh b) \<longrightarrow>
        client_run (\<lambda>E. \<exists>b1. E = mesh_env B b1 \<and> trusted M b1) (b_mesh b) (b_mesh b') \<and> trusted M b') \<and>
     (\<exists>ops. (\<forall>p \<in> set ops. bridge_op p) \<and> b_db b' = run_ops (map (Pair (be_dbms B)) ops) (b_db b)) \<and>
     (sound_env B \<and> \<not> b_panic b \<longrightarrow> \<not> b_panic b')"

lemma client_run_trans: "client_run P c c' \<Longrightarrow> client_run P c' c'' \<Longrightarrow> client_run P c c''"
  by (rotate_tac, induction rule: client_run.induct) (auto intro: client_run.step)

lemma linked_refl [simp]: "linked M B b b"
  by (auto simp: linked_def client_run.start intro: exI [of _ "[]"])

lemma linked_good:
  assumes "linked M B b b'" "radio_keys_ok (e_lib (be_mesh B))" "owners_in M B" "trusted M b"
    and "good M (e_lib (be_mesh B)) (b_mesh b)"
  shows "good M (e_lib (be_mesh B)) (b_mesh b')"
proof -
  have "client_run (\<lambda>E. \<exists>b1. E = mesh_env B b1 \<and> trusted M b1) (b_mesh b) (b_mesh b')"
    using assms by (simp add: linked_def)
  then show ?thesis
    by (rule client_run_good [OF _ assms(5,2)]) (use trusted_managed(1) [OF assms(3)] in auto)
qed

lemma linked_trans:
  assumes l: "linked M B b b1" "linked M B b1 b2" shows "linked M B b b2"
proof -
  obtain ops1 ops2 where "\<forall>p \<in> set ops1. bridge_op p" "b_db b1 = run_ops (map (Pair (be_dbms B)) ops1) (b_db b)"
    "\<forall>p \<in> set ops2. bridge_op p" "b_db b2 = run_ops (map (Pair (be_dbms B)) ops2) (b_db b1)"
    using l unfolding linked_def by blast
  then have "\<exists>ops. (\<forall>p \<in> set ops. bridge_op p) \<and> b_db b2 = run_ops (map (Pair (be_dbms B)) ops) (b_db b)"
    by (intro exI [of _ "ops1 @ ops2"]) auto
  then show ?thesis using l linked_good [OF l(1)] client_run_trans unfolding linked_def by blast
qed

text \<open>Changes of other parts of the state.\<close>

lemma trusted_cong:
  assumes "b_managedNodeCache b' = b_managedNodeCache b" "b_baseNodeID b' = b_baseNodeID b"
  shows "trusted M b' = trusted M b"
  using assms by (simp add: trusted_def)

lemma linked_frame:
  assumes "linked M B b b1" "b_mesh b2 = b_mesh b1" "b_db b2 = b_db b1"
    and "b_managedNodeCache b2 = b_managedNodeCache b1" "b_baseNodeID b2 = b_baseNodeID b1"
    and "b_panic b2 = b_panic b1"
  shows "linked M B b b2"
  using assms(1-3,6) trusted_cong [OF assms(4,5), of M] by (simp add: linked_def)

lemma linked_step:
  assumes "linked M B b b1"
    and "radio_keys_ok (e_lib (be_mesh B)) \<Longrightarrow> good M (e_lib (be_mesh B)) (b_mesh b1) \<Longrightarrow>
         client_step (mesh_env B b1) (b_mesh b1) c"
  shows "linked M B b (b1\<lparr>b_mesh := c\<rparr>)"
proof (rule linked_trans [OF assms(1)])
  have "client_run (\<lambda>E. \<exists>b1. E = mesh_env B b1 \<and> trusted M b1) (b_mesh b1) c"
    if "client_step (mesh_env B b1) (b_mesh b1) c" "trusted M b1"
    by (rule client_run.step [OF client_run.start _ that(1)]) (use that(2) in blast)
  moreover have "trusted M (b1\<lparr>b_mesh := c\<rparr>) = trusted M b1" by (rule trusted_cong) simp_all
  ultimately show "linked M B b1 (b1\<lparr>b_mesh := c\<rparr>)"
    using assms(2) by (auto simp: linked_def intro: exI [of _ "[]"])
qed

lemma linked_on_mesh:
  assumes "linked M B b b1"
    and "radio_keys_ok (e_lib (be_mesh B)) \<Longrightarrow> good M (e_lib (be_mesh B)) (b_mesh b1) \<Longrightarrow>
         client_step (mesh_env B b1) (b_mesh b1) (snd (f (mesh_env B b1) (b_mesh b1)))"
  shows "linked M B b (snd (on_mesh B f b1))"
  using linked_step [OF assms] by (simp add: on_mesh_def case_prod_beta)

lemma linked_db:
  assumes "linked M B b b1" "bridge_op p" "\<And>d. f d = run_op (be_dbms B) p d"
  shows "linked M B b (snd (db_put f b1))"
proof (rule linked_trans [OF assms(1)])
  have "trusted M (b1\<lparr>b_db := d\<rparr>) = trusted M b1" for d by (rule trusted_cong) simp_all
  moreover have "\<exists>ops. (\<forall>p \<in> set ops. bridge_op p) \<and>
      snd (f (b_db b1)) = run_ops (map (Pair (be_dbms B)) ops) (b_db b1)"
    using assms(2,3) by (intro exI [of _ "[p]"]) simp
  ultimately show "linked M B b1 (snd (db_put f b1))"
    by (simp add: linked_def db_put_def case_prod_beta client_run.start)
qed

named_theorems linked_intros

lemma linked_sends [linked_intros]:
  assumes "linked M B b b1"
  shows "linked M B b (snd (on_mesh B (\<lambda>E. SendNodeInfo E src dst lname sname wr pk) b1))"
    "linked M B b (snd (on_mesh B (\<lambda>E. SendTelemetry E src dst) b1))"
    "linked M B b (snd (on_mesh B (\<lambda>E. SendHostMetrics E src dst) b1))"
    "linked M B b (snd (on_mesh B (\<lambda>E. SendNeighborInfo E src ids iv) b1))"
    "linked M B b (snd (on_mesh B (\<lambda>E. SendPosition E src dst loc ts) b1))"
    "linked M B b (snd (on_mesh B (\<lambda>E. SendAck E src dst pid) b1))"
    "linked M B b (snd (on_mesh B (\<lambda>E. SendTraceroute E src dst (Some ch)) b1))"
    "linked M B b (snd (on_mesh B (\<lambda>E. SendMessage E src dst (Some ch) msg reply pki) b1))"
    "linked M B b (snd (on_mesh B (\<lambda>E. SendReaction E src dst (Some ch) pid emoji pki) b1))"
  by (intro linked_on_mesh [OF assms] client_step.intros)+

lemma linked_tables [linked_intros]:
  assumes "linked M B b b1"
  shows "linked M B b (snd (db_put (node_SetAll (be_dbms B) m) b1))"
    "linked M B b (snd (db_put (SetLastSeen (be_dbms B) now n d) b1))"
    "linked M B b (snd (db_put (waypoint_SetAll (be_dbms B) w) b1))"
    "linked M B b (snd (db_put (DeleteByID (be_dbms B) i) b1))"
  using linked_db [OF assms, of "SetAllOp m"] linked_db [OF assms, of "LastSeenOp now n d"]
    linked_db [OF assms, of "WaypointOp w"] linked_db [OF assms, of "DeleteOp i"]
  by (simp_all add: bridge_op_def)

lemma linked_others [linked_intros]:
  assumes "linked M B b b1"
  shows "linked M B b (b1\<lparr>b_world := w\<rparr>)" "linked M B b (b1\<lparr>b_queued := q\<rparr>)" "linked M B b (b1\<lparr>b_notices := nt\<rparr>)"
    "linked M B b (b1\<lparr>b_spawned := sp\<rparr>)" "linked M B b (b1\<lparr>b_tracker := tr\<rparr>)" "linked M B b (b1\<lparr>b_clients := cl\<rparr>)"
    "linked M B b (cancel_tasks b1)" "linked M B b (start_tasks b1)"
  by (auto intro!: linked_frame [OF assms] simp: cancel_tasks_def start_tasks_def split: option.split)

text \<open>A panic needs an answer that is not sound.\<close>

lemma linked_panic: "linked M B b b1 \<Longrightarrow> \<not> sound_env B \<Longrightarrow> linked M B b (panic b1)"
  using trusted_cong [of "panic b1" b1 M] by (simp add: linked_def panic_def)

lemma sound_logins:
  "sound_env B \<Longrightarrow> p \<in> set (fst (fw_DMPortalsWith (be_fw B) w i)) \<Longrightarrow>
   \<exists>l ls. fw_LoginsInPortal (be_fw B) w (po_Key p) = Inr (l # ls)"
  unfolding sound_env_def by blast

lemma sound_rows: "sound_env B \<Longrightarrow> db_get B n b \<noteq> Inr None"
  by (auto simp: sound_env_def db_get_def GetByNodeID_def QueryOne_def query_def split: option.split)

text \<open>The panic in the source: a portal with a key that is refused ends the bridge when it connects.\<close>

lemma bad_portal_panics:
  assumes "\<not> portal_key_ok B p" shows "b_panic (restore_portal B p b)"
  using assms by (auto simp: portal_key_ok_def restore_portal_def panic_def Let_def split: prod.splits option.splits sum.split)

text \<open>
  On sound answers the key callbacks of the mesh client return, so what \<open>mesh_env\<close> gives a call of
  the client for them is what they compute.
\<close>

lemma sound_callbacks:
  assumes "sound_env B"
  shows "fst (getGhostPublicKey B n b) \<noteq> Panic" "fst (getGhostPrivateKey B n b) \<noteq> Panic"
  using sound_rows [OF assms, of n b]
  by (auto simp: getGhostPublicKey_def getGhostPrivateKey_def split: sum.split option.split prod.split)

lemma linked_managed [linked_intros]:
  assumes "linked M B b b1"
  shows "linked M B b (snd (GetBaseNodeID B b1))" "linked M B b (snd (IsManagedNode B n b1))"
proof -
  have "b_mesh (snd (IsManagedNode B n b1)) = b_mesh b1" "b_db (snd (IsManagedNode B n b1)) = b_db b1"
    "b_panic (snd (IsManagedNode B n b1)) = b_panic b1"
    by (auto simp: IsManagedNode_def GetBaseNodeID_def cache_managed_def Let_def split: option.split sum.split)
  then have "linked M B b1 (snd (IsManagedNode B n b1))" "linked M B b1 (snd (GetBaseNodeID B b1))"
    using trusted_managed(2) [of M B b1 n] trusted_base(2) [of M B b1] client_run.start
    by (auto simp: linked_def GetBaseNodeID_def Let_def intro: exI [of _ "[]"])
  then show "linked M B b (snd (GetBaseNodeID B b1))" "linked M B b (snd (IsManagedNode B n b1))"
    using assms linked_trans by blast+
qed

lemmas linked_unfold = case_prod_beta Let_def
lemmas linked_splits = option.split sum.split outcome.split list.split

lemma linked_fold_in:
  assumes "\<And>x b1. x \<in> set xs \<Longrightarrow> linked M B b b1 \<Longrightarrow> linked M B b (f x b1)" "linked M B b b1"
  shows "linked M B b (fold f xs b1)"
  using assms by (induction xs arbitrary: b1) simp_all

lemma linked_fold:
  assumes "\<And>x b1. linked M B b b1 \<Longrightarrow> linked M B b (f x b1)" "linked M B b b1"
  shows "linked M B b (fold f xs b1)"
  using assms by (rule linked_fold_in)

lemma linked_keys [linked_intros]:
  assumes "linked M B b b1"
  shows "linked M B b (snd (getGhostPublicKey B n b1))" "linked M B b (snd (getGhostPrivateKey B n b1))"
proof -
  have "linked M B b (snd (generate_keys B r b1))" for r
    using assms by (simp add: generate_keys_def linked_intros linked_unfold split: linked_splits)
  moreover have "\<not> sound_env B" if "db_get B n b1 = Inr None" using that sound_rows [of B n b1] by blast
  ultimately show "linked M B b (snd (getGhostPublicKey B n b1))" "linked M B b (snd (getGhostPrivateKey B n b1))"
    using assms
    by (auto simp: getGhostPublicKey_def getGhostPrivateKey_def linked_panic linked_unfold split: linked_splits)
qed

text \<open>Operations, bottom up: first those that call none of the others.\<close>

lemma linked_lookups [linked_intros]:
  assumes "linked M B b b1"
  shows "linked M B b (snd (register_ghost B i mxid lname b1))"
    "linked M B b (snd (getRemoteGhost B i r b1))"
    "linked M B b (set_last_seen B n d b1)"
    "linked M B b (handleMeshTraceroute B tr b1)"
    "linked M B b (snd (client_login_Connect B l b1))"
    "linked M B b (snd (ResolveIdentifier B l ident b1))"
    "linked M B b (snd (target_node B t b1))"
    "linked M B b (snd (removeGhostFromPortal B m room b1))"
    "linked M B b (snd (joinChannel B l name key b1))"
  using assms
  by (simp_all add: linked_intros linked_unfold register_ghost_def getRemoteGhost_def
      set_last_seen_def handleMeshTraceroute_def sendNoticeToRoom_def client_login_Connect_def
      ResolveIdentifier_def target_node_def removeGhostFromPortal_def joinChannel_def
      split: linked_splits member_target.split)

lemma update_dm_portal_world:
  "b_world (update_dm_portal B g p b) = b_world b" "b_world (fold (update_dm_portal B g) ps b) = b_world b"
proof -
  show one: "b_world (update_dm_portal B g p b) = b_world b" for p b
    by (simp add: update_dm_portal_def panic_def Let_def split: list.split)
  show "b_world (fold (update_dm_portal B g) ps b) = b_world b"
    by (induction ps arbitrary: b) (simp_all add: one)
qed

lemma linked_dm_portals [linked_intros]:
  assumes "linked M B b b1" shows "linked M B b (updateDMPortalInfo B g b1)"
proof -
  have "linked M B b (update_dm_portal B g p b2)"
    if "linked M B b b2" "sound_env B \<Longrightarrow> \<exists>l ls. fw_LoginsInPortal (be_fw B) (b_world b2) (po_Key p) = Inr (l # ls)" for p b2
    using that by (cases "sound_env B")
      (auto simp: update_dm_portal_def linked_panic linked_intros linked_unfold split: linked_splits)
  then have "linked M B b (fold (update_dm_portal B g) ps b2)"
    if "linked M B b b2" "\<And>p. p \<in> set ps \<Longrightarrow> sound_env B \<Longrightarrow>
        \<exists>l ls. fw_LoginsInPortal (be_fw B) (b_world b2) (po_Key p) = Inr (l # ls)" for ps b2
    using that by (induction ps arbitrary: b2) (simp_all add: update_dm_portal_world)
  then show ?thesis using assms unfolding updateDMPortalInfo_def by (blast intro: sound_logins)
qed

lemma linked_calls [linked_intros]:
  assumes "linked M B b b1"
  shows "linked M B b (snd (store_names B n lname sname b1))"
    "linked M B b (requestGhostNodeInfo B i b1)"
    "linked M B b (sendNodeInfo B n m r b1)"
    "linked M B b (acknowledge B txt b1)"
    "linked M B b (handleUnknownPacket B env b1)"
    "linked M B b (handleMeshLocation B loc b1)"
    "linked M B b (handleMeshWaypoint B wp b1)"
    "linked M B b (UpdateLastSeenDate B sender b1)"
    "linked M B b (snd (HandleMatrixMembership B isJoin target b1))"
    "linked M B b (snd (find_mention B w b1))"
    "linked M B b (run_job B j b1)"
    "linked M B b (sendPeriodicHostInfo B b1)"
    "linked M B b (snd (sendPeriodicTelemetry B b1))"
    "linked M B b (sendPeriodicNeighborInfo B srt b1)"
    "linked M B b (snd (sendPeriodicNodeInfo B b1))"
  using assms
  by (simp_all add: linked_intros linked_unfold linked_fold store_names_def requestGhostNodeInfo_def
      sendNodeInfo_def acknowledge_def handleUnknownPacket_def handleMeshLocation_def
      handleMeshWaypoint_def UpdateLastSeenDate_def HandleMatrixMembership_def find_mention_def run_job_def
      sendPeriodicHostInfo_def sendPeriodicTelemetry_def sendPeriodicNeighborInfo_def sendPeriodicNodeInfo_def
      split: linked_splits job.split)

lemma linked_handlers [linked_intros]:
  assumes "linked M B b b1"
  shows "linked M B b (snd (UpdateGhostMeshNames B i mxid lname sname b1))"
    "linked M B b (rename_ghost B g lname upd b1)"
    "linked M B b (handleMeshMessage B l txt b1)"
    "linked M B b (handleMeshReaction B l txt b1)"
    "linked M B b (snd (HandleMatrixReactionRemove B sender b1))"
    "linked M B b (HandleMatrixTyping B l t b1)"
    "linked M B b (HandleMatrixReadReceipt B l b1)"
    "linked M B b (snd (fnNodeInfo B ce b1))"
  using assms
  by (simp_all add: linked_intros linked_unfold UpdateGhostMeshNames_def rename_ghost_def handleMeshMessage_def
      handleMeshReaction_def HandleMatrixReactionRemove_def HandleMatrixTyping_def HandleMatrixReadReceipt_def
      fnNodeInfo_def
      split: linked_splits)

lemma linked_top [linked_intros]:
  assumes "linked M B b b1"
  shows "linked M B b (handleMeshNodeInfo B ni b1)"
    "linked M B b (handleMapReport B mr b1)"
    "linked M B b (postMessageSave B mxid room sender b1)"
    "linked M B b (snd (fnUpdateNames B ce b1))"
    "linked M B b (snd (SubmitUserInput B mxid input b1))"
  using assms
  by (simp_all add: linked_intros linked_unfold handleMeshNodeInfo_def handleMapReport_def postMessageSave_def
      fnUpdateNames_def SubmitUserInput_def
      split: linked_splits)

lemma linked_events [linked_intros]:
  assumes "linked M B b b1"
  shows "linked M B b (handleGlobalMeshEvent B evt b1)"
    "linked M B b (handleMeshEvent B l evt b1)"
  using assms
  by (simp_all add: linked_intros linked_unfold handleGlobalMeshEvent_def handleMeshEvent_def
      split: linked_splits event.split)

lemma linked_deliver [linked_intros]: "linked M B b b1 \<Longrightarrow> linked M B b (deliver_event B evt b1)"
  by (simp add: deliver_event_def login_handler_def linked_fold linked_intros)

lemma linked_receive [linked_intros]:
  assumes "linked M B b b1" "np_ChannelKey p = None"
  shows "linked M B b (receive_packet B p b1)"
  unfolding receive_packet_def Let_def
  by (intro linked_fold linked_deliver linked_step assms client_step.receive)

text \<open>Channels enter the client as \<^verbatim>\<open>AddChannel\<close> adds them.\<close>

lemma linked_add_channel [linked_intros]:
  assumes "linked M B b b1" "NewChannelDef (e_lib (be_mesh B)) name (Some key) = Inr d"
  shows "linked M B b (b1\<lparr>b_mesh := AddChannelDef (nextRef (b_mesh b1), d) ((b_mesh b1)\<lparr>nextRef := Suc (nextRef (b_mesh b1))\<rparr>)\<rparr>)"
proof (rule linked_step [OF assms(1)])
  show "client_step (mesh_env B b1) (b_mesh b1)
      (AddChannelDef (nextRef (b_mesh b1), d) ((b_mesh b1)\<lparr>nextRef := Suc (nextRef (b_mesh b1))\<rparr>))"
    using client_step.add_channel [of "mesh_env B b1" "b_mesh b1" name key] assms(2) by (simp add: AddChannel_def)
qed

lemma linked_restore_portal:
  assumes "linked M B b b1" "sound_env B \<Longrightarrow> portal_key_ok B p" shows "linked M B b (restore_portal B p b1)"
proof -
  have "linked M B b (b1\<lparr>b_world := w\<rparr>)" for w using assms(1) by (simp add: linked_intros)
  note added = linked_add_channel [OF this] linked_add_channel [OF assms(1)]
  obtain n k err where p: "ParsePortalID (pk_ID (po_Key p)) = ((n, k), err)" by (metis prod.exhaust)
  have "linked M B b (panic b1)" if "err = None" "NewChannelDef (e_lib (be_mesh B)) n (Some k) = Inl e" for e
    using assms that p by (auto simp: portal_key_ok_def intro: linked_panic)
  then show ?thesis
    using assms(1) added by (auto simp: restore_portal_def p linked_intros linked_unfold split: linked_splits)
qed

lemma linked_connected [linked_intros]:
  assumes "linked M B b b1"
  shows "linked M B b (onMeshConnected B r b1)"
    "linked M B b (onMeshDisconnected b1)"
    "linked M B b (run_connect_call B k b1)"
proof -
  have portals: "linked M B b (fold (restore_portal B) ps b1)" if "fw_AllPortals (be_fw B) (b_world b1) = Inr ps" for ps
    using that by (intro linked_fold_in linked_restore_portal assms) (auto simp: sound_env_def)
  show conn: "linked M B b (onMeshConnected B r b1)" for r
    using assms portals by (simp add: onMeshConnected_def linked_intros linked_unfold split: sum.split)
  show disc: "linked M B b (onMeshDisconnected b1)"
    using assms by (simp add: onMeshDisconnected_def linked_intros)
  show "linked M B b (run_connect_call B k b1)"
    using conn disc by (simp add: run_connect_call_def split: connect_call.split)
qed

lemma linked_connector_event [linked_intros]:
  assumes "linked M B b b1" shows "linked M B b (connector_event B i le b1)"
  unfolding connector_event_def Let_def
  by (intro linked_fold linked_connected linked_step assms client_step.state_change)

lemma linked_disconnect [linked_intros]:
  assumes "linked M B b b1" shows "linked M B b (client_login_Disconnect b1)" "linked M B b (bridge_Stop b1)"
  unfolding client_login_Disconnect_def bridge_Stop_def Let_def
  by (intro linked_step linked_others assms client_step.disconnect)+

lemma linked_fold_part:
  assumes "\<And>x t. linked M B b (part t) \<Longrightarrow> linked M B b (part (f x t))" "linked M B b (part t)"
  shows "linked M B b (part (fold f xs t))"
  using assms(2) by (induction xs arbitrary: t) (simp_all add: assms(1))

lemma linked_cleanup [linked_intros]:
  assumes "linked M B b b1" shows "linked M B b (snd (cleanupInactiveNodes B b1))"
proof -
  have member: "linked M B b (snd (cleanup_member B p t m s))" if "linked M B b (snd s)" for p t m s
    using that by (simp add: cleanup_member_def linked_intros linked_unfold split: linked_splits)
  have members: "linked M B b (snd (cleanupPortalInactiveMembers B p t b2))" if "linked M B b b2" for p t b2
    using that linked_fold_part [of M B b snd "cleanup_member B p t" "([], b2)", OF member]
    by (simp add: cleanupPortalInactiveMembers_def linked_unfold split: linked_splits)
  have portal: "linked M B b (snd (cleanup_portal B p s))" if "linked M B b (snd s)" for p s
    using that members by (simp add: cleanup_portal_def linked_unfold split: linked_splits)
  show ?thesis
    using assms linked_fold_part [of M B b snd "cleanup_portal B" "([], b1)", OF portal]
    by (simp add: cleanupInactiveNodes_def split: linked_splits)
qed

lemma linked_tick [linked_intros]: "linked M B b b1 \<Longrightarrow> linked M B b (snd (run_tick B srt k b1))"
  by (simp add: run_tick_def linked_intros split: tick.split)

lemma linked_convert [linked_intros]:
  assumes "linked M B b b1" shows "linked M B b (snd (convertMessageEvent B p txt b1))"
proof -
  have "linked M B b (bl_bridge (convert_match B s m bl))" if "linked M B b (bl_bridge bl)" for s m bl
    using that by (simp add: convert_match_def linked_intros linked_unfold split: linked_splits)
  then have "linked M B b (bl_bridge (fold (convert_match B s) ms bl))" if "linked M B b (bl_bridge bl)" for s ms bl
    using that by (intro linked_fold_part [of M B b bl_bridge])
  then have "linked M B b (bl_bridge (convert_mentions B s b1))" for s
    using assms by (simp add: convert_mentions_def linked_unfold)
  moreover have "\<not> sound_env B" if "po_RoomType p = RoomTypeDM" "fw_CachedLogin (be_fw B) w (pk_Receiver (po_Key p)) = None" for w
    using that unfolding sound_env_def by blast
  ultimately show ?thesis
    by (auto simp: convertMessageEvent_def linked_intros linked_panic linked_unfold split: linked_splits)
qed

text \<open>Where a channel is sent on, it is the room's, or the primary channel, which is set.\<close>

lemma linked_send_on:
  assumes "linked M B b b1" "primary (b_mesh b1) \<noteq> None \<Longrightarrow> ch \<noteq> None"
  shows "linked M B b (snd (on_mesh B (\<lambda>E. SendMessage E src dst ch msg reply pki) b1))"
    "linked M B b (snd (on_mesh B (\<lambda>E. SendReaction E src dst ch pid emoji pki) b1))"
proof -
  have "\<exists>c. ch = Some c" if "good M (e_lib (be_mesh B)) (b_mesh b1)"
    using that assms(2) by (auto simp: good_def ready_def primary_def)
  then show "linked M B b (snd (on_mesh B (\<lambda>E. SendMessage E src dst ch msg reply pki) b1))"
    "linked M B b (snd (on_mesh B (\<lambda>E. SendReaction E src dst ch pid emoji pki) b1))"
    by (auto intro!: linked_on_mesh [OF assms(1)] client_step.intros)
qed

lemma linked_routes [linked_intros]:
  assumes "linked M B b b1"
  shows "linked M B b (snd (message_route B p b1))" "linked M B b (snd (reaction_route B p b1))"
  using assms
  by (simp_all add: message_route_def reaction_route_def linked_intros linked_unfold split: linked_splits RoomType.split)

lemma reaction_route_channel:
  assumes "reaction_route B p b = (Ok r, b1)"
  shows "rt_channel r \<noteq> None \<or> rt_channel r = primary (b_mesh b1)"
proof (cases "po_RoomType p")
  case RoomTypeDM
  obtain t s err where d: "ParseDMPortalID (pk_ID (po_Key p)) = ((t, s), err)" by (metis prod.exhaust)
  obtain k b2 where "getGhostPublicKey B t b = (k, b2)" by fastforce
  with RoomTypeDM d assms show ?thesis by (cases "k = Panic"; cases err) (auto simp: reaction_route_def)
qed (use assms in \<open>auto simp: reaction_route_def split: sum.splits\<close>)

lemma linked_message [linked_intros]:
  assumes "linked M B b b1" shows "linked M B b (snd (HandleMatrixMessage B msg b1))"
proof -
  obtain x b2 where r: "message_route B (mm_Portal msg) b1 = (x, b2)" by fastforce
  then have l: "linked M B b b2" and m: "b_mesh b2 = b_mesh b1"
    using linked_routes(1) [OF assms, of "mm_Portal msg"] message_route_frame(1) [of B "mm_Portal msg" b1] by simp_all
  have "linked M B b (snd (send_content B msg q b2))" if "x = Ok q" for q
  proof -
    have "primary (b_mesh b2) \<noteq> None \<Longrightarrow> rt_channel q \<noteq> None"
      using message_route_channel [of B "mm_Portal msg" b1 q b2] r that m by simp
    then have "linked M B b (snd (on_mesh B (\<lambda>E. SendMessage E src dst (rt_channel q) body reply pki) b2))" for src dst body reply pki
      using linked_send_on(1) [OF l] by blast
    then show ?thesis
      by (simp add: send_content_def linked_intros linked_unfold l split: linked_splits MsgType.split)
  qed
  then show ?thesis
    using r l assms by (simp add: HandleMatrixMessage_def linked_unfold split: linked_splits)
qed

lemma linked_reaction [linked_intros]:
  assumes "linked M B b b1" shows "linked M B b (snd (HandleMatrixReaction B rx b1))"
proof -
  obtain x b2 where r: "reaction_route B (rx_Portal rx) b1 = (x, b2)" by fastforce
  then have l: "linked M B b b2" using linked_routes(2) [OF assms, of "rx_Portal rx"] by simp
  have "linked M B b (snd (on_mesh B (\<lambda>E. SendReaction E src dst (rt_channel q) pid emoji pki) b2))" if "x = Ok q" for q src dst pid emoji pki
    using linked_send_on(2) [OF l] reaction_route_channel [of B "rx_Portal rx" b1 q b2] r that by metis
  then show ?thesis
    using r l assms by (simp add: HandleMatrixReaction_def linked_unfold split: linked_splits)
qed

lemma linked_commands [linked_intros]:
  assumes "linked M B b b1"
  shows "linked M B b (snd (fnTraceroute B ce b1))" "linked M B b (snd (fnJoinChannel B ce b1))"
  using assms
  by (auto simp: fnTraceroute_def fnJoinChannel_def linked_intros linked_unfold split: linked_splits)

lemma linked_bridge_step: "bridge_step B b b' \<Longrightarrow> linked M B b b'"
  by (induction rule: bridge_step.induct) (simp_all add: linked_intros linked_step client_step.connectors)

section \<open>Runs\<close>

lemma client_run_mono: "client_run P c c' \<Longrightarrow> (\<And>E. P E \<Longrightarrow> Q E) \<Longrightarrow> client_run Q c c'"
  by (induction rule: client_run.induct) (auto intro: client_run.intros)

lemma bridge_run_linked:
  assumes "bridge_run P b b'" "\<And>B. P B \<Longrightarrow> e_lib (be_mesh B) = L \<and> owners_in M B"
    and "radio_keys_ok L" "trusted M b" "good M L (b_mesh b)"
  shows "client_run (\<lambda>E. \<exists>B b1. P B \<and> E = mesh_env B b1 \<and> (\<forall>n. e_managed E n \<longrightarrow> M n)) (b_mesh b) (b_mesh b') \<and>
    trusted M b' \<and> good M L (b_mesh b')"
  using assms
proof (induction rule: bridge_run.induct)
  case (step b b1 B b2)
  let ?Q = "\<lambda>E. \<exists>B b1. P B \<and> E = mesh_env B b1 \<and> (\<forall>n. e_managed E n \<longrightarrow> M n)"
  have l: "linked M B b1 b2" using step.hyps(4) by (rule linked_bridge_step)
  have P: "P B" "e_lib (be_mesh B) = L" "owners_in M B"
    using step.hyps(3) step.prems(1) by auto
  have ih: "client_run ?Q (b_mesh b) (b_mesh b1)" "trusted M b1" "good M L (b_mesh b1)"
    using step.IH step.prems by blast+
  have "client_run (\<lambda>E. \<exists>b1. E = mesh_env B b1 \<and> trusted M b1) (b_mesh b1) (b_mesh b2)" "trusted M b2"
    using l P(2,3) ih(2,3) step.prems(2) by (simp_all add: linked_def)
  moreover from this(1) have "client_run ?Q (b_mesh b1) (b_mesh b2)"
    by (rule client_run_mono) (use P(1) trusted_managed(1) [OF P(3)] in auto)
  moreover have "good M L (b_mesh b2)" using linked_good [OF l] P(2,3) ih(2,3) step.prems(2) by simp
  ultimately show ?case using ih(1) client_run_trans by blast
qed (auto intro: client_run.start)

lemma bridge_run_tables:
  assumes "bridge_run P b b'"
  shows "\<exists>ops. (\<forall>(db, p) \<in> set ops. (\<exists>B. P B \<and> db = be_dbms B) \<and> bridge_op p) \<and> b_db b' = run_ops ops (b_db b)"
  using assms
proof (induction rule: bridge_run.induct)
  case (start b) show ?case by (rule exI [of _ "[]"]) simp
next
  case (step b b1 B b2)
  obtain ops where ops: "\<forall>(db, p) \<in> set ops. (\<exists>B. P B \<and> db = be_dbms B) \<and> bridge_op p" "b_db b1 = run_ops ops (b_db b)"
    using step.IH by blast
  obtain new where "\<forall>p \<in> set new. bridge_op p" "b_db b2 = run_ops (map (Pair (be_dbms B)) new) (b_db b1)"
    using linked_bridge_step [OF step.hyps(4)] unfolding linked_def by blast
  then show ?case
    using ops step.hyps(3) by (intro exI [of _ "ops @ map (Pair (be_dbms B)) new"]) auto
qed

lemma bridge_run_reachable:
  assumes "bridge_run P b b'" "\<And>B. P B \<Longrightarrow> db_foreign_keys (be_dbms B)" "db_reachable (b_db b)"
  shows "db_reachable (b_db b')"
  using bridge_run_tables [OF assms(1)] assms(2,3) by (fastforce intro!: run_ops_reachable)

lemma bridge_run_no_panic:
  assumes "bridge_run P b b'" "\<And>B. P B \<Longrightarrow> sound_env B" "\<not> b_panic b"
  shows "\<not> b_panic b'"
  using assms
proof (induction rule: bridge_run.induct)
  case (step b b1 B b2)
  then show ?case using linked_bridge_step [OF step.hyps(4)] unfolding linked_def by blast
qed

lemma bridge_Start_frame:
  assumes "owners_in M B" "trusted M b"
  shows "b_db (bridge_Start B cache rnd b) = b_db b" "trusted M (bridge_Start B cache rnd b)"
    "b_panic (bridge_Start B cache rnd b) = b_panic b"
  using trusted_base(2) [OF assms] by (simp_all add: bridge_Start_def GetBaseNodeID_def trusted_def Let_def)

end
