(* ===== verification/Codec_Samples.thy ===== *)
theory Codec_Samples
  imports Mesh_Samples
begin

text \<open>
  A concrete library with which one client's packets can be read by another one, used to run two
  clients or two bridges against each other on examples.
\<close>

section \<open>The library\<close>

text \<open>
  A codec in place of the fixed bytes of the first samples: the data and messages that occur are
  listed, and the encoding of one is the letter at its place.
\<close>

definition sample_letters :: "bytes list" where
  "sample_letters = [''a'', ''b'', ''c'', ''d'', ''e'', ''f'']"

definition sample_encode :: "'a list \<Rightarrow> 'a \<Rightarrow> go_error + bytes" where
  "sample_encode xs x = (case map_of (zip xs sample_letters) x of None \<Rightarrow> Inl (External ''marshal'') | Some c \<Rightarrow> Inr c)"

definition sample_decode :: "'a list \<Rightarrow> bytes \<Rightarrow> 'a option" where
  "sample_decode xs = map_of (zip sample_letters xs)"

lemma sample_decode_encode:
  assumes "sample_encode xs x = Inr c" shows "sample_decode xs c = Some x"
proof -
  have "(x, c) \<in> set (zip xs sample_letters)"
    using assms by (auto simp: sample_encode_def split: option.splits dest: map_of_SomeD)
  then have "(c, x) \<in> set (zip sample_letters xs)" by (auto simp: in_set_zip)
  moreover have "distinct (map fst (zip sample_letters xs))"
    by (simp add: map_fst_zip_take sample_letters_def distinct_take)
  ultimately show ?thesis by (simp add: sample_decode_def)
qed

definition codec_lib :: "Data list \<Rightarrow> ProtoMsg list \<Rightarrow> lib" where
  "codec_lib ds ms = sample_lib
     \<lparr>MarshalData := sample_encode ds,
      TryDecode := (\<lambda>pkt key. case p_Payload pkt of
         Some (Encrypted c) \<Rightarrow> (case sample_decode ds c of Some d \<Rightarrow> (Some d, None) | None \<Rightarrow> (None, Some (External ''data'')))
       | _ \<Rightarrow> (None, Some (External ''data''))),
      Marshal := sample_encode ms,
      UnmarshalUser := (\<lambda>b. case sample_decode ms b of Some (MsgUser u) \<Rightarrow> (u, None) | _ \<Rightarrow> (sample_user, Some (External ''user''))),
      UnmarshalRouting := (\<lambda>b. case sample_decode ms b of Some (MsgRouting e) \<Rightarrow> (e, None)
        | _ \<Rightarrow> (ROUTING_NONE, Some (External ''routing''))),
      UnmarshalRouteDiscovery := (\<lambda>b. case sample_decode ms b of Some (MsgRouteDiscovery r) \<Rightarrow> (r, None)
        | _ \<Rightarrow> (\<lparr>Route = [], SnrTowards = [], RouteBack = [], SnrBack = []\<rparr>, Some (External ''route'')))\<rparr>"

lemma codec_lib_radio [simp]:
  "ParseKey (codec_lib ds ms) = ParseKey sample_radio" "DefaultKey (codec_lib ds ms) = DefaultKey sample_radio"
  "ChannelHash (codec_lib ds ms) = ChannelHash sample_radio"
  by (simp_all add: codec_lib_def sample_lib_def sample_radio_def radio.extend_def lib.fields_def)

lemma codec_lib_channel: "NewChannelDef (codec_lib ds ms) ''LongFast'' (Some ''AQ=='') = Inr sample_channel"
proof -
  have "NewChannelDef sample_radio ''LongFast'' (Some ''AQ=='') = Inr sample_channel" by code_simp
  moreover have "expandShortPSK (codec_lib ds ms) = expandShortPSK sample_radio"
    "tryCompactKey (codec_lib ds ms) = tryCompactKey sample_radio"
    by (simp_all only: fun_eq_iff expandShortPSK_def tryCompactKey_def codec_lib_radio simp_thms)
  ultimately show ?thesis by (simp only: NewChannelDef_def codec_lib_radio)
qed

lemma sample_channel_facts [simp]:
  "GetName sample_channel = ''LongFast''" "GetKeyString sample_channel = ''AQ==''"
  "ChannelHash sample_radio ''LongFast'' (GetKeyBytes sample_channel) = (24, None)"
  by (simp_all add: GetName_def GetKeyString_def GetKeyBytes_def sample_radio_def sample_channel_def)


section \<open>Sending with it\<close>

definition codec_env :: "Data list \<Rightarrow> ProtoMsg list \<Rightarrow> sample_cache env" where
  "codec_env ds ms = sample_env\<lparr>e_lib := codec_lib ds ms\<rparr>"

lemma codec_lib_sending [simp]:
  "DATA_PAYLOAD_LEN (codec_lib ds ms) = 233" "MarshalData (codec_lib ds ms) = sample_encode ds"
  "Marshal (codec_lib ds ms) = sample_encode ms" "radio_XOR (codec_lib ds ms) r k i f = Inr r"
  by (simp_all add: codec_lib_def sample_lib_def sample_radio_def radio.extend_def lib.fields_def)

lemma codec_sendBytes:
  assumes "e_lib E = codec_lib ds ms" "e_managed E (pi_From info)" "sample_encode ds (data_of raw info) = Inr code"
    and "length raw < 233" "pi_Encrypted info = PSKEncryption" "meshConnectors c = []" "rng c = (\<lambda>i. 5)"
  shows "\<exists>pid n pkt. sendBytes E (Some sample_channel) raw info c =
      ((pid, None), c\<lparr>currentPacketId := pid, rngPos := n, outbox := outbox c @ [(''LongFast'', pkt)]\<rparr>) \<and>
    pid \<noteq> 0 \<and> p_From pkt = pi_From info \<and> p_To pkt = pi_To info \<and> p_Id pkt = pid \<and> p_WantAck pkt = wantAck_of info \<and>
    pid = fst (generatePacketId c) \<and> p_HopLimit pkt = hopLimit c \<and>
    p_HopStart pkt = (if pi_From info \<noteq> nodeId c then hopLimit c + 1 else hopLimit c) \<and> p_RxSnr pkt = Fin 0"
proof -
  obtain pid c1 where g: "generatePacketId c = (pid, c1)" by fastforce
  then have "pid \<noteq> 0"
    using assms(7) by (auto simp: generatePacketId_def randUint32_def Let_def or_eq_0_iff split: if_splits prod.splits)
  have "\<exists>n. c1 = c\<lparr>currentPacketId := pid, rngPos := n\<rparr>"
    using g by (auto simp: generatePacketId_def randUint32_def Let_def split: if_splits prod.splits
        intro!: exI [of _ "rngPos c1"])
  then obtain n where c1: "c1 = c\<lparr>currentPacketId := pid, rngPos := n\<rparr>" by blast
  define pkt where
    "pkt = (packet_header E c1 sample_channel info (data_of raw info) pid)\<lparr>p_Payload := Some (Encrypted code)\<rparr>"
  have "sendBytes E (Some sample_channel) raw info c =
      ((pid, None), c1\<lparr>outbox := outbox c1 @ [(''LongFast'', pkt)]\<rparr>)"
    using assms g unfolding pkt_def c1
    by (simp add: sendBytes_def Let_def encrypt_packet_def deliver_def join_errors_def packet_header_def)
  with \<open>pid \<noteq> 0\<close> show ?thesis
    unfolding c1 by (intro exI [of _ pid] exI [of _ n] exI [of _ pkt]) (simp add: pkt_def packet_header_def g c1)
qed

end
