(* ===== verification/Mesh_Types.thy ===== *)
theory Mesh_Types
  imports Mesh_Protocol Codec_Samples
begin

text \<open>
  Ports as types.  A packet carries a port number and bytes; the sender marshals a message of some
  type under a port, and the receiver unmarshals the bytes as the type it expects for that port.
  Here every packet the client ever sends is well typed, and a well-typed packet is understood by
  every receiver.
\<close>

section \<open>The port of a message\<close>

primrec port_of :: "ProtoMsg \<Rightarrow> PortNum" where
  "port_of (MsgUser u) = NODEINFO_APP"
| "port_of (MsgTelemetry t) = TELEMETRY_APP"
| "port_of (MsgNeighborInfo n) = NEIGHBORINFO_APP"
| "port_of (MsgPosition p) = POSITION_APP"
| "port_of (MsgMapReport r) = MAP_REPORT_APP"
| "port_of (MsgRouting e) = ROUTING_APP"
| "port_of (MsgRouteDiscovery r) = TRACEROUTE_APP"

text \<open>\<^verbatim>\<open>proto.Unmarshal\<close> into the type of a message gives back the message.\<close>

primrec decodes :: "lib \<Rightarrow> bytes \<Rightarrow> ProtoMsg \<Rightarrow> bool" where
  "decodes L b (MsgUser u) = (UnmarshalUser L b = (u, None))"
| "decodes L b (MsgTelemetry t) = (UnmarshalTelemetry L b = (t, None))"
| "decodes L b (MsgNeighborInfo n) = (UnmarshalNeighborInfo L b = (n, None))"
| "decodes L b (MsgPosition p) = (UnmarshalPosition L b = (p, None))"
| "decodes L b (MsgMapReport r) = (UnmarshalMapReport L b = (r, None))"
| "decodes L b (MsgRouting e) = (UnmarshalRouting L b = (e, None))"
| "decodes L b (MsgRouteDiscovery r) = (UnmarshalRouteDiscovery L b = (r, None))"

definition proto_laws :: "lib \<Rightarrow> bool" where
  "proto_laws L \<longleftrightarrow> (\<forall>m b. Marshal L m = Inr b \<longrightarrow> decodes L b m)"

section \<open>Well-typed packets\<close>

definition data_typed :: "lib \<Rightarrow> Data \<Rightarrow> bool" where
  "data_typed L d \<longleftrightarrow>
     d_Portnum d = TEXT_MESSAGE_APP \<or> (\<exists>m. d_Portnum d = port_of m \<and> Marshal L m = Inr (d_Payload d))"

text \<open>The data of a packet, in the clear or under one of the two ciphers.\<close>

definition carries :: "lib \<Rightarrow> MeshPacket \<Rightarrow> Data \<Rightarrow> bool" where
  "carries L pkt d \<longleftrightarrow>
     (\<exists>raw. MarshalData L d = Inr raw \<and>
        (case p_Payload pkt of
           None \<Rightarrow> False
         | Some (Decoded d') \<Rightarrow> d' = d
         | Some (Encrypted c) \<Rightarrow>
             (\<exists>key. radio_XOR L raw key (p_Id pkt) (p_From pkt) = Inr c) \<or>
             (\<exists>priv pub. EncryptCurve25519 L raw priv pub (p_Id pkt) (p_From pkt) = Inr c)))"

definition outbox_typed :: "lib \<Rightarrow> 'c client \<Rightarrow> bool" where
  "outbox_typed L c \<longleftrightarrow> (\<forall>np \<in> set (outbox c). \<exists>d. carries L (snd np) d \<and> data_typed L d)"

lemma outbox_typed_updates [simp]:
  "outbox_typed L (c\<lparr>throttle := t\<rparr>) = outbox_typed L c"
  "outbox_typed L (c\<lparr>packetCache := pc\<rparr>) = outbox_typed L c"
  "outbox_typed L (c\<lparr>events := ev\<rparr>) = outbox_typed L c"
  "outbox_typed L (c\<lparr>meshConnectors := hs\<rparr>) = outbox_typed L c"
  "outbox_typed L (c\<lparr>nextRef := n\<rparr>) = outbox_typed L c"
  "outbox_typed L (c\<lparr>nodeInfoSendCache := m\<rparr>) = outbox_typed L c"
  "outbox_typed L (c\<lparr>neighborBroadcastInterval := i\<rparr>) = outbox_typed L c"
  "outbox_typed L (c\<lparr>previouslyConnected := b\<rparr>) = outbox_typed L c"
  "outbox_typed L (c\<lparr>connectCalls := cc\<rparr>) = outbox_typed L c"
  "outbox_typed L (c\<lparr>channels := chs\<rparr>) = outbox_typed L c"
  "outbox_typed L (c\<lparr>primaryChannel := pr\<rparr>) = outbox_typed L c"
  "outbox_typed L (c\<lparr>hopLimit := h\<rparr>) = outbox_typed L c"
  "outbox_typed L (c\<lparr>crashed := cr\<rparr>) = outbox_typed L c"
  by (simp_all add: outbox_typed_def)

lemma encrypt_packet_carries:
  assumes "encrypt_packet E ch info d raw hdr = Inr pkt" "MarshalData (e_lib E) d = Inr raw" "p_From hdr = pi_From info"
  shows "carries (e_lib E) pkt d"
  using assms by (auto simp: encrypt_packet_def carries_def Let_def split: EncryptionType.splits sum.splits)

lemma sendBytes_typed:
  assumes "outbox_typed (e_lib E) c" "data_typed (e_lib E) (data_of raw info)"
  shows "outbox_typed (e_lib E) (snd (sendBytes E channel raw info c))"
proof -
  obtain pid err c' where s: "sendBytes E channel raw info c = ((pid, err), c')" by (metis prod.exhaust)
  then show ?thesis
  proof (cases rule: sendBytes_cases)
    case (sent ch pkt n)
    then obtain rawData where "MarshalData (e_lib E) (data_of raw info) = Inr rawData"
      "encrypt_packet E ch info (data_of raw info) rawData (packet_header E c ch info (data_of raw info) pid) = Inr pkt"
      by (auto simp: sent_packet_def)
    then have "carries (e_lib E) pkt (data_of raw info)"
      by (auto intro!: encrypt_packet_carries simp: packet_header_def)
    with sent s assms show ?thesis by (auto simp: outbox_typed_def)
  qed (use s assms(1) in \<open>auto simp: outbox_typed_def\<close>)
qed

lemma data_of_Payload [simp]: "d_Payload (data_of raw info) = raw"
  by (simp add: data_of_def Let_def)

lemma send_text_typed:
  "outbox_typed (e_lib E) c \<Longrightarrow> pi_PortNum info = TEXT_MESSAGE_APP \<Longrightarrow>
   outbox_typed (e_lib E) (snd (sendBytes E channel raw info c))"
  by (rule sendBytes_typed) (simp_all add: data_typed_def)

lemma send_proto_typed:
  assumes "outbox_typed (e_lib E) c" "pi_PortNum info = port_of m"
  shows "outbox_typed (e_lib E) (snd (sendProtoMessage E channel m info c))"
  using assms by (auto simp: sendProtoMessage_def data_typed_def split: sum.split intro!: sendBytes_typed)

section \<open>Every operation sends well-typed packets\<close>

lemma send_ops_typed:
  assumes "outbox_typed (e_lib E) c"
  shows "outbox_typed (e_lib E) (snd (SendMessage E src dst channel msg reply pki c))"
    "outbox_typed (e_lib E) (snd (SendReaction E src dst channel pid emoji pki c))"
    "outbox_typed (e_lib E) (snd (SendTelemetry E src dst c))"
    "outbox_typed (e_lib E) (snd (SendHostMetrics E src dst c))"
    "outbox_typed (e_lib E) (snd (SendNeighborInfo E src ids iv c))"
    "outbox_typed (e_lib E) (snd (SendPosition E src dst loc ts c))"
    "outbox_typed (e_lib E) (snd (SendAck E src dst pid c))"
    "outbox_typed (e_lib E) (snd (SendNack E src dst pid c))"
    "outbox_typed (e_lib E) (snd (SendTraceroute E src dst channel c))"
    "outbox_typed (e_lib E) (snd (SendTelemetryResponse E src dst channel enc pid c))"
    "outbox_typed (e_lib E) (snd (SendHostMetricsResponse E src dst channel enc pid c))"
    "outbox_typed (e_lib E) (snd (SendNeighborInfoResponse E src dst ids iv channel enc pid c))"
    "outbox_typed (e_lib E) (snd (SendMapReport E src lname sname loc n c))"
  using assms
  by (auto simp: SendMessage_def SendReaction_def SendTelemetry_def SendHostMetrics_def SendNeighborInfo_def
      SendPosition_def SendAck_def SendNack_def SendTraceroute_def SendTelemetryResponse_def
      SendHostMetricsResponse_def SendNeighborInfoResponse_def SendMapReport_def
      split: sum.split option.split intro!: send_text_typed send_proto_typed)

lemma SendNodeInfo_typed:
  assumes "outbox_typed (e_lib E) c" shows "outbox_typed (e_lib E) (snd (SendNodeInfo E src dst lname sname wr pk c))"
proof -
  let ?r = "sendProtoMessage E (primary c) (MsgUser (nodeInfo_user c src lname sname pk))
     ((PacketInfo0 NODEINFO_APP PSKEncryption src dst)\<lparr>pi_WantResponse := wr\<rparr>) c"
  have "outbox_typed (e_lib E) (snd ?r)" using assms by (auto intro!: send_proto_typed)
  then show ?thesis using assms by (auto simp: SendNodeInfo_def Let_def split: prod.splits)
qed

lemma requests_typed:
  assumes "outbox_typed (e_lib E) c"
  shows "outbox_typed (e_lib E) (handleTelemetryRequest E p t c)"
    "outbox_typed (e_lib E) (handleNeighborInfoRequest E p n c)"
    "outbox_typed (e_lib E) (handleTracerouteRequest E p d c)"
  using assms
  by (auto simp: handleTelemetryRequest_def handleNeighborInfoRequest_def handleTracerouteRequest_def Let_def
      split: prod.splits option.splits TelemetryVariant.splits intro!: send_ops_typed send_proto_typed)

lemma handleMeshPacket_typed:
  assumes "outbox_typed (e_lib E) c" shows "outbox_typed (e_lib E) (handleMeshPacket E p c)"
proof -
  have d: "outbox_typed (e_lib E) (snd (dispatch E q d c'))" if "outbox_typed (e_lib E) c'" for q d and c' :: "'a client"
    using that requests_typed [OF that] by (auto simp: dispatch_def Let_def split: PortNum.split prod.split)
  have "outbox_typed (e_lib E) (snd (processMessage E q m c'))" if "outbox_typed (e_lib E) c'" for q m and c' :: "'a client"
    using d [OF that] that
    by (auto simp: processMessage_def notifyEvent_def Let_def split: option.split prod.split) (metis snd_conv)
  moreover have "outbox_typed (e_lib E) (cachePacket E p c)" using assms by (simp add: cachePacket_def)
  ultimately show ?thesis using assms by (auto simp: handleMeshPacket_def Let_def split: prod.split)
qed

lemma AddChannelDef_typed [simp]: "outbox_typed L (AddChannelDef rd c) = outbox_typed L c"
  by (simp add: AddChannelDef_def notifyEvent_def Let_def split: option.split)

lemma client_step_typed:
  assumes "client_step E c c'" "outbox_typed (e_lib E) c" shows "outbox_typed (e_lib E) c'"
  using assms(1)
proof cases
  case (state_change i le)
  then show ?thesis
    using assms by (simp add: handleConnectorStateChange_def Let_def split: ListenerEvent.split)
qed (use assms in \<open>auto simp: handleMeshPacket_typed send_ops_typed SendNodeInfo_typed AddChannel_def
    SetPrimaryChannel_def SetHopLimit_def SetNeighborBroadcastInterval_def AddMQTTHandler_def AddUDPHandler_def
    client_Connect_def client_Disconnect_def Let_def split: sum.split\<close>)

lemma client_run_typed:
  assumes "client_run P c c'" "outbox_typed L c" "\<And>E. P E \<Longrightarrow> e_lib E = L"
  shows "outbox_typed L c'"
  using assms
proof (induction rule: client_run.induct)
  case (step c c' E c'')
  then show ?case using client_step_typed [OF step.hyps(3)] by simp
qed simp

section \<open>Receivers understand well-typed packets\<close>

lemma dispatch_text:
  "d_Portnum d = TEXT_MESSAGE_APP \<Longrightarrow> dispatch E p d c = ((text_event (envelope E p d) d, None), c)"
  by (simp add: dispatch_def Let_def)

text \<open>The event a message becomes.\<close>

primrec event_of :: "'c env \<Rightarrow> NetworkMeshPacket \<Rightarrow> Data \<Rightarrow> 'c client \<Rightarrow> ProtoMsg \<Rightarrow> event" where
  "event_of E p d c (MsgUser u) = nodeInfo_event (e_lib E) (envelope E p d) u"
| "event_of E p d c (MsgTelemetry t) = EnvelopeValue (envelope E p d)"
| "event_of E p d c (MsgNeighborInfo n) = EnvelopeValue (envelope E p d)"
| "event_of E p d c (MsgPosition pos) = position_event (envelope E p d) pos"
| "event_of E p d c (MsgMapReport r) = mapReport_event (e_lib E) (envelope E p d) r"
| "event_of E p d c (MsgRouting e) = EnvelopeValue (envelope E p d)"
| "event_of E p d c (MsgRouteDiscovery r) =
     (if d_RequestId d \<noteq> 0
      then traceroute_event (envelope E p d) (handleTracerouteResponse E p r c) (d_RequestId d)
      else EnvelopeValue (envelope E p d))"

lemma dispatch_typed:
  assumes "d_Portnum d = port_of m" "decodes (e_lib E) (d_Payload d) m"
  shows "fst (dispatch E p d c) = (event_of E p d c m, None)"
  using assms by (cases m) (simp_all add: dispatch_def Let_def)

text \<open>
  C8: ports are types.  Whatever a client does and receives from its start on, every packet it
  handed to its connectors carries data that is either a text or a message marshalled under the
  port of its type; and a client that obtains this data, whatever its own state, reads the very
  message that was sent, without an unmarshalling error, and turns it into the event of that type.
\<close>

theorem wire_typed:
  assumes "client_run (\<lambda>E. e_lib E = L) (NewMeshtasticClient nid now cache rnd) c" "proto_laws L"
    and "(n, pkt) \<in> set (outbox c)" "e_lib E = L"
  shows "\<exists>d. carries L pkt d \<and>
    ((d_Portnum d = TEXT_MESSAGE_APP \<and> fst (dispatch E p d c') = (text_event (envelope E p d) d, None)) \<or>
     (\<exists>m. d_Portnum d = port_of m \<and> Marshal L m = Inr (d_Payload d) \<and>
        fst (dispatch E p d c') = (event_of E p d c' m, None)))"
proof -
  have "outbox_typed L (NewMeshtasticClient nid now cache rnd)"
    by (simp add: outbox_typed_def NewMeshtasticClient_def)
  with client_run_typed [OF assms(1)] have "outbox_typed L c" by blast
  then obtain d where d: "carries L pkt d" "data_typed L d" using assms(3) by (auto simp: outbox_typed_def)
  have "(d_Portnum d = TEXT_MESSAGE_APP \<and> fst (dispatch E p d c') = (text_event (envelope E p d) d, None)) \<or>
     (\<exists>m. d_Portnum d = port_of m \<and> Marshal L m = Inr (d_Payload d) \<and>
        fst (dispatch E p d c') = (event_of E p d c' m, None))"
    using d(2) unfolding data_typed_def
  proof
    assume "\<exists>m. d_Portnum d = port_of m \<and> Marshal L m = Inr (d_Payload d)"
    then obtain m where m: "d_Portnum d = port_of m" "Marshal L m = Inr (d_Payload d)" by blast
    then have "fst (dispatch E p d c') = (event_of E p d c' m, None)"
      using assms(2,4) by (intro dispatch_typed) (simp_all add: proto_laws_def)
    with m show ?thesis by blast
  qed (simp add: dispatch_text)
  with d(1) show ?thesis by blast
qed

primrec sample_message :: "ProtoMsg \<Rightarrow> bool" where
  "sample_message (MsgUser u) = True"
| "sample_message (MsgTelemetry t) = False"
| "sample_message (MsgNeighborInfo n) = False"
| "sample_message (MsgPosition p) = False"
| "sample_message (MsgMapReport r) = False"
| "sample_message (MsgRouting e) = True"
| "sample_message (MsgRouteDiscovery r) = True"

lemma codec_lib_protos:
  assumes "list_all sample_message ms" shows "proto_laws (codec_lib ds ms)"
  unfolding proto_laws_def
proof (intro allI impI)
  fix m b
  assume "Marshal (codec_lib ds ms) m = Inr b"
  then have e: "sample_encode ms m = Inr b" by (simp add: codec_lib_def)
  then have "m \<in> set ms"
    by (auto simp: sample_encode_def split: option.splits dest!: map_of_SomeD set_zip_leftD)
  with assms have "sample_message m" by (simp add: list_all_iff)
  then show "decodes (codec_lib ds ms) b m"
    using sample_decode_encode [OF e] by (cases m) (simp_all add: codec_lib_def)
qed

text \<open>A client that is told its primary channel and then acknowledges a packet.\<close>

definition acking_lib :: lib where
  "acking_lib = codec_lib
     [data_of ''a'' ((PacketInfo0 ROUTING_APP PSKEncryption 3 100)\<lparr>pi_RequestId := 77\<rparr>)] [MsgRouting ROUTING_NONE]"

definition acking_client :: "sample_cache client" where
  "acking_client = SetPrimaryChannel acking_lib ''LongFast'' ''AQ=='' (NewMeshtasticClient 2 0 [] (\<lambda>i. 5))"

lemma acking_client_sends:
  "\<exists>pid n pkt. SendAck (sample_env\<lparr>e_lib := acking_lib\<rparr>) 3 100 77 acking_client =
    ((pid, None), acking_client\<lparr>currentPacketId := pid, rngPos := n, outbox := [(''LongFast'', pkt)]\<rparr>)"
proof -
  have c: "primary acking_client = Some sample_channel" "meshConnectors acking_client = []" "rng acking_client = (\<lambda>i. 5)"
    "outbox acking_client = []"
    by (simp_all add: acking_client_def acking_lib_def SetPrimaryChannel_def codec_lib_channel AddChannelDef_def primary_def
        NewMeshtasticClient_def notifyEvent_def Let_def)
  let ?i = "(PacketInfo0 ROUTING_APP PSKEncryption 3 100)\<lparr>pi_RequestId := 77\<rparr>"
  have "sample_encode [MsgRouting ROUTING_NONE] (MsgRouting ROUTING_NONE) = Inr ''a''"
    "sample_encode [data_of ''a'' ?i] (data_of ''a'' ?i) = Inr ''a''"
    by (simp_all add: sample_encode_def sample_letters_def)
  moreover have "e_managed (sample_env\<lparr>e_lib := acking_lib\<rparr>) (pi_From ?i)" "pi_Encrypted ?i = PSKEncryption"
    by (simp_all add: sample_env_def PacketInfo0_def)
  ultimately show ?thesis
    using codec_sendBytes [where E = "sample_env\<lparr>e_lib := acking_lib\<rparr>" and c = acking_client and raw = "''a''"
        and info = ?i and code = "''a''" and ms = "[MsgRouting ROUTING_NONE]" and ds = "[data_of ''a'' ?i]", OF _ _ _ _ _ c(2,3)]
    by (auto simp: SendAck_def sendProtoMessage_def c acking_lib_def)
qed

theorem wire_typed_witness:
  "\<exists>(c :: sample_cache client) n pkt d. client_run (\<lambda>E. e_lib E = acking_lib) (NewMeshtasticClient 2 0 [] (\<lambda>i. 5)) c \<and>
    outbox c = [(n, pkt)] \<and> carries acking_lib pkt d \<and>
    (d_Portnum d = TEXT_MESSAGE_APP \<or>
     (\<exists>m. d_Portnum d = port_of m \<and>
        fst (dispatch (sample_env\<lparr>e_lib := acking_lib\<rparr>) sample_net_packet d sample_client) =
          (event_of (sample_env\<lparr>e_lib := acking_lib\<rparr>) sample_net_packet d sample_client m, None)))"
proof -
  let ?E = "sample_env\<lparr>e_lib := acking_lib\<rparr>"
  have st: "client_step ?E (NewMeshtasticClient 2 0 [] (\<lambda>i. 5)) acking_client"
    using client_step.set_primary [of ?E "''LongFast''" "''AQ==''"] codec_lib_channel
    by (simp add: acking_client_def acking_lib_def)
  have run: "client_run (\<lambda>E. e_lib E = acking_lib) (NewMeshtasticClient 2 0 [] (\<lambda>i. 5)) (snd (SendAck ?E 3 100 77 acking_client))"
    by (rule client_run.step [OF client_run.step [OF client_run.start _ st] _ client_step.ack]) simp_all
  obtain pkt where out: "outbox (snd (SendAck ?E 3 100 77 acking_client)) = [(''LongFast'', pkt)]"
    using acking_client_sends by auto
  have "proto_laws acking_lib" unfolding acking_lib_def by (rule codec_lib_protos) simp
  then obtain d where "carries acking_lib pkt d"
    "(d_Portnum d = TEXT_MESSAGE_APP \<and>
        fst (dispatch ?E sample_net_packet d sample_client) = (text_event (envelope ?E sample_net_packet d) d, None)) \<or>
     (\<exists>m. d_Portnum d = port_of m \<and> Marshal acking_lib m = Inr (d_Payload d) \<and>
        fst (dispatch ?E sample_net_packet d sample_client) = (event_of ?E sample_net_packet d sample_client m, None))"
    using wire_typed [OF run, of "''LongFast''" pkt ?E sample_net_packet sample_client] out by auto
  with run out show ?thesis
    by (intro exI [of _ "snd (SendAck ?E 3 100 77 acking_client)"] exI [of _ "''LongFast''"] exI [of _ pkt] exI [of _ d])
      auto
qed

end
