(* ===== verification/Mesh_Exchange.thy ===== *)
theory Mesh_Exchange
  imports Mesh_Types
begin

text \<open>
  Two mesh clients: what one of them sends is what the other one receives.  The ciphers and the
  protobuf library are outside the repository; what the exchange relies on is stated once, as
  laws of the library record.
\<close>

section \<open>What the libraries promise\<close>

text \<open>
  \<^verbatim>\<open>radio.TryDecode\<close> undoes \<^verbatim>\<open>proto.Marshal\<close> of a \<^verbatim>\<open>Data\<close> and \<^verbatim>\<open>radio.XOR\<close>, which derives its key
  stream from the key, the packet number and the sender; \<^verbatim>\<open>radio.TryDecodePKI\<close> undoes
  \<^verbatim>\<open>radio.EncryptCurve25519\<close> with the keys of the other side.  A port without a name of its own
  stands for any other application, among them \<^verbatim>\<open>UNKNOWN_APP\<close>, which the decoder refuses.
\<close>

definition named_port :: "PortNum \<Rightarrow> bool" where
  "named_port p \<longleftrightarrow> (\<forall>n. p \<noteq> OTHER_APP n)"

definition cipher_laws :: "lib \<Rightarrow> bool" where
  "cipher_laws L \<longleftrightarrow>
     (\<forall>d raw key pid src c pkt.
        named_port (d_Portnum d) \<longrightarrow> MarshalData L d = Inr raw \<longrightarrow> radio_XOR L raw key pid src = Inr c \<longrightarrow>
        p_Payload pkt = Some (Encrypted c) \<longrightarrow> p_Id pkt = pid \<longrightarrow> p_From pkt = src \<longrightarrow>
        TryDecode L pkt key = (Some d, None))"

definition key_pair_laws :: "lib \<Rightarrow> bytes \<Rightarrow> bytes \<Rightarrow> bytes \<Rightarrow> bytes \<Rightarrow> bool" where
  "key_pair_laws L privA pubA privB pubB \<longleftrightarrow>
     (\<forall>d raw pid src c pkt.
        named_port (d_Portnum d) \<longrightarrow> MarshalData L d = Inr raw \<longrightarrow>
        EncryptCurve25519 L raw privA pubB pid src = Inr c \<longrightarrow>
        p_Payload pkt = Some (Encrypted c) \<longrightarrow> p_Id pkt = pid \<longrightarrow> p_From pkt = src \<longrightarrow>
        TryDecodePKI L pkt pubA privB = (Some d, None))"

lemma codec_lib_ciphers: "cipher_laws (codec_lib ds ms)"
  unfolding cipher_laws_def
  by (auto simp: codec_lib_def sample_lib_def sample_radio_def radio.extend_def lib.fields_def dest: sample_decode_encode)

section \<open>The sender\<close>

lemma sendBytes_psk:
  assumes "sendBytes E (Some ch) raw info c = ((pid, err), c')" "outbox c' \<noteq> outbox c" "pi_Encrypted info = PSKEncryption"
  obtains rawData cipher pkt where
    "MarshalData (e_lib E) (data_of raw info) = Inr rawData"
    "radio_XOR (e_lib E) rawData (GetKeyBytes ch) pid (pi_From info) = Inr cipher"
    "pkt = (packet_header E c ch info (data_of raw info) pid)\<lparr>p_Payload := Some (Encrypted cipher)\<rparr>"
    "outbox c' = outbox c @ [(GetName ch, pkt)]"
proof -
  obtain pid1 c1 where gen: "generatePacketId c = (pid1, c1)" by fastforce
  note hdr = packet_header_frame [OF gen]
  have c1: "outbox c1 = outbox c" using generatePacketId_frame [OF gen] by auto
  show ?thesis
    using assms gen that hdr c1
    by (auto simp: sendBytes_def Let_def encrypt_packet_def packet_header_def
        split: if_splits sum.splits prod.splits dest!: deliver_eq)
qed

lemma sendBytes_pki:
  assumes "sendBytes E (Some ch) raw info c = ((pid, err), c')" "outbox c' \<noteq> outbox c" "pi_Encrypted info = PKIEncryption"
  obtains rawData cipher pkt priv pub where
    "MarshalData (e_lib E) (data_of raw info) = Inr rawData"
    "requestKey (e_lib E) (pi_From info) (e_privKeyRequest E) = Inr priv"
    "requestKey (e_lib E) (pi_To info) (e_pubKeyRequest E) = Inr pub"
    "EncryptCurve25519 (e_lib E) rawData priv pub pid (pi_From info) = Inr cipher"
    "pkt = (packet_header E c ch info (data_of raw info) pid)
       \<lparr>p_PkiEncrypted := True, p_Channel := 0, p_Payload := Some (Encrypted cipher)\<rparr>"
    "outbox c' = outbox c @ [(GetName ch, pkt)]"
proof -
  obtain pid1 c1 where gen: "generatePacketId c = (pid1, c1)" by fastforce
  note hdr = packet_header_frame [OF gen]
  have c1: "outbox c1 = outbox c" using generatePacketId_frame [OF gen] by auto
  show ?thesis
    using assms gen that hdr c1
    by (auto simp: sendBytes_def Let_def encrypt_packet_def packet_header_def
        split: if_splits sum.splits prod.splits dest!: deliver_eq)
qed

text \<open>A success means that a packet left.\<close>

lemma sendBytes_outbox: "sendBytes E (Some ch) raw info c = ((pid, None), c') \<Longrightarrow> outbox c' \<noteq> outbox c"
  by (erule sendBytes_cases) auto

lemma sendProtoMessage_outbox: "sendProtoMessage E (Some ch) m info c = ((pid, None), c') \<Longrightarrow> outbox c' \<noteq> outbox c"
  by (auto simp: sendProtoMessage_def dest: sendBytes_outbox split: sum.splits)

section \<open>The receiver\<close>

text \<open>
  When a client reads the packets of a channel: it has the channel, with a key, under a name that
  is not empty; no channel of another name has the same hash; and no channel of the same name has
  another key.
\<close>

definition can_read :: "lib \<Rightarrow> ChannelDef \<Rightarrow> 'c client \<Rightarrow> bool" where
  "can_read L ch c \<longleftrightarrow>
     GetName ch \<noteq> [] \<and> snd (ChannelHash L (GetName ch) (GetKeyBytes ch)) = None \<and>
     (\<exists>v \<in> set (channels c). GetName (snd v) = GetName ch \<and> GetKeyString (snd v) \<noteq> []) \<and>
     (\<forall>v \<in> set (channels c).
        ChannelHash L (GetName (snd v)) (GetKeyBytes (snd v)) = ChannelHash L (GetName ch) (GetKeyBytes ch) \<longrightarrow>
        GetName (snd v) = GetName ch) \<and>
     (\<forall>v \<in> set (channels c). GetName (snd v) = GetName ch \<longrightarrow>
        GetKeyBytes (snd v) = GetKeyBytes ch \<and> GetKeyString (snd v) = GetKeyString ch)"

lemma codec_lib_reads: "channels c = [(0, sample_channel)] \<Longrightarrow> can_read (codec_lib ds ms) sample_channel c"
  by (simp add: can_read_def)

lemma getChannelNameFromHash_read:
  assumes "can_read L ch c"
  shows "getChannelNameFromHash L c (fst (ChannelHash L (GetName ch) (GetKeyBytes ch))) = GetName ch"
proof -
  let ?P = "\<lambda>v :: nat \<times> ChannelDef.
    ChannelHash L (GetName (snd v)) (GetKeyBytes (snd v)) = (fst (ChannelHash L (GetName ch) (GetKeyBytes ch)), None)"
  have hash: "(fst (ChannelHash L (GetName ch) (GetKeyBytes ch)), None) = ChannelHash L (GetName ch) (GetKeyBytes ch)"
    using assms by (simp add: can_read_def prod_eq_iff)
  obtain v where v: "v \<in> set (channels c)" "GetName (snd v) = GetName ch"
    using assms unfolding can_read_def by blast
  then have v3: "GetKeyBytes (snd v) = GetKeyBytes ch" using assms unfolding can_read_def by blast
  then have "find ?P (channels c) \<noteq> None"
    unfolding find_None_iff using v hash by (intro notI) (metis (no_types, lifting))
  then obtain u where u: "find ?P (channels c) = Some u" by blast
  then have "u \<in> set (channels c)" "?P u" by (auto simp: find_Some_iff)
  then have "GetName (snd u) = GetName ch" using assms unfolding can_read_def hash by blast
  then show ?thesis using u by (simp add: getChannelNameFromHash_def)
qed

lemma tryDecryptPSK_loop_read:
  assumes "np_ChannelName p = GetName ch" "TryDecode L (np_MeshPacket p) (GetKeyBytes ch) = (Some d, None)"
    and "\<exists>v \<in> set vs. GetName (snd v) = GetName ch \<and> GetKeyString (snd v) \<noteq> []"
    and "\<forall>v \<in> set vs. GetName (snd v) = GetName ch \<longrightarrow>
           GetKeyBytes (snd v) = GetKeyBytes ch \<and> GetKeyString (snd v) = GetKeyString ch"
  shows "tryDecryptPSK_loop L vs p r = ((Some d, None), p\<lparr>np_ChannelKey := Some (GetKeyString ch)\<rparr>)"
  using assms by (induction vs arbitrary: r) (auto simp: Let_def)

lemma tryDecryptPSK_read:
  assumes "can_read L ch c" "p_Channel (np_MeshPacket p) = fst (ChannelHash L (GetName ch) (GetKeyBytes ch))"
    and "TryDecode L (np_MeshPacket p) (GetKeyBytes ch) = (Some d, None)"
  shows "tryDecryptPSK L c p =
    ((Some d, None), p\<lparr>np_ChannelName := GetName ch, np_ChannelKey := Some (GetKeyString ch)\<rparr>)"
proof -
  have "tryDecryptPSK_loop L (channels c) (p\<lparr>np_ChannelName := GetName ch\<rparr>) (None, None) =
      ((Some d, None), (p\<lparr>np_ChannelName := GetName ch\<rparr>)\<lparr>np_ChannelKey := Some (GetKeyString ch)\<rparr>)"
    by (rule tryDecryptPSK_loop_read) (use assms in \<open>auto simp: can_read_def\<close>)
  then show ?thesis
    using getChannelNameFromHash_read [OF assms(1)] assms(1,2) by (simp add: tryDecryptPSK_def can_read_def)
qed

text \<open>
  A packet is new to a client when it has not been seen within the time to live of the cache, and
  foreign when its sender is somebody else's node.
\<close>

definition foreign_new :: "'c env \<Rightarrow> NetworkMeshPacket \<Rightarrow> 'c client \<Rightarrow> bool" where
  "foreign_new E p c \<longleftrightarrow>
     \<not> isDuplicatePacket E c p \<and> \<not> e_managed E (p_From (np_MeshPacket p)) \<and> p_From (np_MeshPacket p) \<noteq> 0"

lemma handleMeshPacket_decrypted:
  assumes "foreign_new E p c" "decrypt E p (cachePacket E p c) = ((Some d, None), q)"
    and "p_From (np_MeshPacket q) = p_From (np_MeshPacket p)"
  shows "handleMeshPacket E p c =
    (let ((evt, err), c') = dispatch E q d (cachePacket E p c) in notifyEvent evt c')"
  using assms by (simp add: handleMeshPacket_def foreign_new_def processMessage_def Let_def case_prod_beta)

lemma can_read_cache [simp]: "can_read L ch (cachePacket E p c) = can_read L ch c"
  by (simp add: can_read_def cachePacket_def)

text \<open>What a channel packet looks like to the receiver once it is decrypted.\<close>

abbreviation (input) on_channel :: "ChannelDef \<Rightarrow> NetworkMeshPacket \<Rightarrow> NetworkMeshPacket" where
  "on_channel ch p \<equiv> p\<lparr>np_ChannelName := GetName ch, np_ChannelKey := Some (GetKeyString ch)\<rparr>"

text \<open>
  The last packet one client handed to its connectors, channel-encrypted, reaches another client
  that can read the channel: the second one handles exactly the data the first one built.
\<close>

lemma psk_exchange:
  assumes snt: "sendBytes EA (Some ch) raw info a = ((pid, err), a')" "outbox a' \<noteq> outbox a" "pi_Encrypted info = PSKEncryption"
    and lib: "e_lib EB = e_lib EA" "cipher_laws (e_lib EA)" "named_port (pi_PortNum info)"
    and read: "can_read (e_lib EB) ch b"
    and p: "np_MeshPacket p = snd (last (outbox a'))" "foreign_new EB p b"
      "pi_To info = BROADCAST_ID \<or> fst (ChannelHash (e_lib EB) (GetName ch) (GetKeyBytes ch)) \<noteq> 0"
  obtains pkt where "outbox a' = outbox a @ [(GetName ch, pkt)]" "np_MeshPacket p = pkt"
    "p_From pkt = pi_From info" "p_To pkt = pi_To info" "p_Id pkt = pid" "p_WantAck pkt = wantAck_of info"
    "handleMeshPacket EB p b =
       (let ((evt, err), b') = dispatch EB (on_channel ch p) (data_of raw info) (cachePacket EB p b)
        in notifyEvent evt b')"
  using snt
proof (rule sendBytes_psk)
  fix rawData cipher pkt
  assume m: "MarshalData (e_lib EA) (data_of raw info) = Inr rawData"
    "radio_XOR (e_lib EA) rawData (GetKeyBytes ch) pid (pi_From info) = Inr cipher"
    and pkt: "pkt = (packet_header EA a ch info (data_of raw info) pid)\<lparr>p_Payload := Some (Encrypted cipher)\<rparr>"
    and out: "outbox a' = outbox a @ [(GetName ch, pkt)]"
  have f: "p_From pkt = pi_From info" "p_To pkt = pi_To info" "p_Id pkt = pid" "p_WantAck pkt = wantAck_of info"
    "p_Payload pkt = Some (Encrypted cipher)"
    "p_Channel pkt = fst (ChannelHash (e_lib EB) (GetName ch) (GetKeyBytes ch))"
    by (simp_all add: pkt packet_header_def lib(1))
  have n: "np_MeshPacket p = pkt" using p(1) out by simp
  have pki: "\<not> shouldUsePKIDecryption EB p" using p(3) n f(2,6) by (auto simp: shouldUsePKIDecryption_def)
  have "TryDecode (e_lib EB) pkt (GetKeyBytes ch) = (Some (data_of raw info), None)"
    using lib m f unfolding cipher_laws_def by (metis data_of_Portnum)
  then have "decrypt EB p (cachePacket EB p b) = ((Some (data_of raw info), None), on_channel ch p)"
    using tryDecryptPSK_read [of "e_lib EB" ch "cachePacket EB p b" p] read n f pki
    by (simp add: decrypt_def GetDecoded_def)
  from handleMeshPacket_decrypted [OF p(2) this] show thesis
    using that [OF out n f(1-4)] by simp
qed

section \<open>Texts and reactions\<close>

lemma named_port_simps [simp]:
  "named_port TEXT_MESSAGE_APP" "named_port NODEINFO_APP" "named_port TRACEROUTE_APP" "named_port ROUTING_APP"
  by (simp_all add: named_port_def)

text \<open>A text sent on a channel is the text the other client hands to its bridge.\<close>

lemma channel_text_exchange:
  assumes snt: "SendMessage EA src BROADCAST_ID (Some ch) txt reply False a = ((pid, None), a')"
    and "e_lib EB = e_lib EA" "cipher_laws (e_lib EA)" "can_read (e_lib EB) ch b"
    and p: "np_MeshPacket p = snd (last (outbox a'))" "foreign_new EB p b"
  shows "\<exists>pkt evt. outbox a' = outbox a @ [(GetName ch, pkt)] \<and> p_Id pkt = pid \<and>
    handleMeshPacket EB p b = notifyEvent (MessageEvent evt) (cachePacket EB p b) \<and>
    ev_Message evt = txt \<and> ev_ReplyId evt = reply \<and> \<not> ev_IsDM evt \<and> \<not> ev_WantAck evt \<and>
    ev_From evt = src \<and> ev_PacketId evt = pid \<and>
    ev_ChannelName evt = GetName ch \<and> ev_ChannelKey evt = Some (GetKeyString ch)"
proof -
  let ?info = "(PacketInfo0 TEXT_MESSAGE_APP PSKEncryption src BROADCAST_ID)\<lparr>pi_ReplyId := reply\<rparr>"
  let ?d = "data_of txt ?info"
  have sb: "sendBytes EA (Some ch) txt ?info a = ((pid, None), a')" using snt by (simp add: SendMessage_def)
  from psk_exchange [OF sb sendBytes_outbox [OF sb] _ assms(2,3) _ assms(4) p] obtain pkt where
    x: "outbox a' = outbox a @ [(GetName ch, pkt)]" "np_MeshPacket p = pkt" "p_From pkt = src"
      "p_To pkt = BROADCAST_ID" "p_Id pkt = pid" "p_WantAck pkt = wantAck_of ?info"
    and h: "handleMeshPacket EB p b = (let ((evt, err), b') = dispatch EB (on_channel ch p) ?d (cachePacket EB p b)
        in notifyEvent evt b')"
    by auto
  have "text_event (envelope EB (on_channel ch p) ?d) ?d =
      MessageEvent (MeshEvent.extend (envelope EB (on_channel ch p) ?d) (MeshTextEvent.fields txt False reply))"
    using x by (simp add: text_event_def data_of_def envelope_def PacketInfo0_def Let_def)
  with h x show ?thesis
    by (auto simp: dispatch_text envelope_def MeshEvent.extend_def MeshTextEvent.fields_def wantAck_of_def Let_def)
qed

section \<open>Node information\<close>

lemma sendProtoMessage_ok:
  assumes "sendProtoMessage E channel m info c = ((pid, err), c')" "outbox c' \<noteq> outbox c"
  obtains raw where "Marshal (e_lib E) m = Inr raw" "sendBytes E channel raw info c = ((pid, err), c')"
  using assms by (auto simp: sendProtoMessage_def split: sum.splits)

text \<open>
  A message marshalled under its port and sent on a channel becomes the event of its type at the
  other client.
\<close>

lemma proto_exchange:
  assumes snt: "sendProtoMessage EA (Some ch) m info a = ((pid, err), a')" "outbox a' \<noteq> outbox a"
    "pi_Encrypted info = PSKEncryption" "pi_PortNum info = port_of m"
    and lib: "e_lib EB = e_lib EA" "cipher_laws (e_lib EA)" "proto_laws (e_lib EA)"
    and read: "can_read (e_lib EB) ch b"
    and p: "np_MeshPacket p = snd (last (outbox a'))" "foreign_new EB p b"
      "pi_To info = BROADCAST_ID \<or> fst (ChannelHash (e_lib EB) (GetName ch) (GetKeyBytes ch)) \<noteq> 0"
  obtains raw pkt where "Marshal (e_lib EA) m = Inr raw" "outbox a' = outbox a @ [(GetName ch, pkt)]"
    "np_MeshPacket p = pkt" "p_From pkt = pi_From info" "p_To pkt = pi_To info" "p_Id pkt = pid"
    "p_WantAck pkt = wantAck_of info" "decodes (e_lib EB) raw m"
    "handleMeshPacket EB p b = notifyEvent
       (event_of EB (on_channel ch p) (data_of raw info) (cachePacket EB p b) m)
       (snd (dispatch EB (on_channel ch p) (data_of raw info) (cachePacket EB p b)))"
proof -
  obtain raw where raw: "Marshal (e_lib EA) m = Inr raw" "sendBytes EA (Some ch) raw info a = ((pid, err), a')"
    by (rule sendProtoMessage_ok [OF snt(1,2)])
  have named: "named_port (pi_PortNum info)" unfolding snt(4) by (cases m) (simp_all add: named_port_def)
  have dec: "decodes (e_lib EB) raw m" using lib raw(1) by (simp add: proto_laws_def)
  have ev: "fst (dispatch EB q (data_of raw info) c) = (event_of EB q (data_of raw info) c m, None)" for q c
    by (rule dispatch_typed) (use snt(4) dec in simp_all)
  show thesis
    by (rule psk_exchange [OF raw(2) snt(2,3) lib(1,2) named read p])
      (rule that [OF raw(1)], auto simp: ev case_prod_beta dec)
qed

text \<open>Names and key a node announced are those the other client hands to its bridge.\<close>

lemma node_info_exchange:
  assumes snt: "SendNodeInfo EA src BROADCAST_ID lname sname wr pk a = (None, a')" "primary a = Some ch"
    and lib: "e_lib EB = e_lib EA" "cipher_laws (e_lib EA)" "proto_laws (e_lib EA)"
    and read: "can_read (e_lib EB) ch b"
    and p: "np_MeshPacket p = snd (last (outbox a'))" "foreign_new EB p b"
  shows "\<exists>evt. handleMeshPacket EB p b = notifyEvent (NodeInfoEvent evt) (cachePacket EB p b) \<and>
    ev_From evt = src \<and> ev_To evt = BROADCAST_ID \<and> ev_UserID evt = NodeID_String src \<and> ev_LongName evt = lname \<and>
    ev_ShortName evt = sname \<and> ev_PublicKey evt = pk \<and>
    ev_Role evt = RoleString (e_lib EB) (if src = nodeId a then CLIENT_BASE else CLIENT_MUTE)"
proof -
  let ?u = "nodeInfo_user a src lname sname pk"
  let ?i = "(PacketInfo0 NODEINFO_APP PSKEncryption src BROADCAST_ID)\<lparr>pi_WantResponse := wr\<rparr>"
  obtain pid c1 where c1: "sendProtoMessage EA (Some ch) (MsgUser ?u) ?i a = ((pid, None), c1)"
    and out: "outbox a' = outbox c1"
    using snt by (auto simp: SendNodeInfo_def Let_def split: if_splits prod.splits)
  obtain raw where raw: "np_MeshPacket p = snd (last (outbox c1))" "p_From (np_MeshPacket p) = src"
    "p_To (np_MeshPacket p) = BROADCAST_ID"
    and h: "handleMeshPacket EB p b = notifyEvent
       (event_of EB (on_channel ch p) (data_of raw ?i) (cachePacket EB p b) (MsgUser ?u))
       (snd (dispatch EB (on_channel ch p) (data_of raw ?i) (cachePacket EB p b)))"
    by (rule proto_exchange [OF c1 sendProtoMessage_outbox [OF c1] _ _ lib read _ p(2)]) (use p(1) out in auto)
  have "snd (dispatch EB (on_channel ch p) (data_of raw ?i) (cachePacket EB p b)) = cachePacket EB p b"
    by (simp add: dispatch_def Let_def)
  with h have "handleMeshPacket EB p b = notifyEvent
      (nodeInfo_event (e_lib EB) (envelope EB (on_channel ch p) (data_of raw ?i)) ?u) (cachePacket EB p b)"
    by simp
  then show ?thesis
    unfolding nodeInfo_event_def using raw(2,3)
    by (intro exI conjI) (assumption | simp add: nodeInfo_user_def MeshEvent.extend_def MeshNodeInfoEvent.fields_def
        envelope_def Let_def)+
qed

section \<open>Traceroutes\<close>

lemma sendProtoMessage_grows: "\<exists>xs. outbox (snd (sendProtoMessage E ch m info c)) = outbox c @ xs \<and> length xs \<le> 1"
proof (cases "Marshal (e_lib E) m")
  case (Inr raw)
  obtain pid err c' where s: "sendBytes E ch raw info c = ((pid, err), c')" by (metis prod.exhaust)
  then have "\<exists>xs. outbox c' = outbox c @ xs \<and> length xs \<le> 1" by (cases rule: sendBytes_cases) auto
  with s Inr show ?thesis by (simp add: sendProtoMessage_def)
qed (simp add: sendProtoMessage_def)

lemma requestRoute_extends:
  "prefix (Route d) (Route (requestRoute L c p d))"
  "p_To (np_MeshPacket p) \<noteq> nodeId c \<Longrightarrow> nodeId c \<in> set (Route (requestRoute L c p d))"
proof -
  let ?d = "addGatewayToRoute L p (insertUnknownHops (np_MeshPacket p) d True) True"
  let ?f = "addNodeToRouteIfMissing ?d (nodeId c) 0 True"
  have e: "extends_route d ?d True"
    by (rule extends_route_trans [OF insertUnknownHops_extends(1) addGateway_facts(1)])
  have "extends_route d ?f True" by (rule extends_route_trans [OF e addNode_facts(1)])
  moreover have "Route (addNodeToRouteIfMissing ?f (nodeId c) 0 False) = Route ?f"
    by (simp add: addNodeToRouteIfMissing_def)
  ultimately show "prefix (Route d) (Route (requestRoute L c p d))"
    using extends_routeD(1) [OF e] extends_routeD(1) [of d ?f] by (simp add: requestRoute_def Let_def)
  show "nodeId c \<in> set (Route (requestRoute L c p d))" if "p_To (np_MeshPacket p) \<noteq> nodeId c"
    using that addNode_facts(4) [of "nodeId c" ?d 0 True]
    by (simp add: requestRoute_def addNodeToRouteIfMissing_def [of ?f] Let_def)
qed

lemma handleTracerouteResponse_Route [simp]: "Route (handleTracerouteResponse E p d c) = Route d"
  by (simp add: handleTracerouteResponse_def insertUnknownHops_def addGatewayToRoute_def
      addNodeToRouteIfMissing_def set_route_def Let_def)

text \<open>The request reaches the client that answers for the target.\<close>

lemma traceroute_request_exchange:
  assumes snt: "SendTraceroute EA src dst (Some ch) a = ((pid, None), a')" "dst \<noteq> BROADCAST_ID"
    and lib: "e_lib EB = e_lib EA" "cipher_laws (e_lib EA)" "proto_laws (e_lib EA)"
    and read: "can_read (e_lib EB) ch b" "fst (ChannelHash (e_lib EB) (GetName ch) (GetKeyBytes ch)) \<noteq> 0"
    and p: "np_MeshPacket p = snd (last (outbox a'))" "foreign_new EB p b"
  obtains env r where "handleMeshPacket EB p b =
      notifyEvent (EnvelopeValue env) (handleTracerouteRequest EB (on_channel ch p) r (cachePacket EB p b))"
    "p_From (np_MeshPacket p) = src" "p_To (np_MeshPacket p) = dst" "p_Id (np_MeshPacket p) = pid"
    "p_WantAck (np_MeshPacket p)" "src \<noteq> nodeId a \<Longrightarrow> r = \<lparr>Route = [nodeId a], SnrTowards = [0], RouteBack = [], SnrBack = []\<rparr>"
proof -
  let ?r = "if src \<noteq> nodeId a
    then \<lparr>Route = [nodeId a], SnrTowards = [0], RouteBack = [], SnrBack = []\<rparr>
    else \<lparr>Route = [], SnrTowards = [], RouteBack = [], SnrBack = []\<rparr>"
  let ?i = "(PacketInfo0 TRACEROUTE_APP PSKEncryption src dst)\<lparr>pi_WantResponse := True\<rparr>"
  have sp: "sendProtoMessage EA (Some ch) (MsgRouteDiscovery ?r) ?i a = ((pid, None), a')"
    using snt(1) by (simp add: SendTraceroute_def)
  obtain raw pkt where x: "np_MeshPacket p = pkt" "p_From pkt = src" "p_To pkt = dst" "p_Id pkt = pid"
      "p_WantAck pkt = wantAck_of ?i" "decodes (e_lib EB) raw (MsgRouteDiscovery ?r)"
    and h: "handleMeshPacket EB p b = notifyEvent
       (event_of EB (on_channel ch p) (data_of raw ?i) (cachePacket EB p b) (MsgRouteDiscovery ?r))
       (snd (dispatch EB (on_channel ch p) (data_of raw ?i) (cachePacket EB p b)))"
    by (rule proto_exchange [OF sp sendProtoMessage_outbox [OF sp] _ _ lib read(1) p]) (use read(2) in auto)
  have id: "d_RequestId (data_of raw ?i) = 0" by (simp add: data_of_def PacketInfo0_def Let_def)
  have disp: "snd (dispatch EB (on_channel ch p) (data_of raw ?i) (cachePacket EB p b)) =
      handleTracerouteRequest EB (on_channel ch p) ?r (cachePacket EB p b)"
    using x(6) id by (simp add: dispatch_def Let_def)
  show thesis
    by (rule that [of _ ?r]) (use h disp id x in \<open>auto simp: wantAck_of_def\<close>)
qed

text \<open>
  The answer reaches the client that asked.  The answering client sent two packets, an
  acknowledgement and the route.
\<close>

lemma traceroute_answer_exchange:
  assumes b': "b' = handleTracerouteRequest EB (on_channel ch p) r b" "length (outbox b') = length (outbox b) + 2"
    and p: "p_From (np_MeshPacket p) \<noteq> BROADCAST_ID" "p_Id (np_MeshPacket p) \<noteq> 0"
    and ch: "NewChannelDef (e_lib EB) (GetName ch) (Some (GetKeyString ch)) = Inr ch"
    and lib: "e_lib EA = e_lib EB" "cipher_laws (e_lib EB)" "proto_laws (e_lib EB)"
    and read: "can_read (e_lib EA) ch a" "fst (ChannelHash (e_lib EA) (GetName ch) (GetKeyBytes ch)) \<noteq> 0"
    and q: "np_MeshPacket q = snd (last (outbox b'))" "foreign_new EA q a"
  obtains evt where "handleMeshPacket EA q a = notifyEvent (TracerouteEvent evt) (cachePacket EA q a)"
    "ev_RequestId evt = p_Id (np_MeshPacket p)" "ev_From evt = p_To (np_MeshPacket p)"
    "prefix (Route r) (ev_Route evt)" "p_To (np_MeshPacket p) \<noteq> nodeId b \<Longrightarrow> nodeId b \<in> set (ev_Route evt)"
proof -
  let ?to = "p_To (np_MeshPacket p)" and ?from = "p_From (np_MeshPacket p)"
  let ?c = "if p_WantAck (np_MeshPacket p) then snd (SendAck EB ?to ?from (p_Id (np_MeshPacket p)) b) else b"
  let ?r = "requestRoute (e_lib EB) ?c (on_channel ch p) r"
  let ?i = "(PacketInfo0 TRACEROUTE_APP PSKEncryption ?to ?from)\<lparr>pi_RequestId := p_Id (np_MeshPacket p)\<rparr>"
  have "\<exists>xs. outbox ?c = outbox b @ xs \<and> length xs \<le> 1"
    using sendProtoMessage_grows [of EB "primary b"] by (auto simp: SendAck_def)
  then have le: "length (outbox ?c) \<le> length (outbox b) + 1" by auto
  have chan: "channel_of_packet (e_lib EB) (on_channel ch p) = Some ch" using ch by (simp add: channel_of_packet_def)
  have "b' = b" if "\<not> e_managed EB ?to" using that b'(1) by (simp add: handleTracerouteRequest_def)
  with b'(2) have man: "e_managed EB ?to" by (cases "e_managed EB ?to") simp_all
  obtain pid err c2 where sp: "sendProtoMessage EB (Some ch) (MsgRouteDiscovery ?r) ?i ?c = ((pid, err), c2)"
    by (metis prod.exhaust)
  have "b' = snd (sendProtoMessage EB (Some ch) (MsgRouteDiscovery ?r) ?i ?c)"
    using b'(1) man chan by (simp add: handleTracerouteRequest_def Let_def)
  then have eq: "b' = c2" unfolding sp by simp
  have new: "outbox c2 \<noteq> outbox ?c" using b'(2) le eq by (metis Suc_eq_plus1 Suc_n_not_le_n add_2_eq_Suc')
  obtain raw pkt where x: "np_MeshPacket q = pkt" "p_From pkt = ?to" "decodes (e_lib EA) raw (MsgRouteDiscovery ?r)"
    and h: "handleMeshPacket EA q a = notifyEvent
       (event_of EA (on_channel ch q) (data_of raw ?i) (cachePacket EA q a) (MsgRouteDiscovery ?r))
       (snd (dispatch EA (on_channel ch q) (data_of raw ?i) (cachePacket EA q a)))"
    by (rule proto_exchange [OF sp new _ _ lib read(1) _ q(2)]) (use read(2) q(1) eq in auto)
  have id: "d_RequestId (data_of raw ?i) = p_Id (np_MeshPacket p)" by (simp add: data_of_def PacketInfo0_def Let_def)
  have disp: "snd (dispatch EA (on_channel ch q) (data_of raw ?i) (cachePacket EA q a)) = cachePacket EA q a"
    using x(3) id p(2) by (simp add: dispatch_def Let_def)
  let ?evt = "MeshEvent.extend (envelope EA (on_channel ch q) (data_of raw ?i))
    (MeshTracerouteEvent.fields (Route (handleTracerouteResponse EA (on_channel ch q) ?r (cachePacket EA q a)))
       (SnrTowards (handleTracerouteResponse EA (on_channel ch q) ?r (cachePacket EA q a)))
       (RouteBack (handleTracerouteResponse EA (on_channel ch q) ?r (cachePacket EA q a)))
       (SnrBack (handleTracerouteResponse EA (on_channel ch q) ?r (cachePacket EA q a))) (p_Id (np_MeshPacket p)))"
  have f: "ev_RequestId ?evt = p_Id (np_MeshPacket p)" "ev_From ?evt = ?to" "ev_Route ?evt = Route ?r"
    using x by (simp_all add: MeshEvent.extend_def MeshTracerouteEvent.fields_def envelope_def Let_def)
  have n: "nodeId ?c = nodeId b" by (simp add: SendAck_def)
  show thesis
  proof (rule that [of ?evt])
    show "handleMeshPacket EA q a = notifyEvent (TracerouteEvent ?evt) (cachePacket EA q a)"
      using h disp id p(2) by (simp add: traceroute_event_def)
  qed (use f requestRoute_extends [where d = r and L = "e_lib EB" and c = ?c and p = "on_channel ch p"] n in simp_all)
qed

end
