(* ===== verification/Bridge_Exchange.thy ===== *)
theory Bridge_Exchange
  imports Bridge_System Mesh_Exchange
begin

text \<open>
  Two bridges on one mesh: what a user of the first one writes is what the users of the second
  one see.  The theorems compose the handler of Matrix events, the sending client, the receiving
  client and the handlers of mesh events.
\<close>

section \<open>Delivery to the logins of a room\<close>

text \<open>The events a channel message is queued as, one for each login that is in the room.\<close>

definition room_member :: "(PortalKey \<Rightarrow> go_error + string list) \<Rightarrow> PortalKey \<Rightarrow> login \<Rightarrow> bool" where
  "room_member members key l = (case members key of Inl err \<Rightarrow> False | Inr ids \<Rightarrow> ul_ID l \<in> set ids)"

definition room_message :: "('c, 'w) benv \<Rightarrow> MeshTextEvent \<Rightarrow> login \<Rightarrow> string \<times> remote_event" where
  "room_message B evt l =
     (ul_ID l, RemoteMessage (text_portal B l evt) RoomTypeDefault (makeEventSender l (ev_From evt))
        (uint (ev_Timestamp evt) * Second) (MakeMessageID (ev_ChannelName evt) (ev_PacketId evt)) evt)"

lemma panic_frame [simp]:
  "b_panic (snd (getRemoteGhost B i r b)) = b_panic b" "b_panic (set_last_seen B n d b) = b_panic b"
  "b_panic (snd (on_mesh B f b)) = b_panic b" "b_panic (acknowledge B evt b) = b_panic b"
  by (simp_all add: getRemoteGhost_def set_last_seen_def on_mesh_def db_put_def acknowledge_def GetBaseNodeID_def
      Let_def split: sum.split option.split prod.split)

lemma handleMeshMessage_panic [simp]: "b_panic (handleMeshMessage B l evt b) = b_panic b"
  by (simp add: handleMeshMessage_def Let_def)

lemma logins_queued:
  assumes "\<And>w. fw_LoginsInPortal (be_fw B) w = members" "\<not> ev_IsDM evt" "\<not> b_panic b"
  shows "b_queued (fold (login_handler B (MessageEvent evt)) ls b) =
    b_queued b @ map (room_message B evt) (filter (\<lambda>l. room_member members (text_portal B l evt) l) ls)"
  using assms(3)
proof (induction ls arbitrary: b)
  case (Cons l ls)
  let ?b = "handleMeshMessage B l evt b"
  have "b_queued ?b = b_queued b @
      (if room_member members (text_portal B l evt) l then [room_message B evt l] else [])"
    using assms(1,2) by (simp add: handleMeshMessage_queued in_portal_def room_member_def room_message_def text_sender_def)
  moreover have "\<not> b_panic ?b" using Cons.prems by simp
  ultimately show ?case
    using Cons.IH [of ?b] Cons.prems by (simp add: login_handler_def handleMeshEvent_def)
qed simp

lemma receive_packet_one:
  assumes "handleMeshPacket (mesh_env B b) p (b_mesh b) = notifyEvent evt c" "events c = events (b_mesh b)"
  shows "receive_packet B p b = deliver_event B evt (b\<lparr>b_mesh := notifyEvent evt c\<rparr>)"
  using assms by (simp add: receive_packet_def notifyEvent_def)

lemma events_cache [simp]: "events (cachePacket E p c) = events c"
  by (simp add: cachePacket_def)

section \<open>A message to a channel\<close>

definition is_text :: "MatrixMessage \<Rightarrow> bool" where
  "is_text msg \<longleftrightarrow> mc_MsgType (mm_Content msg) \<in> {MsgText, MsgNotice, MsgEmote}"

definition reply_number :: "MatrixMessage \<Rightarrow> 32 word" where
  "reply_number msg = (case mm_ReplyTo msg of None \<Rightarrow> 0 | Some i \<Rightarrow> snd (fst (ParseMessageID i)))"

lemma room_message_sent:
  assumes "HandleMatrixMessage B msg a = (MatrixSent mid sid, a')" "is_text msg"
    and "po_RoomType (mm_Portal msg) = RoomTypeDefault"
    and "ChannelDefFromPortalID (e_lib (be_mesh B)) (pk_ID (po_Key (mm_Portal msg))) = Inr ch"
  obtains pid c' where
    "SendMessage (mesh_env B a) (MXIDToNodeID (mm_Sender msg)) BROADCAST_ID (Some ch)
       (ToMeshtastic B (mm_Content msg)) (reply_number msg) False (b_mesh a) = ((pid, None), c')"
    "a' = a\<lparr>b_mesh := c'\<rparr>" "mid = MakeMessageID (GetName ch) pid" "sid = MakeUserID (MXIDToNodeID (mm_Sender msg))"
proof -
  let ?r = "\<lparr>rt_channel = Some ch, rt_name = GetName ch, rt_target = BROADCAST_ID, rt_usePKI = False\<rparr>"
  have "message_route B (mm_Portal msg) a = (Ok ?r, a)" using assms(3,4) by (simp add: message_route_def)
  then obtain pid where "send_content B msg ?r a = (Inr pid, a')" "mid = MakeMessageID (GetName ch) pid"
    "sid = MakeUserID (MXIDToNodeID (mm_Sender msg))"
    using assms(1) by (auto simp: HandleMatrixMessage_def split: option.splits prod.splits sum.splits)
  with assms(2) show thesis
    using that by (auto simp: send_content_def is_text_def reply_number_def on_mesh_eq Let_def
        split: prod.splits option.splits)
qed

text \<open>
  C3: what a user writes in a room arrives in the rooms of the same channel on another bridge.  When
  the handler of the Matrix message reports success and the packet it sent reaches a second bridge
  that has the channel, has not seen the packet and does not own its sender, every login of that
  bridge that is in the channel's room is queued exactly one message, and no other login any: with
  the text as converted, sent by the ghost that stands for the writer on both bridges, and under
  the same message identifier on both.
\<close>

theorem room_message_crosses:
  assumes "HandleMatrixMessage BA msg a = (MatrixSent mid sid, a')" "is_text msg"
    and "po_RoomType (mm_Portal msg) = RoomTypeDefault"
    and "ChannelDefFromPortalID (e_lib (be_mesh BA)) (pk_ID (po_Key (mm_Portal msg))) = Inr ch"
    and "e_lib (be_mesh BB) = e_lib (be_mesh BA)" "cipher_laws (e_lib (be_mesh BA))"
    and "can_read (e_lib (be_mesh BB)) ch (b_mesh b)"
    and "np_MeshPacket p = snd (last (outbox (b_mesh a')))" "foreign_new (mesh_env BB b) p (b_mesh b)"
    and "\<And>w. fw_LoginsInPortal (be_fw BB) w = members" "\<not> b_panic b"
  shows "\<exists>evt. b_queued (receive_packet BB p b) = b_queued b @ map (room_message BB evt)
      (filter (\<lambda>l. room_member members (makePortalKey BB l (GetName ch) (Some (GetKeyString ch))) l) (b_clients b)) \<and>
    ev_Message evt = ToMeshtastic BA (mm_Content msg) \<and> ev_ReplyId evt = reply_number msg \<and>
    MakeUserID (ev_From evt) = sid \<and> MakeMessageID (ev_ChannelName evt) (ev_PacketId evt) = mid"
proof -
  obtain pid c' where snt: "SendMessage (mesh_env BA a) (MXIDToNodeID (mm_Sender msg)) BROADCAST_ID (Some ch)
       (ToMeshtastic BA (mm_Content msg)) (reply_number msg) False (b_mesh a) = ((pid, None), c')"
    and a': "a' = a\<lparr>b_mesh := c'\<rparr>" "mid = MakeMessageID (GetName ch) pid" "sid = MakeUserID (MXIDToNodeID (mm_Sender msg))"
    using room_message_sent [OF assms(1-4)] by blast
  have p: "np_MeshPacket p = snd (last (outbox c'))" using assms(8) a' by simp
  obtain evt where h: "handleMeshPacket (mesh_env BB b) p (b_mesh b) =
      notifyEvent (MessageEvent evt) (cachePacket (mesh_env BB b) p (b_mesh b))"
    and e: "ev_Message evt = ToMeshtastic BA (mm_Content msg)" "ev_ReplyId evt = reply_number msg" "\<not> ev_IsDM evt"
      "ev_From evt = MXIDToNodeID (mm_Sender msg)" "ev_PacketId evt = pid" "ev_ChannelName evt = GetName ch"
      "ev_ChannelKey evt = Some (GetKeyString ch)"
    using channel_text_exchange [OF snt _ _ _ p assms(9)] assms(5-7) by auto
  have "b_queued (receive_packet BB p b) = b_queued b @ map (room_message BB evt)
      (filter (\<lambda>l. room_member members (text_portal BB l evt) l) (b_clients b))"
    using logins_queued [OF assms(10) e(3)] assms(11) receive_packet_one [OF h]
    by (simp add: deliver_event_def handleGlobalMeshEvent_def)
  with e a' show ?thesis by (auto simp: text_portal_def)
qed

text \<open>
  Two bridges on the sample channel.  The first one manages the node of \<^verbatim>\<open>@a:b\<close>; the second one
  does not, and has two logins of which one is in the room.
\<close>

definition codec_benv :: "Data list \<Rightarrow> ProtoMsg list \<Rightarrow> (sample_cache, ghost list) benv" where
  "codec_benv ds ms = sample_benv
     \<lparr>be_mesh := codec_env ds ms, be_fw := sample_framework\<lparr>fw_LoginsInPortal := \<lambda>w k. Inr [''u'']\<rparr>\<rparr>"

definition sample_login :: "string \<Rightarrow> login" where
  "sample_login i = \<lparr>ul_ID = i, ul_NodeID = 9, ul_UserMXID = ''@'' @ i @ '':b''\<rparr>"

definition sample_reader :: "(sample_cache, ghost list) bridge" where
  "sample_reader = sample_bridge
     \<lparr>b_clients := [sample_login ''u'', sample_login ''v''], b_managedNodeCache := [0x7550f83b \<mapsto> False]\<rparr>"

definition last_packet :: "('c, 'w) bridge \<Rightarrow> NetworkMeshPacket" where
  "last_packet b = sample_net_packet\<lparr>np_MeshPacket := snd (last (outbox (b_mesh b)))\<rparr>"

lemma codec_benv_simps [simp]:
  "e_lib (be_mesh (codec_benv ds ms)) = codec_lib ds ms"
  "e_lib (mesh_env (codec_benv ds ms) b) = codec_lib ds ms"
  "fw_LoginsInPortal (be_fw (codec_benv ds ms)) w k = Inr [''u'']"
  by (simp_all add: codec_benv_def codec_env_def mesh_env_def)

lemma codec_reader_facts:
  "can_read (codec_lib ds ms) sample_channel (b_mesh sample_reader)" "\<not> b_panic sample_reader"
  "p_From (np_MeshPacket p) = 0x7550f83b \<Longrightarrow> foreign_new (mesh_env (codec_benv ds ms) sample_reader) p (b_mesh sample_reader)"
  by (simp_all add: codec_lib_reads sample_reader_def sample_bridge_def sample_client_def NewMeshtasticClient_def
      foreign_new_def isDuplicatePacket_def mesh_env_def IsManagedNode_def codec_benv_def codec_env_def sample_env_def
      sample_has_def)

text \<open>The writer's messages.\<close>

definition crossing_message :: MatrixMessage where
  "crossing_message = sample_matrix_message
     \<lparr>mm_Portal := \<lparr>po_Key = \<lparr>pk_ID = MakePortalID ''LongFast'' (Some ''AQ==''), pk_Receiver = []\<rparr>,
                   po_RoomType = RoomTypeDefault, po_MXID = ''!room''\<rparr>\<rparr>"

definition crossing_benv :: "(sample_cache, ghost list) benv" where
  "crossing_benv = codec_benv [data_of ''hi'' (PacketInfo0 TEXT_MESSAGE_APP PSKEncryption 0x7550f83b BROADCAST_ID)] []"

lemma crossing_route:
  "ChannelDefFromPortalID (codec_lib ds ms) (pk_ID (po_Key (mm_Portal crossing_message))) = Inr sample_channel"
proof -
  have "ParsePortalID (MakePortalID ''LongFast'' (Some ''AQ=='')) = ((''LongFast'', ''AQ==''), None)"
    by (rule channel_portal.dec_enc [of "(''LongFast'', ''AQ=='')", simplified])
      (simp add: portal_parts_ok_def portal_name_ok_def separatorPortalID_def HasPrefix_def)
  then show ?thesis by (simp add: ChannelDefFromPortalID_def codec_lib_channel crossing_message_def)
qed

lemma sample_managed_facts:
  "meshConnectors (b_mesh sample_managed) = []" "rng (b_mesh sample_managed) = (\<lambda>i. 5)"
  "primary (b_mesh sample_managed) = Some sample_channel" "e_managed (mesh_env (codec_benv ds ms) sample_managed) 0x7550f83b"
  by (simp_all add: sample_managed_def sample_bridge_def sample_client_def NewMeshtasticClient_def primary_def
      mesh_env_def IsManagedNode_def sample_MXID)

lemma crossing_sent:
  "\<exists>pid n pkt. HandleMatrixMessage crossing_benv crossing_message sample_managed =
     (MatrixSent (MakeMessageID ''LongFast'' pid) (MakeUserID 0x7550f83b),
      sample_managed\<lparr>b_mesh := (b_mesh sample_managed)\<lparr>currentPacketId := pid, rngPos := n, outbox := [(''LongFast'', pkt)]\<rparr>\<rparr>) \<and>
     p_From pkt = 0x7550f83b"
proof -
  let ?i = "PacketInfo0 TEXT_MESSAGE_APP PSKEncryption 0x7550f83b BROADCAST_ID"
  let ?E = "mesh_env crossing_benv sample_managed"
  have enc: "sample_encode [data_of ''hi'' ?i] (data_of ''hi'' ?i) = Inr ''a''"
    by (simp add: sample_encode_def sample_letters_def)
  obtain pid n pkt where s: "SendMessage ?E 0x7550f83b BROADCAST_ID (Some sample_channel) ''hi'' 0 False (b_mesh sample_managed) =
      ((pid, None), (b_mesh sample_managed)\<lparr>currentPacketId := pid, rngPos := n, outbox := outbox (b_mesh sample_managed) @ [(''LongFast'', pkt)]\<rparr>)"
    "p_From pkt = 0x7550f83b"
    using codec_sendBytes [OF _ _ enc _ _ sample_managed_facts(1,2), of ?E "[]"] sample_managed_facts(4)
    by (auto simp: crossing_benv_def SendMessage_def PacketInfo0_def)
  have "message_route crossing_benv (mm_Portal crossing_message) sample_managed =
      (Ok \<lparr>rt_channel = Some sample_channel, rt_name = ''LongFast'', rt_target = BROADCAST_ID, rt_usePKI = False\<rparr>, sample_managed)"
    using crossing_route by (simp add: message_route_def crossing_benv_def crossing_message_def)
  moreover have "fw_ExistingUser (be_fw crossing_benv) w u = None" for w u
    by (simp add: crossing_benv_def codec_benv_def sample_framework_def)
  ultimately show ?thesis
    using s sample_managed_mesh(2)
    by (intro exI [of _ pid] exI [of _ n] exI [of _ pkt]) (simp add: HandleMatrixMessage_def send_content_def on_mesh_def crossing_message_def sample_matrix_message_def
        sample_content_def ToMeshtastic_def parseText_def sample_MXID)
qed

theorem room_message_crosses_witness:
  "\<exists>mid evt. b_queued (receive_packet crossing_benv
       (last_packet (snd (HandleMatrixMessage crossing_benv crossing_message sample_managed))) sample_reader) =
     [room_message crossing_benv evt (sample_login ''u'')] \<and>
   ev_Message evt = ''hi'' \<and> MakeUserID (ev_From evt) = MakeUserID 0x7550f83b \<and>
   fst (HandleMatrixMessage crossing_benv crossing_message sample_managed) = MatrixSent mid (MakeUserID 0x7550f83b) \<and>
   MakeMessageID (ev_ChannelName evt) (ev_PacketId evt) = mid"
proof -
  let ?h = "HandleMatrixMessage crossing_benv crossing_message sample_managed"
  obtain pid n pkt where h: "?h = (MatrixSent (MakeMessageID ''LongFast'' pid) (MakeUserID 0x7550f83b),
      sample_managed\<lparr>b_mesh := (b_mesh sample_managed)\<lparr>currentPacketId := pid, rngPos := n, outbox := [(''LongFast'', pkt)]\<rparr>\<rparr>)"
    "p_From pkt = 0x7550f83b"
    using crossing_sent by blast
  have msg: "is_text crossing_message" "po_RoomType (mm_Portal crossing_message) = RoomTypeDefault"
    "ToMeshtastic crossing_benv (mm_Content crossing_message) = ''hi''"
    by (simp_all add: is_text_def crossing_message_def sample_matrix_message_def sample_content_def ToMeshtastic_def parseText_def)
  have p: "np_MeshPacket (last_packet (snd ?h)) = pkt" by (simp add: h last_packet_def)
  have l: "ChannelDefFromPortalID (e_lib (be_mesh crossing_benv)) (pk_ID (po_Key (mm_Portal crossing_message))) = Inr sample_channel"
    "cipher_laws (e_lib (be_mesh crossing_benv))" "can_read (e_lib (be_mesh crossing_benv)) sample_channel (b_mesh sample_reader)"
    by (simp_all add: crossing_benv_def crossing_route codec_lib_ciphers codec_reader_facts(1))
  have f: "foreign_new (mesh_env crossing_benv sample_reader) (last_packet (snd ?h)) (b_mesh sample_reader)"
    unfolding crossing_benv_def by (rule codec_reader_facts(3)) (use p h(2) in \<open>simp add: crossing_benv_def\<close>)
  have m: "fw_LoginsInPortal (be_fw crossing_benv) w = (\<lambda>k. Inr [''u''])" for w by (simp add: crossing_benv_def fun_eq_iff)
  have n: "np_MeshPacket (last_packet (snd ?h)) = snd (last (outbox (b_mesh (sample_managed\<lparr>b_mesh := (b_mesh sample_managed)
      \<lparr>currentPacketId := pid, rngPos := n, outbox := [(''LongFast'', pkt)]\<rparr>\<rparr>))))" using p by simp
  obtain evt where "b_queued (receive_packet crossing_benv (last_packet (snd ?h)) sample_reader) =
      b_queued sample_reader @ map (room_message crossing_benv evt)
        (filter (\<lambda>l. room_member (\<lambda>k. Inr [''u''])
           (makePortalKey crossing_benv l (GetName sample_channel) (Some (GetKeyString sample_channel))) l) (b_clients sample_reader))"
    "ev_Message evt = ''hi''" "MakeUserID (ev_From evt) = MakeUserID 0x7550f83b"
    "MakeMessageID (ev_ChannelName evt) (ev_PacketId evt) = MakeMessageID ''LongFast'' pid"
    using room_message_crosses [OF h(1) msg(1,2) l(1) refl l(2,3) n f m codec_reader_facts(2)] msg(3) by auto
  then show ?thesis
    using h(1) by (intro exI [of _ "MakeMessageID ''LongFast'' pid"] exI [of _ evt])
      (simp add: room_member_def sample_reader_def sample_bridge_def sample_login_def)
qed

section \<open>Names\<close>

text \<open>The framework finds or makes a ghost when it is asked for one.\<close>

definition ghosts_available :: "'w framework \<Rightarrow> string \<Rightarrow> bool" where
  "ghosts_available F i \<longleftrightarrow>
     (\<forall>w. (\<exists>g. fw_GetExistingGhost F w i = Inr g) \<and> (\<exists>g w'. fw_GetGhost F w i = (Inr g, w')))"

lemma getRemoteGhost_available:
  "ghosts_available (be_fw B) i \<Longrightarrow> \<exists>g. fst (getRemoteGhost B i r b) = Inr g"
  unfolding getRemoteGhost_def ghosts_available_def Let_def
  by (auto split: sum.split option.split prod.split) (metis Inl_Inr_False Pair_inject)+

text \<open>When a row can be stored: the limits of its columns, and no other node under its user name.\<close>

lemma node_SetAll_ok:
  assumes "db_fault db = None" "node_constraints db (node_row m) (filter (\<lambda>r. mn_NodeID r \<noteq> mn_NodeID m) (db_nodes d))"
  shows "\<exists>d'. node_SetAll db m d = (None, d')"
  using assms by (simp add: node_SetAll_def put_node_def exec_def upsert_def Let_def split: option.split)

lemma deliver_ignored:
  assumes "\<And>l b. handleMeshEvent B l evt b = b"
  shows "deliver_event B evt b = (if b_panic b then b else handleGlobalMeshEvent B evt b)"
proof -
  have "fold (login_handler B evt) ls b' = b'" for ls b'
    by (induction ls) (simp_all add: login_handler_def assms)
  then show ?thesis by (simp add: deliver_event_def)
qed

text \<open>
  C5: a user is known by the same names everywhere.  When the registration of names on one bridge
  succeeds and its announcement reaches a second bridge that reads the primary channel, and whose
  table can take a row for the node, then afterwards that table has the names, the user name
  and the public key under which the node is registered on the first bridge, and every other row is
  as it was.
\<close>

theorem names_cross:
  assumes reg: "UpdateGhostMeshNames BA (MakeUserID n) mxid lname sname a = (None, a')" "db_absent_nil (be_dbms BA)"
      "primary (b_mesh a') = Some ch"
    and lib: "e_lib (be_mesh BB) = e_lib (be_mesh BA)" "cipher_laws (e_lib (be_mesh BA))" "proto_laws (e_lib (be_mesh BA))"
    and net: "can_read (e_lib (be_mesh BB)) ch (b_mesh b)" "np_MeshPacket p = snd (last (outbox (b_mesh a')))"
      "foreign_new (mesh_env BB b) p (b_mesh b)"
    and world: "\<not> b_panic b" "ghosts_available (be_fw BB) (MakeUserID n)"
    and db: "db_fault (be_dbms BB) = None" "db_absent_nil (be_dbms BB)" "node_id_ok n"
      "db_varchar (be_dbms BB) 20 (NodeID_String n)" "db_varchar (be_dbms BB) 39 lname" "db_varchar (be_dbms BB) 4 sname"
      "\<And>r. db_varchar (be_dbms BB) 20 (RoleString (e_lib (be_mesh BB)) r)"
      "\<And>r. r \<in> set (db_nodes (b_db b)) \<Longrightarrow> mn_UserID r = NodeID_String n \<Longrightarrow> mn_NodeID r = n"
  shows "\<exists>ra rb. look_node (b_db a') n = Some ra \<and> look_node (b_db (receive_packet BB p b)) n = Some rb \<and>
    mn_LongName rb = lname \<and> mn_LongName ra = lname \<and> mn_ShortName rb = sname \<and> mn_ShortName ra = sname \<and>
    mn_UserID rb = NodeID_String n \<and> mn_PublicKey rb = mn_PublicKey ra \<and>
    (\<forall>k. k \<noteq> n \<longrightarrow> look_node (b_db (receive_packet BB p b)) k = look_node (b_db b) k)"
proof -
  obtain m b2 where look: "look_node (b_db a') n = Some (node_row m)"
    and "\<forall>k. k \<noteq> n \<longrightarrow> look_node (b_db a') k = look_node (b_db a) k"
    and m: "named_row BA n (look_node (b_db a) n) lname sname = Inr m"
    and sent: "on_mesh BA (\<lambda>E. SendNodeInfo E n BROADCAST_ID lname sname False (mn_PublicKey m)) b2 = (None, a')"
    by (rule UpdateGhostMeshNames_row [OF reg(1,2)])
  obtain c where c: "SendNodeInfo (mesh_env BA b2) n BROADCAST_ID lname sname False (mn_PublicKey m) (b_mesh b2) = (None, c)"
    and a': "a' = b2\<lparr>b_mesh := c\<rparr>" using sent by (auto simp: on_mesh_eq)
  have prim: "primary (b_mesh b2) = Some ch"
    using reg(3) c a' by (auto simp: SendNodeInfo_def primary_def Let_def split: if_splits prod.splits)
      (metis sendProtoMessage_frame(4) snd_conv)+
  have ra: "mn_LongName (node_row m) = lname" "mn_ShortName (node_row m) = sname"
    "mn_PublicKey (node_row m) = mn_PublicKey m"
    using named_row_fields(1,2) [OF m] by (simp_all add: node_row_def)
  obtain evt where h: "handleMeshPacket (mesh_env BB b) p (b_mesh b) =
      notifyEvent (NodeInfoEvent evt) (cachePacket (mesh_env BB b) p (b_mesh b))"
    and e: "ev_From evt = n" "ev_To evt = BROADCAST_ID" "ev_UserID evt = NodeID_String n" "ev_LongName evt = lname"
      "ev_ShortName evt = sname" "ev_PublicKey evt = mn_PublicKey m" "\<exists>r. ev_Role evt = RoleString (e_lib (be_mesh BB)) r"
    using node_info_exchange [OF c prim _ _ _ _ _ net(3)] lib net(1,2) a' by auto
  let ?b = "b\<lparr>b_mesh := notifyEvent (NodeInfoEvent evt) (cachePacket (mesh_env BB b) p (b_mesh b))\<rparr>"
  have rec: "receive_packet BB p b = handleMeshNodeInfo BB evt ?b"
    using receive_packet_one [OF h] world(1)
    by (simp add: deliver_ignored handleMeshEvent_def handleGlobalMeshEvent_def)
  let ?mn = "known_or_new BB (ev_From evt) ?b"
  have mn: "mn_NodeID ?mn = n"
    using db(1,2) by (auto simp: known_or_new_def db_get_def GetByNodeID_look QueryOne_def query_def e
        look_node_def find_Some_iff split: option.split)
  have up: "mn_UserID (nodeInfo_update ?mn evt) = NodeID_String n" "mn_LongName (nodeInfo_update ?mn evt) = lname"
    "mn_ShortName (nodeInfo_update ?mn evt) = sname" "mn_Role (nodeInfo_update ?mn evt) = ev_Role evt"
    "mn_NodeID (nodeInfo_update ?mn evt) = n"
    using e mn by (auto simp: nodeInfo_update_def nodeInfo_changed_def)
  have "\<exists>d. node_SetAll (be_dbms BB) (nodeInfo_update ?mn evt) (b_db ?b) = (None, d)"
    by (rule node_SetAll_ok)
      (use db(1,3-8) e(7) up in \<open>auto simp: node_constraints_def node_row_def\<close>)
  then obtain d where d: "node_SetAll (be_dbms BB) (nodeInfo_update ?mn evt) (b_db ?b) = (None, d)" by blast
  obtain g where "fst (getRemoteGhost BB (MakeUserID (ev_From evt)) (ev_To evt \<noteq> fst (GetBaseNodeID BB ?b))
      (snd (GetBaseNodeID BB ?b))) = Inr g"
    using getRemoteGhost_available [of BB "MakeUserID n"] world(2) e(1) by metis
  note row = node_info_row [OF this db(1,2) d]
  show ?thesis
    using row look ra e unfolding rec by auto
qed

definition naming_benv :: "(sample_cache, ghost list) benv" where
  "naming_benv = sample_benv\<lparr>be_mesh := codec_env
     [data_of ''a'' ((PacketInfo0 NODEINFO_APP PSKEncryption 3 BROADCAST_ID)\<lparr>pi_WantResponse := False\<rparr>)]
     [MsgUser (nodeInfo_user sample_client 3 ''Alice'' ''A'' ''pub'')]\<rparr>"

definition naming_reader :: "(sample_cache, ghost list) bridge" where
  "naming_reader = sample_bridge\<lparr>b_managedNodeCache := [3 \<mapsto> False]\<rparr>"

lemma naming_sent:
  "\<exists>c pkt. UpdateGhostMeshNames naming_benv (MakeUserID 3) ''@a:b'' ''Alice'' ''A'' sample_bridge =
     (None, sample_registered\<lparr>b_mesh := c\<rparr>) \<and> primary c = Some sample_channel \<and> outbox c = [(''LongFast'', pkt)] \<and> p_From pkt = 3"
proof -
  let ?i = "(PacketInfo0 NODEINFO_APP PSKEncryption 3 BROADCAST_ID)\<lparr>pi_WantResponse := False\<rparr>"
  let ?m = "MsgUser (nodeInfo_user sample_client 3 ''Alice'' ''A'' ''pub'')"
  have B: "be_fw naming_benv = sample_framework" "be_dbms naming_benv = sample_dbms"
    "be_KeyPair naming_benv = Inr (''pub'', ''priv'')" "e_lib (mesh_env naming_benv b) = codec_lib [data_of ''a'' ?i] [?m]" for b
    by (simp_all add: naming_benv_def sample_benv_def codec_env_def mesh_env_def)
  note st = sample_names_stored [OF B(1-3)]
  have enc: "sample_encode [?m] ?m = Inr ''a''" "sample_encode [data_of ''a'' ?i] (data_of ''a'' ?i) = Inr ''a''"
    by (simp_all add: sample_encode_def sample_letters_def)
  have c: "meshConnectors sample_client = []" "rng sample_client = (\<lambda>i. 5)" "outbox sample_client = []"
    "primary sample_client = Some sample_channel" "nodeInfoSendCache sample_client = Map.empty"
    "b_mesh sample_registered = sample_client"
    by (simp_all add: sample_client_def NewMeshtasticClient_def primary_def sample_registered_def sample_bridge_def)
  obtain pid n pkt where "sendBytes (mesh_env naming_benv sample_registered) (Some sample_channel) ''a'' ?i sample_client =
      ((pid, None), sample_client\<lparr>currentPacketId := pid, rngPos := n, outbox := outbox sample_client @ [(''LongFast'', pkt)]\<rparr>)"
    "p_From pkt = 3"
    using codec_sendBytes [OF B(4) [of sample_registered] _ enc(2) _ _ c(1,2)] st(2)
    by (simp add: PacketInfo0_def del: codec_benv_simps) blast
  then have "SendNodeInfo (mesh_env naming_benv sample_registered) 3 BROADCAST_ID ''Alice'' ''A'' False ''pub'' sample_client =
      (None, sample_client\<lparr>currentPacketId := pid, rngPos := n, outbox := [(''LongFast'', pkt)],
         nodeInfoSendCache := [3 \<mapsto> be_now naming_benv]\<rparr>)"
    using B(4) [simplified] enc(1) by (simp add: SendNodeInfo_def sendProtoMessage_def c)
  then show ?thesis
    using c(4) \<open>p_From pkt = 3\<close> unfolding st(1)
    by (intro exI [of _ "sample_client\<lparr>currentPacketId := pid, rngPos := n, outbox := [(''LongFast'', pkt)],
         nodeInfoSendCache := [3 \<mapsto> be_now naming_benv]\<rparr>"] exI [of _ pkt]) (simp add: on_mesh_def c(6) primary_def)
qed

theorem names_cross_witness:
  "\<exists>a' rb. UpdateGhostMeshNames naming_benv (MakeUserID 3) ''@a:b'' ''Alice'' ''A'' sample_bridge = (None, a') \<and>
     look_node (b_db (receive_packet naming_benv (last_packet a') naming_reader)) 3 = Some rb \<and>
     mn_LongName rb = ''Alice'' \<and> mn_ShortName rb = ''A'' \<and> look_node (b_db naming_reader) 3 = None"
proof -
  obtain c pkt where c: "UpdateGhostMeshNames naming_benv (MakeUserID 3) ''@a:b'' ''Alice'' ''A'' sample_bridge =
     (None, sample_registered\<lparr>b_mesh := c\<rparr>)" "primary c = Some sample_channel" "outbox c = [(''LongFast'', pkt)]" "p_From pkt = 3"
    using naming_sent by blast
  let ?a = "sample_registered\<lparr>b_mesh := c\<rparr>"
  have p: "np_MeshPacket (last_packet ?a) = snd (last (outbox (b_mesh ?a)))" by (simp add: last_packet_def)
  have lib: "cipher_laws (e_lib (be_mesh naming_benv))" "proto_laws (e_lib (be_mesh naming_benv))"
    "can_read (e_lib (be_mesh naming_benv)) sample_channel (b_mesh naming_reader)"
    by (simp_all add: naming_benv_def codec_env_def codec_lib_ciphers codec_lib_protos codec_lib_reads naming_reader_def
        sample_bridge_def sample_client_def NewMeshtasticClient_def)
  have net: "foreign_new (mesh_env naming_benv naming_reader) (last_packet ?a) (b_mesh naming_reader)"
    using c(3,4) by (simp add: foreign_new_def isDuplicatePacket_def mesh_env_def IsManagedNode_def last_packet_def
        naming_benv_def codec_env_def sample_benv_def sample_env_def sample_has_def naming_reader_def sample_bridge_def
        sample_client_def NewMeshtasticClient_def)
  have world: "\<not> b_panic naming_reader" "ghosts_available (be_fw naming_benv) i" for i
    by (auto simp: naming_reader_def sample_bridge_def ghosts_available_def naming_benv_def sample_benv_def
        sample_framework_def Let_def split: option.split)
  have db: "be_dbms naming_benv = sample_dbms" "b_db naming_reader = \<lparr>db_nodes = [], db_waypoints = []\<rparr>"
    "RoleString (e_lib (be_mesh naming_benv)) r = ''CLIENT''" for r
    by (simp_all add: naming_benv_def sample_benv_def naming_reader_def sample_bridge_def codec_env_def codec_lib_def
        sample_lib_def radio.extend_def lib.fields_def sample_radio_def)
  show ?thesis
    using names_cross [OF c(1) _ _ refl lib p net world] c(1,2)
    by (auto simp: db sample_dbms_def node_id_ok_def BROADCAST_ID_def NodeID_String_def look_node_def)
qed

section \<open>Traceroutes\<close>

lemma display_name_notices: "getNodeDisplayName B (b\<lparr>b_notices := ns\<rparr>) = getNodeDisplayName B b"
  by (rule ext) (simp add: getNodeDisplayName_def db_get_def)

text \<open>The bridge that is asked keeps everything but its client, which answers.\<close>

lemma traceroute_request_received:
  assumes "SendTraceroute EA src t (Some ch) a = ((pid, None), a')" "t \<noteq> BROADCAST_ID"
    and "e_lib (be_mesh BB) = e_lib EA" "cipher_laws (e_lib EA)" "proto_laws (e_lib EA)"
    and "can_read (e_lib EA) ch (b_mesh b)" "fst (ChannelHash (e_lib EA) (GetName ch) (GetKeyBytes ch)) \<noteq> 0"
    and "np_MeshPacket p = snd (last (outbox a'))" "foreign_new (mesh_env BB b) p (b_mesh b)" "\<not> b_panic b"
  obtains env r where "receive_packet BB p b = b\<lparr>b_mesh := notifyEvent (EnvelopeValue env)
      (handleTracerouteRequest (mesh_env BB b) (on_channel ch p) r (cachePacket (mesh_env BB b) p (b_mesh b)))\<rparr>"
    "p_From (np_MeshPacket p) = src" "p_To (np_MeshPacket p) = t" "p_Id (np_MeshPacket p) = pid"
    "src \<noteq> nodeId a \<Longrightarrow> r = \<lparr>Route = [nodeId a], SnrTowards = [0], RouteBack = [], SnrBack = []\<rparr>"
proof -
  obtain env r where h: "handleMeshPacket (mesh_env BB b) p (b_mesh b) = notifyEvent (EnvelopeValue env)
        (handleTracerouteRequest (mesh_env BB b) (on_channel ch p) r (cachePacket (mesh_env BB b) p (b_mesh b)))"
    and f: "p_From (np_MeshPacket p) = src" "p_To (np_MeshPacket p) = t" "p_Id (np_MeshPacket p) = pid"
      "src \<noteq> nodeId a \<Longrightarrow> r = \<lparr>Route = [nodeId a], SnrTowards = [0], RouteBack = [], SnrBack = []\<rparr>"
    by (rule traceroute_request_exchange [OF assms(1,2), where EB = "mesh_env BB b" and b = "b_mesh b" and p = p])
      (use assms in auto)
  have ev: "events (handleTracerouteRequest (mesh_env BB b) (on_channel ch p) r (cachePacket (mesh_env BB b) p (b_mesh b))) =
      events (b_mesh b)"
    by (simp add: handleTracerouteRequest_def SendAck_def Let_def split: option.splits)
  show thesis
    by (rule that [OF _ f])
      (use receive_packet_one [OF h ev] assms(10) in
        \<open>simp add: deliver_ignored handleMeshEvent_def handleGlobalMeshEvent_def\<close>)
qed

text \<open>
  C4: a traceroute between users of two bridges completes.  When the command of a user is accepted
  and its packet reaches a bridge that answers for the target, which sends its acknowledgement and
  the route, and the second of these reaches the first bridge while the request is still pending,
  then exactly one notice is shown there, in the room the command was given in, and it is the
  rendering of a route that contains the bridges of both users (where they act for another node).
\<close>

theorem traceroute_returns:
  assumes cmd: "fnTraceroute BA ce a = (rs, a1)" "b_tracker a1 \<noteq> b_tracker a"
      "trace_channel BA (ce_Portal ce) a = Inr ch"
    and lib: "e_lib (be_mesh BB) = e_lib (be_mesh BA)" "e_lib (be_mesh BA2) = e_lib (be_mesh BA)"
      "cipher_laws (e_lib (be_mesh BA))" "proto_laws (e_lib (be_mesh BA))"
      "NewChannelDef (e_lib (be_mesh BA)) (GetName ch) (Some (GetKeyString ch)) = Inr ch"
      "fst (ChannelHash (e_lib (be_mesh BA)) (GetName ch) (GetKeyBytes ch)) \<noteq> 0"
    and there: "np_MeshPacket p = snd (last (outbox (b_mesh a1)))" "foreign_new (mesh_env BB b) p (b_mesh b)"
      "can_read (e_lib (be_mesh BB)) ch (b_mesh b)" "\<not> b_panic b"
      "p_To (np_MeshPacket p) \<noteq> BROADCAST_ID" "p_From (np_MeshPacket p) \<noteq> BROADCAST_ID" "p_Id (np_MeshPacket p) \<noteq> 0"
      "b' = receive_packet BB p b" "length (outbox (b_mesh b')) = length (outbox (b_mesh b)) + 2"
    and answer: "np_MeshPacket q = snd (last (outbox (b_mesh b')))" "foreign_new (mesh_env BA2 a2) q (b_mesh a2)"
      "can_read (e_lib (be_mesh BA2)) ch (b_mesh a2)" "\<not> b_panic a2" "b_tracker a2 = b_tracker a1"
  shows "\<exists>evt req. b_notices (receive_packet BA2 q a2) =
      b_notices a2 @ [(ce_RoomID ce, formatTracerouteResponse (getNodeDisplayName BA2 (receive_packet BA2 q a2)) evt req)] \<and>
    tr_TargetNode req = p_To (np_MeshPacket p) \<and> ev_From evt = p_To (np_MeshPacket p) \<and>
    (p_From (np_MeshPacket p) \<noteq> nodeId (b_mesh a) \<longrightarrow> nodeId (b_mesh a) \<in> set (ev_Route evt)) \<and>
    (p_To (np_MeshPacket p) \<noteq> nodeId (b_mesh b) \<longrightarrow> nodeId (b_mesh b) \<in> set (ev_Route evt))"
proof -
  let ?me = "MXIDToNodeID (ce_UserMXID ce)"
  obtain t pid b1 where s: "on_mesh BA (\<lambda>E. SendTraceroute E ?me t (Some ch)) a = ((pid, None), b1)"
    and a1: "a1 = b1\<lparr>b_tracker := AddRequest \<lparr>tr_PacketID = pid, tr_FromNode = ?me, tr_TargetNode = t,
      tr_RoomID = ce_RoomID ce, tr_Timestamp = be_now BA, tr_Channel = Some ch\<rparr> (b_tracker b1)\<rparr>"
    using fnTraceroute_tracked [OF cmd(1,2)] cmd(3) by auto
  obtain c1 where c1: "SendTraceroute (mesh_env BA a) ?me t (Some ch) (b_mesh a) = ((pid, None), c1)"
    and b1: "b1 = a\<lparr>b_mesh := c1\<rparr>" using s by (auto simp: on_mesh_eq)
  have last: "np_MeshPacket p = snd (last (outbox c1))" using there(1) a1 b1 by simp
  have "t \<noteq> BROADCAST_ID"
    using there(5) last c1 by (auto simp: SendTraceroute_def dest!: sendProtoMessage_success)
  then obtain env r where b'': "receive_packet BB p b = b\<lparr>b_mesh := notifyEvent (EnvelopeValue env)
        (handleTracerouteRequest (mesh_env BB b) (on_channel ch p) r (cachePacket (mesh_env BB b) p (b_mesh b)))\<rparr>"
    and f: "p_From (np_MeshPacket p) = ?me" "p_To (np_MeshPacket p) = t" "p_Id (np_MeshPacket p) = pid"
      "?me \<noteq> nodeId (b_mesh a) \<Longrightarrow> r = \<lparr>Route = [nodeId (b_mesh a)], SnrTowards = [0], RouteBack = [], SnrBack = []\<rparr>"
    by (rule traceroute_request_received [OF c1, where BB = BB and b = b and p = p]) (use lib there last in auto)
  let ?c = "cachePacket (mesh_env BB b) p (b_mesh b)"
  let ?b1 = "handleTracerouteRequest (mesh_env BB b) (on_channel ch p) r ?c"
  have b': "b' = b\<lparr>b_mesh := notifyEvent (EnvelopeValue env) ?b1\<rparr>" using b'' there(8) by simp
  have len: "length (outbox ?b1) = length (outbox ?c) + 2"
    and q: "np_MeshPacket q = snd (last (outbox ?b1))"
    using there(9) answer(1) b' by (simp_all add: notifyEvent_def cachePacket_def)
  obtain evt where g: "handleMeshPacket (mesh_env BA2 a2) q (b_mesh a2) =
        notifyEvent (TracerouteEvent evt) (cachePacket (mesh_env BA2 a2) q (b_mesh a2))"
    and e: "ev_RequestId evt = p_Id (np_MeshPacket p)" "ev_From evt = p_To (np_MeshPacket p)"
      "prefix (Route r) (ev_Route evt)" "p_To (np_MeshPacket p) \<noteq> nodeId ?c \<Longrightarrow> nodeId ?c \<in> set (ev_Route evt)"
    by (rule traceroute_answer_exchange [OF refl len there(6,7) _ _ _ _ _ _ q answer(2)])
      (use lib answer(3) in auto)
  have rec: "receive_packet BA2 q a2 = handleMeshTraceroute BA2 evt
      (a2\<lparr>b_mesh := notifyEvent (TracerouteEvent evt) (cachePacket (mesh_env BA2 a2) q (b_mesh a2))\<rparr>)"
    using receive_packet_one [OF g] answer(4)
    by (simp add: deliver_ignored handleMeshEvent_def handleGlobalMeshEvent_def)
  let ?req = "\<lparr>tr_PacketID = pid, tr_FromNode = ?me, tr_TargetNode = t,
      tr_RoomID = ce_RoomID ce, tr_Timestamp = be_now BA, tr_Channel = Some ch\<rparr>"
  have "pendingRequests (b_tracker a2) (ev_RequestId evt) = Some ?req"
    using answer(5) a1 e(1) f(3) by (simp add: AddRequest_def)
  then have "b_notices (receive_packet BA2 q a2) = b_notices a2 @
      [(ce_RoomID ce, formatTracerouteResponse (getNodeDisplayName BA2 (receive_packet BA2 q a2)) evt ?req)]"
    unfolding rec by (simp add: handleMeshTraceroute_def GetAndRemoveRequest_def sendNoticeToRoom_def display_name_notices Let_def)
  moreover have "nodeId (b_mesh a) \<in> set (ev_Route evt)" if "?me \<noteq> nodeId (b_mesh a)"
    using f(4) [OF that] e(3) set_mono_prefix [OF e(3)] by simp
  moreover have "nodeId ?c = nodeId (b_mesh b)" by (simp add: cachePacket_def)
  ultimately show ?thesis using e f by (intro exI [of _ evt] exI [of _ ?req]) auto
qed

definition tracing_route :: RouteDiscovery where
  "tracing_route = \<lparr>Route = [2, 200, 9], SnrTowards = [0, 0, 0, 0], RouteBack = [9], SnrBack = [0]\<rparr>"

definition tracing_benv :: "(sample_cache, ghost list) benv" where
  "tracing_benv = codec_benv
     [data_of ''a'' ((PacketInfo0 TRACEROUTE_APP PSKEncryption 0x7550f83b 20)\<lparr>pi_WantResponse := True\<rparr>),
      data_of ''b'' ((PacketInfo0 ROUTING_APP PSKEncryption 20 0x7550f83b)\<lparr>pi_RequestId := 5162\<rparr>),
      data_of ''c'' ((PacketInfo0 TRACEROUTE_APP PSKEncryption 20 0x7550f83b)\<lparr>pi_RequestId := 5162\<rparr>)]
     [MsgRouteDiscovery \<lparr>Route = [2], SnrTowards = [0], RouteBack = [], SnrBack = []\<rparr>, MsgRouting ROUTING_NONE,
      MsgRouteDiscovery tracing_route]"

text \<open>The bridge that answers for node 20, and its client.\<close>

definition tracing_target :: "(sample_cache, ghost list) bridge" where
  "tracing_target = sample_bridge
     \<lparr>b_mesh := sample_client\<lparr>nodeId := 9\<rparr>, b_managedNodeCache := [20 \<mapsto> True, 0x7550f83b \<mapsto> False]\<rparr>"

lemma tracing_codec:
  "sample_encode [a, b, c] a = Inr ''a''" "b \<noteq> a \<Longrightarrow> sample_encode [a, b, c] b = Inr ''b''"
  "c \<noteq> a \<Longrightarrow> c \<noteq> b \<Longrightarrow> sample_encode [a, b, c] c = Inr ''c''"
  by (simp_all add: sample_encode_def sample_letters_def)


lemma tracing_env_simps:
  "e_lib (mesh_env tracing_benv b) = e_lib (be_mesh tracing_benv)"
  "e_managed (mesh_env tracing_benv tracing_target) 20" "e_managed (mesh_env tracing_benv sample_managed) 0x7550f83b"
  unfolding tracing_benv_def
  by (simp, simp add: mesh_env_def IsManagedNode_def tracing_target_def, rule sample_managed_facts(4))

lemma tracing_lib: "e_lib (be_mesh tracing_benv) = codec_lib
     [data_of ''a'' ((PacketInfo0 TRACEROUTE_APP PSKEncryption 0x7550f83b 20)\<lparr>pi_WantResponse := True\<rparr>),
      data_of ''b'' ((PacketInfo0 ROUTING_APP PSKEncryption 20 0x7550f83b)\<lparr>pi_RequestId := 5162\<rparr>),
      data_of ''c'' ((PacketInfo0 TRACEROUTE_APP PSKEncryption 20 0x7550f83b)\<lparr>pi_RequestId := 5162\<rparr>)]
     [MsgRouteDiscovery \<lparr>Route = [2], SnrTowards = [0], RouteBack = [], SnrBack = []\<rparr>, MsgRouting ROUTING_NONE,
      MsgRouteDiscovery tracing_route]"
  by (simp add: tracing_benv_def)

lemma tracing_data_distinct:
  "data_of ''b'' i \<noteq> data_of ''a'' j" "data_of ''c'' i \<noteq> data_of ''a'' j" "data_of ''c'' i \<noteq> data_of ''b'' j"
  by (auto dest: arg_cong [of _ _ d_Payload])

text \<open>The command is accepted and its packet is number 5162.\<close>

lemma tracing_asked:
  "\<exists>c pkt rs. fnTraceroute tracing_benv sample_command sample_managed =
     (rs, sample_managed\<lparr>b_mesh := c, b_tracker := AddRequest \<lparr>tr_PacketID = 5162, tr_FromNode = 0x7550f83b,
        tr_TargetNode = 20, tr_RoomID = ''!room'', tr_Timestamp = be_now tracing_benv, tr_Channel = Some sample_channel\<rparr>
        NewTracerouteTracker\<rparr>) \<and>
     SendTraceroute (mesh_env tracing_benv sample_managed) 0x7550f83b 20 (Some sample_channel) (b_mesh sample_managed) =
       ((5162, None), c) \<and>
     outbox c = [(''LongFast'', pkt)] \<and> p_From pkt = 0x7550f83b \<and> p_To pkt = 20 \<and> p_Id pkt = 5162 \<and> p_WantAck pkt \<and>
     p_HopLimit pkt = 3 \<and> p_HopStart pkt = 4 \<and> p_RxSnr pkt = Fin 0"
proof -
  let ?i = "(PacketInfo0 TRACEROUTE_APP PSKEncryption 0x7550f83b 20)\<lparr>pi_WantResponse := True\<rparr>"
  let ?E = "mesh_env tracing_benv sample_managed"
  have c: "fst (generatePacketId sample_client) = 5162" "hopLimit sample_client = 3" "nodeId sample_client = 2"
    "b_mesh sample_managed = sample_client" "b_tracker sample_managed = NewTracerouteTracker" "outbox sample_client = []"
    "primary sample_client = Some sample_channel"
    by (simp_all add: sample_client_def NewMeshtasticClient_def generatePacketId_def randUint32_def DefaultHopLimit_def
        sample_managed_def sample_bridge_def primary_def)
  have i: "pi_From ?i = 0x7550f83b" "pi_To ?i = 20" "pi_Encrypted ?i = PSKEncryption" "wantAck_of ?i"
    by (simp_all add: PacketInfo0_def wantAck_of_def)
  have "e_managed ?E (pi_From ?i)" "length ''a'' < 233" using tracing_env_simps(3) i(1) by simp_all
  note k = codec_sendBytes [OF tracing_env_simps(1) [of sample_managed, unfolded tracing_lib] this(1)
      tracing_codec(1) this(2) i(3) sample_managed_facts(1,2)]
  obtain pid n pkt where s: "sendBytes ?E (Some sample_channel) ''a'' ?i (b_mesh sample_managed) = ((pid, None),
      (b_mesh sample_managed)\<lparr>currentPacketId := pid, rngPos := n, outbox := outbox (b_mesh sample_managed) @ [(''LongFast'', pkt)]\<rparr>)"
    and f: "p_From pkt = pi_From ?i" "p_To pkt = pi_To ?i" "p_Id pkt = pid" "p_WantAck pkt = wantAck_of ?i"
      "pid = fst (generatePacketId (b_mesh sample_managed))" "p_HopLimit pkt = hopLimit (b_mesh sample_managed)"
      "p_HopStart pkt = (if pi_From ?i \<noteq> nodeId (b_mesh sample_managed) then hopLimit (b_mesh sample_managed) + 1
         else hopLimit (b_mesh sample_managed))" "p_RxSnr pkt = Fin 0"
    using k by (elim exE conjE) (rule that)
  note f = f [unfolded c i, simplified]
  have s: "sendBytes ?E (Some sample_channel) ''a'' ?i sample_client =
      ((5162, None), sample_client\<lparr>currentPacketId := 5162, rngPos := n, outbox := [(''LongFast'', pkt)]\<rparr>)"
    using s f(5) by (simp add: c)
  have t: "SendTraceroute ?E 0x7550f83b 20 (Some sample_channel) sample_client =
      ((5162, None), sample_client\<lparr>currentPacketId := 5162, rngPos := n, outbox := [(''LongFast'', pkt)]\<rparr>)"
    using s by (simp add: SendTraceroute_def sendProtoMessage_def tracing_lib tracing_codec c)
  moreover have "trace_channel tracing_benv None sample_managed = Inr sample_channel"
    by (simp add: trace_channel_def c)
  ultimately show ?thesis
    using f i(4) by (intro exI [of _ "sample_client\<lparr>currentPacketId := 5162, rngPos := n, outbox := [(''LongFast'', pkt)]\<rparr>"]
        exI [of _ pkt] exI [of _ "fst (fnTraceroute tracing_benv sample_command sample_managed)"])
      (simp add: fnTraceroute_def sample_command_def trace_target_def sample_MXID CanSendTraceroute_def
        NewTracerouteTracker_def on_mesh_def c)
qed

text \<open>The asked bridge sends the acknowledgement and the route.\<close>

lemma tracing_answered:
  assumes "np_MeshPacket p = pkt" "np_GatewayNode p = 200" "p_From pkt = 0x7550f83b" "p_To pkt = 20" "p_Id pkt = 5162"
    "p_WantAck pkt" "p_HopLimit pkt = 3" "p_HopStart pkt = 4" "p_RxSnr pkt = Fin 0"
    and c0: "outbox c0 = []" "meshConnectors c0 = []" "rng c0 = (\<lambda>i. 5)" "primary c0 = Some sample_channel" "nodeId c0 = 9"
  shows "\<exists>ack resp. outbox (handleTracerouteRequest (mesh_env tracing_benv tracing_target) (on_channel sample_channel p)
      \<lparr>Route = [2], SnrTowards = [0], RouteBack = [], SnrBack = []\<rparr> c0) = [(''LongFast'', ack), (''LongFast'', resp)] \<and>
    p_From resp = 20"
proof -
  let ?E = "mesh_env tracing_benv tracing_target"
  let ?i = "(PacketInfo0 ROUTING_APP PSKEncryption 20 0x7550f83b)\<lparr>pi_RequestId := 5162\<rparr>"
  let ?j = "(PacketInfo0 TRACEROUTE_APP PSKEncryption 20 0x7550f83b)\<lparr>pi_RequestId := 5162\<rparr>"
  let ?r = "\<lparr>Route = [2], SnrTowards = [0], RouteBack = [], SnrBack = []\<rparr> :: RouteDiscovery"
  have i: "pi_From ?i = 20" "pi_Encrypted ?i = PSKEncryption" "pi_From ?j = 20" "pi_Encrypted ?j = PSKEncryption"
    "length ''b'' < 233" "length ''c'' < 233" "e_managed ?E (pi_From ?i)" "e_managed ?E (pi_From ?j)"
    using tracing_env_simps(2) by (simp_all add: PacketInfo0_def)
  note L = tracing_env_simps(1) [of tracing_target, unfolded tracing_lib]
  obtain pid n ack where a: "sendBytes ?E (Some sample_channel) ''b'' ?i c0 = ((pid, None),
      c0\<lparr>currentPacketId := pid, rngPos := n, outbox := outbox c0 @ [(''LongFast'', ack)]\<rparr>)"
    using codec_sendBytes [OF L i(7) tracing_codec(2) [OF tracing_data_distinct(1)] i(5,2) c0(2,3)]
    by (elim exE conjE) (rule that)
  let ?c = "c0\<lparr>currentPacketId := pid, rngPos := n, outbox := [(''LongFast'', ack)]\<rparr>"
  have c: "meshConnectors ?c = []" "rng ?c = (\<lambda>i. 5)" using c0 by simp_all
  obtain pid' n' resp where b: "sendBytes ?E (Some sample_channel) ''c'' ?j ?c = ((pid', None),
      ?c\<lparr>currentPacketId := pid', rngPos := n', outbox := outbox ?c @ [(''LongFast'', resp)]\<rparr>)" "p_From resp = pi_From ?j"
    using codec_sendBytes [OF L i(8) tracing_codec(3) [OF tracing_data_distinct(2,3)] i(6,4) c]
    by (elim exE conjE) (rule that)
  have "float32_mul (Fin 0) (Fin 4) = Fin 0" by code_simp
  then have snr: "int32_of_float oor (float32_mul (Fin 0) (Fin 4)) = 0" for oor
    by (simp add: int32_of_float_def rat_trunc_def)
  have "requestRoute (e_lib ?E) ?c (on_channel sample_channel p) ?r = tracing_route"
    by (simp add: requestRoute_def insertUnknownHops_def addGatewayToRoute_def addNodeToRouteIfMissing_def get_route_def
        set_route_def append_until_eq snr tracing_route_def assms Let_def)
  moreover have "SendAck ?E 20 0x7550f83b 5162 c0 = ((pid, None), ?c)"
    using a by (simp add: SendAck_def sendProtoMessage_def tracing_lib tracing_codec c0)
  moreover have "sendProtoMessage ?E (Some sample_channel) (MsgRouteDiscovery tracing_route) ?j ?c =
      ((pid', None), ?c\<lparr>currentPacketId := pid', rngPos := n', outbox := outbox ?c @ [(''LongFast'', resp)]\<rparr>)"
    using b by (simp add: sendProtoMessage_def tracing_lib tracing_codec tracing_route_def)
  moreover have "channel_of_packet (e_lib ?E) (on_channel sample_channel p) = Some sample_channel"
    by (simp add: channel_of_packet_def tracing_lib codec_lib_channel)
  ultimately show ?thesis
    using b(2) i tracing_env_simps(2) by (simp add: handleTracerouteRequest_def assms Let_def)
qed

lemma tracing_foreign:
  assumes "b_baseNodeID b = 2" "b_world b = []" "b_managedNodeCache b 20 = None" "packetCache (b_mesh b) = []"
    "p_From (np_MeshPacket q) = 20"
  shows "foreign_new (mesh_env tracing_benv b) q (b_mesh b)"
  using assms by (simp add: foreign_new_def isDuplicatePacket_def mesh_env_def IsManagedNode_def GetBaseNodeID_def
      cache_managed_def tracing_benv_def codec_benv_def codec_env_def sample_benv_def sample_env_def sample_has_def
      sample_framework_def sample_find_ghost_def)

theorem traceroute_returns_witness:
  "\<exists>msg. b_notices (receive_packet tracing_benv
       (last_packet (receive_packet tracing_benv (last_packet (snd (fnTraceroute tracing_benv sample_command sample_managed)))
          tracing_target))
       (snd (fnTraceroute tracing_benv sample_command sample_managed))) = [(''!room'', msg)]"
proof -
  let ?a = "snd (fnTraceroute tracing_benv sample_command sample_managed)"
  let ?p = "last_packet ?a" and ?L = "e_lib (be_mesh tracing_benv)"
  let ?b = "receive_packet tracing_benv ?p tracing_target"
  obtain c pkt rs where a: "fnTraceroute tracing_benv sample_command sample_managed =
     (rs, sample_managed\<lparr>b_mesh := c, b_tracker := AddRequest \<lparr>tr_PacketID = 5162, tr_FromNode = 0x7550f83b,
        tr_TargetNode = 20, tr_RoomID = ''!room'', tr_Timestamp = be_now tracing_benv, tr_Channel = Some sample_channel\<rparr>
        NewTracerouteTracker\<rparr>)"
    and s: "SendTraceroute (mesh_env tracing_benv sample_managed) 0x7550f83b 20 (Some sample_channel) (b_mesh sample_managed) =
       ((5162, None), c)"
    and f: "outbox c = [(''LongFast'', pkt)]" "p_From pkt = 0x7550f83b" "p_To pkt = 20" "p_Id pkt = 5162" "p_WantAck pkt"
      "p_HopLimit pkt = 3" "p_HopStart pkt = 4" "p_RxSnr pkt = Fin 0"
    using tracing_asked by (elim exE conjE) (rule that)
  have p: "np_MeshPacket ?p = pkt" "np_GatewayNode ?p = 200" using a f(1) by (simp_all add: last_packet_def sample_net_packet_def)
  have L: "cipher_laws ?L" "proto_laws ?L" "NewChannelDef ?L ''LongFast'' (Some ''AQ=='') = Inr sample_channel"
    "fst (ChannelHash ?L (GetName sample_channel) (GetKeyBytes sample_channel)) \<noteq> 0"
    by (simp_all add: tracing_lib codec_lib_ciphers codec_lib_protos codec_lib_channel)
  have c: "channels c = [(0, sample_channel)]" "packetCache c = []"
    using arg_cong [OF s, of "\<lambda>x. channels (snd x)"] arg_cong [OF s, of "\<lambda>x. packetCache (snd x)"]
    by (simp_all add: SendTraceroute_def sample_managed_def sample_bridge_def sample_client_def NewMeshtasticClient_def)
  have t: "b_mesh tracing_target = sample_client\<lparr>nodeId := 9\<rparr>" "\<not> b_panic tracing_target"
    "foreign_new (mesh_env tracing_benv tracing_target) ?p (b_mesh tracing_target)"
    "can_read ?L sample_channel (b_mesh tracing_target)"
    using p f(2) by (simp_all add: tracing_target_def sample_bridge_def foreign_new_def isDuplicatePacket_def mesh_env_def
        IsManagedNode_def tracing_benv_def codec_benv_def codec_env_def sample_env_def sample_has_def sample_client_def
        NewMeshtasticClient_def codec_lib_reads)
  let ?c0 = "cachePacket (mesh_env tracing_benv tracing_target) ?p (b_mesh tracing_target)"
  have c0: "outbox ?c0 = []" "meshConnectors ?c0 = []" "rng ?c0 = (\<lambda>i. 5)" "primary ?c0 = Some sample_channel" "nodeId ?c0 = 9"
    by (simp_all add: t(1) cachePacket_def primary_def sample_client_def NewMeshtasticClient_def)
  have n: "nodeId (b_mesh sample_managed) = 2" "(20 :: NodeID) \<noteq> BROADCAST_ID"
    by (simp_all add: sample_managed_def sample_bridge_def sample_client_def NewMeshtasticClient_def BROADCAST_ID_def)
  have p': "np_MeshPacket ?p = snd (last (outbox c))" using p(1) f(1) by simp
  obtain env r where b: "?b = tracing_target\<lparr>b_mesh := notifyEvent (EnvelopeValue env)
      (handleTracerouteRequest (mesh_env tracing_benv tracing_target) (on_channel sample_channel ?p) r ?c0)\<rparr>"
    "0x7550f83b \<noteq> nodeId (b_mesh sample_managed) \<Longrightarrow>
       r = \<lparr>Route = [nodeId (b_mesh sample_managed)], SnrTowards = [0], RouteBack = [], SnrBack = []\<rparr>"
    by (rule traceroute_request_received [OF s n(2) _ _ _ _ _ p' t(3,2)])
      (use L t(4) tracing_env_simps(1) in simp_all)
  obtain ack resp where out: "outbox (b_mesh ?b) = [(''LongFast'', ack), (''LongFast'', resp)]" "p_From resp = 20"
    using tracing_answered [OF p f(2-8) c0] b n(1) by (auto simp: notifyEvent_def)
  have q: "np_MeshPacket (last_packet ?b) = snd (last (outbox (b_mesh ?b)))" "p_From (np_MeshPacket (last_packet ?b)) = 20"
    using out by (simp_all add: last_packet_def)
  have m: "\<not> b_panic sample_managed" "b_notices sample_managed = []" "b_baseNodeID sample_managed = 2" "b_world sample_managed = []"
    "b_managedNodeCache sample_managed = [0x7550f83b \<mapsto> True]" "b_tracker sample_managed = NewTracerouteTracker"
    by (simp_all add: sample_managed_def sample_bridge_def sample_MXID)
  have a1: "b_mesh ?a = c" "\<not> b_panic ?a" "b_notices ?a = []" "b_baseNodeID ?a = 2" "b_world ?a = []"
    "b_managedNodeCache ?a = [0x7550f83b \<mapsto> True]"
    using m by (simp_all add: a)
  have a2: "can_read ?L sample_channel (b_mesh ?a)" using c a1(1) by (simp add: tracing_lib codec_lib_reads)
  have foreign: "foreign_new (mesh_env tracing_benv ?a) (last_packet ?b) (b_mesh ?a)"
    by (rule tracing_foreign) (use a1 c(2) q(2) in simp_all)
  have cmd: "fnTraceroute tracing_benv sample_command sample_managed = (rs, ?a)" by (simp add: a)
  have trk: "b_tracker ?a \<noteq> b_tracker sample_managed"
    unfolding m by (auto simp: a AddRequest_def NewTracerouteTracker_def dest: fun_cong [of _ _ 5162])
  have chan: "trace_channel tracing_benv (ce_Portal sample_command) sample_managed = Inr sample_channel"
    using sample_managed_facts(3) by (simp add: trace_channel_def sample_command_def)
  have "length (outbox (b_mesh ?b)) = length (outbox (b_mesh tracing_target)) + 2"
    "np_MeshPacket ?p = snd (last (outbox (b_mesh ?a)))"
    "NewChannelDef ?L (GetName sample_channel) (Some (GetKeyString sample_channel)) = Inr sample_channel"
    "p_To (np_MeshPacket ?p) \<noteq> BROADCAST_ID" "p_From (np_MeshPacket ?p) \<noteq> BROADCAST_ID" "p_Id (np_MeshPacket ?p) \<noteq> 0"
    using out(1) t(1) p p' a1(1) L(3) f by (simp_all add: sample_client_def NewMeshtasticClient_def BROADCAST_ID_def)
  note x = this
  obtain evt req where "b_notices (receive_packet tracing_benv (last_packet ?b) ?a) = b_notices ?a @
      [(ce_RoomID sample_command, formatTracerouteResponse (getNodeDisplayName tracing_benv
          (receive_packet tracing_benv (last_packet ?b) ?a)) evt req)]"
    using traceroute_returns [OF cmd trk chan refl refl L(1,2) x(3) L(4) x(2) t(3,4,2) x(4-6) refl x(1) q(1) foreign a2 a1(2) refl]
    by (elim exE conjE) (rule that)
  moreover have "ce_RoomID sample_command = ''!room''" by (simp add: sample_command_def)
  ultimately show ?thesis using a1(3) by simp
qed

end
