(* ===== verification/Bridge_Setup.thy ===== *)
theory Bridge_Setup
  imports Bridge_Commands Bridge_Matrix
begin

text \<open>
  What the bridge tells the framework about itself before it handles anything: \<^verbatim>\<open>Init\<close> and the
  description of the network (\<^verbatim>\<open>connector.go\<close>), the table of commands (\<^verbatim>\<open>commands.go\<close>), the login
  form (\<^verbatim>\<open>login.go\<close>), the upgrade of the configuration (\<^verbatim>\<open>config.go\<close>), the features of a room
  (\<^verbatim>\<open>capabilities.go\<close>) and the metadata types (\<^verbatim>\<open>dbmeta.go\<close>).
\<close>

section \<open>Commands\<close>

record HelpSection =
  hs_Name :: string
  hs_Order :: int

definition HelpSectionChannels :: HelpSection where
  "HelpSectionChannels = \<lparr>hs_Name = ''Channel Management'', hs_Order = 25\<rparr>"

definition HelpSectionNode :: HelpSection where
  "HelpSectionNode = \<lparr>hs_Name = ''Node Management'', hs_Order = 26\<rparr>"

record ('c, 'w) FullHandler =
  fh_Func :: "('c, 'w) benv \<Rightarrow> command \<Rightarrow> ('c, 'w) bridge \<Rightarrow> reply list \<times> ('c, 'w) bridge"
  fh_Name :: string
  fh_Aliases :: "string list"
  fh_Section :: HelpSection
  fh_Description :: string
  fh_Args :: string
  fh_RequiresLogin :: bool
  fh_RequiresPortal :: bool

definition cmdJoinChannel :: "('c, 'w) FullHandler" where
  "cmdJoinChannel =
     \<lparr>fh_Func = fnJoinChannel, fh_Name = ''join-channel'', fh_Aliases = [], fh_Section = HelpSectionChannels,
      fh_Description = ''Joins a Meshtastic channel with the supplied encryption key'',
      fh_Args = ''<_channel name_> <_channel key_>'', fh_RequiresLogin = True, fh_RequiresPortal = False\<rparr>"

definition cmdUpdateNames :: "('c, 'w) FullHandler" where
  "cmdUpdateNames =
     \<lparr>fh_Func = fnUpdateNames, fh_Name = ''update-names'', fh_Aliases = [], fh_Section = HelpSectionNode,
      fh_Description = ''Updates the long and short names shown to Meshtastic users'',
      fh_Args = ''<_short name_> <_long name_>'', fh_RequiresLogin = False, fh_RequiresPortal = False\<rparr>"

definition cmdNodeInfo :: "('c, 'w) FullHandler" where
  "cmdNodeInfo =
     \<lparr>fh_Func = fnNodeInfo, fh_Name = ''info'', fh_Aliases = [], fh_Section = HelpSectionNode,
      fh_Description = ''Displays info about a Meshtastic node'', fh_Args = ''[_node ID_]'',
      fh_RequiresLogin = False, fh_RequiresPortal = False\<rparr>"

definition cmdTraceroute :: "('c, 'w) FullHandler" where
  "cmdTraceroute =
     \<lparr>fh_Func = fnTraceroute, fh_Name = ''traceroute'', fh_Aliases = [''tr'', ''trace''], fh_Section = HelpSectionNode,
      fh_Description = ''Sends a traceroute request to a Meshtastic node'', fh_Args = ''<_node ID_>'',
      fh_RequiresLogin = False, fh_RequiresPortal = False\<rparr>"

section \<open>The connector before it starts\<close>

text \<open>
  The fields of the connector that \<^verbatim>\<open>Init\<close> fills: a nil map and a nil tracker are \<open>None\<close>.  The
  bridge's main function makes the connector as a zero value, not with the constructor.
\<close>

record ('c, 'w) MeshtasticConnector =
  mc_managedNodeCache :: "(NodeID \<rightharpoonup> bool) option"
  mc_tracerouteTracker :: "TracerouteTracker option"
  mc_handlers :: "('c, 'w) FullHandler list"

definition zeroConnector :: "('c, 'w) MeshtasticConnector" where
  "zeroConnector = \<lparr>mc_managedNodeCache = None, mc_tracerouteTracker = None, mc_handlers = []\<rparr>"

definition NewMeshtasticConnector :: "('c, 'w) MeshtasticConnector" where
  "NewMeshtasticConnector =
     \<lparr>mc_managedNodeCache = Some Map.empty, mc_tracerouteTracker = Some NewTracerouteTracker, mc_handlers = []\<rparr>"

definition connector_Init :: "('c, 'w) MeshtasticConnector \<Rightarrow> ('c, 'w) MeshtasticConnector" where
  "connector_Init c =
     (let c = (if mc_managedNodeCache c = None then c\<lparr>mc_managedNodeCache := Some Map.empty\<rparr> else c);
          c = (if mc_tracerouteTracker c = None then c\<lparr>mc_tracerouteTracker := Some NewTracerouteTracker\<rparr> else c)
      in c\<lparr>mc_handlers := mc_handlers c @ [cmdJoinChannel, cmdUpdateNames, cmdNodeInfo, cmdTraceroute]\<rparr>)"

text \<open>
  After \<^verbatim>\<open>Init\<close> neither map is nil, whichever way the connector was made, and a second \<^verbatim>\<open>Init\<close> keeps
  what they hold.
\<close>

lemma connector_Init_ready:
  "connector_Init zeroConnector = connector_Init NewMeshtasticConnector"
  "mc_managedNodeCache (connector_Init c) \<noteq> None" "mc_tracerouteTracker (connector_Init c) \<noteq> None"
  "mc_managedNodeCache (connector_Init (connector_Init c)) = mc_managedNodeCache (connector_Init c)"
  "mc_tracerouteTracker (connector_Init (connector_Init c)) = mc_tracerouteTracker (connector_Init c)"
  by (auto simp: connector_Init_def zeroConnector_def NewMeshtasticConnector_def Let_def)

text \<open>No two commands of the bridge share a name or an alias.\<close>

lemma command_names_distinct:
  "distinct (concat (map (\<lambda>h. fh_Name h # fh_Aliases h) (mc_handlers (connector_Init zeroConnector))))"
  by (simp add: connector_Init_def zeroConnector_def cmdJoinChannel_def cmdUpdateNames_def cmdNodeInfo_def
      cmdTraceroute_def)

text \<open>
  \<^verbatim>\<open>join-channel\<close> asks the framework for a logged-in user and looks for a login again; run without
  one it changes nothing.
\<close>

lemma join_channel_login:
  assumes "fw_DefaultLogin (be_fw B) (b_world b) (ce_UserMXID ce) = None"
  shows "snd (fh_Func cmdJoinChannel B ce b) = b"
  using assms by (simp add: cmdJoinChannel_def fnJoinChannel_def split: list.split)

section \<open>Description of the network\<close>

record BridgeName =
  bn_DisplayName :: string
  bn_NetworkURL :: string
  bn_NetworkIcon :: string
  bn_NetworkID :: string
  bn_BeeperBridgeType :: string
  bn_DefaultPort :: "16 word"
  bn_DefaultCommandPrefix :: string

definition connector_GetName :: BridgeName where
  "connector_GetName =
     \<lparr>bn_DisplayName = ''Meshtastic'', bn_NetworkURL = ''https://meshtastic.org'',
      bn_NetworkIcon = ''mxc://catgirl.works/jZRvHJNDFdrEhqrPmkzjOqyA'', bn_NetworkID = ''meshtastic'',
      bn_BeeperBridgeType = ''github.com/kabili207/matrix-meshtastic'', bn_DefaultPort = 29322,
      bn_DefaultCommandPrefix = ''!mt''\<rparr>"

definition GetNetworkID :: string where
  "GetNetworkID = bn_NetworkID connector_GetName"

record NetworkGeneralCapabilities =
  gc_DisappearingMessages :: bool
  gc_AggressiveUpdateInfo :: bool

definition connector_GetCapabilities :: NetworkGeneralCapabilities where
  "connector_GetCapabilities = \<lparr>gc_DisappearingMessages = False, gc_AggressiveUpdateInfo = False\<rparr>"

definition GetBridgeInfoVersion :: "int \<times> int" where
  "GetBridgeInfoVersion = (1, 1)"

text \<open>
  The metadata the framework stores beside its own rows: for each kind of row nil or a function
  that makes a zero value.
\<close>

record PortalMetadata =
  pm_ChannelName :: string
  pm_ChannelKey :: "string option"

record GhostMetadata =
  gm_UserMXID :: string

record UserLoginMetadata =
  um_NodeID :: NodeID

record MetaTypes =
  mt_Portal :: "(unit \<Rightarrow> PortalMetadata) option"
  mt_Ghost :: "(unit \<Rightarrow> GhostMetadata) option"
  mt_Message :: "(unit \<Rightarrow> unit) option"
  mt_Reaction :: "(unit \<Rightarrow> unit) option"
  mt_UserLogin :: "(unit \<Rightarrow> UserLoginMetadata) option"

definition GetDBMetaTypes :: MetaTypes where
  "GetDBMetaTypes =
     \<lparr>mt_Portal = Some (\<lambda>_. \<lparr>pm_ChannelName = [], pm_ChannelKey = None\<rparr>),
      mt_Ghost = Some (\<lambda>_. \<lparr>gm_UserMXID = []\<rparr>), mt_Message = None, mt_Reaction = None,
      mt_UserLogin = Some (\<lambda>_. \<lparr>um_NodeID = 0\<rparr>)\<rparr>"

text \<open>
  A ghost whose metadata the framework has just made belongs to nobody: its node is not managed.
\<close>

lemma fresh_ghost_unmanaged:
  assumes "fw_GetExistingGhost (be_fw B) (b_world b) (MakeUserID n) = Inr (Some g)"
    and "mt_Ghost GetDBMetaTypes = Some f" "gh_UserMXID g = Some (gm_UserMXID (f ()))"
    and "b_managedNodeCache b n = None" "fst (GetBaseNodeID B b) \<noteq> n"
  shows "\<not> fst (IsManagedNode B n b)"
proof -
  obtain base b1 where base: "GetBaseNodeID B b = (base, b1)" by fastforce
  then have "b_world b1 = b_world b" using GetBaseNodeID_frame(2) [of B b] by simp
  with base assms show ?thesis by (auto simp: IsManagedNode_def GetDBMetaTypes_def cache_managed_def)
qed

section \<open>The login form\<close>

definition LoginStepIDUsernamePassword :: string where "LoginStepIDUsernamePassword = ''user-pass-input''"
definition LoginStepIDComplete :: string where "LoginStepIDComplete = ''complete''"

record LoginFlow =
  lf_ID :: string
  lf_Name :: string
  lf_Description :: string

definition GetLoginFlows :: "LoginFlow list" where
  "GetLoginFlows =
     [\<lparr>lf_ID = LoginFlowIDUsernamePassword, lf_Name = ''Mesh Device'', lf_Description = ''Login as a mesh device.''\<rparr>]"

record LoginInputDataField =
  li_ID :: string
  li_Name :: string
  li_Validate :: "string \<Rightarrow> string \<times> go_error option"

datatype LoginStep =
  LoginUserInput (ls_StepID: string) (ls_Instructions: string) (ls_Fields: "LoginInputDataField list")
| LoginComplete (ls_StepID: string) (ls_Instructions: string) (ls_UserLogin: login)

definition login_Start :: LoginStep where
  "login_Start = LoginUserInput LoginStepIDUsernamePassword ''Enter the long and short names to use on Meshtastic''
     [\<lparr>li_ID = LoginFieldLongName, li_Name = ''Long name'',
       li_Validate = (\<lambda>s. (s, login_Validate LoginFieldLongName s))\<rparr>,
      \<lparr>li_ID = LoginFieldShortName, li_Name = ''Short name'',
       li_Validate = (\<lambda>s. (s, login_Validate LoginFieldShortName s))\<rparr>]"

definition login_complete :: "string \<Rightarrow> login \<Rightarrow> LoginStep" where
  "login_complete mxid ul = LoginComplete LoginStepIDComplete
     (''Successfully logged in as '' @ NodeID_String (MXIDToNodeID mxid) @
      ''. Please call the join-channel command to join a mesh channel'') ul"

text \<open>Every flow on offer can be started, and no other one.\<close>

lemma login_flows_start: "CreateLogin i = None \<longleftrightarrow> i \<in> set (map lf_ID GetLoginFlows)"
  by (simp add: CreateLogin_def GetLoginFlows_def)

text \<open>What the form accepts: the values it is given, of these lengths.\<close>

definition form_accepts :: "string \<Rightarrow> string \<Rightarrow> bool" where
  "form_accepts longName shortName \<longleftrightarrow>
     map (\<lambda>(f, s). li_Validate f s) (zip (ls_Fields login_Start) [longName, shortName]) =
       [(longName, None), (shortName, None)]"

lemma form_accepts_iff: "form_accepts l s \<longleftrightarrow> length l \<le> 39 \<and> length s \<le> 4"
  by (simp add: form_accepts_def login_Start_def login_Validate_def LoginFieldLongName_def LoginFieldShortName_def)

lemma register_ghost_world:
  assumes "fw_GetGhost (be_fw B) (b_world b) (MakeUserID n) = (Inr g, w)"
  shows "register_ghost B (MakeUserID n) mxid l b =
    (Inr n, b\<lparr>b_world := snd (fw_UpdateInfo (be_fw B) g l (Some (updateGhostSenderID mxid)) w)\<rparr>)"
  using assms by (simp add: register_ghost_def Let_def)

lemma store_names_world: "b_world (snd (store_names B n l s b)) = b_world b"
  by (auto simp: store_names_def db_put_def on_mesh_def split: sum.split option.split prod.split)

lemma accepted_names_world:
  assumes "length l \<le> 39" "length s \<le> 4" "fw_GetGhost (be_fw B) (b_world b) (MakeUserID n) = (Inr g, w)"
  shows "b_world (snd (UpdateGhostMeshNames B (MakeUserID n) mxid l s b)) =
    snd (fw_UpdateInfo (be_fw B) g l (Some (updateGhostSenderID mxid)) w)"
  using assms(1,2) register_ghost_world [OF assms(3)] by (simp add: UpdateGhostMeshNames_def store_names_world)

text \<open>
  C36: the limits for names agree: 39 bytes for the long one, 4 for the short one.  These are the
  limits of the login form and of the command; the configuration accepts the same names but for
  empty ones, which the login refuses as well when it is submitted, and the command does not.
  Names within the limits become the name of the user's ghost, by the command and by whatever
  registers them, and the login leaves the tables and the mesh client as the command does.  Names
  past the limits are refused with an error by the login, the command, the registration and the
  announcement alike, and nothing is changed.
\<close>

theorem name_limits_agree:
  assumes "ValidateConfig cfg = None"
    and "ce_Args ce = s # word # words" "l = Join (word # words) '' ''"
    and "mxid = ce_UserMXID ce" "u = MakeUserID (MXIDToNodeID mxid)"
    and "login = SubmitUserInput B mxid [LoginFieldLongName \<mapsto> l, LoginFieldShortName \<mapsto> s] b"
  shows "(form_accepts l s \<longleftrightarrow> length l \<le> 39 \<and> length s \<le> 4) \<and>
    (ValidateConfig (cfg\<lparr>cfg_LongName := l, cfg_ShortName := s\<rparr>) = None \<longleftrightarrow> form_accepts l s \<and> l \<noteq> [] \<and> s \<noteq> []) \<and>
    (form_accepts l s \<and> fw_GetGhost (be_fw B) (b_world b) u = (Inr g, w) \<longrightarrow>
       b_world (snd (fnUpdateNames B ce b)) = snd (fw_UpdateInfo (be_fw B) g l (Some (updateGhostSenderID mxid)) w) \<and>
       b_world (snd (UpdateGhostMeshNames B u mxid l s b)) =
         snd (fw_UpdateInfo (be_fw B) g l (Some (updateGhostSenderID mxid)) w)) \<and>
    (form_accepts l s \<and> l \<noteq> [] \<and> s \<noteq> [] \<longrightarrow>
       b_db (snd login) = b_db (snd (fnUpdateNames B ce b)) \<and> b_mesh (snd login) = b_mesh (snd (fnUpdateNames B ce b))) \<and>
    (l = [] \<or> s = [] \<or> \<not> form_accepts l s \<longrightarrow> (\<exists>e. login = (Inl e, b))) \<and>
    (\<not> form_accepts l s \<longrightarrow>
       (\<exists>t. fnUpdateNames B ce b = ([Reply t], b)) \<and>
       (\<exists>e. UpdateGhostMeshNames B u mxid l s b = (Some e, b)) \<and>
       (\<exists>e. SendNodeInfo E src dst l s wr pk c = (Some e, c)))"
proof -
  have f: "LoginFieldShortName \<noteq> LoginFieldLongName" by (simp add: LoginFieldLongName_def LoginFieldShortName_def)
  have limits: "form_accepts l s \<longleftrightarrow> length l \<le> 39 \<and> length s \<le> 4" by (rule form_accepts_iff)
  have bad: "\<exists>e. UpdateGhostMeshNames B u mxid l s b = (Some e, b)" if "\<not> form_accepts l s" for u
    using that by (auto simp: limits UpdateGhostMeshNames_def)
  have cmd: "snd (fnUpdateNames B ce b) = snd (UpdateGhostMeshNames B u mxid l s b)" if "form_accepts l s"
    using that assms(2-5) by (simp add: form_accepts_iff fnUpdateNames_def Let_def split: prod.split option.split)
  have refused: "\<exists>e. login = (Inl e, b)" if "l = [] \<or> s = [] \<or> \<not> form_accepts l s"
    using that bad [of "MakeUserID (MXIDToNodeID mxid)"] f by (auto simp: assms(6) SubmitUserInput_def Let_def)
  have submitted: "b_db (snd login) = b_db (snd (UpdateGhostMeshNames B u mxid l s b))"
    "b_mesh (snd login) = b_mesh (snd (UpdateGhostMeshNames B u mxid l s b))" if "l \<noteq> []" "s \<noteq> []"
    using that f by (auto simp: assms(5,6) SubmitUserInput_def Let_def split: prod.split option.split sum.split)
  have config: "ValidateConfig (cfg\<lparr>cfg_LongName := l, cfg_ShortName := s\<rparr>) = None \<longleftrightarrow> form_accepts l s \<and> l \<noteq> [] \<and> s \<noteq> []"
    using assms(1) by (auto simp: limits ValidateConfig_def split: if_splits)
  have command: "\<exists>t. fnUpdateNames B ce b = ([Reply t], b)" if "\<not> form_accepts l s"
    using that assms(2,3) by (auto simp: form_accepts_iff fnUpdateNames_def Let_def)
  have announce: "\<exists>e. SendNodeInfo E src dst l s wr pk c = (Some e, c)" if "\<not> form_accepts l s"
    using that by (auto simp: limits SendNodeInfo_def Let_def)
  have "b_world (snd (UpdateGhostMeshNames B u mxid l s b)) = snd (fw_UpdateInfo (be_fw B) g l (Some (updateGhostSenderID mxid)) w)"
    if "form_accepts l s" "fw_GetGhost (be_fw B) (b_world b) u = (Inr g, w)"
    using that accepted_names_world [of l s B b "MXIDToNodeID mxid" g w mxid] by (simp add: limits assms(5))
  then have named: "form_accepts l s \<and> fw_GetGhost (be_fw B) (b_world b) u = (Inr g, w) \<longrightarrow>
       b_world (snd (fnUpdateNames B ce b)) = snd (fw_UpdateInfo (be_fw B) g l (Some (updateGhostSenderID mxid)) w) \<and>
       b_world (snd (UpdateGhostMeshNames B u mxid l s b)) =
         snd (fw_UpdateInfo (be_fw B) g l (Some (updateGhostSenderID mxid)) w)"
    using cmd by simp
  have same: "form_accepts l s \<and> l \<noteq> [] \<and> s \<noteq> [] \<longrightarrow>
       b_db (snd login) = b_db (snd (fnUpdateNames B ce b)) \<and> b_mesh (snd login) = b_mesh (snd (fnUpdateNames B ce b))"
    using submitted cmd by simp
  show ?thesis using limits config named same refused bad command announce by blast
qed

theorem name_limits_agree_witness:
  "ValidateConfig (sample_config\<lparr>cfg_LongName := ''Alice'', cfg_ShortName := ''A''\<rparr>) = None \<and>
   (\<exists>t. fnUpdateNames sample_benv
      \<lparr>ce_UserMXID = ''@a:b'', ce_RoomID = ''!room'', ce_Portal = None, ce_Args = [''Alice'', ''Alice'']\<rparr> sample_bridge =
      ([Reply t], sample_bridge))"
proof -
  have c: "ValidateConfig sample_config = None" by (simp add: ValidateConfig_def sample_config_def MAX_HOPS_def)
  let ?ce = "\<lambda>s. \<lparr>ce_UserMXID = ''@a:b'', ce_RoomID = ''!room'', ce_Portal = None, ce_Args = [s, ''Alice'']\<rparr>"
  have l: "''Alice'' = Join [''Alice''] '' ''" by simp
  have args: "ce_Args (?ce s) = s # ''Alice'' # []" "''@a:b'' = ce_UserMXID (?ce s)" for s by simp_all
  have "form_accepts ''Alice'' ''A''" "\<not> form_accepts ''Alice'' ''Alice''" by (simp_all add: form_accepts_iff)
  moreover note agree = name_limits_agree [OF c args(1) l args(2) refl refl, where B = sample_benv and b = sample_bridge
      and E = sample_env and c = sample_client and src = 0 and dst = 0 and wr = False and pk = "[]" and g = undefined and w = "[]"]
  ultimately show ?thesis using agree [of "''A''"] agree [of "''Alice''"] by (intro conjI) (simp_all only: list.distinct simp_thms)
qed

section \<open>Upgrading the configuration\<close>

datatype config_kind = CfgStr | CfgInt | CfgBool

text \<open>
  The helper of the framework copies one setting from the user's file to the new one; it is a
  parameter, applied to the state \<open>h\<close> it keeps.
\<close>

definition upgrade_steps :: "(config_kind \<times> string list) list" where
  "upgrade_steps =
     [(CfgStr, [''long_name'']), (CfgStr, [''short_name'']), (CfgInt, [''hop_limit'']), (CfgBool, [''udp'']),
      (CfgStr, [''primary_channel'', ''name'']), (CfgStr, [''primary_channel'', ''key'']),
      (CfgBool, [''mqtt'', ''enabled'']), (CfgStr, [''mqtt'', ''server'']), (CfgStr, [''mqtt'', ''username'']),
      (CfgStr, [''mqtt'', ''password'']), (CfgStr, [''mqtt'', ''root_topic'']),
      (CfgInt, [''inactivity_threshold_days''])]"

definition upgradeConfig :: "(config_kind \<Rightarrow> string list \<Rightarrow> 'h \<Rightarrow> 'h) \<Rightarrow> 'h \<Rightarrow> 'h" where
  "upgradeConfig Copy h = fold (\<lambda>(kind, path). Copy kind path) upgrade_steps h"

text \<open>A configuration file, and what reading it into the struct \<^verbatim>\<open>Config\<close> with its tags gives.\<close>

datatype config_value = VStr string | VInt int | VBool bool

type_synonym config_file = "string list \<Rightarrow> config_value option"

primrec kind_of :: "config_value \<Rightarrow> config_kind" where
  "kind_of (VStr s) = CfgStr"
| "kind_of (VInt i) = CfgInt"
| "kind_of (VBool b) = CfgBool"

definition cfg_str :: "config_file \<Rightarrow> string list \<Rightarrow> string" where
  "cfg_str f p = (case f p of Some (VStr s) \<Rightarrow> s | _ \<Rightarrow> [])"

definition cfg_int :: "config_file \<Rightarrow> string list \<Rightarrow> int" where
  "cfg_int f p = (case f p of Some (VInt i) \<Rightarrow> i | _ \<Rightarrow> 0)"

definition cfg_bool :: "config_file \<Rightarrow> string list \<Rightarrow> bool" where
  "cfg_bool f p = (case f p of Some (VBool b) \<Rightarrow> b | _ \<Rightarrow> False)"

definition read_Config :: "config_file \<Rightarrow> Config" where
  "read_Config f =
     \<lparr>cfg_LongName = cfg_str f [''long_name''], cfg_ShortName = cfg_str f [''short_name''],
      cfg_HopLimit = word_of_int (cfg_int f [''hop_limit'']),
      cfg_PrimaryName = cfg_str f [''primary_channel'', ''name''], cfg_PrimaryKey = cfg_str f [''primary_channel'', ''key''],
      cfg_UDP = cfg_bool f [''udp''], cfg_MqttEnabled = cfg_bool f [''mqtt'', ''enabled''],
      cfg_MqttUri = cfg_str f [''mqtt'', ''server''], cfg_MqttUsername = cfg_str f [''mqtt'', ''username''],
      cfg_MqttPassword = cfg_str f [''mqtt'', ''password''], cfg_MqttRootTopic = cfg_str f [''mqtt'', ''root_topic''],
      cfg_InactivityThreshold = cfg_int f [''inactivity_threshold_days'']\<rparr>"

text \<open>
  What the helper promises: a setting the user's file has, of the kind asked for, replaces the one
  of the new file; any other setting stays.
\<close>

definition copies_setting :: "config_file \<Rightarrow> (config_kind \<Rightarrow> string list \<Rightarrow> config_file \<Rightarrow> config_file) \<Rightarrow> bool" where
  "copies_setting user Copy \<longleftrightarrow>
     (\<forall>kind path f. Copy kind path f =
        (case user path of Some v \<Rightarrow> if kind_of v = kind then f(path := Some v) else f | None \<Rightarrow> f))"

lemma upgradeConfig_at:
  assumes "copies_setting user Copy" "(kind, path) \<in> set upgrade_steps" "user path = Some v" "kind_of v = kind"
  shows "upgradeConfig Copy base path = Some v"
proof -
  have c: "Copy k p f path = (if k = kind \<and> p = path then Some v else f path)" for k p f
    using assms(1,3,4) unfolding copies_setting_def by (cases "user p") auto
  have "fold (\<lambda>(kind, path). Copy kind path) steps f path =
      (if (kind, path) \<in> set steps then Some v else f path)" for steps f
    by (induction steps arbitrary: f) (auto simp: c split: if_splits)
  then show ?thesis using assms(2) by (simp add: upgradeConfig_def)
qed

text \<open>
  An upgrade keeps every setting of the user: where the user's file gives every setting of
  the struct in its kind, reading the upgraded file gives what reading the user's file gave.
\<close>

lemma upgrade_keeps_config:
  assumes "copies_setting user Copy" "\<And>kind path. (kind, path) \<in> set upgrade_steps \<Longrightarrow> \<exists>v. user path = Some v \<and> kind_of v = kind"
  shows "read_Config (upgradeConfig Copy base) = read_Config user"
proof -
  have eq: "upgradeConfig Copy base path = user path" if "(kind, path) \<in> set upgrade_steps" for kind path
    using upgradeConfig_at [OF assms(1) that] assms(2) [OF that] by auto
  have str: "cfg_str (upgradeConfig Copy base) p = cfg_str user p" if "(CfgStr, p) \<in> set upgrade_steps" for p
    using eq [OF that] by (simp add: cfg_str_def)
  have int: "cfg_int (upgradeConfig Copy base) p = cfg_int user p" if "(CfgInt, p) \<in> set upgrade_steps" for p
    using eq [OF that] by (simp add: cfg_int_def)
  have bool: "cfg_bool (upgradeConfig Copy base) p = cfg_bool user p" if "(CfgBool, p) \<in> set upgrade_steps" for p
    using eq [OF that] by (simp add: cfg_bool_def)
  note str = str [unfolded upgrade_steps_def list.set] and int = int [unfolded upgrade_steps_def list.set]
    and bool = bool [unfolded upgrade_steps_def list.set]
  show ?thesis unfolding read_Config_def
    by (simp only: str int bool insert_iff simp_thms)
qed

section \<open>Room features\<close>

datatype CapLevel = CapLevelRejected | CapLevelUnsupported | CapLevelPartialSupport

datatype FormattingFeature =
  FmtBold | FmtItalic | FmtStrikethrough | FmtInlineCode | FmtCodeBlock | FmtSyntaxHighlighting | FmtBlockquote
| FmtInlineLink | FmtUserLink | FmtRoomLink | FmtEventLink | FmtAtRoomMention | FmtUnorderedList | FmtOrderedList
| FmtListStart | FmtListJumpValue | FmtCustomEmoji

record RoomFeatures =
  rf_ID :: string
  rf_MaxTextLength :: int
  rf_Delete :: CapLevel
  rf_Edit :: CapLevel
  rf_Reaction :: CapLevel
  rf_CustomEmojiReactions :: bool
  rf_Poll :: CapLevel
  rf_Reply :: CapLevel
  rf_Thread :: CapLevel
  rf_LocationMessage :: CapLevel
  rf_ReadReceipts :: bool
  rf_TypingNotifications :: bool
  rf_Archive :: bool
  rf_MarkAsUnread :: bool
  rf_File :: "(string \<times> CapLevel) list"
  rf_Formatting :: "(FormattingFeature \<times> CapLevel) list"

definition capID :: string where
  "capID = (let base = ''works.catgirl.capabilities.2025_04_23'' in base)"

definition GetCapabilities :: "lib \<Rightarrow> RoomFeatures" where
  "GetCapabilities L =
     \<lparr>rf_ID = capID, rf_MaxTextLength = DATA_PAYLOAD_LEN L - 1,
      rf_Delete = CapLevelRejected, rf_Edit = CapLevelRejected, rf_Reaction = CapLevelPartialSupport,
      rf_CustomEmojiReactions = False, rf_Poll = CapLevelRejected, rf_Reply = CapLevelPartialSupport,
      rf_Thread = CapLevelUnsupported, rf_LocationMessage = CapLevelPartialSupport,
      rf_ReadReceipts = False, rf_TypingNotifications = False, rf_Archive = False, rf_MarkAsUnread = False,
      rf_File = [],
      rf_Formatting =
        [(FmtBold, CapLevelUnsupported), (FmtItalic, CapLevelUnsupported), (FmtStrikethrough, CapLevelUnsupported),
         (FmtInlineCode, CapLevelUnsupported), (FmtCodeBlock, CapLevelUnsupported),
         (FmtSyntaxHighlighting, CapLevelUnsupported), (FmtBlockquote, CapLevelUnsupported),
         (FmtInlineLink, CapLevelUnsupported), (FmtUserLink, CapLevelUnsupported), (FmtRoomLink, CapLevelUnsupported),
         (FmtEventLink, CapLevelUnsupported), (FmtAtRoomMention, CapLevelUnsupported),
         (FmtUnorderedList, CapLevelUnsupported), (FmtOrderedList, CapLevelUnsupported),
         (FmtListStart, CapLevelUnsupported), (FmtListJumpValue, CapLevelUnsupported),
         (FmtCustomEmoji, CapLevelUnsupported)]\<rparr>"

text \<open>A packet number that is drawn moves the random stream on.\<close>

lemma generatePacketId_draws: "rngPos c < rngPos (snd (generatePacketId c))"
  by (simp add: generatePacketId_def randUint32_def Let_def)

lemma sendBytes_draws:
  assumes "e_managed E (pi_From info)" "int (length raw) < DATA_PAYLOAD_LEN (e_lib E)"
  shows "rngPos c < rngPos (snd (sendBytes E ch raw info c))"
proof -
  obtain pid c1 where g: "generatePacketId c = (pid, c1)" by fastforce
  then show ?thesis
    using generatePacketId_draws [of c] assms
    by (auto simp: sendBytes_def Let_def deliver_def split: sum.split option.split prod.split)
qed

lemma sendBytes_fits:
  "sendBytes E ch raw info c = ((pid, None), c') \<Longrightarrow> int (length raw) < DATA_PAYLOAD_LEN (e_lib E)"
  by (auto simp: sendBytes_def split: if_splits)

text \<open>
  C35: the length announced for the messages of a room is the limit of the mesh, exactly.  A text
  of a managed sender is refused for its size, with nothing changed, exactly if it has more bytes than
  announced; and no message whose converted text is longer is ever reported as sent.
\<close>

theorem room_text_limit:
  assumes "e_managed E src"
  shows "(snd (SendMessage E src dst ch txt reply pki c) = c \<longleftrightarrow>
      rf_MaxTextLength (GetCapabilities (e_lib E)) < int (length txt)) \<and>
    (rf_MaxTextLength (GetCapabilities (e_lib E)) < int (length txt) \<longrightarrow>
      (\<exists>e. SendMessage E src dst ch txt reply pki c = ((0, Some e), c))) \<and>
    (HandleMatrixMessage B msg b = (MatrixSent mid sid, b') \<and> mc_MsgType (mm_Content msg) \<noteq> MsgLocation \<longrightarrow>
      int (length (ToMeshtastic B (mm_Content msg))) \<le> rf_MaxTextLength (GetCapabilities (e_lib (be_mesh B))))"
proof (intro conjI impI)
  let ?i = "(PacketInfo0 TEXT_MESSAGE_APP (if pki then PKIEncryption else PSKEncryption) src dst)\<lparr>pi_ReplyId := reply\<rparr>"
  have s: "SendMessage E src dst ch txt reply pki c = sendBytes E ch txt ?i c" by (simp add: SendMessage_def)
  have fr: "pi_From ?i = src" by (simp add: PacketInfo0_def)
  show "snd (SendMessage E src dst ch txt reply pki c) = c \<longleftrightarrow> rf_MaxTextLength (GetCapabilities (e_lib E)) < int (length txt)"
  proof
    assume "snd (SendMessage E src dst ch txt reply pki c) = c"
    then have "\<not> int (length txt) < DATA_PAYLOAD_LEN (e_lib E)"
      using sendBytes_draws [of E ?i "txt" c ch] assms unfolding s fr by auto
    then show "rf_MaxTextLength (GetCapabilities (e_lib E)) < int (length txt)" by (simp add: GetCapabilities_def)
  qed (simp add: s sendBytes_def fr assms GetCapabilities_def)
  show "\<exists>e. SendMessage E src dst ch txt reply pki c = ((0, Some e), c)"
    if "rf_MaxTextLength (GetCapabilities (e_lib E)) < int (length txt)"
    using that by (simp add: s sendBytes_def fr assms GetCapabilities_def)
next
  assume h: "HandleMatrixMessage B msg b = (MatrixSent mid sid, b') \<and> mc_MsgType (mm_Content msg) \<noteq> MsgLocation"
  obtain r b1 pid where "send_content B msg r b1 = (Inr pid, b')"
    using h by (auto simp: HandleMatrixMessage_def split: option.splits prod.splits sum.splits outcome.splits)
  then have "int (length (ToMeshtastic B (mm_Content msg))) < DATA_PAYLOAD_LEN (e_lib (be_mesh B))"
    using h by (auto simp: send_content_def on_mesh_eq SendMessage_def Let_def split: prod.splits option.splits if_splits
        MsgType.splits dest!: sendBytes_fits)
  then show "int (length (ToMeshtastic B (mm_Content msg))) \<le> rf_MaxTextLength (GetCapabilities (e_lib (be_mesh B)))"
    by (simp add: GetCapabilities_def)
qed

theorem room_text_limit_witness:
  "snd (SendMessage sample_env 3 BROADCAST_ID (Some sample_channel) (replicate 233 CHR ''x'') 0 False sample_client) = sample_client \<and>
   snd (SendMessage sample_env 3 BROADCAST_ID (Some sample_channel) (replicate 232 CHR ''x'') 0 False sample_client) \<noteq> sample_client"
proof -
  have e: "e_managed sample_env 3" "DATA_PAYLOAD_LEN (e_lib sample_env) = 233"
    by (simp_all add: sample_env_def sample_lib_def lib.fields_def radio.extend_def sample_radio_def)
  show ?thesis
    using room_text_limit [OF e(1), of BROADCAST_ID "Some sample_channel" "replicate 233 CHR ''x''" 0 False sample_client, THEN conjunct1]
      room_text_limit [OF e(1), of BROADCAST_ID "Some sample_channel" "replicate 232 CHR ''x''" 0 False sample_client, THEN conjunct1]
    by (simp add: GetCapabilities_def e(2))
qed

end
