(* ===== verification/Bridge_Wiring.thy ===== *)
theory Bridge_Wiring
  imports Bridge_System
begin

text \<open>
  How the parts are connected at run time: the handler fields of the mesh client and of its two
  connectors, their setters, the order in which \<^verbatim>\<open>Start\<close> fills them, and what a message of the
  broker, a datagram or a change of a connection then calls.  The lemmas say that the calls made
  through these fields are the ones the steps of \<^verbatim>\<open>Bridge_System\<close> make.
\<close>

section \<open>Handlers of the mesh client\<close>

text \<open>
  The function fields of \<^verbatim>\<open>MeshtasticClient\<close>, nil as \<open>None\<close>.  A handler sees, and may change, the
  state \<open>'s\<close> its closure refers to; a question only sees it, as everywhere in the model.
\<close>

record 's handlers =
  managedNodeFunc :: "(NodeID \<Rightarrow> 's \<Rightarrow> bool) option"
  onConnectHandler :: "(bool \<Rightarrow> 's \<Rightarrow> 's) option"
  onDisconnectHandler :: "('s \<Rightarrow> 's) option"
  pubKeyRequestHandler :: "(NodeID \<Rightarrow> 's \<Rightarrow> string option) option"
  privKeyRequestHandler :: "(NodeID \<Rightarrow> 's \<Rightarrow> string option) option"
  neighborProvider :: "(NodeID \<Rightarrow> 's \<Rightarrow> NodeID list) option"
  eventHandlers :: "(event \<Rightarrow> 's \<Rightarrow> 's) list"

definition new_handlers :: "'s handlers" where
  "new_handlers =
     \<lparr>managedNodeFunc = None, onConnectHandler = None, onDisconnectHandler = None, pubKeyRequestHandler = None,
      privKeyRequestHandler = None, neighborProvider = None, eventHandlers = []\<rparr>"

definition AddEventHandler :: "(event \<Rightarrow> 's \<Rightarrow> 's) \<Rightarrow> 's handlers \<Rightarrow> 's handlers" where
  "AddEventHandler handler c = c\<lparr>eventHandlers := eventHandlers c @ [handler]\<rparr>"

definition SetIsManagedNodeHandler :: "(NodeID \<Rightarrow> 's \<Rightarrow> bool) \<Rightarrow> 's handlers \<Rightarrow> 's handlers" where
  "SetIsManagedNodeHandler handler c = c\<lparr>managedNodeFunc := Some handler\<rparr>"

definition SetOnConnectHandler :: "(bool \<Rightarrow> 's \<Rightarrow> 's) \<Rightarrow> 's handlers \<Rightarrow> 's handlers" where
  "SetOnConnectHandler handler c = c\<lparr>onConnectHandler := Some handler\<rparr>"

definition SetOnDisconnectHandler :: "('s \<Rightarrow> 's) \<Rightarrow> 's handlers \<Rightarrow> 's handlers" where
  "SetOnDisconnectHandler handler c = c\<lparr>onDisconnectHandler := Some handler\<rparr>"

definition SetPublicKeyRequestHandler :: "(NodeID \<Rightarrow> 's \<Rightarrow> string option) \<Rightarrow> 's handlers \<Rightarrow> 's handlers" where
  "SetPublicKeyRequestHandler handler c = c\<lparr>pubKeyRequestHandler := Some handler\<rparr>"

definition SetPrivateKeyRequestHandler :: "(NodeID \<Rightarrow> 's \<Rightarrow> string option) \<Rightarrow> 's handlers \<Rightarrow> 's handlers" where
  "SetPrivateKeyRequestHandler handler c = c\<lparr>privKeyRequestHandler := Some handler\<rparr>"

definition SetNeighborProvider :: "(NodeID \<Rightarrow> 's \<Rightarrow> NodeID list) \<Rightarrow> 's handlers \<Rightarrow> 's handlers" where
  "SetNeighborProvider provider c = c\<lparr>neighborProvider := Some provider\<rparr>"

lemmas setter_defs = new_handlers_def AddEventHandler_def SetIsManagedNodeHandler_def SetOnConnectHandler_def
  SetOnDisconnectHandler_def SetPublicKeyRequestHandler_def SetPrivateKeyRequestHandler_def SetNeighborProvider_def

text \<open>The loop of \<^verbatim>\<open>notifyEvent\<close> and the guarded calls of \<^verbatim>\<open>handleConnectorStateChange\<close>.\<close>

definition notify_handlers :: "'s handlers \<Rightarrow> event \<Rightarrow> 's \<Rightarrow> 's" where
  "notify_handlers c evt = fold (\<lambda>handler. handler evt) (eventHandlers c)"

definition call_handler :: "'s handlers \<Rightarrow> connect_call \<Rightarrow> 's \<Rightarrow> 's" where
  "call_handler c k s =
     (case k of
        CallConnect isReconnect \<Rightarrow> (case onConnectHandler c of Some f \<Rightarrow> f isReconnect s | None \<Rightarrow> s)
      | CallDisconnect \<Rightarrow> (case onDisconnectHandler c of Some f \<Rightarrow> f s | None \<Rightarrow> s))"

text \<open>
  The environment the client's operations see.  \<^verbatim>\<open>managedNodeFunc\<close> is called without a test: with a
  nil function the client would panic, which is \<open>None\<close>.
\<close>

definition client_env :: "'s handlers \<Rightarrow> 'c env \<Rightarrow> 's \<Rightarrow> 'c env option" where
  "client_env c E s =
     (case managedNodeFunc c of
        None \<Rightarrow> None
      | Some managed \<Rightarrow>
          Some (E\<lparr>e_managed := \<lambda>n. managed n s,
                  e_pubKeyRequest := map_option (\<lambda>f n. f n s) (pubKeyRequestHandler c),
                  e_privKeyRequest := map_option (\<lambda>f n. f n s) (privKeyRequestHandler c),
                  e_neighborProvider := map_option (\<lambda>f n. f n s) (neighborProvider c)\<rparr>))"

section \<open>Handlers of the connectors\<close>

record 's conn_handlers =
  packetHandler :: "(NetworkMeshPacket \<Rightarrow> 's \<Rightarrow> 's) option"
  stateFunc :: "(ListenerEvent \<Rightarrow> 's \<Rightarrow> 's) option"

definition new_conn_handlers :: "'s conn_handlers" where
  "new_conn_handlers = \<lparr>packetHandler = None, stateFunc = None\<rparr>"

definition mqtt_SetPacketHandler :: "(NetworkMeshPacket \<Rightarrow> 's \<Rightarrow> 's) \<Rightarrow> 's conn_handlers \<Rightarrow> 's conn_handlers" where
  "mqtt_SetPacketHandler fn h = h\<lparr>packetHandler := Some fn\<rparr>"

definition mqtt_SetStateHandler :: "(ListenerEvent \<Rightarrow> 's \<Rightarrow> 's) \<Rightarrow> 's conn_handlers \<Rightarrow> 's conn_handlers" where
  "mqtt_SetStateHandler fn h = h\<lparr>stateFunc := Some fn\<rparr>"

definition udp_SetPacketHandler :: "(NetworkMeshPacket \<Rightarrow> 's \<Rightarrow> 's) \<Rightarrow> 's conn_handlers \<Rightarrow> 's conn_handlers" where
  "udp_SetPacketHandler fn h = h\<lparr>packetHandler := Some fn\<rparr>"

definition udp_SetStateHandler :: "(ListenerEvent \<Rightarrow> 's \<Rightarrow> 's) \<Rightarrow> 's conn_handlers \<Rightarrow> 's conn_handlers" where
  "udp_SetStateHandler fn h = h\<lparr>stateFunc := Some fn\<rparr>"

definition mqtt_handleMeshPacket :: "'s conn_handlers \<Rightarrow> NetworkMeshPacket \<Rightarrow> 's \<Rightarrow> 's" where
  "mqtt_handleMeshPacket c packet s = (case packetHandler c of Some f \<Rightarrow> f packet s | None \<Rightarrow> s)"

definition mqtt_emitStateEvent :: "'s conn_handlers \<Rightarrow> ListenerEvent \<Rightarrow> 's \<Rightarrow> 's" where
  "mqtt_emitStateEvent c eventType s = (case stateFunc c of Some f \<Rightarrow> f eventType s | None \<Rightarrow> s)"

definition udp_emitStateEvent :: "'s conn_handlers \<Rightarrow> ListenerEvent \<Rightarrow> 's \<Rightarrow> 's" where
  "udp_emitStateEvent c eventType s = (case stateFunc c of Some f \<Rightarrow> f eventType s | None \<Rightarrow> s)"

text \<open>
  A message of the broker; and a datagram in the listener's buffer of 2048 bytes, which keeps the
  start of a longer one.  \<open>unmarshal\<close> is \<^verbatim>\<open>proto.Unmarshal\<close>.
\<close>

definition mqtt_message :: "net_env \<Rightarrow> 's conn_handlers \<Rightarrow> bytes \<Rightarrow> 's \<Rightarrow> 's" where
  "mqtt_message N c payload s =
     (case handleMQTTMessage N payload of None \<Rightarrow> s | Some packet \<Rightarrow> mqtt_handleMeshPacket c packet s)"

definition udp_packet :: "MeshPacket \<Rightarrow> NetworkMeshPacket" where
  "udp_packet msg =
     \<lparr>np_MeshPacket = msg, np_ChannelName = [], np_ChannelKey = None, np_GatewayNode = 0, np_Source = PacketSourceUDP\<rparr>"

definition udp_datagram :: "(bytes \<Rightarrow> go_error + MeshPacket) \<Rightarrow> 's conn_handlers \<Rightarrow> bytes \<Rightarrow> 's \<Rightarrow> 's" where
  "udp_datagram unmarshal c data s =
     (case unmarshal (take 2048 data) of
        Inl err \<Rightarrow> s
      | Inr msg \<Rightarrow> (case packetHandler c of Some f \<Rightarrow> f (udp_packet msg) s | None \<Rightarrow> s))"

section \<open>Start\<close>

text \<open>
  The setters in the order of \<^verbatim>\<open>Start\<close>, then the handlers that the users' clients add when they
  connect.  A handler of an event does not run after a panic.
\<close>

definition global_handler :: "('c, 'w) benv \<Rightarrow> event \<Rightarrow> ('c, 'w) bridge \<Rightarrow> ('c, 'w) bridge" where
  "global_handler B evt b = (if b_panic b then b else handleGlobalMeshEvent B evt b)"

definition start_handlers :: "('c, 'w) benv \<Rightarrow> ('c, 'w) bridge handlers" where
  "start_handlers B =
     (let c = new_handlers;
          c = SetIsManagedNodeHandler (\<lambda>n b. fst (IsManagedNode B n b)) c;
          c = SetOnDisconnectHandler onMeshDisconnected c;
          c = SetOnConnectHandler (onMeshConnected B) c;
          c = AddEventHandler (global_handler B) c;
          c = SetPrivateKeyRequestHandler (\<lambda>n b. key_text (fst (getGhostPrivateKey B n b))) c;
          c = SetPublicKeyRequestHandler (\<lambda>n b. key_text (fst (getGhostPublicKey B n b))) c
      in SetNeighborProvider (\<lambda>n b. neighbor_ids B b) c)"

definition user_handlers :: "('c, 'w) benv \<Rightarrow> login list \<Rightarrow> ('c, 'w) bridge handlers" where
  "user_handlers B ls = fold (\<lambda>l. AddEventHandler (\<lambda>evt. login_handler B evt l)) ls (start_handlers B)"

text \<open>What the two \<^verbatim>\<open>Add...Handler\<close> calls of the mesh client install in connector \<open>i\<close>.\<close>

definition add_mqtt_handlers :: "('c, 'w) benv \<Rightarrow> nat \<Rightarrow> ('c, 'w) bridge conn_handlers" where
  "add_mqtt_handlers B i =
     mqtt_SetStateHandler (connector_event B i) (mqtt_SetPacketHandler (receive_packet B) new_conn_handlers)"

definition add_udp_handlers :: "('c, 'w) benv \<Rightarrow> nat \<Rightarrow> ('c, 'w) bridge conn_handlers" where
  "add_udp_handlers B i =
     udp_SetStateHandler (connector_event B i) (udp_SetPacketHandler (receive_packet B) new_conn_handlers)"

section \<open>The calls are those of the model\<close>

lemma user_handlers_fields:
  "managedNodeFunc (user_handlers B ls) = Some (\<lambda>n b. fst (IsManagedNode B n b))"
  "onConnectHandler (user_handlers B ls) = Some (onMeshConnected B)"
  "onDisconnectHandler (user_handlers B ls) = Some onMeshDisconnected"
  "pubKeyRequestHandler (user_handlers B ls) = Some (\<lambda>n b. key_text (fst (getGhostPublicKey B n b)))"
  "privKeyRequestHandler (user_handlers B ls) = Some (\<lambda>n b. key_text (fst (getGhostPrivateKey B n b)))"
  "neighborProvider (user_handlers B ls) = Some (\<lambda>n b. neighbor_ids B b)"
  "eventHandlers (user_handlers B ls) = global_handler B # map (\<lambda>l evt. login_handler B evt l) ls"
  by (induction ls rule: rev_induct) (simp_all add: user_handlers_def start_handlers_def setter_defs Let_def)

lemma wired_env: "client_env (user_handlers B ls) (be_mesh B) b = Some (mesh_env B b)"
  by (simp add: client_env_def user_handlers_fields mesh_env_def)

lemma login_handler_panic: "b_panic b \<Longrightarrow> fold (\<lambda>l. login_handler B evt l) ls b = b"
  by (induction ls) (simp_all add: login_handler_def)

lemma wired_events: "notify_handlers (user_handlers B (b_clients b)) evt b = deliver_event B evt b"
  by (simp add: notify_handlers_def user_handlers_fields fold_map comp_def deliver_event_def global_handler_def
      login_handler_panic)

lemma wired_connections: "call_handler (user_handlers B ls) k b = run_connect_call B k b"
  by (simp add: call_handler_def user_handlers_fields run_connect_call_def split: connect_call.split)

lemma wired_states:
  "mqtt_emitStateEvent (add_mqtt_handlers B i) le b = connector_event B i le b"
  "udp_emitStateEvent (add_udp_handlers B i) le b = connector_event B i le b"
  by (simp_all add: mqtt_emitStateEvent_def udp_emitStateEvent_def add_mqtt_handlers_def add_udp_handlers_def
      mqtt_SetStateHandler_def udp_SetStateHandler_def)

section \<open>Arrival\<close>

text \<open>
  What a connector of one bridge sent arrives at a connector of another one as the packet that was
  sent, if the encoding is undone: through the broker under the channel name the sender gave and with
  the sender as gateway; by multicast, in a datagram that fits the buffer, without a name.
\<close>

lemma mqtt_arrives:
  assumes "mqtt_SendPacket N h channel packet = (Some (topic, raw), err)"
    and "\<And>g. MarshalEnvelope N channel g packet = Inr raw \<Longrightarrow> UnmarshalEnvelope N' raw = Inr (channel, g, Some packet)"
  shows "mqtt_message N' (add_mqtt_handlers B i) raw b =
    receive_packet B \<lparr>np_MeshPacket = packet, np_ChannelName = channel, np_ChannelKey = None,
      np_GatewayNode = mq_nodeID h, np_Source = PacketSourceMQTT\<rparr> b"
proof -
  have "MarshalEnvelope N channel (NodeID_String (mq_nodeID h)) packet = Inr raw"
    using assms(1) by (auto simp: mqtt_SendPacket_def Let_def split: sum.splits)
  from assms(2) [OF this] show ?thesis
    by (simp add: mqtt_message_def handleMQTTMessage_def mqtt_handleMeshPacket_def add_mqtt_handlers_def
        mqtt_SetPacketHandler_def mqtt_SetStateHandler_def ParseNodeID_String)
qed

lemma udp_arrives:
  assumes "udp_SendMulticast N packet = (Some data, err)" "length data \<le> 2048"
    and "MarshalPacket N packet = Inr data \<Longrightarrow> unmarshal data = Inr packet"
  shows "udp_datagram unmarshal (add_udp_handlers B i) data b = receive_packet B (udp_packet packet) b"
proof -
  have "MarshalPacket N packet = Inr data"
    using assms(1) by (auto simp: udp_SendMulticast_def split: sum.splits option.splits)
  from assms(3) [OF this] assms(2) show ?thesis
    by (simp add: udp_datagram_def add_udp_handlers_def udp_SetPacketHandler_def udp_SetStateHandler_def)
qed

end
