(* ===== verification/Geo_Print.thy ===== *)
theory Geo_Print
  imports Geo_URI "HOL-Library.List_Lexorder" "HOL-Library.Char_ord" "HOL-Library.Multiset"
begin

text \<open>
  Printing of geo URIs, the method \<^verbatim>\<open>String\<close> of \<^verbatim>\<open>pkg/meshid/gpslocation.go\<close>, over the parts of
  Go's \<^verbatim>\<open>fmt\<close>, \<^verbatim>\<open>strconv\<close>, \<^verbatim>\<open>sort\<close> and \<^verbatim>\<open>net/url\<close> it uses; and what reading a printed URI gives.
\<close>

section \<open>Numbers\<close>

text \<open>
  A decimal number from its digits without the point: \<open>m / 10 ^ k\<close> with \<open>k\<close> digits after the
  point.
\<close>

definition pad_digits :: "nat \<Rightarrow> nat \<Rightarrow> nat list" where
  "pad_digits k m = (let ds = digits 10 m in replicate (k - length ds) 0 @ ds)"

definition decimal_of :: "bool \<Rightarrow> nat \<Rightarrow> nat \<Rightarrow> decimal" where
  "decimal_of neg m k =
     \<lparr>d_neg = neg, d_int = digits 10 (m div 10 ^ k), d_frac = (if k = 0 then [] else pad_digits k (m mod 10 ^ k))\<rparr>"

text \<open>\<^verbatim>\<open>%.nf\<close> of a floating point value: rounded to \<open>n\<close> places, ties to even.\<close>

definition Sprintf_f :: "nat \<Rightarrow> gofloat \<Rightarrow> string" where
  "Sprintf_f n x =
     (case x of
        Fin r \<Rightarrow> decimal_text (decimal_of (r < 0) (nat (round_half_even (\<bar>r\<bar> * 10 ^ n))) n)
      | PosInf \<Rightarrow> ''+Inf'' | NegInf \<Rightarrow> ''-Inf'' | NaN \<Rightarrow> ''NaN'')"

text \<open>
  \<^verbatim>\<open>strconv.FormatFloat(x, 'f', -1, 32)\<close>: the decimal with the fewest digits that reads back as
  \<open>x\<close>, and of these the nearest.  \<open>shortest_at\<close> looks among the numbers with \<open>k\<close> digits after
  the point, a negative \<open>k\<close> standing for zeros before it.
\<close>

definition shortest_at :: "rat \<Rightarrow> int \<Rightarrow> nat option" where
  "shortest_at r k =
     (let x = r * pow10 k; lo = \<lfloor>x\<rfloor>; ok = (\<lambda>n. float32_round (of_int n * pow10 (- k)) = Fin r)
      in if ok lo \<and> ok (lo + 1) then Some (nat (round_half_even x))
         else if ok lo then Some (nat lo)
         else if ok (lo + 1) then Some (nat (lo + 1))
         else None)"

text \<open>The largest \<^verbatim>\<open>float32\<close> has 39 digits; 149 digits after the point give every one exactly.\<close>

definition shortest_scales :: "int list" where
  "shortest_scales = [-39..149]"

definition shortest :: "rat \<Rightarrow> nat \<times> int" where
  "shortest r =
     (case List.find (\<lambda>k. shortest_at r k \<noteq> None) shortest_scales of
        Some k \<Rightarrow> (the (shortest_at r k), k)
      | None \<Rightarrow> (0, 0))"

definition shortest_text :: "bool \<Rightarrow> nat \<times> int \<Rightarrow> string" where
  "shortest_text neg mk =
     (let (m, k) = mk in
      (if neg then ''-'' else []) @
      (if k \<le> 0 then map digit_char (digits 10 (m * 10 ^ nat (- k)))
       else map digit_char (digits 10 (m div 10 ^ nat k)) @ ''.'' @
            map digit_char (pad_digits (nat k) (m mod 10 ^ nat k))))"

definition FormatFloat32 :: "gofloat \<Rightarrow> string" where
  "FormatFloat32 x =
     (case x of
        Fin r \<Rightarrow> (if r = 0 then ''0'' else shortest_text (r < 0) (shortest \<bar>r\<bar>))
      | PosInf \<Rightarrow> ''+Inf'' | NegInf \<Rightarrow> ''-Inf'' | NaN \<Rightarrow> ''NaN'')"

section \<open>net/url\<close>

definition unreserved :: "char \<Rightarrow> bool" where
  "unreserved c \<longleftrightarrow>
     (let n = of_char c :: nat in
      48 \<le> n \<and> n \<le> 57 \<or> 65 \<le> n \<and> n \<le> 90 \<or> 97 \<le> n \<and> n \<le> 122 \<or> c \<in> {CHR ''-'', CHR ''_'', CHR ''.'', CHR ''~''})"

definition upperhex :: "nat \<Rightarrow> char" where
  "upperhex d = (if d < 10 then char_of (48 + d) else char_of (55 + d))"

definition escape_char :: "char \<Rightarrow> string" where
  "escape_char c =
     (if unreserved c then [c]
      else if c = CHR '' '' then ''+''
      else let n = of_char c :: nat in [CHR ''%'', upperhex (n div 16), upperhex (n mod 16)])"

definition QueryEscape :: "string \<Rightarrow> string" where
  "QueryEscape s = concat (map escape_char s)"

text \<open>
  \<^verbatim>\<open>url.Values\<close> with one value for every key, as an association list in the order of the
  \<^verbatim>\<open>Set\<close> calls; \<^verbatim>\<open>Encode\<close> sorts by key.
\<close>

definition values_Set :: "string \<Rightarrow> string \<Rightarrow> (string \<times> string) list \<Rightarrow> (string \<times> string) list" where
  "values_Set k v vs = filter (\<lambda>kv. fst kv \<noteq> k) vs @ [(k, v)]"

definition escaped_pair :: "string \<times> string \<Rightarrow> string" where
  "escaped_pair kv = QueryEscape (fst kv) @ ''='' @ QueryEscape (snd kv)"

definition values_Encode :: "(string \<times> string) list \<Rightarrow> string" where
  "values_Encode vs = Join (map escaped_pair (sort_key fst vs)) ''&''"

section \<open>String\<close>

text \<open>
  The parameters after the coordinates and the query.  Go ranges over a map in any order:
  \<open>ks\<close> and \<open>qs\<close> are the keys of the two maps in the orders of the loops.
\<close>

definition geo_params :: "string list \<Rightarrow> GeoURI \<Rightarrow> string list" where
  "geo_params ks g =
     (case Uncertainty g of Some u \<Rightarrow> [''u='' @ FormatFloat32 u] | None \<Rightarrow> []) @
     (if CRS g \<noteq> [] then [''crs='' @ QueryEscape (CRS g)] else []) @
     map (\<lambda>k. QueryEscape k @ ''='' @ QueryEscape (the (OtherParams g k))) ks"

definition geo_values :: "string list \<Rightarrow> GeoURI \<Rightarrow> (string \<times> string) list" where
  "geo_values qs g =
     fold (\<lambda>k. values_Set k (the (QueryParams g k))) qs
       ((if Query g \<noteq> [] then values_Set ''q'' (Query g) else id)
          (case Zoom g of Some z \<Rightarrow> values_Set ''z'' (Itoa z) [] | None \<Rightarrow> []))"

definition GeoURI_String :: "string list \<Rightarrow> string list \<Rightarrow> GeoURI \<Rightarrow> string" where
  "GeoURI_String ks qs g =
     (let coords = ''geo:'' @ Sprintf_f 5 (Latitude g) @ '','' @ Sprintf_f 5 (Longitude g) @
            (case Altitude g of Some a \<Rightarrow> '','' @ Sprintf_f 3 a | None \<Rightarrow> []);
          params = concat (map (\<lambda>p. '';'' @ p) (sort (geo_params ks g)));
          encoded = values_Encode (geo_values qs g)
      in coords @ params @ (if encoded \<noteq> [] then ''?'' @ encoded else []))"

section \<open>Numbers read back\<close>

lemma foldl_shift: "foldl (\<lambda>n x. n * 10 + x) a ds = (a :: nat) * 10 ^ length ds + foldl (\<lambda>n x. n * 10 + x) 0 ds"
proof (induction ds arbitrary: a)
  case (Cons d ds)
  show ?case using Cons [of "a * 10 + d"] Cons [of d] by (simp add: algebra_simps)
qed simp

lemma digits_ten: "d \<in> set (digits 10 n) \<Longrightarrow> d < 10"
  by (rule digits_small) simp_all

lemma pad_digits_facts:
  "\<forall>d \<in> set (pad_digits k m). d < 10" "foldl (\<lambda>n x. n * 10 + x) 0 (pad_digits k m) = m"
  "m < 10 ^ k \<Longrightarrow> 0 < k \<Longrightarrow> length (pad_digits k m) = k"
proof -
  show "\<forall>d \<in> set (pad_digits k m). d < 10" by (auto simp: pad_digits_def Let_def dest: digits_ten)
  show "foldl (\<lambda>n x. n * 10 + x) 0 (pad_digits k m) = m"
    by (simp only: pad_digits_def Let_def foldl_zeros [of 10] foldl_digits)
  show "length (pad_digits k m) = k" if "m < 10 ^ k" "0 < k"
    using length_digits [of 10 m k] that by (simp add: pad_digits_def Let_def)
qed

lemma unreserved_digit: "d < 10 \<Longrightarrow> unreserved (digit_char d)"
  by (auto simp: digit_char_def unreserved_def Let_def)

lemma decimal_of_ok: "decimal_ok (decimal_of neg m k)"
  using pad_digits_facts(1) [of k "m mod 10 ^ k"] by (auto simp: decimal_ok_def decimal_of_def dest: digits_ten)

lemma decimal_of_value:
  "decimal_value (decimal_of neg m k) = (if neg then - (of_nat m / 10 ^ k) else of_nat m / 10 ^ k)"
proof (cases "k = 0")
  case False
  let ?q = "m div 10 ^ k" and ?r = "m mod 10 ^ k"
  have len: "length (pad_digits k ?r) = k" using False by (intro pad_digits_facts(3)) simp_all
  have "foldl (\<lambda>n x. n * 10 + x) 0 (digits 10 ?q @ pad_digits k ?r) = ?q * 10 ^ k + ?r"
    using foldl_shift [of "foldl (\<lambda>n x. n * 10 + x) 0 (digits 10 ?q)" "pad_digits k ?r"] len
    by (simp add: foldl_digits pad_digits_facts(2))
  then have "foldl (\<lambda>n x. n * 10 + x) 0 (digits 10 ?q @ pad_digits k ?r) = m" by (simp only: div_mult_mod_eq)
  with False len show ?thesis by (simp add: decimal_value_def decimal_of_def Let_def)
qed (simp add: decimal_value_def decimal_of_def foldl_digits)

text \<open>Whole numbers are printed without a point.\<close>

definition whole_text :: "bool \<Rightarrow> nat \<Rightarrow> string" where
  "whole_text neg n = (if neg then ''-'' else []) @ map digit_char (digits 10 n)"

lemma readFloat_whole: "readFloat (whole_text neg n) = Some (if neg then - of_nat n else of_nat n)"
proof -
  obtain x xs where ds: "digits 10 n = x # xs" by (cases "digits 10 n") simp_all
  have small: "\<forall>d \<in> set (digits 10 n). d < 10" "x < 10" using digits_ten [of _ n] ds by auto
  have sign: "cut_sign (whole_text neg n) = (neg, map digit_char (digits 10 n))"
    using digit_char_decimal(1) [OF small(2)] by (auto simp: whole_text_def cut_sign_def ds)
  have hex: "\<not> (2 < length (map digit_char (digits 10 n)) \<and> lower (map digit_char (digits 10 n) ! 1) = CHR ''x'')"
  proof (cases xs)
    case (Cons y ys)
    then have "y < 10" using small(1) ds by simp
    with digit_char_decimal(2) [of y] ds Cons show ?thesis by simp
  qed (simp add: ds)
  have "read_digits 10 False (0, 0, False, False) (map digit_char (digits 10 n)) =
      ((foldl (\<lambda>n x. n * 10 + x) 0 (digits 10 n), 0, True, False), [])"
    using read_digits_map [OF small(1), of False 0 0 False False "[]"] by simp
  then show ?thesis
    using hex by (auto simp: readFloat_def sign Let_def float_value_def pow10_def foldl_digits)
qed

lemma special_whole: "special (whole_text neg n) = None"
proof -
  obtain x xs where ds: "digits 10 n = x # xs" by (cases "digits 10 n") simp_all
  then have x: "x < 10" using digits_ten [of x n] by simp
  have "lower (CHR ''-'') = CHR ''-''" by code_simp
  with digit_char_decimal [OF x] show ?thesis
    by (auto simp: special_def cut_sign_def whole_text_def ds)
qed

lemma shortest_text_eq:
  "shortest_text neg (m, k) =
     (if k \<le> 0 then whole_text neg (m * 10 ^ nat (- k)) else decimal_text (decimal_of neg m (nat k)))"
  by (simp add: shortest_text_def whole_text_def decimal_text_def decimal_of_def)

lemma ParseFloat32_shortest:
  assumes "float32_round (if neg then - (of_nat m * pow10 (- k)) else of_nat m * pow10 (- k)) = Fin r"
  shows "ParseFloat32 (shortest_text neg (m, k)) = (Fin r, None)"
proof (cases "k \<le> 0")
  case True
  then have "pow10 (- k) = 10 ^ nat (- k)" by (simp add: pow10_def)
  with True assms show ?thesis
    by (simp add: shortest_text_eq ParseFloat32_def special_whole readFloat_whole split: if_splits)
next
  case False
  then have "of_nat m * pow10 (- k) = of_nat m / 10 ^ nat k" by (simp add: pow10_def)
  with False assms show ?thesis
    using ParseFloat32_decimal [OF decimal_of_ok [of neg m "nat k"]]
    by (simp add: shortest_text_eq decimal_of_value split: if_splits)
qed

section \<open>The shortest text\<close>

lemma pow10_inverse: "pow10 k * pow10 (- k) = 1"
  by (cases "0 \<le> k") (simp_all add: pow10_def)

lemma round_half_even_near: "round_half_even x = \<lfloor>x\<rfloor> \<or> round_half_even x = \<lfloor>x\<rfloor> + 1"
  by (simp add: round_half_even_def Let_def)

lemma shortest_at_reads:
  assumes "shortest_at r k = Some m" "0 < r"
  shows "float32_round (of_nat m * pow10 (- k)) = Fin r"
proof -
  have "0 < pow10 k" by (simp add: pow10_def)
  then have "0 \<le> \<lfloor>r * pow10 k\<rfloor>" using assms(2) by simp
  then have "of_nat (nat n) = (of_int n :: rat)" if "n = \<lfloor>r * pow10 k\<rfloor> \<or> n = \<lfloor>r * pow10 k\<rfloor> + 1" for n
    using that by auto
  with assms(1) round_half_even_near [of "r * pow10 k"] show ?thesis
    by (auto simp: shortest_at_def Let_def split: if_splits)
qed

text \<open>A \<^verbatim>\<open>float32\<close> is a multiple of the smallest one.\<close>

lemma float32_multiple:
  assumes "float32_round r = Fin r" "0 < r"
  shows "\<exists>n. r = of_int n / 2 ^ 149"
proof -
  let ?e = "max (exponent \<bar>r\<bar>) (-126)"
  have "\<exists>n :: int. r = of_int n * pow2 (?e - 23)"
    using assms by (auto simp: float32_round_def float_round_def Let_def split: if_splits intro: sym)
  then obtain n :: int where n: "r = of_int n * pow2 (?e - 23)" by blast
  define j where "j = nat (?e + 126)"
  have "- 126 \<le> ?e" by (rule max.cobounded2)
  then have j: "?e - 23 = int j - 149" unfolding j_def by linarith
  have "pow2 (int j - 149) = 2 ^ j / 2 ^ 149"
  proof (cases "149 \<le> j")
    case True
    then obtain i where "j = i + 149" using le_Suc_ex [of 149 j] by (auto simp: add.commute)
    then show ?thesis by (simp add: pow2_def power_add)
  next
    case False
    then obtain i where i: "149 = i + j" "0 < i" by (metis add.commute less_imp_add_positive not_le)
    then have "int j - 149 = - int i" by linarith
    then have "pow2 (int j - 149) = 1 / 2 ^ i" by (simp add: pow2_neg)
    also have "\<dots> = 2 ^ j / 2 ^ (i + j)" by (simp add: power_add)
    finally show ?thesis by (simp only: i(1))
  qed
  with n j have "r = of_int (n * 2 ^ j) / 2 ^ 149" by simp
  then show ?thesis by blast
qed

lemma last_scale: "149 \<in> set shortest_scales"
  by (simp add: shortest_scales_def del: upto_rec_numeral upto.simps)

lemma shortest_reads:
  assumes "float32_round r = Fin r" "0 < r" "shortest r = (m, k)"
  shows "float32_round (of_nat m * pow10 (- k)) = Fin r"
proof -
  obtain n where n: "r = of_int n / 2 ^ 149" using float32_multiple [OF assms(1,2)] by blast
  have "(10 :: rat) ^ 149 = 2 ^ 149 * 5 ^ 149" by (simp flip: power_mult_distrib)
  then have x: "r * pow10 149 = of_int (n * 5 ^ 149)" by (simp add: n pow10_def)
  have "of_int \<lfloor>r * pow10 149\<rfloor> * pow10 (- 149) = r"
    unfolding x floor_of_int unfolding x [symmetric] using pow10_inverse [of 149] by simp
  then have "shortest_at r 149 \<noteq> None" using assms(1) by (simp add: shortest_at_def Let_def)
  then have "List.find (\<lambda>k. shortest_at r k \<noteq> None) shortest_scales \<noteq> None"
    unfolding find_None_iff using last_scale by blast
  then obtain k' where k': "List.find (\<lambda>k. shortest_at r k \<noteq> None) shortest_scales = Some k'" by blast
  then have "shortest_at r k' \<noteq> None" by (auto simp: find_Some_iff)
  with k' assms(3) have "shortest_at r k = Some m" by (auto simp: shortest_def)
  then show ?thesis using assms(2) by (rule shortest_at_reads)
qed

lemma float32_round_minus: "float32_round x = Fin r \<Longrightarrow> float32_round (- x) = Fin (- r)"
  by (auto simp: float32_round_def float_round_def Let_def split: if_splits)

lemma ParseFloat32_special:
  "ParseFloat32 ''+Inf'' = (PosInf, None)" "ParseFloat32 ''-Inf'' = (NegInf, None)" "ParseFloat32 ''NaN'' = (NaN, None)"
  by code_simp+

text \<open>What \<^verbatim>\<open>FormatFloat\<close> prints for a \<^verbatim>\<open>float32\<close> is read back as this very value.\<close>

lemma ParseFloat32_FormatFloat32:
  assumes "\<And>r. x = Fin r \<Longrightarrow> float32_round r = Fin r"
  shows "ParseFloat32 (FormatFloat32 x) = (x, None)"
proof (cases x)
  case (Fin r)
  consider "r = 0" | "0 < r" | "r < 0" by linarith
  then show ?thesis
  proof cases
    case 1
    have "ParseFloat32 ''0'' = (Fin 0, None)" by code_simp
    with 1 Fin show ?thesis by (simp add: FormatFloat32_def)
  next
    case 2
    obtain m k where s: "shortest r = (m, k)" by fastforce
    have "float32_round (of_nat m * pow10 (- k)) = Fin r" by (rule shortest_reads [OF assms [OF Fin] 2 s])
    with 2 Fin s show ?thesis by (simp add: FormatFloat32_def ParseFloat32_shortest)
  next
    case 3
    obtain m k where s: "shortest (- r) = (m, k)" by fastforce
    have "float32_round (- r) = Fin (- r)" using float32_round_minus [OF assms [OF Fin]] by simp
    then have "float32_round (of_nat m * pow10 (- k)) = Fin (- r)" using shortest_reads [of "- r" m k] 3 s by simp
    from float32_round_minus [OF this] 3 Fin s show ?thesis by (simp add: FormatFloat32_def ParseFloat32_shortest)
  qed
qed (simp_all add: FormatFloat32_def ParseFloat32_special)

section \<open>Escaping undone\<close>

definition uri_safe :: "char \<Rightarrow> bool" where
  "uri_safe c \<longleftrightarrow> unreserved c \<or> c \<in> {CHR ''+'', CHR ''%''}"

lemma upperhex_facts:
  assumes "d < 16"
  shows "base_digit 16 (upperhex d) = Some d" "unreserved (upperhex d)"
  using assms by (auto simp: upperhex_def base_digit_def digit_val_def unreserved_def Let_def)

lemma hex_halves: "(of_char c :: nat) div 16 < 16" "(of_char c :: nat) mod 16 < 16"
  using nat_of_char_less_256 [of c] by (simp_all add: less_mult_imp_div_less)

lemma unescape_escape_char: "unescape (escape_char c @ s) = map_option (Cons c) (unescape s)"
proof -
  have code: "unescape (CHR ''%'' # upperhex (of_char c div 16) # upperhex (of_char c mod 16) # s) =
      map_option (Cons c) (unescape s)"
    by (simp add: upperhex_facts(1) [OF hex_halves(1)] upperhex_facts(1) [OF hex_halves(2)])
  have "\<not> unreserved (CHR ''%'')" "\<not> unreserved (CHR ''+'')" by (simp_all add: unreserved_def)
  then have plain: "c \<noteq> CHR ''%''" "c \<noteq> CHR ''+''" if "unreserved c" using that by auto
  consider "unreserved c" | "\<not> unreserved c" "c = CHR '' ''" | "\<not> unreserved c" "c \<noteq> CHR '' ''" by blast
  then show ?thesis
  proof cases
    case 1
    with plain show ?thesis by (simp add: escape_char_def)
  next
    case 2
    then show ?thesis by (simp add: escape_char_def)
  next
    case 3
    have "escape_char c @ s = CHR ''%'' # upperhex (of_char c div 16) # upperhex (of_char c mod 16) # s"
      using 3 by (simp add: escape_char_def Let_def)
    then show ?thesis by (simp only: code)
  qed
qed

lemma unescape_QueryEscape: "unescape (QueryEscape s) = Some s"
  by (induction s) (simp_all add: QueryEscape_def unescape_escape_char)

lemma QueryUnescape_QueryEscape [simp]: "QueryUnescape (QueryEscape s) = (s, None)"
  by (simp add: QueryUnescape_def unescape_QueryEscape)

lemma QueryEscape_safe: "c \<in> set (QueryEscape s) \<Longrightarrow> uri_safe c"
  by (auto simp: QueryEscape_def escape_char_def uri_safe_def Let_def upperhex_facts(2) [OF hex_halves(1)]
      upperhex_facts(2) [OF hex_halves(2)] split: if_splits)

lemma QueryEscape_unreserved: "list_all unreserved s \<Longrightarrow> QueryEscape s = s"
  by (induction s) (simp_all add: QueryEscape_def escape_char_def)

lemma reserved_chars: "\<not> uri_safe (CHR ''='')" "\<not> uri_safe (CHR '';'')" "\<not> uri_safe (CHR ''&'')" "\<not> uri_safe (CHR ''?'')"
  by (simp_all add: uri_safe_def unreserved_def)

lemma QueryEscape_chars:
  "CHR ''='' \<notin> set (QueryEscape s)" "CHR '';'' \<notin> set (QueryEscape s)"
  "CHR ''&'' \<notin> set (QueryEscape s)" "CHR ''?'' \<notin> set (QueryEscape s)"
  using reserved_chars QueryEscape_safe by blast+

lemma escaped_pair_chars:
  "CHR '';'' \<notin> set (escaped_pair kv)" "CHR ''&'' \<notin> set (escaped_pair kv)" "CHR ''?'' \<notin> set (escaped_pair kv)"
  by (simp_all add: escaped_pair_def QueryEscape_chars)

lemma escaped_pair_not_Nil: "escaped_pair kv \<noteq> []"
  by (simp add: escaped_pair_def)

lemma cut_escaped_pair: "cut_at (escaped_pair (k, v)) ''='' = (QueryEscape k, QueryEscape v)"
  using Cut_single [OF QueryEscape_chars(1), of k "QueryEscape v"] by (simp add: cut_at_def escaped_pair_def)

section \<open>Splitting what was joined\<close>

lemma Join_Cons: "Join (x # xs) sep = x @ concat (map (\<lambda>p. sep @ p) xs)"
  by (induction xs arbitrary: x) simp_all

lemma Split_Join:
  assumes "xs \<noteq> []" "\<forall>x \<in> set xs. c \<notin> set x"
  shows "Split (Join xs [c]) [c] = xs"
  using assms
proof (induction xs rule: list_nonempty_induct)
  case (single x)
  then show ?case by (simp add: Split.simps [of x] Cut_None_single)
next
  case (cons x xs)
  then obtain y ys where "xs = y # ys" by (cases xs) auto
  with cons show ?case
    using Cut_single [of c x "Join xs [c]"] by (simp add: Split.simps [of "x @ _"])
qed

text \<open>Sorting the texts of pairs is reading the pairs in some order.\<close>

lemma sort_map: "sort (map f xs) = map f (sort_key f xs)"
  by (rule properties_for_sort) simp_all

lemma map_of_sort_key:
  assumes "distinct (map fst kvs)"
  shows "map_of (sort_key f kvs) = map_of kvs"
proof -
  have "mset (map fst (sort_key f kvs)) = mset (map fst kvs)" by simp
  then have "distinct (map fst (sort_key f kvs))" using assms mset_eq_imp_distinct_iff by blast
  then show ?thesis using map_of_inject_set [OF _ assms] by simp
qed

lemma distinct_sort_key_keys:
  assumes "distinct (map fst kvs)"
  shows "distinct (map fst (sort_key f kvs))"
proof -
  have "mset (map fst (sort_key f kvs)) = mset (map fst kvs)" by simp
  then show ?thesis using assms mset_eq_imp_distinct_iff by blast
qed

lemma sort_key_unique:
  assumes "mset xs = mset ys" "distinct (map f xs)" "distinct (map f ys)"
  shows "sort_key f xs = sort_key f ys"
proof (rule map_sorted_distinct_set_unique)
  show "inj_on f (set (sort_key f xs) \<union> set (sort_key f ys))"
    using assms mset_eq_setD [OF assms(1)] by (simp add: distinct_map)
  show "distinct (map f (sort_key f xs))" "distinct (map f (sort_key f ys))"
    using assms mset_eq_setD [OF assms(1)] by (auto simp: distinct_map)
qed (use mset_eq_setD [OF assms(1)] in simp_all)

section \<open>Parameters and query read back\<close>

lemma geo_param_pair:
  "geo_param (escaped_pair (k, v)) (Inr g) =
     (if k = ''u'' then
        (case ParseFloat32 v of
           (_, Some err) \<Rightarrow> Inl (Errorf ''invalid u= uncertainty'')
         | (u, None) \<Rightarrow> Inr (g\<lparr>Uncertainty := Some u\<rparr>))
      else if k = ''crs'' then Inr (g\<lparr>CRS := v\<rparr>)
      else Inr (g\<lparr>OtherParams := (OtherParams g)(k \<mapsto> v)\<rparr>))"
  by (simp add: geo_param_def escaped_pair_not_Nil cut_escaped_pair)

text \<open>The fields that the parameters \<open>kvs\<close> set, whatever their order.\<close>

definition with_params :: "(string \<times> string) list \<Rightarrow> GeoURI \<Rightarrow> GeoURI" where
  "with_params kvs g =
     g\<lparr>Uncertainty := (case map_of kvs ''u'' of Some v \<Rightarrow> Some (fst (ParseFloat32 v)) | None \<Rightarrow> Uncertainty g),
       CRS := (case map_of kvs ''crs'' of Some v \<Rightarrow> v | None \<Rightarrow> CRS g),
       OtherParams := OtherParams g ++ map_of (filter (\<lambda>kv. fst kv \<notin> {''u'', ''crs''}) kvs)\<rparr>"

lemma fold_geo_param:
  assumes "distinct (map fst kvs)" "\<And>v. (''u'', v) \<in> set kvs \<Longrightarrow> snd (ParseFloat32 v) = None"
  shows "fold geo_param (map escaped_pair kvs) (Inr g) = Inr (with_params kvs g)"
  using assms
proof (induction kvs arbitrary: g)
  case Nil
  then show ?case by (simp add: with_params_def)
next
  case (Cons kv kvs)
  obtain k v where kv: "kv = (k, v)" by fastforce
  then have fresh: "map_of kvs k = None" using Cons.prems(1) by (simp add: map_of_eq_None_iff)
  define h where "h = (if k = ''u'' then g\<lparr>Uncertainty := Some (fst (ParseFloat32 v))\<rparr>
    else if k = ''crs'' then g\<lparr>CRS := v\<rparr> else g\<lparr>OtherParams := (OtherParams g)(k \<mapsto> v)\<rparr>)"
  have "geo_param (escaped_pair kv) (Inr g) = Inr h"
    using Cons.prems(2) [of v] by (auto simp: kv geo_param_pair h_def split: prod.splits option.splits)
  moreover have "fold geo_param (map escaped_pair kvs) (Inr h) = Inr (with_params kvs h)"
    using Cons by simp
  moreover have "with_params kvs h = with_params (kv # kvs) g"
  proof -
    let ?F = "map_of (filter (\<lambda>kv. fst kv \<notin> {''u'', ''crs''}) kvs)"
    have "k \<notin> dom ?F" using Cons.prems(1) by (auto simp: kv dom_map_of_conv_image_fst)
    then have "(OtherParams g)(k \<mapsto> v) ++ ?F = OtherParams g ++ ?F(k \<mapsto> v)" by (simp add: map_add_upd_left)
    with fresh show ?thesis by (cases "k = ''u''"; cases "k = ''crs''") (simp_all add: with_params_def h_def kv split: option.split)
  qed
  ultimately show ?case by simp
qed

lemma query_part_pair:
  "query_part (escaped_pair (k, v)) (m, err) = (if m k = None then m(k \<mapsto> v) else m, err)"
  by (simp add: query_part_def escaped_pair_not_Nil escaped_pair_chars cut_escaped_pair)

lemma fold_query_part:
  assumes "distinct (map fst kvs)" "\<forall>k \<in> fst ` set kvs. m k = None"
  shows "fold query_part (map escaped_pair kvs) (m, err) = (m ++ map_of kvs, err)"
  using assms
proof (induction kvs arbitrary: m)
  case (Cons kv kvs)
  obtain k v where kv: "kv = (k, v)" by fastforce
  then have new: "k \<notin> fst ` set kvs" "m k = None" using Cons.prems by auto
  then have "m(k \<mapsto> v) ++ map_of kvs = m ++ (map_of kvs)(k \<mapsto> v)"
    by (simp add: map_add_upd_left dom_map_of_conv_image_fst)
  moreover have "\<forall>j \<in> fst ` set kvs. (m(k \<mapsto> v)) j = None" using new Cons.prems(2) by auto
  ultimately show ?case
    using Cons.IH [of "m(k \<mapsto> v)"] Cons.prems(1) new(2) by (simp add: kv query_part_pair del: fun_upd_apply)
qed simp

text \<open>\<^verbatim>\<open>ParseQuery\<close> inverts \<^verbatim>\<open>Encode\<close>.\<close>

lemma ParseQuery_Encode:
  assumes "distinct (map fst vs)"
  shows "ParseQuery (values_Encode vs) = (map_of vs, None)"
proof (cases "vs = []")
  case True
  then show ?thesis by (simp add: ParseQuery_def values_Encode_def)
next
  case False
  let ?vs = "sort_key fst vs"
  have ne: "map escaped_pair ?vs \<noteq> []" using False by (metis length_0_conv length_map length_sort)
  then have "values_Encode vs \<noteq> []"
    by (cases "map escaped_pair ?vs") (auto simp: values_Encode_def Join_Cons escaped_pair_not_Nil)
  moreover have "Split (values_Encode vs) ''&'' = map escaped_pair ?vs"
    unfolding values_Encode_def by (rule Split_Join [OF ne]) (simp add: escaped_pair_chars)
  ultimately show ?thesis
    using fold_query_part [OF distinct_sort_key_keys [OF assms, of fst], of Map.empty None]
    by (simp add: ParseQuery_def map_of_sort_key [OF assms])
qed

lemma values_Encode_Nil: "values_Encode vs = [] \<longleftrightarrow> vs = []"
proof (cases "sort_key fst vs")
  case Nil
  then show ?thesis by (metis values_Encode_def Join.simps(1) length_0_conv length_sort list.simps(8))
next
  case (Cons kv kvs)
  then have "vs \<noteq> []" by auto
  with Cons show ?thesis by (simp add: values_Encode_def Join_Cons escaped_pair_not_Nil)
qed

text \<open>\<^verbatim>\<open>Atoi\<close> inverts \<^verbatim>\<open>Itoa\<close> on 64-bit integers.\<close>

lemma Atoi_Itoa:
  assumes "- (2 ^ 63) \<le> z" "z < 2 ^ 63"
  shows "Atoi (Itoa z) = Inr z"
proof -
  obtain x xs where ds: "digits 10 (nat \<bar>z\<bar>) = x # xs" by (cases "digits 10 (nat \<bar>z\<bar>)") simp_all
  then have "x < 10" using digits_ten [of x "nat \<bar>z\<bar>"] by simp
  then have "cut_sign (Itoa z) = (z < 0, map digit_char (digits 10 (nat \<bar>z\<bar>)))"
    using digit_char_decimal(1) [of x] by (auto simp: Itoa_def cut_sign_def ds)
  moreover have "ParseUint (map digit_char (digits 10 (nat \<bar>z\<bar>))) 10 64 = (nat \<bar>z\<bar>, None)"
    using ParseUint_digits [of 10 "nat \<bar>z\<bar>" 64 0] assms by simp
  ultimately show ?thesis using assms by (auto simp: Atoi_def)
qed

section \<open>A printed URI is read back\<close>

definition at_places :: "nat \<Rightarrow> rat \<Rightarrow> rat" where
  "at_places n r =
     (let v = of_int (round_half_even (\<bar>r\<bar> * 10 ^ n)) / 10 ^ n in if r < 0 then - v else v)"

lemma round_half_even_nonneg: "0 \<le> x \<Longrightarrow> 0 \<le> round_half_even x"
  using round_half_even_near [of x] by (auto simp: add_nonneg_nonneg)

lemma Sprintf_f_decimal:
  "\<exists>d. decimal_ok d \<and> Sprintf_f n (Fin r) = decimal_text d \<and> decimal_value d = at_places n r"
proof -
  let ?d = "decimal_of (r < 0) (nat (round_half_even (\<bar>r\<bar> * 10 ^ n))) n"
  have "0 \<le> round_half_even (\<bar>r\<bar> * 10 ^ n)" by (rule round_half_even_nonneg) simp
  then have n: "of_nat (nat (round_half_even (\<bar>r\<bar> * 10 ^ n))) = (of_int (round_half_even (\<bar>r\<bar> * 10 ^ n)) :: rat)"
    by (rule of_nat_nat)
  have "decimal_value ?d = at_places n r" unfolding decimal_of_value at_places_def Let_def n ..
  with decimal_of_ok show ?thesis by (auto simp: Sprintf_f_def)
qed

text \<open>What a printed coordinate reads as: itself, rounded to \<open>n\<close> places.\<close>

definition is_float32 :: "gofloat \<Rightarrow> bool" where
  "is_float32 x = (case x of Fin r \<Rightarrow> float32_round r = Fin r | _ \<Rightarrow> True)"

definition reread :: "nat \<Rightarrow> gofloat \<Rightarrow> gofloat" where
  "reread n x = (case x of Fin r \<Rightarrow> float32_round (at_places n r) | _ \<Rightarrow> x)"

lemma at_places_whole: "at_places n (of_int i) = of_int i"
proof -
  have "\<bar>of_int i\<bar> * 10 ^ n = (of_int (\<bar>i\<bar> * 10 ^ n) :: rat)" by simp
  then have "round_half_even (\<bar>of_int i\<bar> * 10 ^ n) = \<bar>i\<bar> * 10 ^ n"
    by (simp only: round_half_even_def floor_of_int) simp
  then show ?thesis by (simp add: at_places_def Let_def)
qed

lemma at_places_near: "\<bar>at_places n r\<bar> \<le> \<bar>r\<bar> + 1"
proof -
  let ?m = "round_half_even (\<bar>r\<bar> * 10 ^ n)"
  have "0 \<le> (of_int ?m :: rat) / 10 ^ n" using round_half_even_nonneg [of "\<bar>r\<bar> * 10 ^ n"] by simp
  then have "\<bar>at_places n r\<bar> = of_int ?m / 10 ^ n"
    unfolding at_places_def Let_def by (simp only: abs_minus_cancel abs_of_nonneg split: if_splits) simp
  also have "\<dots> \<le> (\<bar>r\<bar> * 10 ^ n + 10 ^ n) / 10 ^ n"
    using round_half_even_le [of "\<bar>r\<bar> * 10 ^ n"] one_le_power [of "10 :: rat" n]
    by (intro divide_right_mono) (simp_all del: one_le_power)
  also have "\<dots> = \<bar>r\<bar> + 1" by (simp add: add_divide_distrib)
  finally show ?thesis .
qed

lemma at_places_finite:
  assumes "float32_round r = Fin r"
  shows "\<exists>s. float32_round (at_places n r) = Fin s"
proof (cases "2 ^ 24 \<le> \<bar>r\<bar>")
  case True
  then obtain i where "r = of_int i" using float32_whole [OF assms] by blast
  with assms show ?thesis by (auto simp: at_places_whole)
next
  case False
  then have "\<bar>at_places n r\<bar> < 2 ^ 25" using at_places_near [of n r] by simp
  then show ?thesis by (rule float32_round_finite)
qed

lemma Sprintf_f_read:
  assumes "is_float32 x"
  shows "ParseFloat32 (Sprintf_f n x) = (reread n x, None)"
    "set (Sprintf_f n x) \<inter> {CHR ''?'', CHR '';'', CHR '',''} = {}"
proof -
  have "ParseFloat32 (Sprintf_f n x) = (reread n x, None) \<and> set (Sprintf_f n x) \<inter> {CHR ''?'', CHR '';'', CHR '',''} = {}"
  proof (cases x)
    case (Fin r)
    obtain d where d: "decimal_ok d" "Sprintf_f n x = decimal_text d" "decimal_value d = at_places n r"
      using Sprintf_f_decimal [of n r] Fin by blast
    obtain s where s: "float32_round (at_places n r) = Fin s"
      using at_places_finite assms Fin by (auto simp: is_float32_def)
    then have "reread n x = Fin s" using Fin by (simp add: reread_def)
    with ParseFloat32_decimal [OF d(1)] decimal_text_chars [OF d(1)] d(2,3) s show ?thesis by simp
  qed (simp_all add: Sprintf_f_def reread_def ParseFloat32_special)
  then show "ParseFloat32 (Sprintf_f n x) = (reread n x, None)"
    "set (Sprintf_f n x) \<inter> {CHR ''?'', CHR '';'', CHR '',''} = {}" by blast+
qed

text \<open>The parameters of a location and the values of its query, as pairs.\<close>

definition param_pairs :: "string list \<Rightarrow> GeoURI \<Rightarrow> (string \<times> string) list" where
  "param_pairs ks g =
     (case Uncertainty g of Some u \<Rightarrow> [(''u'', FormatFloat32 u)] | None \<Rightarrow> []) @
     (if CRS g \<noteq> [] then [(''crs'', CRS g)] else []) @ map (\<lambda>k. (k, the (OtherParams g k))) ks"

definition query_pairs :: "string list \<Rightarrow> GeoURI \<Rightarrow> (string \<times> string) list" where
  "query_pairs qs g =
     (case Zoom g of Some z \<Rightarrow> [(''z'', Itoa z)] | None \<Rightarrow> []) @
     (if Query g \<noteq> [] then [(''q'', Query g)] else []) @ map (\<lambda>k. (k, the (QueryParams g k))) qs"

lemma values_Set_fresh: "k \<notin> fst ` set vs \<Longrightarrow> values_Set k v vs = vs @ [(k, v)]"
  by (auto simp: values_Set_def filter_id_conv)

lemma fold_values_Set:
  "distinct ks \<Longrightarrow> set ks \<inter> fst ` set vs = {} \<Longrightarrow>
   fold (\<lambda>k. values_Set k (f k)) ks vs = vs @ map (\<lambda>k. (k, f k)) ks"
  by (induction ks arbitrary: vs) (auto simp: values_Set_fresh)

lemma geo_values_pairs:
  assumes "distinct qs" "''z'' \<notin> set qs" "''q'' \<notin> set qs"
  shows "geo_values qs g = query_pairs qs g"
  using assms by (auto simp: geo_values_def query_pairs_def fold_values_Set values_Set_fresh split: option.splits)

lemma whole_text_unreserved: "list_all unreserved (whole_text neg n)"
  by (auto simp: whole_text_def list_all_iff unreserved_digit digits_ten) (simp add: unreserved_def)

lemma decimal_text_unreserved: "decimal_ok d \<Longrightarrow> list_all unreserved (decimal_text d)"
  by (auto simp: decimal_text_def decimal_ok_def list_all_iff unreserved_digit) (simp_all add: unreserved_def)

lemma shortest_text_unreserved: "list_all unreserved (shortest_text neg mk)"
  by (cases mk) (simp add: shortest_text_eq whole_text_unreserved decimal_text_unreserved decimal_of_ok)

lemma FormatFloat32_unreserved: "x \<noteq> PosInf \<Longrightarrow> list_all unreserved (FormatFloat32 x)"
  by (cases x) (auto simp: FormatFloat32_def shortest_text_unreserved unreserved_def)

text \<open>
  What the fields of a location must be for its text to be read back: \<^verbatim>\<open>float32\<close> and \<^verbatim>\<open>int\<close>
  values, and no parameter under the name of a field.  An uncertainty of plus infinity is printed
  with a plus sign, which reads as a space.
\<close>

definition geo_printable :: "GeoURI \<Rightarrow> bool" where
  "geo_printable g \<longleftrightarrow>
     is_float32 (Latitude g) \<and> is_float32 (Longitude g) \<and>
     (case Altitude g of Some a \<Rightarrow> is_float32 a | None \<Rightarrow> True) \<and>
     (case Uncertainty g of Some u \<Rightarrow> is_float32 u \<and> u \<noteq> PosInf | None \<Rightarrow> True) \<and>
     (case Zoom g of Some z \<Rightarrow> - (2 ^ 63) \<le> z \<and> z < 2 ^ 63 | None \<Rightarrow> True) \<and>
     OtherParams g ''u'' = None \<and> OtherParams g ''crs'' = None \<and>
     QueryParams g ''z'' = None \<and> QueryParams g ''q'' = None"

definition geo_reread :: "GeoURI \<Rightarrow> GeoURI" where
  "geo_reread g =
     g\<lparr>Latitude := reread 5 (Latitude g), Longitude := reread 5 (Longitude g),
       Altitude := map_option (reread 3) (Altitude g)\<rparr>"

text \<open>A loop over a map: its keys, each once.\<close>

definition map_order :: "string list \<Rightarrow> (string \<rightharpoonup> string) \<Rightarrow> bool" where
  "map_order ks m \<longleftrightarrow> distinct ks \<and> set ks = dom m"

lemma map_of_order: "map_order ks m \<Longrightarrow> map_of (map (\<lambda>k. (k, the (m k))) ks) = m"
  by (auto simp: map_order_def map_of_map_restrict restrict_map_def fun_eq_iff domIff split: option.splits)

lemma geo_params_pairs:
  assumes "geo_printable g"
  shows "geo_params ks g = map escaped_pair (param_pairs ks g)"
proof -
  have "QueryEscape (FormatFloat32 u) = FormatFloat32 u" if "Uncertainty g = Some u" for u
    using assms that by (intro QueryEscape_unreserved FormatFloat32_unreserved) (simp add: geo_printable_def)
  moreover have "QueryEscape ''u'' = ''u''" "QueryEscape ''crs'' = ''crs''"
    by (rule QueryEscape_unreserved; simp add: unreserved_def)+
  ultimately show ?thesis by (auto simp: geo_params_def param_pairs_def escaped_pair_def split: option.split)
qed

lemma param_pairs_facts:
  assumes "geo_printable g" "map_order ks (OtherParams g)"
  shows "distinct (map fst (param_pairs ks g))"
    "map_of (param_pairs ks g) ''u'' = map_option FormatFloat32 (Uncertainty g)"
    "map_of (param_pairs ks g) ''crs'' = (if CRS g = [] then None else Some (CRS g))"
    "map_of (filter (\<lambda>kv. fst kv \<notin> {''u'', ''crs''}) (param_pairs ks g)) = OtherParams g"
proof -
  have ks: "''u'' \<notin> set ks" "''crs'' \<notin> set ks" "distinct ks"
    using assms by (auto simp: geo_printable_def map_order_def)
  then have rest: "filter (\<lambda>k. k \<noteq> ''u'' \<and> k \<noteq> ''crs'') ks = ks" by (auto simp: filter_id_conv)
  show "distinct (map fst (param_pairs ks g))"
    using ks by (auto simp: param_pairs_def comp_def split: option.split)
  show "map_of (param_pairs ks g) ''u'' = map_option FormatFloat32 (Uncertainty g)"
    using ks by (auto simp: param_pairs_def map_of_eq_None_iff split: option.split)
  show "map_of (param_pairs ks g) ''crs'' = (if CRS g = [] then None else Some (CRS g))"
    using ks by (auto simp: param_pairs_def map_of_eq_None_iff split: option.split)
  show "map_of (filter (\<lambda>kv. fst kv \<notin> {''u'', ''crs''}) (param_pairs ks g)) = OtherParams g"
    using map_of_order [OF assms(2)] by (auto simp: param_pairs_def filter_map comp_def rest split: option.split)
qed

lemma query_pairs_facts:
  assumes "geo_printable g" "map_order qs (QueryParams g)"
  shows "geo_values qs g = query_pairs qs g" "distinct (map fst (query_pairs qs g))"
    "map_of (query_pairs qs g) ''z'' = map_option Itoa (Zoom g)"
    "map_of (query_pairs qs g) ''q'' = (if Query g = [] then None else Some (Query g))"
    "(map_of (query_pairs qs g))(''z'' := None, ''q'' := None) = QueryParams g"
proof -
  have qs: "''z'' \<notin> set qs" "''q'' \<notin> set qs" "distinct qs" "QueryParams g ''z'' = None" "QueryParams g ''q'' = None"
    using assms by (auto simp: geo_printable_def map_order_def)
  then show "geo_values qs g = query_pairs qs g" by (intro geo_values_pairs)
  show "distinct (map fst (query_pairs qs g))"
    using qs by (auto simp: query_pairs_def comp_def split: option.split)
  note m = map_of_order [OF assms(2)]
  show "map_of (query_pairs qs g) ''z'' = map_option Itoa (Zoom g)"
    "map_of (query_pairs qs g) ''q'' = (if Query g = [] then None else Some (Query g))"
    "(map_of (query_pairs qs g))(''z'' := None, ''q'' := None) = QueryParams g"
    using qs by (auto simp: query_pairs_def m fun_eq_iff split: option.split)
qed

text \<open>The three parts of the text, each read back.\<close>

definition geo_coords :: "GeoURI \<Rightarrow> string list" where
  "geo_coords g =
     [Sprintf_f 5 (Latitude g), Sprintf_f 5 (Longitude g)] @
     (case Altitude g of Some a \<Rightarrow> [Sprintf_f 3 a] | None \<Rightarrow> [])"

definition geo_main :: "string list \<Rightarrow> GeoURI \<Rightarrow> string" where
  "geo_main ks g = Join (Join (geo_coords g) '','' # sort (geo_params ks g)) '';''"

lemma GeoURI_String_parts:
  "GeoURI_String ks qs g =
     ''geo:'' @ geo_main ks g @
     (if geo_values qs g = [] then [] else ''?'' @ values_Encode (geo_values qs g))"
  by (simp add: GeoURI_String_def geo_main_def geo_coords_def Join_Cons values_Encode_Nil Let_def split: option.split)

lemma geo_coords_chars:
  assumes "geo_printable g" "t \<in> set (geo_coords g)"
  shows "CHR ''?'' \<notin> set t" "CHR '';'' \<notin> set t" "CHR '','' \<notin> set t"
  using assms Sprintf_f_read(2) by (auto simp: geo_printable_def geo_coords_def split: option.splits)

lemma Join_chars: "set (Join xs sep) \<subseteq> \<Union> (set ` set xs) \<union> set sep"
  by (induction xs sep rule: Join.induct) auto

lemma geo_coordinates_read:
  assumes "geo_printable g"
  shows "geo_coordinates (Split (Join (geo_coords g) '','') '','') =
    Inr \<lparr>Latitude = reread 5 (Latitude g), Longitude = reread 5 (Longitude g),
         Altitude = map_option (reread 3) (Altitude g), Uncertainty = None, CRS = [],
         Zoom = None, Query = [], OtherParams = Map.empty, QueryParams = Map.empty\<rparr>"
proof -
  have "Split (Join (geo_coords g) '','') '','' = geo_coords g"
    by (rule Split_Join) (use geo_coords_chars(3) [OF assms] in \<open>auto simp: geo_coords_def\<close>)
  with assms show ?thesis
    by (auto simp: geo_coords_def geo_coordinates_def geo_printable_def Sprintf_f_read(1) Let_def split: option.splits)
qed

lemma geo_params_read:
  assumes "geo_printable g" "map_order ks (OtherParams g)"
    and "Uncertainty h = None" "CRS h = []" "OtherParams h = Map.empty"
  shows "fold geo_param (sort (geo_params ks g)) (Inr h) =
    Inr (h\<lparr>Uncertainty := Uncertainty g, CRS := CRS g, OtherParams := OtherParams g\<rparr>)"
proof -
  let ?kvs = "sort_key escaped_pair (param_pairs ks g)"
  note facts = param_pairs_facts [OF assms(1,2)]
  have u: "ParseFloat32 (FormatFloat32 u) = (u, None)" if "Uncertainty g = Some u" for u
    using assms(1) that by (intro ParseFloat32_FormatFloat32) (auto simp: geo_printable_def is_float32_def)
  have "snd (ParseFloat32 v) = None" if "(''u'', v) \<in> set ?kvs" for v
  proof -
    have "map_of (param_pairs ks g) ''u'' = Some v" using that facts(1) by simp
    with facts(2) u show ?thesis by (cases "Uncertainty g") auto
  qed
  then have "fold geo_param (map escaped_pair ?kvs) (Inr h) = Inr (with_params ?kvs h)"
    by (intro fold_geo_param distinct_sort_key_keys facts(1))
  moreover have "map_of (filter (\<lambda>kv. fst kv \<notin> {''u'', ''crs''}) ?kvs) =
      map_of (filter (\<lambda>kv. fst kv \<notin> {''u'', ''crs''}) (param_pairs ks g))"
    by (simp only: filter_sort map_of_sort_key [OF distinct_map_filter [OF facts(1)]])
  then have "with_params ?kvs h = h\<lparr>Uncertainty := Uncertainty g, CRS := CRS g, OtherParams := OtherParams g\<rparr>"
    using facts assms(3-5) u by (auto simp: with_params_def map_of_sort_key split: option.split)
  ultimately show ?thesis by (simp only: geo_params_pairs [OF assms(1)] sort_map)
qed

lemma geo_query_read:
  assumes "geo_printable g" "map_order qs (QueryParams g)"
    and "Query h = []" "Zoom h = None" "QueryParams h = Map.empty"
  shows "geo_query (values_Encode (geo_values qs g)) h =
    Inr (h\<lparr>Query := Query g, Zoom := Zoom g, QueryParams := QueryParams g\<rparr>)"
proof (cases "geo_values qs g = []")
  case True
  note facts = query_pairs_facts [OF assms(1,2)]
  have "query_pairs qs g = []" using True facts(1) by simp
  with facts(3-5) have "Zoom g = None" "Query g = []" "QueryParams g = Map.empty"
    by (auto split: if_splits)
  with True assms(3-5) show ?thesis by (simp add: geo_query_def values_Encode_def)
next
  case False
  note facts = query_pairs_facts [OF assms(1,2)]
  have "ParseQuery (values_Encode (geo_values qs g)) = (map_of (query_pairs qs g), None)"
    using ParseQuery_Encode [OF facts(2)] facts(1) by simp
  moreover have "Atoi (Itoa z) = Inr z" if "Zoom g = Some z" for z
    using assms(1) that by (intro Atoi_Itoa) (auto simp: geo_printable_def)
  ultimately show ?thesis
    using False facts(3-5) assms(3-5) by (auto simp: geo_query_def values_Encode_Nil Let_def split: option.split)
qed

lemma cut_query:
  assumes "CHR ''?'' \<notin> set a"
  shows "cut_at (a @ (if vs = [] then [] else ''?'' @ values_Encode vs)) ''?'' = (a, values_Encode vs)"
  using assms Cut_single [of "CHR ''?''" a "values_Encode vs"] Cut_None_single [of "CHR ''?''" a]
  by (simp add: cut_at_def values_Encode_def)

section \<open>Properties\<close>

text \<open>
  C22: A location that is printed is read back.  For every location whose numbers are
  \<^verbatim>\<open>float32\<close> and \<^verbatim>\<open>int\<close> values (an uncertainty of plus infinity apart) and whose parameters are
  not under the name of a field, and for every order in which the two loops range over the maps,
  \<^verbatim>\<open>ParseGeoURI\<close> accepts the text of \<^verbatim>\<open>String\<close> and gives the same location: uncertainty,
  reference system, zoom, query and all parameters exactly, whatever characters they hold; the
  coordinates as the \<^verbatim>\<open>float32\<close> nearest to their five decimals, the altitude to its three.
\<close>

theorem geo_roundtrip:
  assumes "geo_printable g" "map_order ks (OtherParams g)" "map_order qs (QueryParams g)"
  shows "ParseGeoURI (GeoURI_String ks qs g) = Inr (geo_reread g)"
proof -
  let ?ps = "Join (geo_coords g) '','' # sort (geo_params ks g)"
  let ?vs = "geo_values qs g"
  have coords: "CHR ''?'' \<notin> set (Join (geo_coords g) '','')" "CHR '';'' \<notin> set (Join (geo_coords g) '','')"
    using geo_coords_chars [OF assms(1)] Join_chars [of "geo_coords g" "'',''"] by auto
  have params: "CHR ''?'' \<notin> set p \<and> CHR '';'' \<notin> set p" if "p \<in> set (geo_params ks g)" for p
    using that by (auto simp: geo_params_pairs [OF assms(1)] escaped_pair_chars)
  have "Split (geo_main ks g) '';'' = ?ps"
    unfolding geo_main_def by (rule Split_Join) (use coords params in auto)
  moreover have "CHR ''?'' \<notin> set (geo_main ks g)"
    using coords params Join_chars [of ?ps "'';''"] unfolding geo_main_def by auto
  then have "cut_at (drop 4 (GeoURI_String ks qs g)) ''?'' = (geo_main ks g, values_Encode ?vs)"
    by (simp add: GeoURI_String_parts cut_query)
  moreover have "HasPrefix (GeoURI_String ks qs g) ''geo:''" by (simp add: GeoURI_String_parts HasPrefix_def)
  ultimately show ?thesis
    using geo_coordinates_read [OF assms(1)] geo_params_read [OF assms(1,2)] geo_query_read [OF assms(1,3)]
    by (simp add: ParseGeoURI_def geo_reread_def)
qed

text \<open>
  A location with an altitude, an uncertainty, a reference system, a zoom, a query and parameters
  that need escaping: it is printed and read back unchanged.
\<close>

definition sample_geo :: GeoURI where
  "sample_geo =
     \<lparr>Latitude = Fin (105 / 2), Longitude = Fin (- (53 / 4)), Altitude = Some (Fin (137 / 4)),
      Uncertainty = Some (Fin 0), CRS = ''wgs84'', Zoom = Some 15, Query = ''Tor & Platz'',
      OtherParams = [''a;b'' \<mapsto> ''x=y''], QueryParams = [''k'' \<mapsto> ''1?2'']\<rparr>"

theorem geo_roundtrip_witness:
  "ParseGeoURI (GeoURI_String [''a;b''] [''k''] sample_geo) = Inr sample_geo"
proof -
  have f: "float32_round (105 / 2) = Fin (105 / 2)" "float32_round (- (53 / 4)) = Fin (- (53 / 4))"
    "float32_round (137 / 4) = Fin (137 / 4)" "float32_round 0 = Fin 0"
    "at_places 5 (105 / 2) = 105 / 2" "at_places 5 (- (53 / 4)) = - (53 / 4)" "at_places 3 (137 / 4) = 137 / 4"
    by code_simp+
  have "reread 5 (Fin (105 / 2)) = Fin (105 / 2)" "reread 5 (Fin (- (53 / 4))) = Fin (- (53 / 4))"
    "reread 3 (Fin (137 / 4)) = Fin (137 / 4)"
    by (simp_all only: reread_def gofloat.case f)
  with f(1-4) have "geo_printable sample_geo" "geo_reread sample_geo = sample_geo"
    by (simp_all add: geo_printable_def geo_reread_def sample_geo_def is_float32_def)
  moreover have "map_order [''a;b''] (OtherParams sample_geo)" "map_order [''k''] (QueryParams sample_geo)"
    by (simp_all add: map_order_def sample_geo_def)
  ultimately show ?thesis using geo_roundtrip [of sample_geo] by simp
qed

text \<open>The text itself, and the one value that does not survive.\<close>

lemma sample_digits:
  "digit_char 0 = CHR ''0''" "digit_char (Suc 0) = CHR ''1''" "digit_char 2 = CHR ''2''"
  "digit_char 3 = CHR ''3''" "digit_char 4 = CHR ''4''" "digit_char 5 = CHR ''5''"
  by code_simp+

lemma sample_coordinates:
  "Sprintf_f 5 (Fin (105 / 2)) = ''52.50000''" "Sprintf_f 5 (Fin (- (53 / 4))) = ''-13.25000''"
  "Sprintf_f 3 (Fin (137 / 4)) = ''34.250''"
  by (simp_all add: Sprintf_f_def decimal_of_def decimal_text_def digits.simps pad_digits_def round_half_even_def
      Let_def sample_digits)

lemma sample_params:
  "geo_params [''a;b''] sample_geo = [''u=0'', ''crs=wgs84'', ''a%3Bb=x%3Dy'']"
  "sort [''u=0'', ''crs=wgs84'', ''a%3Bb=x%3Dy''] = [''a%3Bb=x%3Dy'', ''crs=wgs84'', ''u=0'']"
proof -
  have "QueryEscape ''wgs84'' = ''wgs84''" "QueryEscape ''a;b'' = ''a%3Bb''" "QueryEscape ''x=y'' = ''x%3Dy''"
    by code_simp+
  then show "geo_params [''a;b''] sample_geo = [''u=0'', ''crs=wgs84'', ''a%3Bb=x%3Dy'']"
    by (simp add: geo_params_def sample_geo_def FormatFloat32_def)
qed code_simp

lemma sample_query: "values_Encode (geo_values [''k''] sample_geo) = ''k=1%3F2&q=Tor+%26+Platz&z=15''"
  by code_simp

lemma sample_geo_text:
  "GeoURI_String [''a;b''] [''k''] sample_geo =
     ''geo:52.50000,-13.25000,34.250;a%3Bb=x%3Dy;crs=wgs84;u=0?k=1%3F2&q=Tor+%26+Platz&z=15''"
proof -
  have "Latitude sample_geo = Fin (105 / 2)" "Longitude sample_geo = Fin (- (53 / 4))"
    "Altitude sample_geo = Some (Fin (137 / 4))" by (simp_all add: sample_geo_def)
  then show ?thesis by (simp add: GeoURI_String_def sample_coordinates sample_params sample_query)
qed

lemma infinite_uncertainty_unread:
  "geo_param (''u='' @ FormatFloat32 PosInf) (Inr g) = Inl (Errorf ''invalid u= uncertainty'')"
proof -
  have "cut_at ''u=+Inf'' ''='' = (''u'', ''+Inf'')" "QueryUnescape ''u'' = (''u'', None)"
    "QueryUnescape ''+Inf'' = ('' Inf'', None)" "ParseFloat32 '' Inf'' = (Fin 0, Some NumSyntax)"
    by code_simp+
  then show ?thesis by (simp add: geo_param_def FormatFloat32_def)
qed

text \<open>The order of the loops over the maps does not show in the text.\<close>

lemma geo_text_order:
  assumes "geo_printable g" "map_order ks (OtherParams g)" "map_order ks' (OtherParams g)"
    and "map_order qs (QueryParams g)" "map_order qs' (QueryParams g)"
  shows "GeoURI_String ks qs g = GeoURI_String ks' qs' g"
proof -
  have "mset ks = mset ks'" using assms(2,3) unfolding map_order_def by (metis set_eq_iff_mset_eq_distinct)
  then have "mset (geo_params ks g) = mset (geo_params ks' g)" by (simp add: geo_params_def)
  then have "sort (geo_params ks g) = sort (geo_params ks' g)" by (metis properties_for_sort mset_sort sorted_sort)
  moreover have "mset qs = mset qs'" using assms(4,5) unfolding map_order_def by (metis set_eq_iff_mset_eq_distinct)
  then have "mset (query_pairs qs g) = mset (query_pairs qs' g)" by (simp add: query_pairs_def)
  then have "sort_key fst (query_pairs qs g) = sort_key fst (query_pairs qs' g)"
    using query_pairs_facts(2) [OF assms(1,4)] query_pairs_facts(2) [OF assms(1,5)] by (intro sort_key_unique)
  then have "values_Encode (geo_values qs g) = values_Encode (geo_values qs' g)"
    using query_pairs_facts(1) [OF assms(1,4)] query_pairs_facts(1) [OF assms(1,5)] by (simp add: values_Encode_def)
  ultimately show ?thesis by (simp add: GeoURI_String_def)
qed

end
