(* ===== verification/Mesh_SQL.thy ===== *)
theory Mesh_SQL
  imports Mesh_DB "HOL-Library.Monad_Syntax"
begin

text \<open>
  The SQL of \<^verbatim>\<open>pkg/connector/meshdb\<close> below the tables of \<^verbatim>\<open>Mesh_DB\<close>: rows of cells under
  column names, the column lists of the statements, the positional arguments of
  \<^verbatim>\<open>sqlVariables\<close>, and \<^verbatim>\<open>Scan\<close>, which reads the selected cells by position.  The theorem says
  that the statements do to the rows what the operations of \<^verbatim>\<open>Mesh_DB\<close> do to the structs, so
  every argument reaches its own column and is read back from it.  A cell has the type of its
  column; blank padding of \<^verbatim>\<open>CHAR\<close> columns, which depends on the database, is left out.
\<close>

section \<open>Rows and statements\<close>

datatype cell = CInt int | CText string | CBool bool | CBlob bytes | CReal gofloat | CNull

type_synonym sql_row = "string \<Rightarrow> cell"

text \<open>\<^verbatim>\<open>INSERT INTO t (columns) VALUES ($1, ...) ON CONFLICT (id) DO UPDATE SET c=excluded.c, ...\<close>\<close>

record insert_statement =
  st_columns :: "string list"
  st_excluded :: "string list"

definition inserted :: "(string \<Rightarrow> cell) \<Rightarrow> insert_statement \<Rightarrow> cell list \<Rightarrow> sql_row" where
  "inserted dflt st args = (\<lambda>c. case map_of (zip (st_columns st) args) c of Some v \<Rightarrow> v | None \<Rightarrow> dflt c)"

definition updated :: "insert_statement \<Rightarrow> sql_row \<Rightarrow> sql_row \<Rightarrow> sql_row" where
  "updated st new old = (\<lambda>c. if c \<in> set (st_excluded st) then new c else old c)"

definition sql_insert ::
  "(string \<Rightarrow> cell) \<Rightarrow> (sql_row \<Rightarrow> sql_row list \<Rightarrow> bool) \<Rightarrow> insert_statement \<Rightarrow> cell list
   \<Rightarrow> sql_row list \<Rightarrow> go_error option \<times> sql_row list" where
  "sql_insert dflt ok st args t =
     (let row = inserted dflt st args in upsert (\<lambda>r. r ''id'') ok row (updated st row) t)"

text \<open>How Go reads a cell into a field; \<open>None\<close> is the error of the conversion.\<close>

fun scan_u32 :: "cell \<Rightarrow> 32 word option" where
  "scan_u32 (CInt i) = (if 0 \<le> i \<and> i < 2 ^ 32 then Some (word_of_int i) else None)"
| "scan_u32 _ = None"

fun scan_text :: "cell \<Rightarrow> string option" where
  "scan_text (CText s) = Some s"
| "scan_text _ = None"

fun scan_bool :: "cell \<Rightarrow> bool option" where
  "scan_bool (CBool b) = Some b"
| "scan_bool _ = None"

fun scan_bytes :: "cell \<Rightarrow> bytes option" where
  "scan_bytes (CBlob b) = Some b"
| "scan_bytes CNull = Some []"
| "scan_bytes _ = None"

fun scan_real :: "cell \<Rightarrow> gofloat option" where
  "scan_real (CReal x) = Some x"
| "scan_real _ = None"

fun scan_int_ptr :: "cell \<Rightarrow> int option option" where
  "scan_int_ptr (CInt i) = Some (Some i)"
| "scan_int_ptr CNull = Some None"
| "scan_int_ptr _ = None"

fun scan_u32_ptr :: "cell \<Rightarrow> 32 word option option" where
  "scan_u32_ptr CNull = Some None"
| "scan_u32_ptr c = map_option Some (scan_u32 c)"

text \<open>Arguments: a nil slice and a nil pointer are \<^verbatim>\<open>NULL\<close>.\<close>

definition u32_arg :: "32 word \<Rightarrow> cell" where "u32_arg w = CInt (uint w)"

definition bytes_arg :: "bytes \<Rightarrow> cell" where "bytes_arg b = (if b = [] then CNull else CBlob b)"

definition ptr_arg :: "('a \<Rightarrow> cell) \<Rightarrow> 'a option \<Rightarrow> cell" where
  "ptr_arg f p = (case p of None \<Rightarrow> CNull | Some x \<Rightarrow> f x)"

definition unix_time :: "int \<Rightarrow> gotime" where "unix_time s = s * Second"

section \<open>mesh\_node.go\<close>

definition getMeshNodeInfoSelect :: "string list" where
  "getMeshNodeInfoSelect =
     [''id'', ''user_id'', ''long_name'', ''short_name'', ''node_role'', ''is_licensed'', ''is_unmessageable'',
      ''is_managed'', ''is_direct'', ''public_key'', ''private_key'', ''last_seen'']"

definition setMeshNodeInfoLastSeen :: insert_statement where
  "setMeshNodeInfoLastSeen =
     \<lparr>st_columns = [''id'', ''user_id'', ''is_direct'', ''last_seen''],
      st_excluded = [''is_direct'', ''last_seen'']\<rparr>"

definition setMeshNodeInfoQuery :: insert_statement where
  "setMeshNodeInfoQuery =
     \<lparr>st_columns =
        [''id'', ''user_id'', ''long_name'', ''short_name'', ''node_role'', ''is_licensed'', ''is_unmessageable'',
         ''is_managed'', ''is_direct'', ''public_key'', ''private_key'', ''last_seen''],
      st_excluded =
        [''user_id'', ''long_name'', ''short_name'', ''node_role'', ''is_licensed'', ''is_unmessageable'',
         ''is_managed'', ''is_direct'', ''public_key'', ''private_key'', ''last_seen'']\<rparr>"

text \<open>The defaults of the columns of \<^verbatim>\<open>mesh_node_info\<close> in the schema.\<close>

definition mesh_node_info_default :: "string \<Rightarrow> cell" where
  "mesh_node_info_default c =
     (if c \<in> {''user_id'', ''long_name'', ''short_name'', ''node_role''} then CText []
      else if c \<in> {''is_licensed'', ''is_unmessageable'', ''is_managed'', ''is_direct''} then CBool False
      else CNull)"

definition node_variables :: "MeshNodeInfo \<Rightarrow> cell list" where
  "node_variables m =
     [u32_arg (mn_NodeID m), CText (mn_UserID m), CText (mn_LongName m), CText (mn_ShortName m), CText (mn_Role m),
      CBool (mn_IsLicensed m), CBool (mn_IsUnmessagable m), CBool (mn_IsManaged m), CBool (mn_IsDirect m),
      bytes_arg (mn_PublicKey m), bytes_arg (mn_PrivateKey m),
      ptr_arg (\<lambda>t. CInt (unix_seconds t)) (mn_LastSeen m)]"

definition node_scan :: "cell list \<Rightarrow> MeshNodeInfo option" where
  "node_scan cells =
     (case cells of
        [c0, c1, c2, c3, c4, c5, c6, c7, c8, c9, c10, c11] \<Rightarrow> do {
          nodeID \<leftarrow> scan_u32 c0;
          userID \<leftarrow> scan_text c1;
          longName \<leftarrow> scan_text c2;
          shortName \<leftarrow> scan_text c3;
          role \<leftarrow> scan_text c4;
          isLicensed \<leftarrow> scan_bool c5;
          isUnmessagable \<leftarrow> scan_bool c6;
          isManaged \<leftarrow> scan_bool c7;
          isDirect \<leftarrow> scan_bool c8;
          publicKey \<leftarrow> scan_bytes c9;
          privateKey \<leftarrow> scan_bytes c10;
          ts \<leftarrow> scan_int_ptr c11;
          Some \<lparr>mn_NodeID = nodeID, mn_UserID = userID, mn_LongName = longName, mn_ShortName = shortName,
                mn_Role = role, mn_IsLicensed = isLicensed, mn_IsUnmessagable = isUnmessagable,
                mn_IsManaged = isManaged, mn_IsDirect = isDirect, mn_PublicKey = publicKey,
                mn_PrivateKey = privateKey, mn_LastSeen = map_option unix_time ts\<rparr>
        }
      | _ \<Rightarrow> None)"

text \<open>The conditions of the queries.\<close>

definition getMeshNodeInfoByNodeIDQuery :: "NodeID \<Rightarrow> sql_row \<Rightarrow> bool" where
  "getMeshNodeInfoByNodeIDQuery n r \<longleftrightarrow> r ''id'' = u32_arg n"

definition getMeshNodeInfoByUserIDQuery :: "string \<Rightarrow> sql_row \<Rightarrow> bool" where
  "getMeshNodeInfoByUserIDQuery u r \<longleftrightarrow> r ''user_id'' = CText u"

definition getMeshNodeInfoIsManagedQuery :: "sql_row \<Rightarrow> bool" where
  "getMeshNodeInfoIsManagedQuery r \<longleftrightarrow> r ''is_managed'' = CBool True"

definition getMeshNodeInfoNeighborsQuery :: "sql_row \<Rightarrow> bool" where
  "getMeshNodeInfoNeighborsQuery r \<longleftrightarrow> r ''is_direct'' = CBool True \<and> r ''last_seen'' \<noteq> CNull"

text \<open>\<^verbatim>\<open>UPDATE mesh_node_info SET long_name=$1, short_name=$2 WHERE id = $3\<close>\<close>

definition setMeshNodeInfoNamesQuery :: "cell \<Rightarrow> cell \<Rightarrow> cell \<Rightarrow> sql_row \<Rightarrow> sql_row" where
  "setMeshNodeInfoNamesQuery v1 v2 v3 r =
     (if r ''id'' = v3 then r(''long_name'' := v1, ''short_name'' := v2) else r)"

section \<open>waypoints.go\<close>

definition getWaypointSelect :: "string list" where
  "getWaypointSelect =
     [''id'', ''name'', ''icon'', ''description'', ''latitude'', ''longitude'', ''locked_to'', ''expires'',
      ''updated_by'', ''updated_date'']"

definition setWaypointQuery :: insert_statement where
  "setWaypointQuery =
     \<lparr>st_columns =
        [''id'', ''name'', ''icon'', ''description'', ''latitude'', ''longitude'', ''locked_to'', ''expires'',
         ''updated_by'', ''updated_date''],
      st_excluded =
        [''name'', ''icon'', ''description'', ''latitude'', ''longitude'', ''locked_to'', ''expires'',
         ''updated_by'', ''updated_date'']\<rparr>"

definition waypoint_variables :: "WaypointInfo \<Rightarrow> cell list" where
  "waypoint_variables w =
     [u32_arg (wp_WaypointID w), CText (wp_Name w), CText (wp_Icon w), CText (wp_Description w),
      CReal (wp_Latitude w), CReal (wp_Longitude w), ptr_arg u32_arg (wp_LockedTo w),
      ptr_arg (\<lambda>t. CInt (unix_seconds t)) (wp_Expires w), u32_arg (wp_UpdatedBy w),
      ptr_arg (\<lambda>t. CInt (unix_seconds t)) (wp_UpdatedDate w)]"

definition waypoint_scan :: "cell list \<Rightarrow> WaypointInfo option" where
  "waypoint_scan cells =
     (case cells of
        [c0, c1, c2, c3, c4, c5, c6, c7, c8, c9] \<Rightarrow> do {
          waypointID \<leftarrow> scan_u32 c0;
          name \<leftarrow> scan_text c1;
          icon \<leftarrow> scan_text c2;
          description \<leftarrow> scan_text c3;
          latitude \<leftarrow> scan_real c4;
          longitude \<leftarrow> scan_real c5;
          lockedTo \<leftarrow> scan_u32_ptr c6;
          expires \<leftarrow> scan_int_ptr c7;
          updatedBy \<leftarrow> scan_u32 c8;
          updated \<leftarrow> scan_int_ptr c9;
          Some \<lparr>wp_WaypointID = waypointID, wp_Name = name, wp_Icon = icon, wp_Description = description,
                wp_Latitude = latitude, wp_Longitude = longitude, wp_LockedTo = lockedTo,
                wp_Expires = map_option unix_time expires, wp_UpdatedBy = updatedBy,
                wp_UpdatedDate = map_option unix_time updated\<rparr>
        }
      | _ \<Rightarrow> None)"

definition getWaypointByWaypointIDQuery :: "32 word \<Rightarrow> sql_row \<Rightarrow> bool" where
  "getWaypointByWaypointIDQuery i r \<longleftrightarrow> r ''id'' = u32_arg i"

definition getWaypointByNodeIDQuery :: "NodeID \<Rightarrow> sql_row \<Rightarrow> bool" where
  "getWaypointByNodeIDQuery n r \<longleftrightarrow> r ''locked_to'' = u32_arg n \<or> r ''updated_by'' = u32_arg n"

section \<open>The statements on the tables\<close>

record sql_db =
  sq_nodes :: "sql_row list"
  sq_waypoints :: "sql_row list"

definition node_read :: "sql_row \<Rightarrow> MeshNodeInfo option" where
  "node_read r = node_scan (map r getMeshNodeInfoSelect)"

definition waypoint_read :: "sql_row \<Rightarrow> WaypointInfo option" where
  "waypoint_read r = waypoint_scan (map r getWaypointSelect)"

definition node_of :: "sql_row \<Rightarrow> MeshNodeInfo" where
  "node_of r = the (node_read r)"

definition waypoint_of :: "sql_row \<Rightarrow> WaypointInfo" where
  "waypoint_of r = the (waypoint_read r)"

text \<open>What the queries see: the rows as \<^verbatim>\<open>Scan\<close> reads them.\<close>

definition view :: "sql_db \<Rightarrow> meshdb" where
  "view s = \<lparr>db_nodes = map node_of (sq_nodes s), db_waypoints = map waypoint_of (sq_waypoints s)\<rparr>"

definition rows_ok :: "sql_db \<Rightarrow> bool" where
  "rows_ok s \<longleftrightarrow> list_all (\<lambda>r. node_read r \<noteq> None) (sq_nodes s) \<and>
               list_all (\<lambda>r. waypoint_read r \<noteq> None) (sq_waypoints s)"

definition sql_put_node :: "dbms \<Rightarrow> insert_statement \<Rightarrow> cell list \<Rightarrow> sql_db \<Rightarrow> go_error option \<times> sql_db" where
  "sql_put_node db st args s =
     (let (err, t) = sql_insert mesh_node_info_default (\<lambda>r rs. node_constraints db (node_of r) (map node_of rs))
                       st args (sq_nodes s)
      in (err, s\<lparr>sq_nodes := t\<rparr>))"

definition sql_put_waypoint :: "dbms \<Rightarrow> insert_statement \<Rightarrow> cell list \<Rightarrow> sql_db \<Rightarrow> go_error option \<times> sql_db" where
  "sql_put_waypoint db st args s =
     (let (err, t) = sql_insert (\<lambda>_. CNull)
                       (\<lambda>r rs. waypoint_constraints db (map node_of (sq_nodes s)) (waypoint_of r) (map waypoint_of rs))
                       st args (sq_waypoints s)
      in (err, s\<lparr>sq_waypoints := t\<rparr>))"

definition sql_SetNames :: "dbms \<Rightarrow> string \<Rightarrow> string \<Rightarrow> NodeID \<Rightarrow> sql_db \<Rightarrow> go_error option \<times> sql_db" where
  "sql_SetNames db longName shortName nodeID s =
     (if find (getMeshNodeInfoByNodeIDQuery nodeID) (sq_nodes s) = None then (None, s)
      else if \<not> db_varchar db 39 longName \<or> \<not> db_varchar db 4 shortName then (Some constraint_error, s)
      else (None, s\<lparr>sq_nodes := map (setMeshNodeInfoNamesQuery (CText longName) (CText shortName) (u32_arg nodeID))
                                  (sq_nodes s)\<rparr>))"

fun sql_op :: "dbms \<Rightarrow> table_op \<Rightarrow> sql_db \<Rightarrow> go_error option \<times> sql_db" where
  "sql_op db op s =
     (case db_fault db of
        Some e \<Rightarrow> (Some e, s)
      | None \<Rightarrow>
          (case op of
             SetAllOp m \<Rightarrow> sql_put_node db setMeshNodeInfoQuery (node_variables m) s
           | LastSeenOp now n isDirect \<Rightarrow>
               sql_put_node db setMeshNodeInfoLastSeen
                 [u32_arg n, CText (NodeID_String n), CBool isDirect, CInt (unix_seconds now)] s
           | NamesOp n lname sname \<Rightarrow> sql_SetNames db lname sname n s
           | WaypointOp w \<Rightarrow> sql_put_waypoint db setWaypointQuery (waypoint_variables w) s
           | DeleteOp i \<Rightarrow>
               (None, s\<lparr>sq_waypoints := filter (\<lambda>r. \<not> getWaypointByWaypointIDQuery i r) (sq_waypoints s)\<rparr>)))"

section \<open>Cells\<close>

lemma uint_u32: "uint (w :: 32 word) < 4294967296"
  using unsigned_less [of w, where 'a = int] by simp

lemma word_of_int_u32: "0 \<le> i \<Longrightarrow> i < 4294967296 \<Longrightarrow> word_of_int i = (w :: 32 word) \<longleftrightarrow> i = uint w"
  using word_of_int_inverse [of i w] by auto

lemma scan_arg [simp]:
  "scan_u32 (u32_arg w) = Some w" "scan_bytes (bytes_arg b) = Some b"
  "scan_u32_ptr (ptr_arg u32_arg p) = Some p"
  "scan_int_ptr (ptr_arg (\<lambda>t. CInt (f t)) q) = Some (map_option f q)"
  by (simp_all add: u32_arg_def bytes_arg_def ptr_arg_def uint_u32 split: option.split)

lemma scan_iff:
  "scan_u32 c = Some w \<longleftrightarrow> c = u32_arg w" "scan_text c = Some s \<longleftrightarrow> c = CText s" "scan_bool c = Some b \<longleftrightarrow> c = CBool b"
  by (cases c; auto simp: u32_arg_def word_of_int_u32 uint_u32)+

lemma u32_arg_eq: "u32_arg v = u32_arg w \<longleftrightarrow> v = w" "u32_arg v \<noteq> CNull"
  by (simp_all add: u32_arg_def word_uint_eq_iff)

lemma scan_null: "scan_int_ptr c = Some ts \<Longrightarrow> c = CNull \<longleftrightarrow> ts = None"
  by (cases c) auto

lemma scan_u32_ptr_arg:
  assumes "scan_u32_ptr c = Some p" shows "c = u32_arg w \<longleftrightarrow> p = Some w"
proof (cases "c = CNull")
  case True
  with assms show ?thesis using u32_arg_eq(2) [of w] by auto
next
  case False
  then have "scan_u32_ptr c = map_option Some (scan_u32 c)" by (cases c) simp_all
  with assms obtain v where "scan_u32 c = Some v" "p = Some v" by auto
  then show ?thesis by (simp add: scan_iff u32_arg_eq)
qed

lemma unix_time_seconds: "unix_time (unix_seconds t) = to_second t"
  by (simp add: unix_time_def to_second_def)

text \<open>A row reads as a struct exactly if every cell reads as its field.\<close>

lemma node_read_iff:
  "node_read r = Some m \<longleftrightarrow>
     scan_u32 (r ''id'') = Some (mn_NodeID m) \<and> scan_text (r ''user_id'') = Some (mn_UserID m) \<and>
     scan_text (r ''long_name'') = Some (mn_LongName m) \<and> scan_text (r ''short_name'') = Some (mn_ShortName m) \<and>
     scan_text (r ''node_role'') = Some (mn_Role m) \<and> scan_bool (r ''is_licensed'') = Some (mn_IsLicensed m) \<and>
     scan_bool (r ''is_unmessageable'') = Some (mn_IsUnmessagable m) \<and>
     scan_bool (r ''is_managed'') = Some (mn_IsManaged m) \<and> scan_bool (r ''is_direct'') = Some (mn_IsDirect m) \<and>
     scan_bytes (r ''public_key'') = Some (mn_PublicKey m) \<and> scan_bytes (r ''private_key'') = Some (mn_PrivateKey m) \<and>
     map_option (map_option unix_time) (scan_int_ptr (r ''last_seen'')) = Some (mn_LastSeen m)"
  (is "?read \<longleftrightarrow> ?cells")
proof
  assume ?read
  then show ?cells by (clarsimp simp: node_read_def node_scan_def getMeshNodeInfoSelect_def bind_eq_Some_conv)
next
  assume ?cells
  then show ?read by (cases m) (clarsimp simp: node_read_def node_scan_def getMeshNodeInfoSelect_def)
qed

lemma waypoint_read_iff:
  "waypoint_read r = Some w \<longleftrightarrow>
     scan_u32 (r ''id'') = Some (wp_WaypointID w) \<and> scan_text (r ''name'') = Some (wp_Name w) \<and>
     scan_text (r ''icon'') = Some (wp_Icon w) \<and> scan_text (r ''description'') = Some (wp_Description w) \<and>
     scan_real (r ''latitude'') = Some (wp_Latitude w) \<and> scan_real (r ''longitude'') = Some (wp_Longitude w) \<and>
     scan_u32_ptr (r ''locked_to'') = Some (wp_LockedTo w) \<and>
     map_option (map_option unix_time) (scan_int_ptr (r ''expires'')) = Some (wp_Expires w) \<and>
     scan_u32 (r ''updated_by'') = Some (wp_UpdatedBy w) \<and>
     map_option (map_option unix_time) (scan_int_ptr (r ''updated_date'')) = Some (wp_UpdatedDate w)"
  (is "?read \<longleftrightarrow> ?cells")
proof
  assume ?read
  then show ?cells by (clarsimp simp: waypoint_read_def waypoint_scan_def getWaypointSelect_def bind_eq_Some_conv)
next
  assume ?cells
  then show ?read by (cases w) (clarsimp simp: waypoint_read_def waypoint_scan_def getWaypointSelect_def)
qed

lemma node_read_of: "node_read r \<noteq> None \<Longrightarrow> node_read r = Some (node_of r)"
  by (auto simp: node_of_def)

lemma waypoint_read_of: "waypoint_read r \<noteq> None \<Longrightarrow> waypoint_read r = Some (waypoint_of r)"
  by (auto simp: waypoint_of_def)

text \<open>What the two inserts of nodes and the insert of waypoints read as, for a new and for an old row.\<close>

lemma inserted_node:
  "node_read (inserted mesh_node_info_default setMeshNodeInfoQuery (node_variables m)) = Some (node_row m)"
  by (simp add: node_read_iff inserted_def setMeshNodeInfoQuery_def node_variables_def node_row_def
      option.map_comp comp_def unix_time_seconds)

lemma inserted_last_seen:
  "node_read (inserted mesh_node_info_default setMeshNodeInfoLastSeen
     [u32_arg n, CText u, CBool isDirect, CInt (unix_seconds now)]) =
   Some (newMeshNodeInfo\<lparr>mn_NodeID := n, mn_UserID := u, mn_IsDirect := isDirect, mn_LastSeen := Some (to_second now)\<rparr>)"
  by (simp add: node_read_iff inserted_def setMeshNodeInfoLastSeen_def mesh_node_info_default_def newMeshNodeInfo_def
      unix_time_seconds)

lemma inserted_waypoint:
  "waypoint_read (inserted d setWaypointQuery (waypoint_variables w)) = Some (waypoint_row w)"
  by (simp add: waypoint_read_iff inserted_def setWaypointQuery_def waypoint_variables_def waypoint_row_def
      option.map_comp comp_def unix_time_seconds)

lemma updated_node:
  assumes "node_read new = Some m" "old ''id'' = new ''id''"
  shows "node_read (updated setMeshNodeInfoQuery new old) = Some m"
  using assms by (simp add: node_read_iff updated_def setMeshNodeInfoQuery_def)

lemma updated_last_seen:
  assumes "node_read new = Some m" "node_read old = Some r"
  shows "node_read (updated setMeshNodeInfoLastSeen new old) =
    Some (r\<lparr>mn_IsDirect := mn_IsDirect m, mn_LastSeen := mn_LastSeen m\<rparr>)"
  using assms by (simp add: node_read_iff updated_def setMeshNodeInfoLastSeen_def)

lemma updated_waypoint:
  assumes "waypoint_read new = Some w" "old ''id'' = new ''id''"
  shows "waypoint_read (updated setWaypointQuery new old) = Some w"
  using assms by (simp add: waypoint_read_iff updated_def setWaypointQuery_def)

section \<open>Refinement\<close>

lemma node_id_cell: "node_read r = Some m \<Longrightarrow> r ''id'' = u32_arg (mn_NodeID m)"
  by (simp add: node_read_iff scan_iff)

lemma waypoint_id_cell: "waypoint_read r = Some w \<Longrightarrow> r ''id'' = u32_arg (wp_WaypointID w)"
  by (simp add: waypoint_read_iff scan_iff)

lemma node_cells:
  assumes "node_read r = Some m"
  shows "getMeshNodeInfoByNodeIDQuery n r \<longleftrightarrow> mn_NodeID m = n"
    "getMeshNodeInfoByUserIDQuery u r \<longleftrightarrow> mn_UserID m = u"
    "getMeshNodeInfoIsManagedQuery r \<longleftrightarrow> mn_IsManaged m"
    "getMeshNodeInfoNeighborsQuery r \<longleftrightarrow> mn_IsDirect m \<and> mn_LastSeen m \<noteq> None"
proof -
  obtain ts where ts: "scan_int_ptr (r ''last_seen'') = Some ts" "mn_LastSeen m = map_option unix_time ts"
    using assms by (auto simp: node_read_iff)
  show "getMeshNodeInfoByNodeIDQuery n r \<longleftrightarrow> mn_NodeID m = n" "getMeshNodeInfoByUserIDQuery u r \<longleftrightarrow> mn_UserID m = u"
    "getMeshNodeInfoIsManagedQuery r \<longleftrightarrow> mn_IsManaged m"
    "getMeshNodeInfoNeighborsQuery r \<longleftrightarrow> mn_IsDirect m \<and> mn_LastSeen m \<noteq> None"
    using assms scan_null [OF ts(1)] ts(2)
    by (simp_all add: node_read_iff scan_iff u32_arg_eq getMeshNodeInfoByNodeIDQuery_def
        getMeshNodeInfoByUserIDQuery_def getMeshNodeInfoIsManagedQuery_def getMeshNodeInfoNeighborsQuery_def)
qed

lemma waypoint_cells:
  assumes "waypoint_read r = Some w"
  shows "getWaypointByWaypointIDQuery i r \<longleftrightarrow> wp_WaypointID w = i"
    "getWaypointByNodeIDQuery n r \<longleftrightarrow> wp_LockedTo w = Some n \<or> wp_UpdatedBy w = n"
  using assms by (auto simp: waypoint_read_iff scan_iff u32_arg_eq scan_u32_ptr_arg getWaypointByWaypointIDQuery_def
      getWaypointByNodeIDQuery_def)

lemma find_map_view: "\<forall>r \<in> set t. P r = Q (f r) \<Longrightarrow> find Q (map f t) = map_option f (find P t)"
  by (induction t) auto

lemma filter_map_view: "\<forall>r \<in> set t. P r = Q (f r) \<Longrightarrow> filter Q (map f t) = map f (filter P t)"
  by (induction t) auto

text \<open>An upsert on rows is the upsert on what they read as.\<close>

lemma upsert_view:
  assumes "\<forall>r \<in> set t. key' r = key' row \<longleftrightarrow> key (f r) = key (f row)"
    and "\<forall>r \<in> set t. key' r = key' row \<longrightarrow> f (merge' r) = merge (f r)"
  shows "upsert key ok (f row) merge (map f t) =
    map_prod id (map f) (upsert key' (\<lambda>r rs. ok (f r) (map f rs)) row merge' t)"
proof -
  have find: "find (\<lambda>q. key q = key (f row)) (map f t) = map_option f (find (\<lambda>r. key' r = key' row) t)"
    using assms(1) by (intro find_map_view) simp
  have others: "filter (\<lambda>q. key q \<noteq> key (f row)) (map f t) = map f (filter (\<lambda>r. key' r \<noteq> key' row) t)"
    using assms(1) by (intro filter_map_view) simp
  show ?thesis
  proof (cases "find (\<lambda>r. key' r = key' row) t")
    case None
    then show ?thesis by (simp add: upsert_def find others Let_def)
  next
    case (Some r)
    then have r: "r \<in> set t" "key' r = key' row" by (auto simp: find_Some_iff)
    have "map (\<lambda>q. if key q = key (f row) then merge q else q) (map f t) =
        map f (map (\<lambda>q. if key' q = key' row then merge' q else q) t)"
      using assms by auto
    with Some r assms(2) show ?thesis by (simp add: upsert_def find others Let_def del: map_map)
  qed
qed

lemma upsert_all:
  assumes "list_all P t" "P row" "\<And>r. P r \<Longrightarrow> key r = key row \<Longrightarrow> P (merge r)"
  shows "list_all P (snd (upsert key ok row merge t))"
  using assms by (auto simp: upsert_def Let_def list_all_iff split: option.split)

lemma sql_put_node_view:
  assumes "rows_ok s" "node_read (inserted mesh_node_info_default st args) = Some m"
    and "\<And>r k. node_read r = Some k \<Longrightarrow> mn_NodeID k = mn_NodeID m \<Longrightarrow>
      node_read (updated st (inserted mesh_node_info_default st args) r) = Some (merge k)"
    and "db_fault db = None" "sql_put_node db st args s = (e, s')"
  shows "rows_ok s' \<and> put_node db m merge (view s) = (e, view s')"
proof -
  let ?row = "inserted mesh_node_info_default st args"
  let ?up = "upsert (\<lambda>r. r ''id'') (\<lambda>r rs. node_constraints db (node_of r) (map node_of rs)) ?row (updated st ?row)
    (sq_nodes s)"
  have m: "node_of ?row = m" using assms(2) by (simp add: node_of_def)
  have key: "r ''id'' = ?row ''id'' \<longleftrightarrow> mn_NodeID k = mn_NodeID m" if "node_read r = Some k" for r k
    using node_id_cell [OF that] node_id_cell [OF assms(2)] by (simp add: u32_arg_eq)
  have read: "node_read r = Some (node_of r)" if "r \<in> set (sq_nodes s)" for r
    using assms(1) that by (intro node_read_of) (auto simp: rows_ok_def list_all_iff)
  have same: "r ''id'' = ?row ''id'' \<longleftrightarrow> mn_NodeID (node_of r) = mn_NodeID (node_of ?row)" if "r \<in> set (sq_nodes s)" for r
    using key [OF read [OF that]] m by simp
  have merged: "node_of (updated st ?row r) = merge (node_of r)" if "r \<in> set (sq_nodes s)" "r ''id'' = ?row ''id''" for r
    using assms(3) [OF read [OF that(1)]] key [OF read [OF that(1)]] that(2) by (simp add: node_of_def [of "updated _ _ _"])
  have "upsert mn_NodeID (node_constraints db) (node_of ?row) merge (map node_of (sq_nodes s)) =
      map_prod id (map node_of) ?up"
    by (rule upsert_view) (use same merged in blast)+
  moreover have "list_all (\<lambda>r. node_read r \<noteq> None) (snd ?up)"
    by (rule upsert_all) (use assms key in \<open>auto simp: rows_ok_def\<close>)
  moreover obtain t where "?up = (e, t)" "s' = s\<lparr>sq_nodes := t\<rparr>"
    using assms(5) by (auto simp: sql_put_node_def sql_insert_def Let_def split: prod.splits)
  ultimately show ?thesis
    using assms(1,4) by (simp add: rows_ok_def put_node_def exec_def view_def m)
qed

lemma sql_put_waypoint_view:
  assumes "rows_ok s" "db_fault db = None"
    and "sql_put_waypoint db setWaypointQuery (waypoint_variables w) s = (e, s')"
  shows "rows_ok s' \<and> waypoint_SetAll db w (view s) = (e, view s')"
proof -
  let ?row = "inserted (\<lambda>_. CNull) setWaypointQuery (waypoint_variables w)"
  let ?up = "upsert (\<lambda>r. r ''id'')
    (\<lambda>r rs. waypoint_constraints db (map node_of (sq_nodes s)) (waypoint_of r) (map waypoint_of rs))
    ?row (updated setWaypointQuery ?row) (sq_waypoints s)"
  have row: "waypoint_read ?row = Some (waypoint_row w)" by (rule inserted_waypoint)
  then have m: "waypoint_of ?row = waypoint_row w" by (simp add: waypoint_of_def)
  have key: "r ''id'' = ?row ''id'' \<longleftrightarrow> wp_WaypointID k = wp_WaypointID w" if "waypoint_read r = Some k" for r k
    using waypoint_id_cell [OF that] waypoint_id_cell [OF row] by (simp add: u32_arg_eq)
  have read: "waypoint_read r = Some (waypoint_of r)" if "r \<in> set (sq_waypoints s)" for r
    using assms(1) that by (intro waypoint_read_of) (auto simp: rows_ok_def list_all_iff)
  have new: "waypoint_read (updated setWaypointQuery ?row r) = Some (waypoint_row w)" if "r ''id'' = ?row ''id''" for r
    using updated_waypoint [of ?row "waypoint_row w" r] row that by simp
  have same: "r ''id'' = ?row ''id'' \<longleftrightarrow> wp_WaypointID (waypoint_of r) = wp_WaypointID (waypoint_of ?row)"
    if "r \<in> set (sq_waypoints s)" for r
    using key [OF read [OF that]] m by simp
  have merged: "waypoint_of (updated setWaypointQuery ?row r) = waypoint_row w" if "r ''id'' = ?row ''id''" for r
    using new [of r, OF that] by (simp add: waypoint_of_def)
  have "upsert wp_WaypointID (waypoint_constraints db (map node_of (sq_nodes s))) (waypoint_of ?row) (\<lambda>_. waypoint_row w)
      (map waypoint_of (sq_waypoints s)) = map_prod id (map waypoint_of) ?up"
    by (rule upsert_view) (use same merged in blast)+
  moreover have "list_all (\<lambda>r. waypoint_read r \<noteq> None) (snd ?up)"
    by (rule upsert_all) (use assms(1) row new in \<open>auto simp: rows_ok_def\<close>)
  moreover obtain t where "?up = (e, t)" "s' = s\<lparr>sq_waypoints := t\<rparr>"
    using assms(3) by (auto simp: sql_put_waypoint_def sql_insert_def Let_def split: prod.splits)
  ultimately show ?thesis
    using assms(1,2) by (simp add: rows_ok_def waypoint_SetAll_def exec_def view_def m)
qed

lemma names_view:
  assumes "node_read r = Some m"
  shows "node_read (setMeshNodeInfoNamesQuery (CText l) (CText h) (u32_arg n) r) =
    Some (if mn_NodeID m = n then m\<lparr>mn_LongName := l, mn_ShortName := h\<rparr> else m)"
  using assms by (auto simp: setMeshNodeInfoNamesQuery_def node_read_iff scan_iff u32_arg_eq)

lemma sql_SetNames_view:
  assumes "rows_ok s" "db_fault db = None" "sql_SetNames db l h n s = (e, s')"
  shows "rows_ok s' \<and> SetNames db n l h (view s) = (e, view s')"
proof -
  let ?f = "setMeshNodeInfoNamesQuery (CText l) (CText h) (u32_arg n)"
  have read: "node_read r = Some (node_of r)" if "r \<in> set (sq_nodes s)" for r
    using assms(1) that by (intro node_read_of) (auto simp: rows_ok_def list_all_iff)
  have find: "find (\<lambda>m. mn_NodeID m = n) (map node_of (sq_nodes s)) =
      map_option node_of (find (getMeshNodeInfoByNodeIDQuery n) (sq_nodes s))"
    using node_cells(1) [OF read] by (intro find_map_view) simp
  have upd: "node_read (?f r) = Some (if mn_NodeID (node_of r) = n
      then node_of r\<lparr>mn_LongName := l, mn_ShortName := h\<rparr> else node_of r)" if "r \<in> set (sq_nodes s)" for r
    by (rule names_view [OF read [OF that]])
  then have "map node_of (map ?f (sq_nodes s)) =
      map (\<lambda>m. if mn_NodeID m = n then m\<lparr>mn_LongName := l, mn_ShortName := h\<rparr> else m) (map node_of (sq_nodes s))"
    by (simp add: node_of_def [of "?f _"])
  moreover have "list_all (\<lambda>r. node_read r \<noteq> None) (map ?f (sq_nodes s))" using upd by (simp add: list_all_iff)
  ultimately show ?thesis
    using assms by (auto simp: sql_SetNames_def SetNames_def exec_def view_def find rows_ok_def simp del: map_map split: if_splits)
qed

lemma sql_delete_view:
  assumes "rows_ok s"
  shows "map waypoint_of (filter (\<lambda>r. \<not> getWaypointByWaypointIDQuery i r) (sq_waypoints s)) =
    filter (\<lambda>w. wp_WaypointID w \<noteq> i) (map waypoint_of (sq_waypoints s))"
proof -
  have read: "waypoint_read r = Some (waypoint_of r)" if "r \<in> set (sq_waypoints s)" for r
    using assms that by (intro waypoint_read_of) (auto simp: rows_ok_def list_all_iff)
  show ?thesis by (rule filter_map_view [symmetric]) (use waypoint_cells(1) [OF read] in auto)
qed

lemma sql_op_view:
  assumes "rows_ok s" "sql_op db p s = (e, s')"
  shows "rows_ok s' \<and> run_op db p (view s) = (e, view s')"
proof (cases "db_fault db")
  case (Some err)
  then have "e = Some err" "s' = s" using assms(2) by simp_all
  with assms(1) Some show ?thesis
    by (cases p) (simp_all add: node_SetAll_def SetLastSeen_def SetNames_def DeleteByID_def waypoint_SetAll_def put_node_def exec_def)
next
  case None
  show ?thesis
  proof (cases p)
    case (SetAllOp m)
    have "r ''id'' = inserted mesh_node_info_default setMeshNodeInfoQuery (node_variables m) ''id''"
      if "node_read r = Some k" "mn_NodeID k = mn_NodeID (node_row m)" for r k
      using node_id_cell [OF that(1)] node_id_cell [OF inserted_node [of m]] that(2) by simp
    then show ?thesis
      using sql_put_node_view [OF assms(1) inserted_node [of m], where merge = "\<lambda>_. node_row m" and db = db and e = e]
        updated_node [OF inserted_node [of m]] None assms(2) by (simp add: SetAllOp node_SetAll_def)
  next
    case (LastSeenOp now n isDirect)
    then show ?thesis
      using sql_put_node_view [OF assms(1) inserted_last_seen [of n "NodeID_String n" isDirect now], of
          "\<lambda>r. r\<lparr>mn_IsDirect := isDirect, mn_LastSeen := Some (to_second now)\<rparr>" db e s']
        updated_last_seen [OF inserted_last_seen] None assms(2) by (simp add: SetLastSeen_def)
  next
    case (NamesOp n l h)
    then show ?thesis using sql_SetNames_view [OF assms(1) None] None assms(2) by simp
  next
    case (WaypointOp w)
    then show ?thesis using sql_put_waypoint_view [OF assms(1) None] None assms(2) by simp
  next
    case (DeleteOp i)
    then show ?thesis
      using None assms sql_delete_view [OF assms(1), of i] by (auto simp: DeleteByID_def exec_def view_def rows_ok_def list_all_iff)
  qed
qed

text \<open>Runs from the empty tables; the database may behave differently at every statement.\<close>

definition sql_run :: "(dbms \<times> table_op) list \<Rightarrow> sql_db" where
  "sql_run ops = fold (\<lambda>(db, p) s. snd (sql_op db p s)) ops \<lparr>sq_nodes = [], sq_waypoints = []\<rparr>"

definition table_run :: "(dbms \<times> table_op) list \<Rightarrow> meshdb" where
  "table_run ops = fold (\<lambda>(db, p) d. snd (run_op db p d)) ops \<lparr>db_nodes = [], db_waypoints = []\<rparr>"

lemma sql_run_view: "rows_ok (sql_run ops) \<and> view (sql_run ops) = table_run ops"
proof (induction ops rule: rev_induct)
  case Nil
  then show ?case by (simp add: sql_run_def table_run_def rows_ok_def view_def)
next
  case (snoc x ops)
  obtain db p where x: "x = (db, p)" by fastforce
  have "sql_run (ops @ [x]) = snd (sql_op db p (sql_run ops))" "table_run (ops @ [x]) = snd (run_op db p (table_run ops))"
    by (simp_all add: sql_run_def table_run_def x)
  moreover obtain e s' where "sql_op db p (sql_run ops) = (e, s')" by fastforce
  ultimately show ?case using snoc sql_op_view [of "sql_run ops" db p e s'] by simp
qed

section \<open>Properties\<close>

text \<open>
  C11: the SQL statements implement the tables.  After any sequence of writes from empty tables,
  with whatever faults and constraint errors of the database, every stored row can be read; the
  rows read as the tables of \<^verbatim>\<open>Mesh_DB\<close> that the same writes give; the next write reports the same
  error; and the conditions of the queries select the rows of the structs they are to select.
\<close>

theorem statements_refine_tables:
  "rows_ok (sql_run ops) \<and> view (sql_run ops) = table_run ops \<and>
   fst (sql_op db p (sql_run ops)) = fst (run_op db p (table_run ops)) \<and>
   GetByNodeID db n (table_run ops) =
     QueryOne db newMeshNodeInfo (map_option node_of (find (getMeshNodeInfoByNodeIDQuery n) (sq_nodes (sql_run ops)))) \<and>
   GetByUserID db u (table_run ops) =
     QueryOne db newMeshNodeInfo (map_option node_of (find (getMeshNodeInfoByUserIDQuery u) (sq_nodes (sql_run ops)))) \<and>
   GetManagedNodes db (table_run ops) =
     query db (map node_of (filter getMeshNodeInfoIsManagedQuery (sq_nodes (sql_run ops)))) \<and>
   GetDirectNeighbors db (table_run ops) =
     query db (map node_of (filter getMeshNodeInfoNeighborsQuery (sq_nodes (sql_run ops)))) \<and>
   GetByWaypointID db i (table_run ops) =
     QueryOne db newWaypoint (map_option waypoint_of (find (getWaypointByWaypointIDQuery i) (sq_waypoints (sql_run ops)))) \<and>
   waypoints_GetByNodeID db n (table_run ops) =
     query db (map waypoint_of (filter (getWaypointByNodeIDQuery n) (sq_waypoints (sql_run ops))))"
proof -
  define s where "s = sql_run ops"
  have ok: "rows_ok s" and d: "table_run ops = view s" using sql_run_view [of ops] by (simp_all add: s_def)
  have node: "node_read r = Some (node_of r)" if "r \<in> set (sq_nodes s)" for r
    using ok that by (intro node_read_of) (auto simp: rows_ok_def list_all_iff)
  have waypoint: "waypoint_read r = Some (waypoint_of r)" if "r \<in> set (sq_waypoints s)" for r
    using ok that by (intro waypoint_read_of) (auto simp: rows_ok_def list_all_iff)
  obtain e s' where e: "sql_op db p s = (e, s')" by fastforce
  note queries = GetByNodeID_def GetByUserID_def GetManagedNodes_def GetDirectNeighbors_def GetByWaypointID_def
    waypoints_GetByNodeID_def d view_def
  have nodes: "find (\<lambda>r. mn_NodeID r = n) (map node_of (sq_nodes s)) = map_option node_of (find (getMeshNodeInfoByNodeIDQuery n) (sq_nodes s))"
    "find (\<lambda>r. mn_UserID r = u) (map node_of (sq_nodes s)) = map_option node_of (find (getMeshNodeInfoByUserIDQuery u) (sq_nodes s))"
    "filter mn_IsManaged (map node_of (sq_nodes s)) = map node_of (filter getMeshNodeInfoIsManagedQuery (sq_nodes s))"
    "filter (\<lambda>r. mn_IsDirect r \<and> mn_LastSeen r \<noteq> None) (map node_of (sq_nodes s)) =
      map node_of (filter getMeshNodeInfoNeighborsQuery (sq_nodes s))"
    using node_cells [OF node] by (intro find_map_view filter_map_view; simp)+
  have waypoints: "find (\<lambda>w. wp_WaypointID w = i) (map waypoint_of (sq_waypoints s)) =
      map_option waypoint_of (find (getWaypointByWaypointIDQuery i) (sq_waypoints s))"
    "filter (\<lambda>w. wp_LockedTo w = Some n \<or> wp_UpdatedBy w = n) (map waypoint_of (sq_waypoints s)) =
      map waypoint_of (filter (getWaypointByNodeIDQuery n) (sq_waypoints s))"
    using waypoint_cells [OF waypoint] by (intro find_map_view filter_map_view; simp)+
  have "fst (sql_op db p s) = fst (run_op db p (table_run ops))" using sql_op_view [OF ok e] e by (simp add: d)
  with ok d show ?thesis
    unfolding s_def [symmetric] by (simp add: queries nodes waypoints del: not_None_eq sql_op.simps)
qed

text \<open>
  A node that is stored, heard again and renamed: each value is found in its own column.
\<close>

lemma sample_statements:
  "node_read (inserted mesh_node_info_default setMeshNodeInfoQuery (node_variables
     (newMeshNodeInfo\<lparr>mn_NodeID := 20, mn_LongName := ''Long'', mn_ShortName := ''S''\<rparr>))) =
   Some (newMeshNodeInfo\<lparr>mn_NodeID := 20, mn_LongName := ''Long'', mn_ShortName := ''S''\<rparr>)"
  by (simp add: inserted_node node_row_def newMeshNodeInfo_def)

end
