(* ===== verification/Spec2Isabelle.thy ===== *)
theory Spec2Isabelle
  imports Bridge_Exchange Bridge_Setup Bridge_Wiring Geo_Print Mesh_SQL
begin

text \<open>
  A verification library for the Matrix to Meshtastic bridge.

  \<^bold>\<open>The program.\<close>  The bridge is a Go process between Matrix and a Meshtastic radio mesh.  Its mesh
  client (\<^verbatim>\<open>pkg/mesh\<close>) builds, encrypts and numbers packets, hands them to its connectors (MQTT and
  UDP multicast, \<^verbatim>\<open>pkg/mesh/connectors\<close>), and turns packets it receives into events.  The
  connector object (\<^verbatim>\<open>pkg/connector\<close>) receives these events and the events of Matrix, keeps two
  tables of nodes and waypoints (\<^verbatim>\<open>pkg/connector/meshdb\<close>), and calls the client.  Identifiers,
  channels and positions have their own package (\<^verbatim>\<open>pkg/meshid\<close>).

  \<^bold>\<open>What stands for what.\<close>

  \<^item> \<^theory_text>\<open>Mesh_Prelude\<close>: types and lemmas shared by all; the contract of a codec and of a rate limiter.
  \<^item> \<^theory_text>\<open>Go_Strings\<close>, \<^theory_text>\<open>Go_Encoding\<close>, \<^theory_text>\<open>Go_Unicode\<close>, \<^theory_text>\<open>Go_Float\<close>: what the source uses of Go's standard
    library (\<^verbatim>\<open>strings\<close>, \<^verbatim>\<open>strconv\<close>, \<^verbatim>\<open>fmt\<close>, CRC-32, base64, UTF-8, floating point values as
    rationals with infinities).
  \<^item> \<^theory_text>\<open>Mesh_Ids\<close>: \<^verbatim>\<open>meshid/ids.go\<close>, \<^verbatim>\<open>node.go\<close>.  \<^theory_text>\<open>Channel_Def\<close>: \<^verbatim>\<open>channel_def.go\<close>.  \<^theory_text>\<open>Geo_URI\<close>
    and \<^theory_text>\<open>Geo_Print\<close>: reading and printing of positions, \<^verbatim>\<open>gpslocation.go\<close>.
  \<^item> \<^theory_text>\<open>Mesh_Packets\<close>: the protobuf messages, packets and events (\<^verbatim>\<open>mesh/events.go\<close>,
    \<^verbatim>\<open>connectors/connector.go\<close>).
  \<^item> \<^theory_text>\<open>Mesh_Connectors\<close>: \<^verbatim>\<open>mqtt_handler.go\<close> as a state with callbacks, \<^verbatim>\<open>udp_handler.go\<close> as a step
    relation of the program and the network.
  \<^item> \<^theory_text>\<open>Request_Throttle\<close>: the throttle of \<^verbatim>\<open>data_requests.go\<close>.
  \<^item> \<^theory_text>\<open>Mesh_Client\<close>: the client's state and \<^verbatim>\<open>mesh_client.go\<close>; \<^theory_text>\<open>Mesh_Sending\<close>: what a send guarantees;
    \<^theory_text>\<open>Mesh_Outgoing\<close>: \<^verbatim>\<open>outgoing_messages.go\<close>; \<^theory_text>\<open>Mesh_Traceroute\<close>: \<^verbatim>\<open>mesh/traceroute.go\<close>;
    \<^theory_text>\<open>Mesh_Incoming\<close>: \<^verbatim>\<open>incoming_messages.go\<close> and the answers of \<^verbatim>\<open>data_requests.go\<close>;
    \<^theory_text>\<open>Mesh_Protocol\<close>: runs of the client; \<^theory_text>\<open>Mesh_Types\<close>: the port of a packet as the type of its
    payload; \<^theory_text>\<open>Mesh_Exchange\<close>: what one client sends and another one receives.
    \<^theory_text>\<open>Mesh_Samples\<close> and \<^theory_text>\<open>Codec_Samples\<close> have concrete environments for witnesses.
  \<^item> \<^theory_text>\<open>Mesh_DB\<close>: the tables of \<^verbatim>\<open>meshdb\<close>, as lists of rows with the constraints of the schema;
    \<^theory_text>\<open>Mesh_SQL\<close>: the SQL statements below them, with column lists, positional arguments and \<^verbatim>\<open>Scan\<close>.
  \<^item> \<^theory_text>\<open>Bridge_Core\<close>: the connector object, configuration, keys and names (\<^verbatim>\<open>connector.go\<close>,
    \<^verbatim>\<open>config.go\<close>, parts of \<^verbatim>\<open>handle_matrix.go\<close>); \<^theory_text>\<open>Bridge_Traceroute\<close>: \<^verbatim>\<open>connector/traceroute.go\<close>;
    \<^theory_text>\<open>Bridge_Events\<close>: \<^verbatim>\<open>handle_meshtastic.go\<close>, \<^verbatim>\<open>chatinfo.go\<close>; \<^theory_text>\<open>Bridge_Convert\<close>: the conversion of texts;
    \<^theory_text>\<open>Bridge_Matrix\<close>: \<^verbatim>\<open>handle_matrix.go\<close>, \<^verbatim>\<open>client.go\<close>, \<^verbatim>\<open>msgconv\<close>; \<^theory_text>\<open>Bridge_Commands\<close>: \<^verbatim>\<open>commands.go\<close>,
    \<^verbatim>\<open>login.go\<close>; \<^theory_text>\<open>Bridge_Tasks\<close>: \<^verbatim>\<open>background_tasks.go\<close>; \<^theory_text>\<open>Bridge_Setup\<close>: what the bridge tells
    the framework before it handles anything (\<^verbatim>\<open>Init\<close>, the command table, the login form,
    \<^verbatim>\<open>capabilities.go\<close>, the upgrade of the configuration).
  \<^item> \<^theory_text>\<open>Bridge_System\<close>: all handlers as steps of one system.  \<^theory_text>\<open>Bridge_Exchange\<close>: two bridges on one
    mesh.  \<^theory_text>\<open>Bridge_Wiring\<close>: the handler fields, what \<^verbatim>\<open>Start\<close> puts into them, and that the calls made
    through them are the steps of the system.  The properties that span the parts of one bridge are in this theory.

  A struct is a record, and a method is a function that takes and returns the record.  Errors are
  values of a sum or an option; a panic is the flag \<open>crashed\<close> of the client or \<open>b_panic\<close> of the
  bridge, with the outcome \<open>Panic\<close> where a function does not return.  Integers keep their width as
  words; byte strings and texts are lists of characters.  Time is an integer of nanoseconds.

  \<^bold>\<open>What is outside the repository\<close> is a parameter: the radio library (\<open>e_lib\<close> with its keys,
  hashes and ciphers), the network (\<open>e_net\<close>), the duplicate cache, the random numbers, the key
  generator, the database (\<open>dbms\<close>: faults, limits of columns, foreign keys, and whether a query
  without a row gives nil), and the bridge framework (\<open>framework\<close>, with a state of abstract type).
  Hypotheses on them are named in the theorems.

  \<^bold>\<open>What is shown.\<close>  About the client: no panic on a missing channel and no packet outside the
  protocol's rules in any run, duplicates handled once, the effect of a send on every branch with
  every field of its packet, distinct packet numbers, complete traceroute answers, bounded
  neighbour reports, response limits that do not touch each other.  About the connectors: what an
  MQTT connector is subscribed to, over reconnections as far as the library restores it; when \<^verbatim>\<open>Stop\<close> of the UDP connector returns,
  and when it hangs.  About the tables: unique and valid rows in every reachable state, and
  refinement of two maps, and of the tables by the SQL statements.  About positions: what is printed
  is read back.  About the bridge: delivery of messages in both directions with
  identifiers that read back, registration of names, cleanup of inactive ghosts, broadcast of
  neighbours, commands, matching of mentions, limits that agree wherever they are checked; and, for
  all handlers together, that the bridge
  uses the client and the tables only through their operations and so keeps their invariants, and
  that it panics on no answer of the framework and the database but the four kinds that
  \<open>sound_env\<close> excludes.
  About two bridges: a message of a user of one arrives once for every login of the other that is
  in the room of the channel; names registered on one are stored on the other; a traceroute
  between their users completes.  These rest on laws of the libraries that are stated once: the
  decoder undoes the cipher, and unmarshalling undoes marshalling.
  Contracts between parts are locales: codecs, rate limiters, keyed stores, connectors, the bound
  on managed nodes; each is interpreted on the definitions that provide it.  Some theorems
  describe behaviour the source's comments do not intend; their texts say so.

  \<^bold>\<open>Bounds and termination.\<close>  No definition uses fuel.  Loops are structural recursion or have a
  measure (the matcher, the append loops of traceroutes).  The UDP listener, which need not end,
  is a step relation, and the end of \<^verbatim>\<open>Stop\<close> is proved for it.  The cleanup threshold is computed
  with the wrap-around of 64 bits; it is exact up to 100000 days.

  \<^bold>\<open>Simplifications.\<close>  A call of a handler is one step; the clock is read once per step.  A call of
  the mesh client sees the answers of the bridge's callbacks in the state it starts in, and the
  changes callbacks make (a cached answer, a generated key) are steps of their own; a key callback
  that panics, for a nil row, reads as no key inside the call (lemma \<open>sound_callbacks\<close> says when
  none does).  The check of the traceroute limit and the record of the request are one step, as the
  rest of the command is.  Runs of the client use its sends with channels that were built, which is
  how the bridge calls them.  Events reach
  the handlers when the client is done with the packet.  Floating point values are exact between
  the roundings the source asks for by a conversion.

  \<^bold>\<open>Not modelled.\<close>  Logging, but for the text of a logged route; the text of wrapped errors;
  \<^verbatim>\<open>LoadUserLogin\<close> and \<^verbatim>\<open>main\<close>, which wire objects of the framework together; the schema upgrades,
  whose constraints are those of the tables; the negative zero of floating point numbers.
\<close>

section \<open>Properties\<close>

text \<open>
  C6: the bridge uses its parts as they are meant to be used.  Whatever its handlers, tasks and
  commands do, in any order and with any answers of the framework and the database, what happens
  to the mesh client is a run of that client's own operations, in environments whose callbacks are
  those of the bridge and which let it send only for the bridge's own node and for nodes that
  belong to a Matrix user.  The tables the bridge ends with are those it began with after a
  sequence of the operations on tables, each in a database the bridge had; it never uses the one
  that only changes names, and no node ever loses its row.  The run starts in a good state of the
  client, the key lengths of the radio library are legal, and the framework reports no other nodes
  to belong to a user (\<open>owners_in\<close>).
\<close>

theorem bridge_refines_parts:
  assumes "bridge_run P b b'" "\<And>B. P B \<Longrightarrow> e_lib (be_mesh B) = L \<and> owners_in M B"
    and "radio_keys_ok L" "trusted M b" "good M L (b_mesh b)"
  shows "client_run (\<lambda>E. \<exists>B b1. P B \<and> E = mesh_env B b1 \<and> (\<forall>n. e_managed E n \<longrightarrow> M n)) (b_mesh b) (b_mesh b') \<and>
    (\<exists>ops. (\<forall>(db, p) \<in> set ops. (\<exists>B. P B \<and> db = be_dbms B) \<and> bridge_op p) \<and>
       b_db b' = fold (\<lambda>(db, p) d. snd (run_op db p d)) ops (b_db b)) \<and>
    (\<forall>n. look_node (b_db b) n \<noteq> None \<longrightarrow> look_node (b_db b') n \<noteq> None)"
proof -
  obtain ops where ops: "\<forall>(db, p) \<in> set ops. (\<exists>B. P B \<and> db = be_dbms B) \<and> bridge_op p" "b_db b' = run_ops ops (b_db b)"
    using bridge_run_tables [OF assms(1)] by blast
  then have "look_node (b_db b') n \<noteq> None" if "look_node (b_db b) n \<noteq> None" for n
    using run_ops_keep_nodes [OF that] by simp
  with bridge_run_linked [OF assms] ops show ?thesis unfolding run_ops_def by blast
qed

text \<open>
  A framework that knows of no ghosts: the bridge may send for its own node only.  Its number was
  set to 2.
\<close>

definition sample_alone :: "(sample_cache, ghost list) benv" where
  "sample_alone = sample_benv\<lparr>be_fw := sample_framework\<lparr>fw_GetExistingGhost := \<lambda>w i. Inr None\<rparr>\<rparr>"

definition sample_started :: "(sample_cache, ghost list) bridge" where
  "sample_started = bridge_Start sample_alone [] (\<lambda>i. 5) sample_bridge"

definition sample_nodes :: "NodeID \<Rightarrow> bool" where
  "sample_nodes n \<longleftrightarrow> n = 2 \<or> n = MXIDToNodeID ''@bot:example.org''"

definition sample_names :: command where
  "sample_names = \<lparr>ce_UserMXID = ''@a:b'', ce_RoomID = ''!room'', ce_Portal = None, ce_Args = [''A'', ''Alice'']\<rparr>"

lemma sample_start:
  "ValidateConfig (be_cfg sample_alone) = None" "radio_keys_ok (e_lib (be_mesh sample_alone))"
  "\<exists>d. NewChannelDef (e_lib (be_mesh sample_alone)) (cfg_PrimaryName (be_cfg sample_alone))
     (Some (cfg_PrimaryKey (be_cfg sample_alone))) = Inr d"
  "db_reachable (b_db sample_bridge)" "\<not> b_panic sample_started" "db_foreign_keys (be_dbms sample_alone)"
  "owners_in sample_nodes sample_alone" "trusted sample_nodes sample_bridge"
  using sample_lib_keys_ok db_reachable.empty
  by (simp_all add: ValidateConfig_def NewChannelDef_def sample_alone_def sample_benv_def sample_config_def sample_env_def
      MAX_HOPS_def sample_bridge_def sample_dbms_def bridge_Start_def GetBaseNodeID_def Let_def sample_started_def
      owners_in_def trusted_def sample_nodes_def sample_framework_def)

lemma sample_run: "P sample_alone \<Longrightarrow> bridge_run P sample_started (snd (fnUpdateNames sample_alone sample_names sample_started))"
  using sample_start(5) by (auto intro!: bridge_run.step [OF bridge_run.start] bridge_step.update_names)

theorem bridge_refines_parts_witness:
  "\<exists>b'. b' = snd (fnUpdateNames sample_alone sample_names sample_started) \<and>
     client_run (\<lambda>E. \<exists>B b1. B = sample_alone \<and> E = mesh_env B b1 \<and> (\<forall>n. e_managed E n \<longrightarrow> sample_nodes n))
       (b_mesh sample_started) (b_mesh b') \<and>
     (\<exists>ops. (\<forall>(db, p) \<in> set ops. db = be_dbms sample_alone \<and> bridge_op p) \<and>
        b_db b' = fold (\<lambda>(db, p) d. snd (run_op db p d)) ops (b_db sample_started))"
proof -
  have "good sample_nodes (e_lib (be_mesh sample_alone)) (b_mesh sample_started)"
    using start_good [OF sample_start(1,2) _ refl] sample_start(3) unfolding sample_started_def by blast
  moreover have "trusted sample_nodes sample_started"
    using bridge_Start_frame [OF sample_start(7,8)] by (simp_all add: sample_started_def)
  ultimately show ?thesis
    using bridge_refines_parts [OF sample_run [of "\<lambda>B. B = sample_alone"] _ sample_start(2), of sample_nodes]
      sample_start(7) by simp
qed

text \<open>
  C1: a bridge started with a configuration that passes validation and a primary key that parses,
  on tables of a run of the table operations, with foreign keys enforced and a radio library whose
  keys have legal lengths:
  in every state it reaches, its mesh client did not fail for a missing channel, every packet it
  sent was sent for its own node or a node that belongs to a Matrix user, keeps the hop limit, is
  encrypted unless it is a map report and uses channel 0 where the protocol asks for it, and its
  tables are consistent.  The bridge's own handlers do not panic either, for a missing channel or
  for anything else, when all answers are sound (\<open>sound_env\<close>): the keys of the portals the
  framework lists are accepted, direct chats have a login that is known, and the row helper gives
  no nil.
\<close>

theorem bridge_safe:
  assumes "ValidateConfig (be_cfg B0) = None" "radio_keys_ok (e_lib (be_mesh B0))"
    and "NewChannelDef (e_lib (be_mesh B0)) (cfg_PrimaryName (be_cfg B0)) (Some (cfg_PrimaryKey (be_cfg B0))) = Inr d"
    and "db_reachable (b_db b0)" "owners_in M B0" "trusted M b0"
    and "bridge_run P (bridge_Start B0 cache rnd b0) b"
    and "\<And>B. P B \<Longrightarrow> e_lib (be_mesh B) = e_lib (be_mesh B0) \<and> db_foreign_keys (be_dbms B) \<and> owners_in M B"
  shows "\<not> crashed (b_mesh b) \<and> hopLimit (b_mesh b) < MAX_HOPS \<and>
    (\<forall>np \<in> set (outbox (b_mesh b)). packet_ok M (snd np)) \<and> db_inv (b_db b) \<and>
    (\<not> b_panic b0 \<and> (\<forall>B. P B \<longrightarrow> sound_env B) \<longrightarrow> \<not> b_panic b)"
proof -
  let ?b1 = "bridge_Start B0 cache rnd b0"
  have "good M (e_lib (be_mesh B0)) (b_mesh ?b1)" using start_good [OF assms(1-3) refl] by blast
  moreover note start = bridge_Start_frame [OF assms(5,6)]
  ultimately have "good M (e_lib (be_mesh B0)) (b_mesh b)"
    using bridge_run_linked [OF assms(7) _ assms(2)] assms(8) by blast
  moreover have "db_reachable (b_db b)"
    using bridge_run_reachable [OF assms(7)] assms(4,8) start(1) by simp
  ultimately show ?thesis
    using bridge_run_no_panic [OF assms(7)] start(3)
    by (simp add: good_def ready_def client_inv_def db_reachable_inv)
qed

text \<open>
  A bridge with a portal, a login in the direct chats, and a row helper that returns empty rows.
\<close>

definition sample_portals :: "portal list" where
  "sample_portals = [\<lparr>po_Key = \<lparr>pk_ID = MakePortalID ''LongFast'' (Some []), pk_Receiver = []\<rparr>,
     po_RoomType = RoomTypeDefault, po_MXID = ''!room''\<rparr>]"

definition sample_sound :: "(sample_cache, ghost list) benv" where
  "sample_sound = sample_alone
     \<lparr>be_fw := (be_fw sample_alone)\<lparr>fw_AllPortals := \<lambda>w. Inr sample_portals, fw_LoginsInPortal := \<lambda>w k. Inr [''2''],
        fw_CachedLogin := \<lambda>w i. Some \<lparr>ul_ID = i, ul_NodeID = 2, ul_UserMXID = ''@a:b''\<rparr>\<rparr>,
      be_dbms := sample_dbms\<lparr>db_absent_nil := False\<rparr>\<rparr>"

lemma sample_sound_env:
  "sound_env sample_sound" "owners_in sample_nodes sample_sound"
  "e_lib (be_mesh sample_sound) = e_lib (be_mesh sample_alone)" "db_foreign_keys (be_dbms sample_sound)"
proof -
  have parse: "ParsePortalID (MakePortalID ''LongFast'' (Some [])) = ((''LongFast'', []), None)"
    by (rule channel_portal.dec_enc [of "(''LongFast'', [])", simplified])
      (simp add: portal_parts_ok_def portal_name_ok_def separatorPortalID_def HasPrefix_def)
  show "sound_env sample_sound"
    by (simp add: sound_env_def portal_key_ok_def sample_sound_def sample_portals_def sample_alone_def sample_benv_def
        sample_framework_def sample_dbms_def parse NewChannelDef_def)
  show "owners_in sample_nodes sample_sound"
    using sample_start(7) by (simp add: owners_in_def sample_sound_def)
qed (simp_all add: sample_sound_def sample_dbms_def)

theorem bridge_safe_witness:
  "\<not> crashed (b_mesh (connector_event sample_sound 0 EventStarted sample_started)) \<and>
   \<not> b_panic (connector_event sample_sound 0 EventStarted sample_started)"
proof -
  have run: "bridge_run (\<lambda>B. B = sample_sound) (bridge_Start sample_alone [] (\<lambda>i. 5) sample_bridge)
      (connector_event sample_sound 0 EventStarted sample_started)"
    using sample_start(5) unfolding sample_started_def
    by (auto intro!: bridge_run.step [OF bridge_run.start] bridge_step.connector)
  have env: "e_lib (be_mesh B) = e_lib (be_mesh sample_alone) \<and> db_foreign_keys (be_dbms B) \<and> owners_in sample_nodes B"
    if "B = sample_sound" for B using sample_sound_env(2-4) that by blast
  obtain d where "NewChannelDef (e_lib (be_mesh sample_alone)) (cfg_PrimaryName (be_cfg sample_alone))
      (Some (cfg_PrimaryKey (be_cfg sample_alone))) = Inr d" using sample_start(3) by blast
  note safe = bridge_safe [OF sample_start(1,2) this sample_start(4,7,8) run env]
  have "\<not> b_panic sample_bridge" by (simp add: sample_bridge_def)
  with safe sample_sound_env(1) show ?thesis by blast
qed

text \<open>
  C21: replies find the message they answer, once a primary channel is set.  The identifier saved
  for a message from Matrix is the one the conversion computes for a message from the mesh that
  replies to its packet, if its number is not zero (zero means no reply): in a direct
  chat for what the node of the chat sends, in the room of a channel for what arrives under the
  name of that channel.
\<close>

theorem replies_find_message:
  assumes "HandleMatrixMessage B msg b = (MatrixSent mid sid, b')" "primaryChannel (b_mesh b) \<noteq> None"
    and "portal_id = pk_ID (po_Key (mm_Portal msg))"
  shows "\<exists>n pkt. outbox (b_mesh b') = outbox (b_mesh b) @ [(n, pkt)] \<and>
    (\<forall>data. ev_ReplyId data = p_Id pkt \<and> p_Id pkt \<noteq> 0 \<and>
       (case po_RoomType (mm_Portal msg) of
          RoomTypeDM \<Rightarrow> ev_IsDM data \<and> ev_From data = fst (fst (ParseDMPortalID portal_id))
        | RoomTypeDefault \<Rightarrow> \<not> ev_IsDM data \<and>
            (\<exists>d. ChannelDefFromPortalID (e_lib (be_mesh B)) portal_id = Inr d \<and> ev_ChannelName data = GetName d)
        | RoomTypeOther t \<Rightarrow> True) \<longrightarrow> reply_id data = Some mid)"
proof -
  obtain x b1 where route: "message_route B (mm_Portal msg) b = (x, b1)" by fastforce
  have b1: "b_mesh b1 = b_mesh b" using message_route_frame(1) [of B "mm_Portal msg" b] route by simp
  obtain r pid where x: "x = Ok r" and snt: "send_content B msg r b1 = (Inr pid, b')" and mid: "mid = MakeMessageID (rt_name r) pid"
    using assms(1) route by (auto simp: HandleMatrixMessage_def split: option.splits outcome.splits prod.splits sum.splits)
  obtain pc where prim: "primary (b_mesh b1) = Some pc" using assms(2) b1 by (auto simp: primary_def)
  have "rt_channel r \<noteq> None" using message_route_channel [of B "mm_Portal msg" b r b1] route x prim b1 by simp
  then obtain ch where "rt_channel r = Some ch" by blast
  from send_content_success [OF snt this prim] obtain n pkt
    where sent: "outbox (b_mesh b') = outbox (b_mesh b) @ [(n, pkt)]" "p_Id pkt = pid" by (auto simp: b1)
  have "reply_id data = Some mid" if "ev_ReplyId data = pid" "pid \<noteq> 0" "text_sender data = rt_name r" for data
    using that by (auto simp: reply_id_def text_sender_def mid split: if_splits)
  then show ?thesis
    using sent message_route_dest [OF route [unfolded x]] assms(3)
    by (intro exI [of _ n] exI [of _ pkt], cases "po_RoomType (mm_Portal msg)") (auto simp: text_sender_def)
qed

theorem replies_find_message_witness:
  "\<exists>mid pid. fst (HandleMatrixMessage sample_benv sample_matrix_message sample_managed) =
       MatrixSent mid (MakeUserID (MXIDToNodeID ''@a:b'')) \<and>
     (pid = 0 \<or> reply_id (sample_text\<lparr>ev_IsDM := False, ev_ChannelName := ''LongFast'', ev_ReplyId := pid\<rparr>) = Some mid)"
proof -
  obtain pid c' where h: "HandleMatrixMessage sample_benv sample_matrix_message sample_managed =
     (MatrixSent (MakeMessageID ''LongFast'' pid) (MakeUserID (MXIDToNodeID ''@a:b'')), sample_managed\<lparr>b_mesh := c'\<rparr>)"
    using sample_message_sent(1) by blast
  have room: "po_RoomType (mm_Portal sample_matrix_message) = RoomTypeDefault"
    "ChannelDefFromPortalID (e_lib (be_mesh sample_benv)) (pk_ID (po_Key (mm_Portal sample_matrix_message))) = Inr sample_open_channel"
    "GetName sample_open_channel = ''LongFast''"
    using sample_route by (simp_all add: sample_matrix_message_def sample_benv_def sample_env_def sample_open_channel_def GetName_def)
  have "primaryChannel (b_mesh sample_managed) \<noteq> None" using sample_managed_mesh(1) by simp
  from replies_find_message [OF h this refl] obtain pkt :: MeshPacket where "\<forall>data. ev_ReplyId data = p_Id pkt \<and> p_Id pkt \<noteq> 0 \<and>
      \<not> ev_IsDM data \<and> ev_ChannelName data = ''LongFast'' \<longrightarrow> reply_id data = Some (MakeMessageID ''LongFast'' pid)"
    unfolding room(1) RoomType.case using room(2,3) by fastforce
  from this [rule_format, of "sample_text\<lparr>ev_IsDM := False, ev_ChannelName := ''LongFast'', ev_ReplyId := p_Id pkt\<rparr>"]
  show ?thesis using h by (intro exI [of _ "MakeMessageID ''LongFast'' pid"] exI [of _ "p_Id pkt"]) auto
qed

end
